(* ===== verification/Operator_Prelude.thy ===== *)
theory Operator_Prelude
  imports Main "HOL-Library.Word" "HOL-Library.Sublist"
begin

text \<open>
  Shared vocabulary of the development: the collections of simplification rules the component
  theories add to, the integer types of the Go sources, and the generic lemmas on lists, options
  and maps that several components use.
\<close>

section \<open>Collections\<close>

named_theorems env_norm \<open>normal forms of writes to an environment builder\<close>
named_theorems label_simps \<open>lookups in the label maps the operator computes\<close>
named_theorems client_simps \<open>effect of one API request on the operator's observable state\<close>
named_theorems name_simps \<open>names of the objects the operator manages\<close>

section \<open>Types of the sources\<close>

text \<open>
  Go's \<open>int32\<close> and \<open>int64\<close> are kept at their width; \<open>sint\<close> reads them as signed numbers.
  A Go \<open>map[string]string\<close> is a partial function (a nil and an empty map are not
  distinguished by the code that reads them; the one place that writes through a map it
  shares has a flag for it in \<open>Core_Types\<close>).
\<close>

type_synonym int32 = "32 word"
type_synonym int64 = "64 word"
type_synonym str_map = "string \<rightharpoonup> string"

section \<open>First success in a list\<close>

fun first_some :: "'a option list \<Rightarrow> 'a option" where
  "first_some [] = None"
| "first_some (None # xs) = first_some xs"
| "first_some (Some x # xs) = Some x"

lemma first_some_None_iff: "first_some xs = None \<longleftrightarrow> (\<forall>x \<in> set xs. x = None)"
  by (induction xs rule: first_some.induct) auto

lemma first_some_map_None: "(\<And>x. x \<in> set xs \<Longrightarrow> f x = None) \<Longrightarrow> first_some (map f xs) = None"
  by (simp add: first_some_None_iff)

section \<open>Lists\<close>

lemma append_suffix_cancel: "xs @ zs = ys @ zs \<longleftrightarrow> xs = ys"
  by simp

lemma append_last_clash: "as \<noteq> [] \<Longrightarrow> bs \<noteq> [] \<Longrightarrow> last as \<noteq> last bs \<Longrightarrow> xs @ as \<noteq> ys @ bs"
  by (metis last_appendR)

lemma list_update_twice: "(xs[i := x])[i := y] = xs[i := y]"
  by simp

lemma subseq_distinct: "subseq xs ys \<Longrightarrow> distinct ys \<Longrightarrow> distinct xs"
  by (auto simp: subseq_conv_nths)

lemma distinct_shuffle:
  assumes "distinct (a @ n # t @ r)" "distinct l" "distinct x"
    and "set (a @ n # t @ r) \<inter> set l = {}" "set (a @ n # t @ r) \<inter> set x = {}" "set l \<inter> set x = {}"
  shows "distinct ((a @ l @ n # x @ t) @ r)"
  using assms by auto

section \<open>Integers\<close>

lemma sint_scast_32_64 [simp]: "sint (scast (r :: int32) :: int64) = sint r"
  by (rule sint_up_scast) (simp add: is_up)

section \<open>Maps\<close>

lemma map_add_apply_Some: "n k = Some v \<Longrightarrow> (m ++ n) k = Some v"
  by (simp add: map_add_def)

lemma map_add_apply_None: "n k = None \<Longrightarrow> (m ++ n) k = m k"
  by (simp add: map_add_def)

end
