(* ===== verification/Go_Stdlib.thy ===== *)
theory Go_Stdlib
  imports Operator_Prelude
begin

unbundle bit_operations_syntax

text \<open>
  The part of Go's standard library the operator computes with: decimal and hexadecimal rendering
  (\<open>strconv\<close>, \<open>fmt\<close>), string quoting (the \<open>%q\<close> verb), \<open>time.Duration.String\<close> and the 32-bit
  FNV-1a hash (\<open>hash/fnv\<close>). Strings are byte strings, as in Go. Lemmas: rendering an integer and
  reading it back is the identity, the eight-digit hexadecimal rendering is injective, and one
  FNV-1a step is injective in the state and in the byte.
\<close>

section \<open>Digits\<close>

definition digit_chars :: string where
  "digit_chars = ''0123456789abcdef''"

definition digit :: "nat \<Rightarrow> char" where
  "digit n = digit_chars ! n"

fun digit_index :: "string \<Rightarrow> char \<Rightarrow> nat option" where
  "digit_index [] c = None"
| "digit_index (d # ds) c = (if d = c then Some 0 else map_option Suc (digit_index ds c))"

definition digit_value :: "char \<Rightarrow> nat option" where
  "digit_value c = digit_index digit_chars c"

lemma digit_index_nth: "distinct ds \<Longrightarrow> n < length ds \<Longrightarrow> digit_index ds (ds ! n) = Some n"
proof (induction ds arbitrary: n)
  case Nil
  then show ?case by simp
next
  case (Cons d ds)
  then show ?case
    by (cases n) (auto dest: nth_mem)
qed

lemma digit_value_digit [simp]: "n < 16 \<Longrightarrow> digit_value (digit n) = Some n"
  unfolding digit_value_def digit_def
  by (rule digit_index_nth) (simp_all add: digit_chars_def)

lemma digit_inject: "m < 16 \<Longrightarrow> n < 16 \<Longrightarrow> digit m = digit n \<longleftrightarrow> m = n"
  by (metis digit_value_digit option.inject)

lemma digit_not_minus: "n < 16 \<Longrightarrow> digit n \<noteq> CHR ''-''"
proof
  assume n: "n < 16" and eq: "digit n = CHR ''-''"
  have "digit_value (CHR ''-'') = None"
    by (simp add: digit_value_def digit_chars_def)
  with n eq show False by (metis digit_value_digit option.distinct(1))
qed

section \<open>Decimal rendering: \<open>strconv.FormatInt(i, 10)\<close>, the \<open>%d\<close> verb\<close>

fun dec :: "nat \<Rightarrow> string" where
  "dec n = (if n < 10 then [digit n] else dec (n div 10) @ [digit (n mod 10)])"

declare dec.simps [simp del]

definition FormatInt :: "int \<Rightarrow> string" where
  "FormatInt i = (if i < 0 then CHR ''-'' # dec (nat (- i)) else dec (nat i))"

definition FormatBool :: "bool \<Rightarrow> string" where
  "FormatBool b = (if b then ''true'' else ''false'')"

text \<open>Reading a decimal numeral back, the specification the rendering is checked against.\<close>

fun read_dec_acc :: "nat \<Rightarrow> string \<Rightarrow> nat option" where
  "read_dec_acc acc [] = Some acc"
| "read_dec_acc acc (c # cs) =
     (case digit_value c of
        None \<Rightarrow> None
      | Some d \<Rightarrow> if d < 10 then read_dec_acc (10 * acc + d) cs else None)"

definition read_int :: "string \<Rightarrow> int option" where
  "read_int s =
     (case s of
        [] \<Rightarrow> None
      | c # cs \<Rightarrow>
          if c = CHR ''-'' then map_option (\<lambda>n. - int n) (read_dec_acc 0 cs)
          else map_option int (read_dec_acc 0 s))"

lemma read_dec_acc_append:
  "read_dec_acc acc (xs @ ys) =
     (case read_dec_acc acc xs of None \<Rightarrow> None | Some a \<Rightarrow> read_dec_acc a ys)"
  by (induction acc xs rule: read_dec_acc.induct) (auto split: option.splits)

lemma read_dec_dec: "read_dec_acc 0 (dec n) = Some n"
proof (induction n rule: dec.induct)
  case (1 n)
  show ?case
  proof (cases "n < 10")
    case True
    then show ?thesis by (subst dec.simps) simp
  next
    case False
    with 1 have "read_dec_acc 0 (dec (n div 10)) = Some (n div 10)" by simp
    with False show ?thesis
      by (subst dec.simps) (simp add: read_dec_acc_append)
  qed
qed

lemma dec_hd: "\<exists>d cs. d < 10 \<and> dec n = digit d # cs"
proof (induction n rule: dec.induct)
  case (1 n)
  show ?case
  proof (cases "n < 10")
    case True
    then show ?thesis by (subst dec.simps) auto
  next
    case False
    with 1 obtain d cs where "d < 10" "dec (n div 10) = digit d # cs" by auto
    with False show ?thesis by (subst dec.simps) auto
  qed
qed

lemma read_int_FormatInt: "read_int (FormatInt i) = Some i"
proof (cases "i < 0")
  case True
  then show ?thesis by (simp add: FormatInt_def read_int_def read_dec_dec)
next
  case False
  obtain d cs where d: "d < 10" and eq: "dec (nat i) = digit d # cs"
    using dec_hd by blast
  have "digit d \<noteq> CHR ''-''" using d by (intro digit_not_minus) simp
  with False eq show ?thesis
    using read_dec_dec [of "nat i"] by (simp add: FormatInt_def read_int_def)
qed

lemma FormatInt_inject [simp]: "FormatInt i = FormatInt j \<longleftrightarrow> i = j"
  by (metis option.inject read_int_FormatInt)

lemma FormatInt_nonempty [simp]: "FormatInt i \<noteq> []"
  using dec_hd [of "nat i"] by (auto simp: FormatInt_def)

lemma FormatBool_inject [simp]: "FormatBool a = FormatBool b \<longleftrightarrow> a = b"
  by (simp add: FormatBool_def)

section \<open>The \<open>%08x\<close> verb on a \<open>uint32\<close>\<close>

fun hex_digits :: "nat \<Rightarrow> nat \<Rightarrow> string" where
  "hex_digits 0 n = []"
| "hex_digits (Suc k) n = hex_digits k (n div 16) @ [digit (n mod 16)]"

definition hex8 :: "32 word \<Rightarrow> string" where
  "hex8 w = hex_digits 8 (unat w)"

lemma length_hex_digits [simp]: "length (hex_digits k n) = k"
  by (induction k arbitrary: n) auto

lemma length_hex8 [simp]: "length (hex8 w) = 8"
  by (simp add: hex8_def)

lemma hex_digits_inject:
  "m < 16 ^ k \<Longrightarrow> n < 16 ^ k \<Longrightarrow> hex_digits k m = hex_digits k n \<Longrightarrow> m = n"
proof (induction k arbitrary: m n)
  case 0
  then show ?case by simp
next
  case (Suc k)
  then have "hex_digits k (m div 16) = hex_digits k (n div 16)" and low: "m mod 16 = n mod 16"
    by (simp_all add: digit_inject)
  moreover have "m div 16 < 16 ^ k" "n div 16 < 16 ^ k"
    using Suc.prems by (simp_all add: less_mult_imp_div_less mult.commute)
  ultimately have "m div 16 = n div 16" using Suc.IH by blast
  with low show ?case by (metis div_mult_mod_eq)
qed

lemma hex8_inject [simp]: "hex8 v = hex8 w \<longleftrightarrow> v = w"
proof
  have bound: "unat (x :: 32 word) < 16 ^ 8" for x
    using unsigned_less [of x] by simp
  assume "hex8 v = hex8 w"
  then have "unat v = unat w"
    unfolding hex8_def by (rule hex_digits_inject [OF bound bound])
  then show "v = w" by (simp only: word_unat_eq_iff)
qed simp

section \<open>String quoting: the \<open>%q\<close> verb\<close>

text \<open>
  \<open>strconv.Quote\<close>: a quote and a backslash are escaped, control characters are written as
  escapes. Bytes from 128 on are copied, which is what Go does for printable UTF-8 text; the
  escapes Go writes for unprintable code points beyond ASCII are not rendered here.
\<close>

definition quote_char :: "char \<Rightarrow> string" where
  "quote_char c =
     (let n = of_char c :: nat in
      if n = 34 then [CHR 0x5C, CHR 0x22]
      else if n = 92 then [CHR 0x5C, CHR 0x5C]
      else if n = 7 then [CHR 0x5C, CHR ''a'']
      else if n = 8 then [CHR 0x5C, CHR ''b'']
      else if n = 12 then [CHR 0x5C, CHR ''f'']
      else if n = 10 then [CHR 0x5C, CHR ''n'']
      else if n = 13 then [CHR 0x5C, CHR ''r'']
      else if n = 9 then [CHR 0x5C, CHR ''t'']
      else if n = 11 then [CHR 0x5C, CHR ''v'']
      else if n < 32 \<or> n = 127 then [CHR 0x5C, CHR ''x''] @ hex_digits 2 n
      else [c])"

definition quote :: "string \<Rightarrow> string" where
  "quote s = CHR 0x22 # concat (map quote_char s) @ [CHR 0x22]"

section \<open>\<open>time.Duration.String\<close>\<close>

text \<open>
  A duration is a signed 64-bit count of nanoseconds. Go fills a buffer from its end; here the
  buffer is a string that grows at its front.
\<close>

fun fmtFrac_loop :: "nat \<Rightarrow> nat \<Rightarrow> bool \<Rightarrow> string \<Rightarrow> bool \<times> string \<times> nat" where
  "fmtFrac_loop 0 v pr buf = (pr, buf, v)"
| "fmtFrac_loop (Suc i) v pr buf =
     (let d = v mod 10; pr' = (pr \<or> d \<noteq> 0)
      in fmtFrac_loop i (v div 10) pr' (if pr' then digit d # buf else buf))"

definition fmtFrac :: "string \<Rightarrow> nat \<Rightarrow> nat \<Rightarrow> string \<times> nat" where
  "fmtFrac buf v prec =
     (case fmtFrac_loop prec v False buf of
        (pr, b, v') \<Rightarrow> (if pr then CHR ''.'' # b else b, v'))"

definition Duration_String :: "int64 \<Rightarrow> string" where
  "Duration_String d =
     (let neg = sint d < 0;
          u = unat (if neg then - d else d);
          body =
            (if u < 1000000000 then
               (if u = 0 then ''0s''
                else
                  (let (unit, prec) =
                     (if u < 1000 then (''ns'', 0)
                      else if u < 1000000 then ([CHR 0xC2, CHR 0xB5, CHR ''s''], 3)
                      else (''ms'', 6));
                     (buf, v) = fmtFrac unit u prec
                   in dec v @ buf))
             else
               (let (buf, secs) = fmtFrac ''s'' u 9;
                    buf = dec (secs mod 60) @ buf;
                    mins = secs div 60
                in if mins > 0 then
                     (let buf = dec (mins mod 60) @ CHR ''m'' # buf;
                          hours = mins div 60
                      in if hours > 0 then dec hours @ CHR ''h'' # buf else buf)
                   else buf))
      in if neg then CHR ''-'' # body else body)"

lemma fmtFrac_loop_numeral [simp]:
  "fmtFrac_loop (numeral k) v pr buf =
     (let d = v mod 10; pr' = (pr \<or> d \<noteq> 0)
      in fmtFrac_loop (pred_numeral k) (v div 10) pr' (if pr' then digit d # buf else buf))"
  by (subst numeral_eq_Suc) (rule fmtFrac_loop.simps)

lemma hex_digits_numeral [simp]:
  "hex_digits (numeral k) n = hex_digits (pred_numeral k) (n div 16) @ [digit (n mod 16)]"
  by (subst numeral_eq_Suc) (rule hex_digits.simps)

lemma dec_small: "n < 10 \<Longrightarrow> dec n = [digit n]"
  by (subst dec.simps) simp

lemma dec_large: "10 \<le> n \<Longrightarrow> dec n = dec (n div 10) @ [digit (n mod 10)]"
  by (subst dec.simps) simp

lemmas render_simps =
  FormatInt_def FormatBool_def dec_small dec_large digit_def digit_chars_def fmtFrac_def Duration_String_def

lemma Duration_String_5s: "Duration_String 5000000000 = ''5s''"
  by (simp add: render_simps)

lemma Duration_String_20m: "Duration_String 1200000000000 = ''20m0s''"
  by (simp add: render_simps)

lemma Duration_String_negative: "Duration_String (- 1500000) = ''-1.5ms''"
  by (simp add: render_simps)

section \<open>FNV-1a, 32 bits (\<open>hash/fnv\<close>, \<open>New32a\<close>)\<close>

definition fnv32_offset :: "32 word" where
  "fnv32_offset = 2166136261"

definition fnv32_prime :: "32 word" where
  "fnv32_prime = 16777619"

definition fnv32a_step :: "32 word \<Rightarrow> char \<Rightarrow> 32 word" where
  "fnv32a_step h c = (h XOR of_char c) * fnv32_prime"

definition fnv32a :: "string \<Rightarrow> 32 word" where
  "fnv32a bytes = foldl fnv32a_step fnv32_offset bytes"

text \<open>The prime is odd, so multiplying by it is a bijection; its inverse modulo \<open>2 ^ 32\<close>:\<close>

lemma fnv32_prime_inverse: "fnv32_prime * 899433627 = 1"
  by (simp add: fnv32_prime_def)

lemma mult_fnv32_prime_inject: "a * fnv32_prime = b * fnv32_prime \<longleftrightarrow> a = b"
proof
  assume "a * fnv32_prime = b * fnv32_prime"
  then have "a * (fnv32_prime * 899433627) = b * (fnv32_prime * 899433627)"
    by (simp only: mult.assoc [symmetric])
  then show "a = b" by (simp add: fnv32_prime_inverse)
qed simp

lemma xor_right_inject: "a XOR c = b XOR c \<longleftrightarrow> a = (b :: 32 word)"
  by (metis (no_types, lifting) xor.assoc xor_self_eq xor.right_neutral)

lemma of_char_word_inject: "(of_char c :: 32 word) = of_char d \<longleftrightarrow> c = d"
proof
  have unat_char: "unat (of_char e :: 32 word) = of_char e" for e
  proof -
    have "(of_char e :: nat) < 2 ^ LENGTH(32)"
      using less_trans [OF nat_of_char_less_256 [of e], of "2 ^ LENGTH(32)"] by simp
    then show ?thesis by (metis of_nat_of_char of_nat_inverse)
  qed
  assume "(of_char c :: 32 word) = of_char d"
  then have "(of_char c :: nat) = of_char d" by (metis unat_char)
  then show "c = d" by simp
qed simp

lemma fnv32a_step_state_inject: "fnv32a_step h c = fnv32a_step h' c \<longleftrightarrow> h = h'"
  by (simp add: fnv32a_step_def mult_fnv32_prime_inject xor_right_inject)

lemma fnv32a_step_byte_inject: "fnv32a_step h c = fnv32a_step h d \<longleftrightarrow> c = d"
proof -
  have "h XOR x = h XOR y \<longleftrightarrow> x = y" for x y :: "32 word"
    by (metis xor.commute xor_right_inject)
  then show ?thesis
    by (simp add: fnv32a_step_def mult_fnv32_prime_inject of_char_word_inject)
qed

lemma foldl_fnv32a_inject: "foldl fnv32a_step h s = foldl fnv32a_step h' s \<longleftrightarrow> h = h'"
  by (induction s arbitrary: h h') (simp_all add: fnv32a_step_state_inject)

text \<open>Two encodings of one length that differ in exactly one byte never collide.\<close>

lemma fnv32a_one_byte: "fnv32a (xs @ c # ys) = fnv32a (xs @ d # ys) \<longleftrightarrow> c = d"
  by (simp add: fnv32a_def foldl_fnv32a_inject fnv32a_step_byte_inject)

end
