(* ===== verification/Core_Types.thy ===== *)
theory Core_Types
  imports Go_Stdlib
begin

text \<open>
  The Kubernetes API objects the operator builds and reads (\<open>k8s.io/api/core/v1\<close>,
  \<open>k8s.io/apimachinery/pkg/apis/meta/v1\<close> and \<open>sigs.k8s.io/gateway-api/apis/v1\<close>), as records with
  the fields the operator's sources mention. The members of an object that the operator carries
  along without reading them are kept in a field \<open>..._Other\<close>, a list of member names and their
  encoded text, empty in every object the operator composes itself. A nil slice is the empty list,
  a nil pointer is \<open>None\<close>.
\<close>

type_synonym opaque = "(string \<times> string) list"

section \<open>Quantities and environment variables\<close>

text \<open>\<open>resource.Quantity\<close> is opaque: the text it was read from. How it prints is a library matter.\<close>

datatype quantity = Quantity string

record object_field_selector =
  ofs_FieldPath :: string

record env_var_source =
  evs_FieldRef :: "object_field_selector option"
  evs_Other :: opaque

record env_var =
  ev_Name :: string
  ev_Value :: string
  ev_ValueFrom :: "env_var_source option"

section \<open>Volumes\<close>

record key_to_path =
  ktp_Key :: string
  ktp_Path :: string

record pvc_spec =
  pvc_AccessModes :: "string list"
  pvc_StorageClassName :: "string option"
  pvc_Requests :: "(string \<times> quantity) list"

text \<open>\<open>corev1.VolumeSource\<close> is a struct of pointers of which one is set: a one-of.\<close>

datatype volume_source =
    EmptyDir
  | SecretSource string "key_to_path list"
  | ClaimSource string
  | ImageSource string string
  | EphemeralSource pvc_spec
  | OtherSource opaque

record volume =
  v_Name :: string
  v_Source :: volume_source

record volume_mount =
  vm_Name :: string
  vm_MountPath :: string
  vm_SubPath :: string
  vm_ReadOnly :: bool
  vm_Other :: opaque

section \<open>Containers and pods\<close>

record container_port =
  cp_Name :: string
  cp_ContainerPort :: int32
  cp_Protocol :: string

datatype probe_handler = TCPSocket int32 | GRPC int32 | OtherHandler opaque

record probe =
  pr_Handler :: probe_handler
  pr_InitialDelaySeconds :: int32
  pr_PeriodSeconds :: int32
  pr_FailureThreshold :: int32
  pr_Other :: opaque

record container =
  c_Name :: string
  c_Image :: string
  c_ImagePullPolicy :: string
  c_Command :: "string list"
  c_Args :: "string list"
  c_WorkingDir :: string
  c_Ports :: "container_port list"
  c_Env :: "env_var list"
  c_Requests :: "string \<rightharpoonup> quantity"
  c_VolumeMounts :: "volume_mount list"
  c_ReadinessProbe :: "probe option"
  c_Other :: opaque

text \<open>Go's zero value of \<open>corev1.Container\<close>.\<close>

definition zero_container :: container where
  "zero_container =
     \<lparr>c_Name = [], c_Image = [], c_ImagePullPolicy = [], c_Command = [], c_Args = [],
      c_WorkingDir = [], c_Ports = [], c_Env = [], c_Requests = Map.empty,
      c_VolumeMounts = [], c_ReadinessProbe = None, c_Other = []\<rparr>"

record pod_spec =
  ps_ImagePullSecrets :: "string list"
  ps_InitContainers :: "container list"
  ps_Containers :: "container list"
  ps_Volumes :: "volume list"
  ps_ServiceAccountName :: string
  ps_Other :: opaque

definition zero_pod_spec :: pod_spec where
  "zero_pod_spec =
     \<lparr>ps_ImagePullSecrets = [], ps_InitContainers = [], ps_Containers = [], ps_Volumes = [],
      ps_ServiceAccountName = [], ps_Other = []\<rparr>"

record owner_reference =
  or_UID :: string
  or_Name :: string
  or_Controller :: bool

record object_meta =
  om_Name :: string
  om_GenerateName :: string
  om_Namespace :: string
  om_UID :: string
  om_Generation :: int64
  om_Labels :: str_map
  om_Annotations :: str_map
  om_OwnerReferences :: "owner_reference list"
  om_DeletionTimestamp :: "int option"
  om_Other :: opaque

definition zero_object_meta :: object_meta where
  "zero_object_meta =
     \<lparr>om_Name = [], om_GenerateName = [], om_Namespace = [], om_UID = [], om_Generation = 0,
      om_Labels = Map.empty, om_Annotations = Map.empty, om_OwnerReferences = [],
      om_DeletionTimestamp = None, om_Other = []\<rparr>"

text \<open>
  A nil map and an empty one read alike but not when written to, which matters for the labels of the
  user's pod templates: \<open>pt_HasLabels\<close> says that \<open>Labels\<close> is not nil.
\<close>

record pod_template_spec =
  pt_ObjectMeta :: object_meta
  pt_Spec :: pod_spec
  pt_HasLabels :: bool

definition zero_pod_template_spec :: pod_template_spec where
  "zero_pod_template_spec = \<lparr>pt_ObjectMeta = zero_object_meta, pt_Spec = zero_pod_spec, pt_HasLabels = False\<rparr>"

record pod_condition =
  pc_Type :: string
  pc_Status :: string
  pc_Reason :: string
  pc_Message :: string

text \<open>A container's waiting and terminated states, by their reason.\<close>

record container_status =
  cs_Name :: string
  cs_Waiting :: "string option"
  cs_Terminated :: "string option"

record pod_status =
  pst_Conditions :: "pod_condition list"
  pst_ContainerStatuses :: "container_status list"

definition zero_pod_status :: pod_status where
  "zero_pod_status = \<lparr>pst_Conditions = [], pst_ContainerStatuses = []\<rparr>"

record pod =
  pod_Meta :: object_meta
  pod_Spec :: pod_spec
  pod_Status :: pod_status

section \<open>Services and service accounts\<close>

record service_port =
  sp_Name :: string
  sp_Port :: int32
  sp_Protocol :: string
  sp_AppProtocol :: "string option"

record service_spec =
  ss_Type :: string
  ss_ClusterIP :: string
  ss_Ports :: "service_port list"
  ss_Selector :: str_map
  ss_PublishNotReadyAddresses :: bool
  ss_Other :: opaque

record service =
  svc_Meta :: object_meta
  svc_Spec :: service_spec

record service_account =
  sa_Meta :: object_meta

section \<open>Status conditions\<close>

text \<open>
  \<open>metav1.Condition\<close>; the transition time is set by the library that upserts conditions.
\<close>

record condition =
  cond_Type :: string
  cond_Status :: string
  cond_Reason :: string
  cond_Message :: string
  cond_ObservedGeneration :: int64
  cond_LastTransitionTime :: int

section \<open>Gateway API routes\<close>

text \<open>
  The operator handles \<open>GRPCRoute\<close> and \<open>HTTPRoute\<close> through the parts they share; a rule is its path
  matches (prefix matches, by value) and its backends.
\<close>

datatype route_kind = GRPCRoute | HTTPRoute

record backend_ref =
  br_Group :: string
  br_Kind :: string
  br_Name :: string
  br_Port :: int32
  br_Weight :: int32

record route_rule =
  rr_PathPrefixes :: "string list"
  rr_BackendRefs :: "backend_ref list"

record route_parent_status =
  rps_Conditions :: "condition list"

record route =
  rt_Kind :: route_kind
  rt_Meta :: object_meta
  rt_ParentRefs :: "opaque list"
  rt_Hostnames :: "string list"
  rt_Rules :: "route_rule list"
  rt_Parents :: "route_parent_status list"

section \<open>Well-formed pod parts\<close>

text \<open>Every mount of a container names a volume of its pod, and no two volumes share a name.\<close>

definition mounts_declared :: "volume_mount list \<Rightarrow> volume list \<Rightarrow> bool" where
  "mounts_declared ms vs = list_all (\<lambda>m. vm_Name m \<in> v_Name ` set vs) ms"

lemma mounts_declared_Nil [simp]: "mounts_declared [] vs"
  by (simp add: mounts_declared_def)

lemma mounts_declared_Cons [simp]:
  "mounts_declared (m # ms) vs \<longleftrightarrow> vm_Name m \<in> v_Name ` set vs \<and> mounts_declared ms vs"
  by (simp add: mounts_declared_def)

lemma mounts_declared_append:
  "mounts_declared ms vs \<Longrightarrow> mounts_declared ms' vs' \<Longrightarrow> mounts_declared (ms @ ms') (vs @ vs')"
  by (auto simp: mounts_declared_def list_all_iff)

lemma mounts_declared_mono:
  "mounts_declared ms vs \<Longrightarrow> set vs \<subseteq> set vs' \<Longrightarrow> mounts_declared ms vs'"
  by (auto simp: mounts_declared_def list_all_iff)

end
