(* ===== verification/Cluster_Types.thy ===== *)
theory Cluster_Types
  imports Core_Types
begin

text \<open>
  The \<open>PolarsCluster\<close> custom resource of \<open>api/v1alpha1/polarscluster_types.go\<close>: one record per
  struct, with the source's fields in the source's order (the fields of a record carry a short
  prefix, since Isabelle's field names are global). Pointers are options. The validation markers
  of the file, which the generated CRD enforces at admission, are the executable predicates of the
  last section; \<open>admissible\<close> is their conjunction over a cluster spec.
\<close>

type_synonym duration = int64

definition DefaultVersion :: string where
  "DefaultVersion = ''0.7.1''"

definition LatestVersion :: string where
  "LatestVersion = ''latest''"

section \<open>Values, licenses, telemetry\<close>

record ValueOrSource =
  vos_Value :: string
  vos_ValueFrom :: "env_var_source option"

record PersistentVolumeClaimRef =
  pvr_ClaimName :: string

record LicenseOnPremSpec =
  lop_ClientID :: ValueOrSource
  lop_ClientSecret :: ValueOrSource
  lop_WorkspaceID :: ValueOrSource
  lop_LicenseData :: "PersistentVolumeClaimRef option"

record LicenseOnPremEnterpriseSpec =
  loe_SecretName :: string
  loe_SecretProperty :: string

record RegisterNodeSpec =
  rns_PrivateAddress :: ValueOrSource
  rns_PublicAddress :: "ValueOrSource option"

record LicenseCloudSpec =
  lcl_SecretName :: string
  lcl_RegisterNode :: "RegisterNodeSpec option"

record LicenseSpec =
  lic_OnPrem :: "LicenseOnPremSpec option"
  lic_OnPremEnterprise :: "LicenseOnPremEnterpriseSpec option"
  lic_Cloud :: "LicenseCloudSpec option"

record TelemetrySpec =
  tel_OTLPEndpoint :: ValueOrSource

type_synonym LogLevel = string

definition LogLevelOff :: LogLevel where "LogLevelOff = ''off''"
definition LogLevelError :: LogLevel where "LogLevelError = ''error''"
definition LogLevelWarn :: LogLevel where "LogLevelWarn = ''warn''"
definition LogLevelInfo :: LogLevel where "LogLevelInfo = ''info''"
definition LogLevelDebug :: LogLevel where "LogLevelDebug = ''debug''"
definition LogLevelTrace :: LogLevel where "LogLevelTrace = ''trace''"

section \<open>The composed runtime\<close>

record ImageSpec =
  img_Repository :: string
  img_Tag :: string
  img_PullPolicy :: string

record ImageVolumeSpec =
  iv_Enabled :: bool

record ComposedRuntimeSpec =
  crt_Dist :: "ImageSpec option"
  crt_Runtime :: "ImageSpec option"
  crt_Requirements :: string
  crt_PolarsExtras :: string
  crt_ImageVolume :: "ImageVolumeSpec option"

record RuntimeSpec =
  rt_Composed :: ComposedRuntimeSpec

section \<open>Observatory and storage locations\<close>

record ObservatorySpec =
  obs_MaxMetricsBytesTotal :: int64
  obs_PersistentVolumeClaim :: "PersistentVolumeClaimRef option"

record SharedFilesystemSpec =
  sfs_Path :: string

record LocalFilesystemSpec =
  lfs_Path :: string

record AnonymousResultsS3Spec =
  ars3_Endpoint :: string
  ars3_PresignDuration :: "duration option"
  ars3_Options :: "env_var list"

record AnonymousResultsABSSpec =
  arabs_EndpointURL :: string
  arabs_PresignDuration :: "duration option"
  arabs_Options :: "env_var list"

record AnonymousResultsGCSSpec =
  argcs_EndpointURL :: string
  argcs_PresignDuration :: "duration option"
  argcs_Options :: "env_var list"

record AnonymousResultsSpec =
  ar_S3 :: "AnonymousResultsS3Spec option"
  ar_ABS :: "AnonymousResultsABSSpec option"
  ar_GCS :: "AnonymousResultsGCSSpec option"
  ar_SharedFilesystem :: "SharedFilesystemSpec option"

record ShuffleDataS3Spec =
  sds3_Endpoint :: string
  sds3_PresignDuration :: "duration option"
  sds3_Options :: "env_var list"

record ShuffleDataABSSpec =
  sdabs_EndpointURL :: string
  sdabs_PresignDuration :: "duration option"
  sdabs_Options :: "env_var list"

record ShuffleDataGCSSpec =
  sdgcs_EndpointURL :: string
  sdgcs_PresignDuration :: "duration option"
  sdgcs_Options :: "env_var list"

record ShuffleDataSpec =
  sd_Local :: "LocalFilesystemSpec option"
  sd_SharedFilesystem :: "SharedFilesystemSpec option"
  sd_S3 :: "ShuffleDataS3Spec option"
  sd_ABS :: "ShuffleDataABSSpec option"
  sd_GCS :: "ShuffleDataGCSSpec option"

record CheckpointS3Spec =
  cks3_Endpoint :: string
  cks3_Options :: "env_var list"

record CheckpointABSSpec =
  ckabs_EndpointURL :: string
  ckabs_Options :: "env_var list"

record CheckpointGCSSpec =
  ckgcs_EndpointURL :: string
  ckgcs_Options :: "env_var list"

record CheckpointDataSpec =
  cd_SharedFilesystem :: "SharedFilesystemSpec option"
  cd_S3 :: "CheckpointS3Spec option"
  cd_ABS :: "CheckpointABSSpec option"
  cd_GCS :: "CheckpointGCSSpec option"

record CheckpointSpec =
  ck_Period :: "duration option"
  ck_Data :: CheckpointDataSpec

record LineageTransportHTTPSpec =
  lth_Endpoint :: string

record LineageTransportSpec =
  lt_HTTP :: "LineageTransportHTTPSpec option"

record LineageSpec =
  lin_Transport :: LineageTransportSpec

section \<open>The scheduler, its Services and its routes\<close>

record ServiceAccountSpec =
  sas_Create :: bool
  sas_Name :: string

record ServiceConfig =
  sc_Type :: "string option"
  sc_Annotations :: str_map
  sc_PublishNotReadyAddresses :: "bool option"
  sc_ClusterIP :: string

record RouteSpec =
  rs_ParentRefs :: "opaque list"
  rs_Hostnames :: "string list"
  rs_Labels :: str_map
  rs_Annotations :: str_map

record ExposedServiceConfig =
  esc_ServiceConfig :: ServiceConfig
  esc_Route :: "RouteSpec option"

record SchedulerServicesSpec =
  sss_Scheduler :: "ExposedServiceConfig option"
  sss_Internal :: "ServiceConfig option"
  sss_Observatory :: "ExposedServiceConfig option"

record SchedulerSpec =
  sch_Services :: "SchedulerServicesSpec option"
  sch_PodTemplate :: "pod_template_spec option"
  sch_ServiceAccount :: "ServiceAccountSpec option"

section \<open>The worker pool\<close>

record HostMetricsSpec =
  hm_Enabled :: bool

record EphemeralVolumeClaimSpec =
  evc_StorageClassName :: string
  evc_Size :: quantity

record TemporaryDataSpec =
  td_EphemeralVolumeClaim :: "EphemeralVolumeClaimSpec option"

datatype HDFSSpec = HDFSSpec
datatype PyIcebergSpec = PyIcebergSpec

record ExtrasSpec =
  ext_HDFS :: "HDFSSpec option"
  ext_PyIceberg :: "PyIcebergSpec option"

record WorkerPoolDeclaration =
  wp_PodTemplate :: "pod_template_spec option"
  wp_ServiceAccount :: "ServiceAccountSpec option"
  wp_Replicas :: int32
  wp_HeartBeatInterval :: "duration option"
  wp_ShuffleData :: "ShuffleDataSpec option"
  wp_TemporaryData :: "TemporaryDataSpec option"
  wp_Extras :: ExtrasSpec

section \<open>The cluster\<close>

record PolarsClusterSpec =
  spec_Telemetry :: "TelemetrySpec option"
  spec_LogLevel :: "LogLevel option"
  spec_ImagePullSecrets :: "string list"
  spec_ClusterID :: string
  spec_AcceptEula :: bool
  spec_Version :: string
  spec_Runtime :: "RuntimeSpec option"
  spec_License :: LicenseSpec
  spec_AllowLocalSinks :: bool
  spec_AllowLocalScans :: bool
  spec_AllowAnonymousUsers :: bool
  spec_AnonymousResults :: "AnonymousResultsSpec option"
  spec_Checkpoint :: "CheckpointSpec option"
  spec_Lineage :: "LineageSpec option"
  spec_Observatory :: "ObservatorySpec option"
  spec_HostMetrics :: "HostMetricsSpec option"
  spec_ClusterDomain :: string
  spec_Scheduler :: "SchedulerSpec option"
  spec_WorkerPool :: WorkerPoolDeclaration

record SchedulerStatus =
  sst_Ready :: bool

record WorkerPoolStatus =
  wps_Replicas :: int32
  wps_ReadyReplicas :: int32
  wps_Selector :: string

record PolarsClusterStatus =
  st_Conditions :: "condition list"
  st_ObservedGeneration :: int64
  st_Scheduler :: SchedulerStatus
  st_WorkerPool :: WorkerPoolStatus

record PolarsCluster =
  cl_Meta :: object_meta
  cl_Spec :: PolarsClusterSpec
  cl_Status :: PolarsClusterStatus

abbreviation cl_Name :: "PolarsCluster \<Rightarrow> string" where
  "cl_Name c \<equiv> om_Name (cl_Meta c)"

abbreviation cl_Namespace :: "PolarsCluster \<Rightarrow> string" where
  "cl_Namespace c \<equiv> om_Namespace (cl_Meta c)"

abbreviation cl_Generation :: "PolarsCluster \<Rightarrow> int64" where
  "cl_Generation c \<equiv> om_Generation (cl_Meta c)"

section \<open>Admission: the validation markers\<close>

text \<open>\<open>ExactlyOneOf\<close>: one of the listed fields is set.\<close>

definition exactly_one :: "bool list \<Rightarrow> bool" where
  "exactly_one bs = (length (filter id bs) = 1)"

definition is_set :: "'a option \<Rightarrow> bool" where
  "is_set x = (x \<noteq> None)"

lemma is_set_simps [simp]: "is_set None = False" "is_set (Some x) = True"
  by (simp_all add: is_set_def)

definition admissible_license :: "LicenseSpec \<Rightarrow> bool" where
  "admissible_license l =
     exactly_one [is_set (lic_OnPrem l), is_set (lic_OnPremEnterprise l), is_set (lic_Cloud l)]"

definition admissible_shuffle :: "ShuffleDataSpec \<Rightarrow> bool" where
  "admissible_shuffle s =
     exactly_one [is_set (sd_Local s), is_set (sd_SharedFilesystem s), is_set (sd_S3 s),
                  is_set (sd_ABS s), is_set (sd_GCS s)]"

definition admissible_checkpoint_data :: "CheckpointDataSpec \<Rightarrow> bool" where
  "admissible_checkpoint_data d =
     exactly_one [is_set (cd_SharedFilesystem d), is_set (cd_S3 d), is_set (cd_ABS d),
                  is_set (cd_GCS d)]"

definition admissible_anonymous_results :: "AnonymousResultsSpec \<Rightarrow> bool" where
  "admissible_anonymous_results a =
     exactly_one [is_set (ar_S3 a), is_set (ar_ABS a), is_set (ar_GCS a),
                  is_set (ar_SharedFilesystem a)]"

text \<open>The CEL rule on the spec, and \<open>Minimum=0\<close> on the replica count.\<close>

definition admissible_eula :: "PolarsClusterSpec \<Rightarrow> bool" where
  "admissible_eula s = (lic_OnPremEnterprise (spec_License s) = None \<or> spec_AcceptEula s)"

definition admissible_replicas :: "WorkerPoolDeclaration \<Rightarrow> bool" where
  "admissible_replicas wp = (0 \<le> sint (wp_Replicas wp))"

definition admissible :: "PolarsClusterSpec \<Rightarrow> bool" where
  "admissible s =
     (admissible_license (spec_License s) \<and> admissible_eula s \<and>
      admissible_replicas (spec_WorkerPool s) \<and>
      (case wp_ShuffleData (spec_WorkerPool s) of None \<Rightarrow> True | Some d \<Rightarrow> admissible_shuffle d) \<and>
      (case spec_Checkpoint s of None \<Rightarrow> True | Some ck \<Rightarrow> admissible_checkpoint_data (ck_Data ck)) \<and>
      (case spec_AnonymousResults s of None \<Rightarrow> True | Some a \<Rightarrow> admissible_anonymous_results a))"

end
