(* ===== verification/Env_Builder.thy ===== *)
theory Env_Builder
  imports Cluster_Types
begin

text \<open>
  \<open>internal/controller/env_builder.go\<close>: the builder of environment variables. A builder is a prefix
  and a pointer to a slice that all builders derived from one root share. The pointer is an index
  into an explicit heap of slices, so that the sharing the code relies on (a write through any
  section is seen through every other one, in call order) is a theorem and not an assumption.

  Every write is in the normal form \<open>emits a es h\<close>: append \<open>es\<close> to the slice at \<open>a\<close>. The locale
  \<open>env_writer\<close> is the contract of a function that writes through a builder: what it appends
  depends on the prefix only, and it touches no other slice; \<open>scoped_env_writer\<close> adds that every
  name it writes lies under the builder's prefix. The builder's own methods interpret them here,
  the larger writers (license, shuffle, checkpoint, results) in their own theories.
\<close>

section \<open>The builder and its heap of slices\<close>

record envBuilder =
  eb_prefix :: string
  eb_vars :: nat

type_synonym env_heap = "env_var list list"

definition newEnvBuilder :: "env_heap \<Rightarrow> envBuilder \<times> env_heap" where
  "newEnvBuilder h = (\<lparr>eb_prefix = [], eb_vars = length h\<rparr>, h @ [[]])"

definition env_join :: "string \<Rightarrow> string \<Rightarrow> string" where
  "env_join pre leaf = (if pre = [] then leaf else pre @ ''__'' @ leaf)"

definition env_name :: "envBuilder \<Rightarrow> string \<Rightarrow> string" where
  "env_name b leaf = (if eb_prefix b = [] then leaf else eb_prefix b @ ''__'' @ leaf)"

definition Section :: "envBuilder \<Rightarrow> string \<Rightarrow> envBuilder" where
  "Section b name = \<lparr>eb_prefix = env_name b name, eb_vars = eb_vars b\<rparr>"

definition append_var :: "envBuilder \<Rightarrow> env_var \<Rightarrow> env_heap \<Rightarrow> env_heap" where
  "append_var b v h = h[eb_vars b := h ! eb_vars b @ [v]]"

definition env_String :: "envBuilder \<Rightarrow> string \<Rightarrow> string \<Rightarrow> env_heap \<Rightarrow> env_heap" where
  "env_String b name value h =
     append_var b \<lparr>ev_Name = env_name b name, ev_Value = value, ev_ValueFrom = None\<rparr> h"

definition env_Bool :: "envBuilder \<Rightarrow> string \<Rightarrow> bool \<Rightarrow> env_heap \<Rightarrow> env_heap" where
  "env_Bool b name value h = env_String b name (FormatBool value) h"

definition env_Int :: "envBuilder \<Rightarrow> string \<Rightarrow> int64 \<Rightarrow> env_heap \<Rightarrow> env_heap" where
  "env_Int b name value h = env_String b name (FormatInt (sint value)) h"

definition env_Duration :: "envBuilder \<Rightarrow> string \<Rightarrow> duration \<Rightarrow> env_heap \<Rightarrow> env_heap" where
  "env_Duration b name value h = env_String b name (Duration_String value) h"

definition env_From :: "envBuilder \<Rightarrow> string \<Rightarrow> env_var_source option \<Rightarrow> env_heap \<Rightarrow> env_heap" where
  "env_From b name source h =
     append_var b \<lparr>ev_Name = env_name b name, ev_Value = [], ev_ValueFrom = source\<rparr> h"

definition field_ref :: "string \<Rightarrow> env_var_source" where
  "field_ref fieldPath = \<lparr>evs_FieldRef = Some \<lparr>ofs_FieldPath = fieldPath\<rparr>, evs_Other = []\<rparr>"

definition env_FieldRef :: "envBuilder \<Rightarrow> string \<Rightarrow> string \<Rightarrow> env_heap \<Rightarrow> env_heap" where
  "env_FieldRef b name fieldPath h = env_From b name (Some (field_ref fieldPath)) h"

definition env_ValueOrSource :: "envBuilder \<Rightarrow> string \<Rightarrow> ValueOrSource \<Rightarrow> env_heap \<Rightarrow> env_heap" where
  "env_ValueOrSource b name vs h =
     (if vos_ValueFrom vs \<noteq> None then env_From b name (vos_ValueFrom vs) h
      else env_String b name (vos_Value vs) h)"

fun env_Options :: "envBuilder \<Rightarrow> env_var list \<Rightarrow> env_heap \<Rightarrow> env_heap" where
  "env_Options b [] h = h"
| "env_Options b (option # options) h =
     env_Options b options
       (append_var b
          \<lparr>ev_Name = env_name b (ev_Name option), ev_Value = ev_Value option,
           ev_ValueFrom = ev_ValueFrom option\<rparr> h)"

definition Vars :: "envBuilder \<Rightarrow> env_heap \<Rightarrow> env_var list" where
  "Vars b h = h ! eb_vars b"

section \<open>Normal form of writes\<close>

definition emits :: "nat \<Rightarrow> env_var list \<Rightarrow> env_heap \<Rightarrow> env_heap" where
  "emits a es h = h[a := h ! a @ es]"

lemma emits_Nil [simp, env_norm]: "emits a [] h = h"
  by (simp add: emits_def)

lemma emits_emits [simp, env_norm]: "emits a fs (emits a es h) = emits a (es @ fs) h"
  by (cases "a < length h") (simp_all add: emits_def list_update_beyond)

lemma emits_other: "a \<noteq> b \<Longrightarrow> emits a es h ! b = h ! b"
  by (simp add: emits_def)

lemma length_emits [simp]: "length (emits a es h) = length h"
  by (simp add: emits_def)

lemma emits_same: "a < length h \<Longrightarrow> emits a es h ! a = h ! a @ es"
  by (simp add: emits_def)

text \<open>The variables each method appends, as functions of the prefix.\<close>

definition lit :: "string \<Rightarrow> string \<Rightarrow> string \<Rightarrow> env_var" where
  "lit p name value = \<lparr>ev_Name = env_join p name, ev_Value = value, ev_ValueFrom = None\<rparr>"

definition sourced :: "string \<Rightarrow> string \<Rightarrow> env_var_source option \<Rightarrow> env_var" where
  "sourced p name src = \<lparr>ev_Name = env_join p name, ev_Value = [], ev_ValueFrom = src\<rparr>"

definition value_or_source :: "string \<Rightarrow> string \<Rightarrow> ValueOrSource \<Rightarrow> env_var" where
  "value_or_source p name vs =
     (if vos_ValueFrom vs \<noteq> None then sourced p name (vos_ValueFrom vs) else lit p name (vos_Value vs))"

definition option_vars :: "string \<Rightarrow> env_var list \<Rightarrow> env_var list" where
  "option_vars p options = map (\<lambda>v. \<lparr>ev_Name = env_join p (ev_Name v), ev_Value = ev_Value v,
                 ev_ValueFrom = ev_ValueFrom v\<rparr>) options"

lemma env_name_join [env_norm]: "env_name b leaf = env_join (eb_prefix b) leaf"
  by (simp add: env_name_def env_join_def)

lemma Section_prefix [simp, env_norm]: "eb_prefix (Section b name) = env_join (eb_prefix b) name"
  by (simp add: Section_def env_name_join)

lemma Section_vars [simp, env_norm]: "eb_vars (Section b name) = eb_vars b"
  by (simp add: Section_def)

lemma append_var_emits: "append_var b v h = emits (eb_vars b) [v] h"
  by (simp add: append_var_def emits_def)

lemma env_String_emits [env_norm]: "env_String b n v h = emits (eb_vars b) [lit (eb_prefix b) n v] h"
  by (simp add: env_String_def append_var_emits lit_def env_name_join)

lemma env_Bool_emits [env_norm]:
  "env_Bool b n v h = emits (eb_vars b) [lit (eb_prefix b) n (FormatBool v)] h"
  by (simp add: env_Bool_def env_String_emits)

lemma env_Int_emits [env_norm]:
  "env_Int b n v h = emits (eb_vars b) [lit (eb_prefix b) n (FormatInt (sint v))] h"
  by (simp add: env_Int_def env_String_emits)

lemma env_Duration_emits [env_norm]:
  "env_Duration b n v h = emits (eb_vars b) [lit (eb_prefix b) n (Duration_String v)] h"
  by (simp add: env_Duration_def env_String_emits)

lemma env_From_emits [env_norm]: "env_From b n s h = emits (eb_vars b) [sourced (eb_prefix b) n s] h"
  by (simp add: env_From_def append_var_emits sourced_def env_name_join)

lemma env_FieldRef_emits [env_norm]:
  "env_FieldRef b n f h = emits (eb_vars b) [sourced (eb_prefix b) n (Some (field_ref f))] h"
  by (simp add: env_FieldRef_def env_From_emits)

lemma env_ValueOrSource_emits [env_norm]:
  "env_ValueOrSource b n vs h = emits (eb_vars b) [value_or_source (eb_prefix b) n vs] h"
  by (simp add: env_ValueOrSource_def value_or_source_def env_From_emits env_String_emits)

lemma env_Options_emits [env_norm]:
  "env_Options b os h = emits (eb_vars b) (option_vars (eb_prefix b) os) h"
  by (induction b os h rule: env_Options.induct)
     (simp_all add: append_var_emits option_vars_def env_name_join)

lemma if_emits [env_norm]: "(if c then emits a es h else h) = emits a (if c then es else []) h"
  by simp

lemma if_emits_both [env_norm]:
  "(if c then emits a es h else emits a fs h) = emits a (if c then es else fs) h"
  by simp

lemma case_option_emits [env_norm]:
  "(case x of None \<Rightarrow> h | Some y \<Rightarrow> emits a (f y) h)
     = emits a (case x of None \<Rightarrow> [] | Some y \<Rightarrow> f y) h"
  by (simp split: option.splits)

lemma case_option_emits_both [env_norm]:
  "(case x of None \<Rightarrow> emits a es h | Some y \<Rightarrow> emits a (f y) h)
     = emits a (case x of None \<Rightarrow> es | Some y \<Rightarrow> f y) h"
  by (simp split: option.splits)

lemma case_option_append_emits [env_norm]:
  "(case x of None \<Rightarrow> emits a es h | Some y \<Rightarrow> emits a (es @ f y) h)
     = emits a (es @ (case x of None \<Rightarrow> [] | Some y \<Rightarrow> f y)) h"
  by (simp split: option.splits)

lemma Vars_newEnvBuilder:
  "newEnvBuilder h = (b, h') \<Longrightarrow> eb_prefix b = [] \<and> eb_vars b < length h' \<and> Vars b h' = []"
  by (auto simp: newEnvBuilder_def Vars_def)

lemma ev_Name_vars [simp]:
  "ev_Name (lit p n v) = env_join p n"
  "ev_Name (sourced p n s) = env_join p n"
  "ev_Name (value_or_source p n vs) = env_join p n"
  by (simp_all add: lit_def sourced_def value_or_source_def)

lemma map_ev_Name_option_vars [simp]:
  "map ev_Name (option_vars p os) = map (env_join p \<circ> ev_Name) os"
  by (simp add: option_vars_def comp_def)

section \<open>Names under a prefix\<close>

definition under_prefix :: "string \<Rightarrow> string \<Rightarrow> bool" where
  "under_prefix p n = (\<exists>leaf. n = env_join p leaf)"

lemma under_join [simp, intro]: "under_prefix p (env_join p leaf)"
  by (auto simp: under_prefix_def)

lemma under_Nil [simp]: "under_prefix [] n"
  by (auto simp: under_prefix_def env_join_def)

lemma env_join_Nil [simp]: "env_join [] leaf = leaf"
  by (simp add: env_join_def)

lemma env_join_eq_Nil [simp]: "env_join p q = [] \<longleftrightarrow> p = [] \<and> q = []"
  by (simp add: env_join_def)

lemma env_join_assoc: "q \<noteq> [] \<Longrightarrow> env_join (env_join p q) leaf = env_join p (env_join q leaf)"
  by (simp add: env_join_def)

lemma under_prefix_take:
  "p \<noteq> [] \<Longrightarrow> under_prefix p n \<longleftrightarrow> take (length (p @ ''__'')) n = p @ ''__''"
proof -
  assume p: "p \<noteq> []"
  have "under_prefix p n \<longleftrightarrow> (\<exists>leaf. n = (p @ ''__'') @ leaf)"
    using p by (simp add: under_prefix_def env_join_def)
  also have "\<dots> \<longleftrightarrow> take (length (p @ ''__'')) n = p @ ''__''"
    by (metis append_eq_conv_conj append_take_drop_id)
  finally show ?thesis .
qed

lemma under_section: "q \<noteq> [] \<Longrightarrow> under_prefix (env_join p q) n \<Longrightarrow> under_prefix p n"
  by (auto simp: under_prefix_def env_join_assoc)

lemma env_join_inject [simp]: "env_join p a = env_join p b \<longleftrightarrow> a = b"
  by (simp add: env_join_def)

lemma under_prefix_clash:
  assumes "under_prefix p n" "under_prefix q n" "p \<noteq> []" "q \<noteq> []"
  shows "prefix (p @ ''__'') (q @ ''__'') \<or> prefix (q @ ''__'') (p @ ''__'')"
proof -
  have pre: "prefix (r @ ''__'') n" if "under_prefix r n" "r \<noteq> []" for r
  proof -
    from that obtain leaf where "n = (r @ ''__'') @ leaf"
      by (auto simp: under_prefix_def env_join_def)
    then show ?thesis by (rule prefixI)
  qed
  show ?thesis
    using pre [OF assms(1,3)] pre [OF assms(2,4)] prefix_same_cases by blast
qed

lemma under_join_join [simp]: "q \<noteq> [] \<Longrightarrow> under_prefix p (env_join (env_join p q) leaf)"
  by (simp add: env_join_assoc)

lemma env_join_Cons: "env_join (c # cs) leaf = (c # cs) @ ''__'' @ leaf"
  by (simp add: env_join_def)

section \<open>Variables by their full name\<close>

definition plain_var :: "string \<Rightarrow> string \<Rightarrow> env_var" where
  "plain_var name value = \<lparr>ev_Name = name, ev_Value = value, ev_ValueFrom = None\<rparr>"

lemma ev_Name_plain_var [simp]: "ev_Name (plain_var n v) = n"
  by (simp add: plain_var_def)

definition field_var :: "string \<Rightarrow> string \<Rightarrow> env_var" where
  "field_var name path = \<lparr>ev_Name = name, ev_Value = [], ev_ValueFrom = Some (field_ref path)\<rparr>"

lemma ev_Name_field_var [simp]: "ev_Name (field_var n p) = n"
  by (simp add: field_var_def)

lemma lit_plain: "lit p n v = plain_var (env_join p n) v"
  by (simp add: lit_def plain_var_def)

lemma sourced_field: "sourced p n (Some (field_ref f)) = field_var (env_join p n) f"
  by (simp add: sourced_def field_var_def)

lemma Vars_emits_fresh: "Vars \<lparr>eb_prefix = p, eb_vars = 0\<rparr> (emits 0 es [[]]) = es"
  by (simp add: Vars_def emits_def)

text \<open>Rewriting a function that starts from a fresh root to the list of variables it writes.\<close>

lemmas builder_start = newEnvBuilder_def prod.case append_Nil list.size

lemmas builder_run =
  Let_def case_prod_beta fst_conv snd_conv env_norm envBuilder.simps env_join_Nil append_Cons
  append_Nil append_assoc Vars_emits_fresh sint_scast_32_64 FormatBool_def if_True if_False

lemmas builder_names =
  lit_plain sourced_field env_join_def list.distinct if_True if_False append_Cons append_Nil
  append_assoc FormatBool_def

section \<open>The writer contract\<close>

locale env_writer =
  fixes put :: "envBuilder \<Rightarrow> 'x \<Rightarrow> env_heap \<Rightarrow> env_heap"
    and vars_of :: "string \<Rightarrow> 'x \<Rightarrow> env_var list"
  assumes write_emits: "put b x h = emits (eb_vars b) (vars_of (eb_prefix b) x) h"
begin

text \<open>Through every builder of the same root the write appears, after what was there.\<close>

lemma write_shared:
  "eb_vars b' = eb_vars b \<Longrightarrow> eb_vars b < length h \<Longrightarrow>
     Vars b' (put b x h) = Vars b' h @ vars_of (eb_prefix b) x"
  by (simp add: write_emits Vars_def emits_same)

text \<open>No other root sees it, and no slice moves.\<close>

lemma write_frame: "eb_vars b' \<noteq> eb_vars b \<Longrightarrow> Vars b' (put b x h) = Vars b' h"
  by (simp add: write_emits Vars_def emits_other)

lemma write_length: "length (put b x h) = length h"
  by (simp add: write_emits)

text \<open>Two writes in a row append in call order.\<close>

lemma write_write:
  "eb_vars b' = eb_vars b \<Longrightarrow>
     put b' y (put b x h)
       = emits (eb_vars b) (vars_of (eb_prefix b) x @ vars_of (eb_prefix b') y) h"
  by (simp add: write_emits)

end

locale scoped_env_writer = env_writer +
  assumes vars_under: "e \<in> set (vars_of p x) \<Longrightarrow> under_prefix p (ev_Name e)"
begin

lemma section_scoped:
  "q \<noteq> [] \<Longrightarrow> e \<in> set (vars_of (eb_prefix (Section b q)) x) \<Longrightarrow> under_prefix (eb_prefix b) (ev_Name e)"
  by (rule under_section [of q]) (auto dest: vars_under)

end

interpretation w_String: scoped_env_writer
  "\<lambda>b (n, v) h. env_String b n v h" "\<lambda>p (n, v). [lit p n v]"
  by unfold_locales (auto simp: env_String_emits)

interpretation w_From: scoped_env_writer
  "\<lambda>b (n, s) h. env_From b n s h" "\<lambda>p (n, s). [sourced p n s]"
  by unfold_locales (auto simp: env_From_emits)

interpretation w_ValueOrSource: scoped_env_writer
  "\<lambda>b (n, vs) h. env_ValueOrSource b n vs h" "\<lambda>p (n, vs). [value_or_source p n vs]"
  by unfold_locales (auto simp: env_ValueOrSource_emits)

interpretation w_Options: scoped_env_writer env_Options option_vars
  by unfold_locales (auto simp: env_Options_emits option_vars_def)

end
