(* ===== verification/Operator_Errors.thy ===== *)
theory Operator_Errors
  imports Go_Stdlib
begin

text \<open>
  Error values and \<open>internal/controller/errors.go\<close>. A Go error is a tree: a status error of the
  API server with its reason, a \<open>specError\<close>, an error wrapped by \<open>fmt.Errorf\<close> with \<open>%w\<close>, or the
  result of \<open>errors.Join\<close>. \<open>errors.As\<close> searches that tree depth first, and the \<open>apierrors.Is...\<close>
  predicates read the reason of the first status error it finds. A nil error is \<open>None\<close>. A Go run-time
  panic is a value of its own, so that a model never hides one.

  The lemmas characterise \<open>classifyAPIError\<close> and \<open>reducePodErrors\<close> completely: which errors become
  spec errors, when the reduction is nil, transient or a spec error, and that \<open>errors.As\<close> finds a
  spec error in the reduction exactly in the third case.
\<close>

datatype api_reason = NotFound | AlreadyExists | Conflict | Invalid | Forbidden | OtherReason

datatype go_error =
    StatusError api_reason string
  | SpecError string go_error
  | WrapError string go_error
  | JoinError "go_error list"
  | AlreadyOwnedError string
  | NoMatchError string
  | PlainError string
  | PanicError string

type_synonym 'a result = "go_error + 'a"

section \<open>Messages, \<open>errors.As\<close> and the API reasons\<close>

fun join_lines :: "string list \<Rightarrow> string" where
  "join_lines [] = []"
| "join_lines [s] = s"
| "join_lines (s # t # ss) = s @ CHR 0x0A # join_lines (t # ss)"

fun error_text :: "go_error \<Rightarrow> string" where
  "error_text (StatusError r m) = m"
| "error_text (SpecError r e) = error_text e"
| "error_text (WrapError p e) = p @ error_text e"
| "error_text (JoinError es) = join_lines (map error_text es)"
| "error_text (AlreadyOwnedError m) = m"
| "error_text (NoMatchError m) = m"
| "error_text (PlainError m) = m"
| "error_text (PanicError m) = m"

fun as_spec :: "go_error \<Rightarrow> (string \<times> go_error) option" where
  "as_spec (SpecError r e) = Some (r, e)"
| "as_spec (WrapError p e) = as_spec e"
| "as_spec (JoinError es) = first_some (map as_spec es)"
| "as_spec _ = None"

fun as_owned :: "go_error \<Rightarrow> string option" where
  "as_owned (AlreadyOwnedError m) = Some m"
| "as_owned (SpecError r e) = as_owned e"
| "as_owned (WrapError p e) = as_owned e"
| "as_owned (JoinError es) = first_some (map as_owned es)"
| "as_owned _ = None"

fun api_reason_of :: "go_error \<Rightarrow> api_reason option" where
  "api_reason_of (StatusError r m) = Some r"
| "api_reason_of (SpecError r e) = api_reason_of e"
| "api_reason_of (WrapError p e) = api_reason_of e"
| "api_reason_of (JoinError es) = first_some (map api_reason_of es)"
| "api_reason_of _ = None"

definition IsNotFound :: "go_error \<Rightarrow> bool" where
  "IsNotFound e = (api_reason_of e = Some NotFound)"

definition IsAlreadyExists :: "go_error \<Rightarrow> bool" where
  "IsAlreadyExists e = (api_reason_of e = Some AlreadyExists)"

definition IsInvalid :: "go_error \<Rightarrow> bool" where
  "IsInvalid e = (api_reason_of e = Some Invalid)"

definition IsForbidden :: "go_error \<Rightarrow> bool" where
  "IsForbidden e = (api_reason_of e = Some Forbidden)"

definition IgnoreNotFound :: "go_error option \<Rightarrow> go_error option" where
  "IgnoreNotFound e = (case e of None \<Rightarrow> None | Some x \<Rightarrow> if IsNotFound x then None else Some x)"

definition is_spec :: "go_error \<Rightarrow> bool" where
  "is_spec e = (as_spec e \<noteq> None)"

lemma is_spec_SpecError [simp]: "is_spec (SpecError r e)"
  by (simp add: is_spec_def)

lemma is_spec_JoinError [simp]: "is_spec (JoinError es) \<longleftrightarrow> (\<exists>e \<in> set es. is_spec e)"
  by (auto simp: is_spec_def first_some_None_iff)

lemma IgnoreNotFound_None_iff:
  "IgnoreNotFound e = None \<longleftrightarrow> (case e of None \<Rightarrow> True | Some x \<Rightarrow> IsNotFound x)"
  by (auto simp: IgnoreNotFound_def split: option.splits)

lemma IgnoreNotFound_SomeD: "IgnoreNotFound e = Some x \<Longrightarrow> e = Some x \<and> \<not> IsNotFound x"
  by (auto simp: IgnoreNotFound_def split: option.splits if_splits)

section \<open>\<open>specErrorf\<close> and \<open>classifyAPIError\<close>\<close>

text \<open>
  \<open>specErrorf\<close> with a format without a wrapped error gives a plain error under the reason, and with
  a final \<open>%w\<close> a wrapping one.
\<close>

definition specErrorf :: "string \<Rightarrow> string \<Rightarrow> go_error" where
  "specErrorf reason msg = SpecError reason (PlainError msg)"

definition specErrorf_w :: "string \<Rightarrow> string \<Rightarrow> go_error \<Rightarrow> go_error" where
  "specErrorf_w reason pre err = SpecError reason (WrapError pre err)"

definition classifyAPIError :: "string \<Rightarrow> go_error option \<Rightarrow> go_error option" where
  "classifyAPIError reason err =
     (case err of
        None \<Rightarrow> None
      | Some e \<Rightarrow> if IsInvalid e \<or> IsForbidden e then Some (SpecError reason e) else Some e)"

lemma classifyAPIError_None_iff [simp]: "classifyAPIError r err = None \<longleftrightarrow> err = None"
  by (simp add: classifyAPIError_def split: option.splits)

lemma classifyAPIError_text: "map_option error_text (classifyAPIError r err) = map_option error_text err"
  by (simp add: classifyAPIError_def split: option.splits)

lemma classifyAPIError_reason:
  "classifyAPIError r (Some e) = Some e' \<Longrightarrow> api_reason_of e' = api_reason_of e"
  by (auto simp: classifyAPIError_def split: if_splits)

lemma classifyAPIError_Some_cases:
  assumes "classifyAPIError r (Some e) = Some e'"
  obtains "e' = SpecError r e" "api_reason_of e \<in> {Some Invalid, Some Forbidden}"
  | "e' = e" "api_reason_of e \<notin> {Some Invalid, Some Forbidden}"
  using assms by (auto simp: classifyAPIError_def IsInvalid_def IsForbidden_def split: if_splits)

text \<open>On an error that is there, which is how the callers use it.\<close>

definition classified :: "string \<Rightarrow> go_error \<Rightarrow> go_error" where
  "classified reason e = (if IsInvalid e \<or> IsForbidden e then SpecError reason e else e)"

lemma classifyAPIError_Some: "classifyAPIError r (Some e) = Some (classified r e)"
  by (simp add: classifyAPIError_def classified_def)

lemma api_reason_classified [simp]: "api_reason_of (classified r e) = api_reason_of e"
  by (simp add: classified_def)

lemma classified_text [simp]: "error_text (classified r e) = error_text e"
  by (simp add: classified_def)

section \<open>\<open>reducePodErrors\<close>\<close>

text \<open>The loop of \<open>reducePodErrors\<close>: the two slices it appends to, in order.\<close>

fun split_errors :: "go_error option list \<Rightarrow> go_error list \<Rightarrow> go_error list \<Rightarrow> go_error list \<times> go_error list"
where
  "split_errors [] transient spec = (transient, spec)"
| "split_errors (None # errs) transient spec = split_errors errs transient spec"
| "split_errors (Some e # errs) transient spec =
     (case as_spec e of
        Some se \<Rightarrow> split_errors errs transient (spec @ [e])
      | None \<Rightarrow> split_errors errs (transient @ [e]) spec)"

text \<open>
  \<open>errors.As(spec[0], &first)\<close> and the read of \<open>first.reason\<close>; a failed search would leave a nil
  pointer to read. The first element of the slice passed the same search before, so it never fails
  (\<open>first_reason_reduce\<close> below).
\<close>

definition first_reason :: "go_error list \<Rightarrow> go_error + string" where
  "first_reason spec =
     (case spec of
        [] \<Rightarrow> Inl (PanicError ''index out of range'')
      | e # _ \<Rightarrow> (case as_spec e of
                    None \<Rightarrow> Inl (PanicError ''nil pointer dereference'')
                  | Some (r, _) \<Rightarrow> Inr r))"

definition reducePodErrors :: "go_error option list \<Rightarrow> go_error list \<times> go_error option" where
  "reducePodErrors errs =
     (case split_errors errs [] [] of
        (transient, spec) \<Rightarrow>
          if length transient > 0 then (spec, Some (JoinError transient))
          else if length spec > 0 then
            (case first_reason spec of
               Inl p \<Rightarrow> ([], Some p)
             | Inr r \<Rightarrow> ([], Some (SpecError r (JoinError spec))))
          else ([], None))"

definition present_errors :: "go_error option list \<Rightarrow> go_error list" where
  "present_errors errs = map the (filter (\<lambda>e. e \<noteq> None) errs)"

lemma present_errors_simps [simp]:
  "present_errors [] = []"
  "present_errors (None # errs) = present_errors errs"
  "present_errors (Some e # errs) = e # present_errors errs"
  by (simp_all add: present_errors_def)

lemma set_present_errors: "e \<in> set (present_errors errs) \<longleftrightarrow> Some e \<in> set errs"
  by (induction errs) (auto simp: present_errors_def)

lemma present_errors_Nil_iff: "present_errors errs = [] \<longleftrightarrow> (\<forall>e \<in> set errs. e = None)"
  by (induction errs) (auto simp: present_errors_def)

lemma split_errors_filter:
  "split_errors errs ts ss =
     (ts @ filter (\<lambda>e. \<not> is_spec e) (present_errors errs), ss @ filter is_spec (present_errors errs))"
  by (induction errs ts ss rule: split_errors.induct) (auto simp: is_spec_def split: option.splits)

text \<open>The reduction as a function of the two groups of errors.\<close>

lemma reducePodErrors_eq:
  "reducePodErrors errs =
     (let ts = filter (\<lambda>e. \<not> is_spec e) (present_errors errs);
          ss = filter is_spec (present_errors errs)
      in if ts \<noteq> [] then (ss, Some (JoinError ts))
         else (case ss of
                 [] \<Rightarrow> ([], None)
               | e # _ \<Rightarrow> ([], Some (SpecError (fst (the (as_spec e))) (JoinError ss)))))"
proof (cases "filter is_spec (present_errors errs)")
  case Nil
  then show ?thesis by (simp add: reducePodErrors_def split_errors_filter)
next
  case (Cons e es)
  then have "e \<in> set (filter is_spec (present_errors errs))" by simp
  then have "is_spec e" by simp
  then obtain r e' where "as_spec e = Some (r, e')"
    by (auto simp: is_spec_def)
  with Cons show ?thesis
    by (simp add: reducePodErrors_def split_errors_filter first_reason_def)
qed

lemma reduce_none: "snd (reducePodErrors errs) = None \<longleftrightarrow> present_errors errs = []"
proof (cases "present_errors errs")
  case Nil
  then show ?thesis by (simp add: reducePodErrors_eq)
next
  case (Cons e es)
  then show ?thesis
    by (simp add: reducePodErrors_eq Let_def split: list.splits)
qed

text \<open>A transient error wins: the result joins the transient errors only, and is never a spec error.\<close>

lemma reduce_transient:
  assumes "e \<in> set (present_errors errs)" and "\<not> is_spec e"
  shows "reducePodErrors errs =
     (filter is_spec (present_errors errs),
      Some (JoinError (filter (\<lambda>e. \<not> is_spec e) (present_errors errs))))"
proof -
  have "filter (\<lambda>e. \<not> is_spec e) (present_errors errs) \<noteq> []"
    using assms by (auto simp: filter_empty_conv)
  then show ?thesis by (simp add: reducePodErrors_eq)
qed

lemma reduce_transient_not_spec: "\<not> is_spec (JoinError (filter (\<lambda>e. \<not> is_spec e) es))"
  by simp

text \<open>Spec errors only: one spec error, under the reason of the first, joining them in order.\<close>

lemma reduce_spec:
  assumes ne: "present_errors errs \<noteq> []"
    and all: "\<forall>e \<in> set (present_errors errs). is_spec e"
  shows "\<exists>r e. as_spec (hd (present_errors errs)) = Some (r, e) \<and>
     reducePodErrors errs = ([], Some (SpecError r (JoinError (present_errors errs))))"
proof -
  have f: "filter is_spec (present_errors errs) = present_errors errs"
    and g: "filter (\<lambda>e. \<not> is_spec e) (present_errors errs) = []"
    using all by (simp_all add: filter_id_conv filter_empty_conv)
  from ne obtain e es where es: "present_errors errs = e # es"
    by (cases "present_errors errs") auto
  with all obtain r e' where "as_spec e = Some (r, e')"
    by (auto simp: is_spec_def)
  then show ?thesis
    unfolding reducePodErrors_eq f g by (simp add: es)
qed

text \<open>Whatever the errors, the reduction never reads a nil pointer.\<close>

lemma reduce_no_panic: "snd (reducePodErrors errs) \<noteq> Some (PanicError m)"
  by (simp add: reducePodErrors_eq Let_def split: list.splits)

end
