(* ===== verification/Pod_Common.thy ===== *)
theory Pod_Common
  imports Env_Builder Operator_Errors
begin

text \<open>
  \<open>internal/controller/pod_common.go\<close>, and the label and name helpers that
  \<open>polarscluster_controller.go\<close> shares with it: defaults, the version gate, labels
  and the names of the managed objects (its pod parts are in \<open>Pod_Parts\<close>).

  The semantic version library (\<open>k8s.io/apimachinery/pkg/util/version\<close>) is a parameter, the record
  \<open>version_lib\<close> over an abstract type of versions. Locales: \<open>object_name\<close> (a name derived from the
  cluster's name by a suffix) and \<open>object_names\<close> (two such names never meet), interpreted on the
  name functions below.
\<close>

section \<open>Constants\<close>

definition appName :: string where "appName = ''polars''"

definition clusterLabel :: string where "clusterLabel = ''compute.pola.rs/cluster''"
definition componentLabel :: string where "componentLabel = ''compute.pola.rs/component''"
definition templateHashLabel :: string where "templateHashLabel = ''compute.pola.rs/template-hash''"
definition componentScheduler :: string where "componentScheduler = ''scheduler''"
definition componentWorker :: string where "componentWorker = ''worker''"
definition schedulerPort :: int32 where "schedulerPort = 5051"
definition observatoryRESTPort :: int32 where "observatoryRESTPort = 3001"
definition ProtocolTCP :: string where "ProtocolTCP = ''TCP''"

definition defaultDistRepository :: string where
  "defaultDistRepository = ''polarscloud/polars-on-premises''"
definition defaultRuntimeRepository :: string where "defaultRuntimeRepository = ''python''"
definition defaultRuntimeTag :: string where "defaultRuntimeTag = ''3.13.9-slim-bookworm''"
definition defaultPolarsExtras :: string where "defaultPolarsExtras = ''cloudpickle''"

definition releaseDataVolumeName :: string where "releaseDataVolumeName = ''release-data''"
definition releaseDataMountPath :: string where "releaseDataMountPath = ''/emptydir''"
definition releaseDataImageSubPath :: string where "releaseDataImageSubPath = ''opt''"
definition tmpDataVolumeName :: string where "tmpDataVolumeName = ''tmp-data''"
definition requirementsVolumeName :: string where "requirementsVolumeName = ''requirements-data''"
definition requirementsMountPath :: string where "requirementsMountPath = ''/requirements''"
definition requirementsPath :: string where
  "requirementsPath = requirementsMountPath @ ''/requirements.txt''"
definition enterpriseLicenseVolume :: string where "enterpriseLicenseVolume = ''license''"
definition enterpriseLicenseMountDir :: string where "enterpriseLicenseMountDir = ''/mnt/license/''"
definition enterpriseLicensePath :: string where
  "enterpriseLicensePath = ''/mnt/license/license.json''"
definition cloudLicenseVolume :: string where "cloudLicenseVolume = ''cloud-license''"
definition cloudLicenseMountDir :: string where "cloudLicenseMountDir = ''/mnt/cloud_license/''"

definition defaultHeartBeatInterval :: string where "defaultHeartBeatInterval = ''5s''"
definition defaultCheckpointPeriod :: string where "defaultCheckpointPeriod = ''20m''"
definition defaultMetricsBytesTotal :: int64 where "defaultMetricsBytesTotal = 104857600"

lemmas volume_name_defs =
  releaseDataVolumeName_def tmpDataVolumeName_def requirementsVolumeName_def
  enterpriseLicenseVolume_def cloudLicenseVolume_def

lemmas mount_path_defs =
  releaseDataMountPath_def requirementsMountPath_def enterpriseLicenseMountDir_def
  cloudLicenseMountDir_def

section \<open>Resolved settings\<close>

definition resolveClusterID :: "PolarsCluster \<Rightarrow> string" where
  "resolveClusterID c =
     (if spec_ClusterID (cl_Spec c) \<noteq> [] then spec_ClusterID (cl_Spec c)
      else cl_Namespace c @ ''/'' @ cl_Name c)"

definition resolveLogLevel :: "PolarsCluster \<Rightarrow> string" where
  "resolveLogLevel c =
     (case spec_LogLevel (cl_Spec c) of Some l \<Rightarrow> l | None \<Rightarrow> ''info'')"

definition hostMetricsDisabled :: "PolarsCluster \<Rightarrow> bool" where
  "hostMetricsDisabled c =
     (case spec_HostMetrics (cl_Spec c) of None \<Rightarrow> False | Some hm \<Rightarrow> \<not> hm_Enabled hm)"

definition distTag :: "PolarsCluster \<Rightarrow> string" where
  "distTag c =
     (case spec_Runtime (cl_Spec c) of
        None \<Rightarrow> []
      | Some rt \<Rightarrow>
          (case crt_Dist (rt_Composed rt) of
             Some dist \<Rightarrow> if img_Tag dist \<noteq> [] then img_Tag dist else spec_Version (cl_Spec c)
           | None \<Rightarrow> spec_Version (cl_Spec c)))"

section \<open>The version gate\<close>

record 'v version_lib =
  vl_ParseSemantic :: "string \<Rightarrow> 'v result"
  vl_LessThan :: "'v \<Rightarrow> 'v \<Rightarrow> bool"
  vl_String :: "'v \<Rightarrow> string"

text \<open>The package variables, initialised by \<open>MustParseSemantic\<close> before \<open>main\<close> runs.\<close>

record 'v version_vars =
  minSupportedVersion :: 'v
  minCloudLicenseVersion :: 'v

definition MustParseSemantic :: "'v version_lib \<Rightarrow> string \<Rightarrow> 'v result" where
  "MustParseSemantic vl s =
     (case vl_ParseSemantic vl s of Inl e \<Rightarrow> Inl (PanicError (error_text e)) | Inr v \<Rightarrow> Inr v)"

definition init_versions :: "'v version_lib \<Rightarrow> 'v version_vars result" where
  "init_versions vl =
     (case MustParseSemantic vl ''0.7.1'' of
        Inl p \<Rightarrow> Inl p
      | Inr m \<Rightarrow>
          (case MustParseSemantic vl ''0.8.0'' of
             Inl p \<Rightarrow> Inl p
           | Inr k \<Rightarrow> Inr \<lparr>minSupportedVersion = m, minCloudLicenseVersion = k\<rparr>))"

definition clusterVersion ::
  "'v version_lib \<Rightarrow> 'v version_vars \<Rightarrow> PolarsCluster \<Rightarrow> 'v option result" where
  "clusterVersion vl vv c =
     (let version = spec_Version (cl_Spec c) in
      if version = [] \<or> version = LatestVersion then Inr None
      else
        (case vl_ParseSemantic vl version of
           Inl err \<Rightarrow>
             Inl (WrapError (''spec.version '' @ quote version @ '' is not a semantic version: '') err)
         | Inr v \<Rightarrow>
             if vl_LessThan vl v (minSupportedVersion vv) then
               Inl (PlainError (''spec.version '' @ quote version
                      @ '' is not supported: this operator requires at least ''
                      @ vl_String vl (minSupportedVersion vv)))
             else if lic_Cloud (spec_License (cl_Spec c)) \<noteq> None
                     \<and> vl_LessThan vl v (minCloudLicenseVersion vv) then
               Inl (PlainError (''spec.version '' @ quote version
                      @ '' does not support the cloud license: it requires at least ''
                      @ vl_String vl (minCloudLicenseVersion vv)))
             else Inr (Some v)))"

text \<open>What the gate lets through, and what it says otherwise, on every branch.\<close>

definition version_accepted ::
  "'v version_lib \<Rightarrow> 'v version_vars \<Rightarrow> PolarsCluster \<Rightarrow> bool" where
  "version_accepted vl vv c =
     (spec_Version (cl_Spec c) \<in> {[], LatestVersion} \<or>
      (case vl_ParseSemantic vl (spec_Version (cl_Spec c)) of
         Inl _ \<Rightarrow> False
       | Inr v \<Rightarrow> \<not> vl_LessThan vl v (minSupportedVersion vv) \<and>
           (lic_Cloud (spec_License (cl_Spec c)) = None
            \<or> \<not> vl_LessThan vl v (minCloudLicenseVersion vv))))"

lemma clusterVersion_isl: "isl (clusterVersion vl vv c) \<longleftrightarrow> \<not> version_accepted vl vv c"
  by (auto simp: clusterVersion_def version_accepted_def Let_def split: sum.splits)

lemma clusterVersion_error_text:
  "clusterVersion vl vv c = Inl e \<Longrightarrow>
     \<exists>t. error_text e = ''spec.version '' @ quote (spec_Version (cl_Spec c)) @ t"
  by (auto simp: clusterVersion_def Let_def split: sum.splits if_splits)

lemma clusterVersion_not_spec:
  "clusterVersion vl vv c = Inl e \<Longrightarrow> (\<And>s e'. vl_ParseSemantic vl s = Inl e' \<Longrightarrow> \<not> is_spec e') \<Longrightarrow>
     \<not> is_spec e"
  by (auto simp: clusterVersion_def is_spec_def Let_def split: sum.splits if_splits)

section \<open>Labels\<close>

definition standardLabels :: "PolarsCluster \<Rightarrow> string \<Rightarrow> str_map" where
  "standardLabels c component =
     (let labels = [''app.kubernetes.io/name'' \<mapsto> appName,
                    ''app.kubernetes.io/instance'' \<mapsto> cl_Name c,
                    ''app.kubernetes.io/component'' \<mapsto> component,
                    ''app.kubernetes.io/managed-by'' \<mapsto> ''polars-operator'']
      in if distTag c \<noteq> [] then labels(''app.kubernetes.io/version'' \<mapsto> distTag c) else labels)"

definition applyPodLabels :: "pod \<Rightarrow> PolarsCluster \<Rightarrow> string \<Rightarrow> pod" where
  "applyPodLabels p c component =
     p\<lparr>pod_Meta := (pod_Meta p)\<lparr>om_Labels :=
         ((om_Labels (pod_Meta p))(clusterLabel \<mapsto> cl_Name c, componentLabel \<mapsto> component))
           ++ standardLabels c component\<rparr>\<rparr>"

definition schedulerObjectLabels :: "PolarsCluster \<Rightarrow> str_map" where
  "schedulerObjectLabels c = (standardLabels c componentScheduler)(clusterLabel \<mapsto> cl_Name c)"

abbreviation pod_labels :: "pod \<Rightarrow> str_map" where
  "pod_labels p \<equiv> om_Labels (pod_Meta p)"

lemma dom_standardLabels:
  "dom (standardLabels c k) \<subseteq>
     {''app.kubernetes.io/name'', ''app.kubernetes.io/instance'', ''app.kubernetes.io/component'',
      ''app.kubernetes.io/managed-by'', ''app.kubernetes.io/version''}"
  by (auto simp: standardLabels_def Let_def split: if_splits)

lemma standardLabels_own [label_simps]:
  "standardLabels c k clusterLabel = None"
  "standardLabels c k componentLabel = None"
  "standardLabels c k templateHashLabel = None"
  by (simp_all add: standardLabels_def Let_def clusterLabel_def componentLabel_def templateHashLabel_def)

lemma standardLabels_app [label_simps]:
  "standardLabels c k ''app.kubernetes.io/name'' = Some appName"
  "standardLabels c k ''app.kubernetes.io/instance'' = Some (cl_Name c)"
  "standardLabels c k ''app.kubernetes.io/component'' = Some k"
  "standardLabels c k ''app.kubernetes.io/managed-by'' = Some ''polars-operator''"
  "standardLabels c k ''app.kubernetes.io/version'' = (if distTag c \<noteq> [] then Some (distTag c) else None)"
  by (simp_all add: standardLabels_def Let_def)

lemma own_labels_distinct [simp, label_simps]:
  "clusterLabel \<noteq> componentLabel" "componentLabel \<noteq> clusterLabel"
  "clusterLabel \<noteq> templateHashLabel" "templateHashLabel \<noteq> clusterLabel"
  "componentLabel \<noteq> templateHashLabel" "templateHashLabel \<noteq> componentLabel"
  by (simp_all add: clusterLabel_def componentLabel_def templateHashLabel_def)

lemma applyPodLabels_selector [label_simps]:
  "pod_labels (applyPodLabels p c k) clusterLabel = Some (cl_Name c)"
  "pod_labels (applyPodLabels p c k) componentLabel = Some k"
  by (simp_all add: applyPodLabels_def map_add_apply_None standardLabels_own)

text \<open>A label the operator does not own keeps the user's value.\<close>

lemma applyPodLabels_user:
  "l \<noteq> clusterLabel \<Longrightarrow> l \<noteq> componentLabel \<Longrightarrow> l \<notin> dom (standardLabels c k) \<Longrightarrow>
     pod_labels (applyPodLabels p c k) l = pod_labels p l"
  by (simp add: applyPodLabels_def map_add_apply_None domIff)

lemma applyPodLabels_standard:
  "standardLabels c k l = Some v \<Longrightarrow> pod_labels (applyPodLabels p c k) l = Some v"
  by (simp add: applyPodLabels_def map_add_apply_Some)

lemma applyPodLabels_frame [simp]:
  "pod_Spec (applyPodLabels p c k) = pod_Spec p"
  "pod_Status (applyPodLabels p c k) = pod_Status p"
  by (simp_all add: applyPodLabels_def)

section \<open>Names of the managed objects\<close>

definition schedulerServiceName :: "PolarsCluster \<Rightarrow> string" where
  "schedulerServiceName c = cl_Name c @ ''-scheduler''"

definition schedulerInternalServiceName :: "PolarsCluster \<Rightarrow> string" where
  "schedulerInternalServiceName c = cl_Name c @ ''-scheduler-internal''"

definition observatoryServiceName :: "PolarsCluster \<Rightarrow> string" where
  "observatoryServiceName c = cl_Name c @ ''-observatory''"

definition schedulerPodName :: "PolarsCluster \<Rightarrow> string" where
  "schedulerPodName c = cl_Name c @ ''-scheduler''"

locale object_name =
  fixes obj_name :: "PolarsCluster \<Rightarrow> string" and suf :: string
  assumes obj_name_eq: "obj_name c = cl_Name c @ suf"
    and suf_nonempty: "suf \<noteq> []"
begin

text \<open>Two clusters of one namespace get the same name only if they are the same cluster.\<close>

lemma name_inject: "obj_name c = obj_name d \<longleftrightarrow> cl_Name c = cl_Name d"
  by (simp add: obj_name_eq)

lemma name_nonempty: "obj_name c \<noteq> []"
  by (simp add: obj_name_eq suf_nonempty)

lemma name_not_cluster: "obj_name c \<noteq> cl_Name c"
  by (simp add: obj_name_eq suf_nonempty)

end

locale object_names = a: object_name n1 s1 + b: object_name n2 s2
  for n1 s1 n2 s2 +
  assumes no_suffix: "\<not> suffix s1 s2" "\<not> suffix s2 s1"
begin

text \<open>Names of the two kinds never meet, whatever the clusters are called.\<close>

lemma names_disjoint: "n1 c \<noteq> n2 d"
proof
  assume eq: "n1 c = n2 d"
  have "suffix s1 (n1 c)" by (simp add: a.obj_name_eq suffix_def)
  moreover have "suffix s2 (n1 c)" unfolding eq by (simp add: b.obj_name_eq suffix_def)
  ultimately show False
    using suffix_same_cases no_suffix by blast
qed

end

interpretation sched_name: object_name schedulerServiceName "''-scheduler''"
  by unfold_locales (simp_all add: schedulerServiceName_def)

interpretation internal_name: object_name schedulerInternalServiceName "''-scheduler-internal''"
  by unfold_locales (simp_all add: schedulerInternalServiceName_def)

interpretation observatory_name: object_name observatoryServiceName "''-observatory''"
  by unfold_locales (simp_all add: observatoryServiceName_def)

interpretation sched_pod_name: object_name schedulerPodName "''-scheduler''"
  by unfold_locales (simp_all add: schedulerPodName_def)

interpretation sched_internal: object_names
  schedulerServiceName "''-scheduler''" schedulerInternalServiceName "''-scheduler-internal''"
  by unfold_locales (simp_all add: suffix_def Cons_eq_append_conv)

interpretation sched_observatory: object_names
  schedulerServiceName "''-scheduler''" observatoryServiceName "''-observatory''"
  by unfold_locales (simp_all add: suffix_def Cons_eq_append_conv)

interpretation internal_observatory: object_names
  schedulerInternalServiceName "''-scheduler-internal''" observatoryServiceName "''-observatory''"
  by unfold_locales (simp_all add: suffix_def Cons_eq_append_conv)

end
