(* ===== verification/Pod_Parts.thy ===== *)
theory Pod_Parts
  imports Pod_Common
begin

text \<open>
  The parts of \<open>internal/controller/pod_common.go\<close> that both pod templates are assembled from: the
  composed runtime, the license volumes, the cloud license environment, the readiness probes, the
  checkpoint period and volumes backed by a claim.

  The contract of everything that contributes volumes is the locale \<open>volume_provider\<close>: each mount
  names a volume of the same contribution, volume names and mount paths are distinct and drawn from
  fixed sets. \<open>volume_providers\<close> puts two contributions side by side and is a provider again.
\<close>

section \<open>Volume contributions\<close>

type_synonym volume_config = "volume list \<times> volume_mount list"

definition beside :: "('a \<Rightarrow> volume_config) \<Rightarrow> ('a \<Rightarrow> volume_config) \<Rightarrow> 'a \<Rightarrow> volume_config" where
  "beside f g x = (fst (f x) @ fst (g x), snd (f x) @ snd (g x))"

locale volume_provider =
  fixes cfg :: "'a \<Rightarrow> volume_config" and names :: "string set" and paths :: "string set"
  assumes cfg_declared: "mounts_declared (snd (cfg x)) (fst (cfg x))"
    and cfg_distinct: "distinct (map v_Name (fst (cfg x)))"
    and cfg_names: "v_Name ` set (fst (cfg x)) \<subseteq> names"
    and cfg_paths_distinct: "distinct (map vm_MountPath (snd (cfg x)))"
    and cfg_paths: "vm_MountPath ` set (snd (cfg x)) \<subseteq> paths"
begin

lemmas provider_laws = cfg_declared cfg_distinct cfg_names cfg_paths_distinct cfg_paths

text \<open>A mount of the contribution finds exactly one volume in it.\<close>

lemma mount_resolves:
  assumes "m \<in> set (snd (cfg x))"
  shows "\<exists>!v. v \<in> set (fst (cfg x)) \<and> v_Name v = vm_Name m"
proof -
  have inj: "inj_on v_Name (set (fst (cfg x)))"
    using cfg_distinct by (simp add: distinct_map)
  obtain v where "v \<in> set (fst (cfg x))" "v_Name v = vm_Name m"
    using cfg_declared [of x] assms by (auto simp: mounts_declared_def list_all_iff)
  with inj show ?thesis unfolding inj_on_def by metis
qed

end

text \<open>It is enough to know the names and the paths a function returns.\<close>

lemma volume_providerI:
  assumes "\<And>x. map v_Name (fst (cfg x)) = vn x"
    and "\<And>x. map vm_Name (snd (cfg x)) = mn x"
    and "\<And>x. map vm_MountPath (snd (cfg x)) = pn x"
    and "\<And>x. set (mn x) \<subseteq> set (vn x)" "\<And>x. distinct (vn x)" "\<And>x. set (vn x) \<subseteq> names"
    and "\<And>x. distinct (pn x)" "\<And>x. set (pn x) \<subseteq> paths"
  shows "volume_provider cfg names paths"
proof
  fix x
  have "vm_Name ` set (snd (cfg x)) \<subseteq> v_Name ` set (fst (cfg x))"
    using assms(1,2,4) [of x] by (metis list.set_map)
  then show "mounts_declared (snd (cfg x)) (fst (cfg x))"
    by (auto simp: mounts_declared_def list_all_iff)
  show "v_Name ` set (fst (cfg x)) \<subseteq> names" using assms(1,6) [of x] by (metis list.set_map)
  show "vm_MountPath ` set (snd (cfg x)) \<subseteq> paths" using assms(3,8) [of x] by (metis list.set_map)
qed (simp_all add: assms)

locale volume_providers = f: volume_provider f n1 p1 + g: volume_provider g n2 p2
  for f :: "'a \<Rightarrow> volume_config" and n1 p1 and g :: "'a \<Rightarrow> volume_config" and n2 p2 +
  assumes names_apart: "n1 \<inter> n2 = {}" and paths_apart: "p1 \<inter> p2 = {}"

sublocale volume_providers \<subseteq> both: volume_provider "beside f g" "n1 \<union> n2" "p1 \<union> p2"
proof
  fix x
  show "mounts_declared (snd (beside f g x)) (fst (beside f g x))"
    by (simp add: beside_def mounts_declared_append f.cfg_declared g.cfg_declared)
  show "distinct (map v_Name (fst (beside f g x)))"
    using f.cfg_distinct g.cfg_distinct f.cfg_names g.cfg_names names_apart
    by (fastforce simp: beside_def)
  show "v_Name ` set (fst (beside f g x)) \<subseteq> n1 \<union> n2"
    using f.cfg_names g.cfg_names by (fastforce simp: beside_def)
  show "distinct (map vm_MountPath (snd (beside f g x)))"
    using f.cfg_paths_distinct g.cfg_paths_distinct f.cfg_paths g.cfg_paths paths_apart
    by (fastforce simp: beside_def)
  show "vm_MountPath ` set (snd (beside f g x)) \<subseteq> p1 \<union> p2"
    using f.cfg_paths g.cfg_paths by (fastforce simp: beside_def)
qed

section \<open>Mounts, volumes, probes\<close>

definition mount :: "string \<Rightarrow> string \<Rightarrow> volume_mount" where
  "mount name path =
     \<lparr>vm_Name = name, vm_MountPath = path, vm_SubPath = [], vm_ReadOnly = False, vm_Other = []\<rparr>"

lemma mount_simps [simp]:
  "vm_Name (mount n p) = n" "vm_MountPath (mount n p) = p"
  "vm_SubPath (mount n p) = []" "vm_ReadOnly (mount n p) = False"
  by (simp_all add: mount_def)

definition emptyDirVolume :: "string \<Rightarrow> volume" where
  "emptyDirVolume name = \<lparr>v_Name = name, v_Source = EmptyDir\<rparr>"

lemma emptyDirVolume_simps [simp]:
  "v_Name (emptyDirVolume n) = n" "v_Source (emptyDirVolume n) = EmptyDir"
  by (simp_all add: emptyDirVolume_def)

definition pvcRefVolume :: "string \<Rightarrow> PersistentVolumeClaimRef \<Rightarrow> volume" where
  "pvcRefVolume name ref = \<lparr>v_Name = name, v_Source = ClaimSource (pvr_ClaimName ref)\<rparr>"

definition defaultSchedulerReadinessProbe :: "int32 \<Rightarrow> probe" where
  "defaultSchedulerReadinessProbe port =
     \<lparr>pr_Handler = TCPSocket port, pr_InitialDelaySeconds = 1, pr_PeriodSeconds = 1,
      pr_FailureThreshold = 250, pr_Other = []\<rparr>"

definition defaultWorkerReadinessProbe :: "int32 \<Rightarrow> probe" where
  "defaultWorkerReadinessProbe port =
     \<lparr>pr_Handler = GRPC port, pr_InitialDelaySeconds = 1, pr_PeriodSeconds = 1,
      pr_FailureThreshold = 250, pr_Other = []\<rparr>"

definition checkpointPeriod :: "CheckpointSpec \<Rightarrow> string" where
  "checkpointPeriod ck =
     (case ck_Period ck of Some d \<Rightarrow> Duration_String d | None \<Rightarrow> defaultCheckpointPeriod)"

section \<open>License volumes and environment\<close>

definition enterpriseLicenseConfig :: "PolarsCluster \<Rightarrow> volume_config" where
  "enterpriseLicenseConfig c =
     (case lic_OnPremEnterprise (spec_License (cl_Spec c)) of
        None \<Rightarrow> ([], [])
      | Some enterprise \<Rightarrow>
          ([\<lparr>v_Name = enterpriseLicenseVolume,
             v_Source = SecretSource (loe_SecretName enterprise)
               [\<lparr>ktp_Key = loe_SecretProperty enterprise, ktp_Path = ''license.json''\<rparr>]\<rparr>],
           [mount enterpriseLicenseVolume enterpriseLicenseMountDir]))"

definition cloudLicenseConfig :: "PolarsCluster \<Rightarrow> volume_config" where
  "cloudLicenseConfig c =
     (case lic_Cloud (spec_License (cl_Spec c)) of
        None \<Rightarrow> ([], [])
      | Some cloud \<Rightarrow>
          ([\<lparr>v_Name = cloudLicenseVolume,
             v_Source = SecretSource (lcl_SecretName cloud)
               [\<lparr>ktp_Key = ''tls.crt'', ktp_Path = ''certificate.pem''\<rparr>,
                \<lparr>ktp_Key = ''tls.key'', ktp_Path = ''private_key.pem''\<rparr>,
                \<lparr>ktp_Key = ''ca.crt'', ktp_Path = ''ca_cert.pem''\<rparr>]\<rparr>],
           [mount cloudLicenseVolume cloudLicenseMountDir]))"

interpretation enterprise_volumes: volume_provider enterpriseLicenseConfig
  "{enterpriseLicenseVolume}" "{enterpriseLicenseMountDir}"
  by unfold_locales (auto simp: enterpriseLicenseConfig_def split: option.splits)

interpretation cloud_volumes: volume_provider cloudLicenseConfig
  "{cloudLicenseVolume}" "{cloudLicenseMountDir}"
  by unfold_locales (auto simp: cloudLicenseConfig_def split: option.splits)

definition cloudLicenseEnv :: "envBuilder \<Rightarrow> RegisterNodeSpec option \<Rightarrow> env_heap \<Rightarrow> env_heap" where
  "cloudLicenseEnv license registerNode h =
     (let cloud = Section license ''cloud'';
          h = env_String cloud ''cert_dir'' cloudLicenseMountDir h;
          h = env_Bool cloud ''notify_query_submitted'' True h;
          h = env_Bool cloud ''enable_query_polling'' False h
      in (case registerNode of
            None \<Rightarrow> h
          | Some rn \<Rightarrow>
              (let register = Section cloud ''register_node'';
                   h = env_ValueOrSource register ''private_address'' (rns_PrivateAddress rn) h
               in (case rns_PublicAddress rn of
                     None \<Rightarrow> h
                   | Some pa \<Rightarrow> env_ValueOrSource register ''public_address'' pa h))))"

definition cloud_license_vars :: "string \<Rightarrow> RegisterNodeSpec option \<Rightarrow> env_var list" where
  "cloud_license_vars p registerNode =
     (let cloud = env_join p ''cloud''; register = env_join cloud ''register_node'' in
      [lit cloud ''cert_dir'' cloudLicenseMountDir,
       lit cloud ''notify_query_submitted'' ''true'',
       lit cloud ''enable_query_polling'' ''false''] @
      (case registerNode of
         None \<Rightarrow> []
       | Some rn \<Rightarrow>
           value_or_source register ''private_address'' (rns_PrivateAddress rn) #
           (case rns_PublicAddress rn of
              None \<Rightarrow> []
            | Some pa \<Rightarrow> [value_or_source register ''public_address'' pa])))"

interpretation w_cloud: scoped_env_writer cloudLicenseEnv cloud_license_vars
proof
  show "cloudLicenseEnv b rn h = emits (eb_vars b) (cloud_license_vars (eb_prefix b) rn) h" for b rn h
    by (simp add: cloudLicenseEnv_def cloud_license_vars_def Let_def env_norm FormatBool_def
          split: option.splits)
  show "e \<in> set (cloud_license_vars p rn) \<Longrightarrow> under_prefix p (ev_Name e)" for e p rn
    by (auto simp: cloud_license_vars_def Let_def env_join_assoc split: option.splits if_splits)
qed

lemma distinct_cloud_license: "distinct (map ev_Name (cloud_license_vars p rn))"
proof (cases rn)
  case None
  then show ?thesis by (simp add: cloud_license_vars_def Let_def)
next
  case (Some r)
  then show ?thesis
    by (cases "rns_PublicAddress r")
       (simp_all add: cloud_license_vars_def Let_def env_join_assoc env_join_Cons)
qed

section \<open>Object stores\<close>

text \<open>What a storage location appends: its URL, a presign duration if it has one, its options.\<close>

definition object_store_vars ::
  "string \<Rightarrow> string \<Rightarrow> duration option \<Rightarrow> env_var list \<Rightarrow> env_var list" where
  "object_store_vars p url presign options =
     lit p ''url'' url #
     (case presign of None \<Rightarrow> [] | Some d \<Rightarrow> [lit p ''presign_duration'' (Duration_String d)]) @
     option_vars p options"

lemma object_store_vars_under:
  "e \<in> set (object_store_vars p url presign options) \<Longrightarrow> under_prefix p (ev_Name e)"
  by (auto simp: object_store_vars_def option_vars_def split: option.splits)

definition options_ok :: "env_var list \<Rightarrow> bool" where
  "options_ok options =
     (distinct (map ev_Name options) \<and>
      list_all (\<lambda>v. ev_Name v \<notin> {''url'', ''presign_duration''}) options)"

lemma distinct_object_store:
  "options_ok options \<Longrightarrow> distinct (map ev_Name (object_store_vars p url d options))"
  by (auto simp: object_store_vars_def options_ok_def distinct_map comp_def inj_on_def list_all_iff
       split: option.splits)

end
