(* ===== verification/Composed_Runtime.thy ===== *)
theory Composed_Runtime
  imports Pod_Parts
begin

text \<open>
  \<open>composedRuntimeConfig\<close> of \<open>internal/controller/pod_common.go\<close>: the init containers, the overrides
  of the main container, the environment, the volumes and the mounts of the composed runtime. The
  function is translated as it is written, with the conditional appends as shadowing bindings; the
  lemmas read off each component and show that the release is delivered by exactly one of the image
  volume and the init container, and that all mounts, the init containers' included, are declared.
\<close>

definition setup_command :: string where
  "setup_command =
     ''printf '' @ [CHR 0x27] @ ''%s'' @ [CHR 0x27, CHR 0x20, CHR 0x22]
       @ ''$PYTHON_REQUIREMENTS_CONTENT'' @ [CHR 0x22] @ '' > '' @ requirementsPath"

definition composedRuntimeConfig ::
  "PolarsCluster \<Rightarrow>
     container list \<times> container \<times> env_var list \<times> volume list \<times> volume_mount list" where
  "composedRuntimeConfig c =
     (case spec_Runtime (cl_Spec c) of
        None \<Rightarrow> ([], zero_container, [], [], [])
      | Some rt \<Rightarrow>
        (let composed = rt_Composed rt;
             distRepository =
               (case crt_Dist composed of
                  Some dist \<Rightarrow>
                    if img_Repository dist \<noteq> [] then img_Repository dist else defaultDistRepository
                | None \<Rightarrow> defaultDistRepository);
             distPullPolicy =
               (case crt_Dist composed of
                  Some dist \<Rightarrow> if img_PullPolicy dist \<noteq> [] then img_PullPolicy dist else []
                | None \<Rightarrow> []);
             runtimeRepository =
               (case crt_Runtime composed of
                  Some r \<Rightarrow>
                    if img_Repository r \<noteq> [] then img_Repository r else defaultRuntimeRepository
                | None \<Rightarrow> defaultRuntimeRepository);
             runtimeTag =
               (case crt_Runtime composed of
                  Some r \<Rightarrow> if img_Tag r \<noteq> [] then img_Tag r else defaultRuntimeTag
                | None \<Rightarrow> defaultRuntimeTag);
             runtimePullPolicy =
               (case crt_Runtime composed of Some r \<Rightarrow> img_PullPolicy r | None \<Rightarrow> []);
             extras =
               (if crt_PolarsExtras composed = [] then defaultPolarsExtras
                else crt_PolarsExtras composed);
             distImage = distRepository @ '':'' @ distTag c;
             runtimeImage = runtimeRepository @ '':'' @ runtimeTag;
             container =
               zero_container\<lparr>c_Image := runtimeImage, c_ImagePullPolicy := runtimePullPolicy,
                 c_Command := [releaseDataMountPath @ ''/setup.sh''],
                 c_Args := [releaseDataMountPath @ ''/bin/pc-cublet'', ''service''],
                 c_WorkingDir := ''/tmp''\<rparr>;
             env =
               [plain_var ''POLARS_EXTRAS'' extras,
                plain_var ''POLARS_WHL_DIR'' (releaseDataMountPath @ ''/whl''),
                plain_var ''UV_PATH'' (releaseDataMountPath @ ''/bin/uv'')];
             releaseMount = mount releaseDataVolumeName releaseDataMountPath;
             (release, releaseMount, initContainers) =
               (if (case crt_ImageVolume composed of Some iv \<Rightarrow> iv_Enabled iv | None \<Rightarrow> False) then
                  (\<lparr>v_Name = releaseDataVolumeName, v_Source = ImageSource distImage distPullPolicy\<rparr>,
                   releaseMount\<lparr>vm_SubPath := releaseDataImageSubPath, vm_ReadOnly := True\<rparr>,
                   [])
                else
                  (emptyDirVolume releaseDataVolumeName,
                   releaseMount,
                   [zero_container\<lparr>c_Name := ''release'', c_Image := distImage,
                      c_ImagePullPolicy := distPullPolicy, c_Command := [''/bin/cp''],
                      c_Args := [''-a'', ''/opt/.'', releaseDataMountPath],
                      c_VolumeMounts := [releaseMount]\<rparr>]));
             volumes = [emptyDirVolume tmpDataVolumeName, release];
             mounts = [mount tmpDataVolumeName ''/tmp'', releaseMount]
         in if crt_Requirements composed \<noteq> [] then
              (initContainers @
                 [zero_container\<lparr>c_Name := ''requirements'', c_Image := runtimeImage,
                    c_ImagePullPolicy := runtimePullPolicy,
                    c_Command := [''/bin/sh'', ''-c'', setup_command],
                    c_Env := [plain_var ''PYTHON_REQUIREMENTS_CONTENT'' (crt_Requirements composed)],
                    c_VolumeMounts := [mount requirementsVolumeName requirementsMountPath]\<rparr>],
               container,
               env @ [plain_var ''PYTHON_REQUIREMENTS'' requirementsPath],
               volumes @ [emptyDirVolume requirementsVolumeName],
               mounts @ [mount requirementsVolumeName requirementsMountPath])
            else (initContainers, container, env, volumes, mounts)))"

section \<open>Projections\<close>

definition rc_init :: "PolarsCluster \<Rightarrow> container list" where
  "rc_init c = (case composedRuntimeConfig c of (i, k, e, v, m) \<Rightarrow> i)"

definition rc_container :: "PolarsCluster \<Rightarrow> container" where
  "rc_container c = (case composedRuntimeConfig c of (i, k, e, v, m) \<Rightarrow> k)"

definition rc_env :: "PolarsCluster \<Rightarrow> env_var list" where
  "rc_env c = (case composedRuntimeConfig c of (i, k, e, v, m) \<Rightarrow> e)"

definition rc_volumes :: "PolarsCluster \<Rightarrow> volume_config" where
  "rc_volumes c = (case composedRuntimeConfig c of (i, k, e, v, m) \<Rightarrow> (v, m))"

lemma composedRuntimeConfig_parts:
  "composedRuntimeConfig c = (rc_init c, rc_container c, rc_env c, fst (rc_volumes c), snd (rc_volumes c))"
  by (simp add: rc_init_def rc_container_def rc_env_def rc_volumes_def split: prod.splits)

lemmas rc_defs = rc_init_def rc_container_def rc_env_def rc_volumes_def composedRuntimeConfig_def

lemma rc_none:
  assumes "spec_Runtime (cl_Spec c) = None"
  shows "rc_init c = []" "rc_container c = zero_container" "rc_env c = []" "rc_volumes c = ([], [])"
  using assms by (simp_all add: rc_defs)

definition image_volume_enabled :: "RuntimeSpec \<Rightarrow> bool" where
  "image_volume_enabled rt =
     (case crt_ImageVolume (rt_Composed rt) of Some iv \<Rightarrow> iv_Enabled iv | None \<Rightarrow> False)"

lemma rc_init_names:
  assumes "spec_Runtime (cl_Spec c) = Some rt"
  shows "map c_Name (rc_init c) =
     (if image_volume_enabled rt then [] else [''release'']) @
     (if crt_Requirements (rt_Composed rt) \<noteq> [] then [''requirements''] else [])"
  using assms by (simp add: rc_defs image_volume_enabled_def Let_def)

lemma rc_env_names:
  "map ev_Name (rc_env c) =
     (case spec_Runtime (cl_Spec c) of
        None \<Rightarrow> []
      | Some rt \<Rightarrow>
          [''POLARS_EXTRAS'', ''POLARS_WHL_DIR'', ''UV_PATH''] @
          (if crt_Requirements (rt_Composed rt) \<noteq> [] then [''PYTHON_REQUIREMENTS''] else []))"
  by (simp add: rc_defs Let_def split: option.splits)

lemma rc_container_fixed:
  "c_Name (rc_container c) = []" "c_Env (rc_container c) = []" "c_Ports (rc_container c) = []"
  "c_VolumeMounts (rc_container c) = []" "c_ReadinessProbe (rc_container c) = None"
  "c_Requests (rc_container c) = Map.empty"
  by (simp_all add: rc_defs zero_container_def Let_def split: option.splits)

lemma rc_container_image:
  assumes "spec_Runtime (cl_Spec c) = Some rt"
  shows "c_Image (rc_container c) \<noteq> []" "c_Command (rc_container c) = [''/emptydir/setup.sh'']"
    "c_Args (rc_container c) = [''/emptydir/bin/pc-cublet'', ''service'']"
  using assms by (simp_all add: rc_defs Let_def releaseDataMountPath_def)

text \<open>The release volume: an image volume without an init container, or an emptyDir one fills.\<close>

lemma rc_release_init:
  assumes "spec_Runtime (cl_Spec c) = Some rt"
  shows "''release'' \<in> c_Name ` set (rc_init c) \<longleftrightarrow> \<not> image_volume_enabled rt"
proof -
  have "c_Name ` set (rc_init c) = set (map c_Name (rc_init c))" by simp
  also have "''release'' \<in> \<dots> \<longleftrightarrow> \<not> image_volume_enabled rt"
    unfolding rc_init_names [OF assms] by simp
  finally show ?thesis .
qed

lemma rc_release_volume:
  assumes "spec_Runtime (cl_Spec c) = Some rt"
  shows "emptyDirVolume releaseDataVolumeName \<in> set (fst (rc_volumes c)) \<longleftrightarrow> \<not> image_volume_enabled rt"
  using assms
  by (simp add: rc_defs Let_def image_volume_enabled_def emptyDirVolume_def volume_name_defs)

lemma rc_volume_names:
  "map v_Name (fst (rc_volumes c)) =
     (case spec_Runtime (cl_Spec c) of
        None \<Rightarrow> []
      | Some rt \<Rightarrow> [tmpDataVolumeName, releaseDataVolumeName] @
          (if crt_Requirements (rt_Composed rt) \<noteq> [] then [requirementsVolumeName] else []))"
  by (simp add: rc_defs Let_def split: option.splits)

lemma rc_mount_names:
  "map vm_Name (snd (rc_volumes c)) =
     (case spec_Runtime (cl_Spec c) of
        None \<Rightarrow> []
      | Some rt \<Rightarrow> [tmpDataVolumeName, releaseDataVolumeName] @
          (if crt_Requirements (rt_Composed rt) \<noteq> [] then [requirementsVolumeName] else []))"
  by (simp add: rc_defs Let_def split: option.splits)

lemma rc_mount_paths:
  "map vm_MountPath (snd (rc_volumes c)) =
     (case spec_Runtime (cl_Spec c) of
        None \<Rightarrow> []
      | Some rt \<Rightarrow> [''/tmp'', releaseDataMountPath] @
          (if crt_Requirements (rt_Composed rt) \<noteq> [] then [requirementsMountPath] else []))"
  by (simp add: rc_defs Let_def split: option.splits)

interpretation runtime_volumes: volume_provider rc_volumes
  "{tmpDataVolumeName, releaseDataVolumeName, requirementsVolumeName}"
  "{''/tmp'', releaseDataMountPath, requirementsMountPath}"
  by (rule volume_providerI [OF rc_volume_names rc_mount_names rc_mount_paths])
     (auto simp: volume_name_defs mount_path_defs split: option.splits)

lemma rc_init_mount_names:
  "map (\<lambda>k. map vm_Name (c_VolumeMounts k)) (rc_init c) =
     (case spec_Runtime (cl_Spec c) of
        None \<Rightarrow> []
      | Some rt \<Rightarrow>
          (if image_volume_enabled rt then [] else [[releaseDataVolumeName]]) @
          (if crt_Requirements (rt_Composed rt) \<noteq> [] then [[requirementsVolumeName]] else []))"
  by (simp add: rc_defs image_volume_enabled_def zero_container_def Let_def split: option.splits)

lemma rc_init_declared:
  assumes "k \<in> set (rc_init c)"
  shows "mounts_declared (c_VolumeMounts k) (fst (rc_volumes c))"
proof -
  have "map vm_Name (c_VolumeMounts k) \<in> set (map (\<lambda>k. map vm_Name (c_VolumeMounts k)) (rc_init c))"
    using assms by auto
  then have "set (map vm_Name (c_VolumeMounts k)) \<subseteq> set (map v_Name (fst (rc_volumes c)))"
    unfolding rc_init_mount_names rc_volume_names by (auto split: option.splits if_splits)
  then show ?thesis by (auto simp: mounts_declared_def list_all_iff)
qed

end
