(* ===== verification/Service_Accounts.thy ===== *)
theory Service_Accounts
  imports Pod_Common
begin

text \<open>
  The name resolution of \<open>internal/controller/serviceaccount.go\<close>: which ServiceAccount a component's
  pods run as. Its reconciliation is in \<open>Reconcile_Accounts\<close>. The default names of the two
  components interpret the naming locales of \<open>Pod_Common\<close>.
\<close>

definition defaultServiceAccountName :: string where
  "defaultServiceAccountName = ''default''"

definition schedulerServiceAccountSpec :: "PolarsCluster \<Rightarrow> ServiceAccountSpec option" where
  "schedulerServiceAccountSpec c =
     (case spec_Scheduler (cl_Spec c) of Some s \<Rightarrow> sch_ServiceAccount s | None \<Rightarrow> None)"

definition workerServiceAccountSpec :: "PolarsCluster \<Rightarrow> ServiceAccountSpec option" where
  "workerServiceAccountSpec c = wp_ServiceAccount (spec_WorkerPool (cl_Spec c))"

definition schedulerServiceAccountName :: "PolarsCluster \<Rightarrow> string" where
  "schedulerServiceAccountName c = cl_Name c @ ''-scheduler''"

definition workerServiceAccountName :: "PolarsCluster \<Rightarrow> string" where
  "workerServiceAccountName c = cl_Name c @ ''-worker''"

definition resolveServiceAccountName :: "ServiceAccountSpec option \<Rightarrow> string \<Rightarrow> string" where
  "resolveServiceAccountName spec defaultName =
     (case spec of
        None \<Rightarrow> defaultServiceAccountName
      | Some s \<Rightarrow>
          if sas_Name s \<noteq> [] then sas_Name s
          else if sas_Create s then defaultName
          else defaultServiceAccountName)"

interpretation sched_account_name: object_name schedulerServiceAccountName "''-scheduler''"
  by unfold_locales (simp_all add: schedulerServiceAccountName_def)

interpretation worker_account_name: object_name workerServiceAccountName "''-worker''"
  by unfold_locales (simp_all add: workerServiceAccountName_def)

interpretation account_names: object_names
  schedulerServiceAccountName "''-scheduler''" workerServiceAccountName "''-worker''"
  by unfold_locales (simp_all add: suffix_def Cons_eq_append_conv)

lemma resolve_nonempty:
  "defaultName \<noteq> [] \<Longrightarrow> resolveServiceAccountName spec defaultName \<noteq> []"
  by (simp add: resolveServiceAccountName_def defaultServiceAccountName_def split: option.splits)

text \<open>The operator never manages the namespace's default account unless it is named outright.\<close>

lemma resolve_created_default:
  assumes "spec = Some s" and "sas_Create s" and "defaultName \<noteq> defaultServiceAccountName"
  shows "resolveServiceAccountName spec defaultName = defaultServiceAccountName
           \<longleftrightarrow> sas_Name s = defaultServiceAccountName"
  using assms by (auto simp: resolveServiceAccountName_def defaultServiceAccountName_def)

lemma default_name_apart:
  "schedulerServiceAccountName c \<noteq> defaultServiceAccountName"
  "workerServiceAccountName c \<noteq> defaultServiceAccountName"
  unfolding schedulerServiceAccountName_def workerServiceAccountName_def defaultServiceAccountName_def
  by (rule append_last_clash [where ys = "''''", simplified]; simp)+

end
