(* ===== verification/Scheduler_Pod.thy ===== *)
theory Scheduler_Pod
  imports Pod_Template Service_Accounts
begin

text \<open>
  \<open>internal/controller/scheduler_pod.go\<close>: the scheduler pod's environment, volumes, container and
  the pod built from them. The functions that write through an environment builder are translated
  as they are written, over the heap of slices; \<open>scheduler_env\<close> is the reference list of variables,
  with every name spelled out, and \<open>computed_scheduler_env\<close> shows that the builder computes it. The
  license function and the anonymous results function interpret the writer and volume contracts.
\<close>

section \<open>Constants\<close>

definition licenseDataVolumeName :: string where "licenseDataVolumeName = ''license-data''"
definition licenseDataMountPath :: string where "licenseDataMountPath = ''/mnt/license_data''"
definition observatoryDataVolumeName :: string where
  "observatoryDataVolumeName = ''observatory-data''"
definition observatoryDataMountPath :: string where
  "observatoryDataMountPath = ''/app/observatory_data''"
definition fieldPathMetadataName :: string where "fieldPathMetadataName = ''metadata.name''"

section \<open>License\<close>

definition schedulerLicenseConfig ::
  "envBuilder \<Rightarrow> PolarsCluster \<Rightarrow> env_heap \<Rightarrow> volume_config \<times> env_heap" where
  "schedulerLicenseConfig cublet c h =
     (let licenseSpec = spec_License (cl_Spec c);
          license = Section cublet ''license''
      in (case lic_OnPrem licenseSpec of
            Some onPrem \<Rightarrow>
              (let onPremEnv = Section license ''on_prem'';
                   h = env_ValueOrSource onPremEnv ''client_id'' (lop_ClientID onPrem) h;
                   h = env_ValueOrSource onPremEnv ''client_secret'' (lop_ClientSecret onPrem) h;
                   h = env_ValueOrSource onPremEnv ''workspace_id'' (lop_WorkspaceID onPrem) h;
                   h = env_String onPremEnv ''cert_dir'' licenseDataMountPath h;
                   vol = (case lop_LicenseData onPrem of
                            None \<Rightarrow> emptyDirVolume licenseDataVolumeName
                          | Some ref \<Rightarrow> pvcRefVolume licenseDataVolumeName ref)
               in (([vol], [mount licenseDataVolumeName licenseDataMountPath]), h))
          | None \<Rightarrow>
              (case lic_OnPremEnterprise licenseSpec of
                 Some _ \<Rightarrow>
                   (let h = env_String (Section license ''on_prem_enterprise'') ''license_path''
                              enterpriseLicensePath h
                    in (enterpriseLicenseConfig c, h))
               | None \<Rightarrow>
                   (case lic_Cloud licenseSpec of
                      Some cloud \<Rightarrow>
                        (cloudLicenseConfig c, cloudLicenseEnv license (lcl_RegisterNode cloud) h)
                    | None \<Rightarrow> (([], []), h)))))"

definition scheduler_license_volumes :: "PolarsCluster \<Rightarrow> volume_config" where
  "scheduler_license_volumes c =
     (case lic_OnPrem (spec_License (cl_Spec c)) of
        Some onPrem \<Rightarrow>
          ([case lop_LicenseData onPrem of
              None \<Rightarrow> emptyDirVolume licenseDataVolumeName
            | Some ref \<Rightarrow> pvcRefVolume licenseDataVolumeName ref],
           [mount licenseDataVolumeName licenseDataMountPath])
      | None \<Rightarrow>
          if lic_OnPremEnterprise (spec_License (cl_Spec c)) \<noteq> None then enterpriseLicenseConfig c
          else cloudLicenseConfig c)"

definition scheduler_license_vars :: "string \<Rightarrow> PolarsCluster \<Rightarrow> env_var list" where
  "scheduler_license_vars p c =
     (let license = env_join p ''license'' in
      case lic_OnPrem (spec_License (cl_Spec c)) of
        Some onPrem \<Rightarrow>
          (let s = env_join license ''on_prem'' in
           [value_or_source s ''client_id'' (lop_ClientID onPrem),
            value_or_source s ''client_secret'' (lop_ClientSecret onPrem),
            value_or_source s ''workspace_id'' (lop_WorkspaceID onPrem),
            lit s ''cert_dir'' licenseDataMountPath])
      | None \<Rightarrow>
          (case lic_OnPremEnterprise (spec_License (cl_Spec c)) of
             Some _ \<Rightarrow> [lit (env_join license ''on_prem_enterprise'') ''license_path'' enterpriseLicensePath]
           | None \<Rightarrow>
               (case lic_Cloud (spec_License (cl_Spec c)) of
                  Some cloud \<Rightarrow> cloud_license_vars license (lcl_RegisterNode cloud)
                | None \<Rightarrow> [])))"

lemma schedulerLicenseConfig_eq [env_norm]:
  "schedulerLicenseConfig b c h =
     (scheduler_license_volumes c, emits (eb_vars b) (scheduler_license_vars (eb_prefix b) c) h)"
  by (simp add: schedulerLicenseConfig_def scheduler_license_volumes_def scheduler_license_vars_def
        Let_def env_norm w_cloud.write_emits cloudLicenseConfig_def split: option.splits)

interpretation w_sched_license: scoped_env_writer
  "\<lambda>b c h. snd (schedulerLicenseConfig b c h)" scheduler_license_vars
proof
  show "snd (schedulerLicenseConfig b c h) = emits (eb_vars b) (scheduler_license_vars (eb_prefix b) c) h"
    for b c h by (simp add: schedulerLicenseConfig_eq)
  show "e \<in> set (scheduler_license_vars p c) \<Longrightarrow> under_prefix p (ev_Name e)" for e p c
    by (auto simp: scheduler_license_vars_def Let_def env_join_assoc split: option.splits
          dest!: w_cloud.vars_under intro: under_section [of "''license''"])
qed

interpretation sched_license_volumes: volume_provider scheduler_license_volumes
  "{licenseDataVolumeName, enterpriseLicenseVolume, cloudLicenseVolume}"
  "{licenseDataMountPath, enterpriseLicenseMountDir, cloudLicenseMountDir}"
  by unfold_locales
     (auto simp: scheduler_license_volumes_def enterpriseLicenseConfig_def cloudLicenseConfig_def
        pvcRefVolume_def split: option.splits)

section \<open>Observatory\<close>

definition observatoryDataVolume :: "PolarsCluster \<Rightarrow> volume" where
  "observatoryDataVolume c =
     (case spec_Observatory (cl_Spec c) of
        Some obs \<Rightarrow>
          (case obs_PersistentVolumeClaim obs of
             Some ref \<Rightarrow> pvcRefVolume observatoryDataVolumeName ref
           | None \<Rightarrow> emptyDirVolume observatoryDataVolumeName)
      | None \<Rightarrow> emptyDirVolume observatoryDataVolumeName)"

definition observatoryMaxMetricsBytes :: "PolarsCluster \<Rightarrow> int64" where
  "observatoryMaxMetricsBytes c =
     (case spec_Observatory (cl_Spec c) of
        Some obs \<Rightarrow>
          if obs_MaxMetricsBytesTotal obs \<noteq> 0 then obs_MaxMetricsBytesTotal obs
          else defaultMetricsBytesTotal
      | None \<Rightarrow> defaultMetricsBytesTotal)"

lemma v_Name_observatoryDataVolume [simp]:
  "v_Name (observatoryDataVolume c) = observatoryDataVolumeName"
  by (simp add: observatoryDataVolume_def pvcRefVolume_def split: option.splits)

lemma observatoryMaxMetricsBytes_nonzero: "observatoryMaxMetricsBytes c \<noteq> 0"
  by (simp add: observatoryMaxMetricsBytes_def defaultMetricsBytesTotal_def split: option.splits)

section \<open>Anonymous results\<close>

definition computedAnonymousResultsEnv ::
  "envBuilder \<Rightarrow> AnonymousResultsSpec option \<Rightarrow> env_heap \<Rightarrow> env_heap" where
  "computedAnonymousResultsEnv b anonymousResults h =
     (case anonymousResults of
        None \<Rightarrow> h
      | Some a \<Rightarrow>
          (case ar_S3 a of
             Some s \<Rightarrow>
               (let s3 = Section b ''s3'';
                    h = env_String s3 ''url'' (ars3_Endpoint s) h;
                    h = (case ars3_PresignDuration s of
                           None \<Rightarrow> h | Some d \<Rightarrow> env_Duration s3 ''presign_duration'' d h)
                in env_Options s3 (ars3_Options s) h)
           | None \<Rightarrow>
          (case ar_ABS a of
             Some s \<Rightarrow>
               (let abs = Section b ''abs'';
                    h = env_String abs ''url'' (arabs_EndpointURL s) h;
                    h = (case arabs_PresignDuration s of
                           None \<Rightarrow> h | Some d \<Rightarrow> env_Duration abs ''presign_duration'' d h)
                in env_Options abs (arabs_Options s) h)
           | None \<Rightarrow>
          (case ar_GCS a of
             Some s \<Rightarrow>
               (let gcs = Section b ''gcs'';
                    h = env_String gcs ''url'' (argcs_EndpointURL s) h;
                    h = (case argcs_PresignDuration s of
                           None \<Rightarrow> h | Some d \<Rightarrow> env_Duration gcs ''presign_duration'' d h)
                in env_Options gcs (argcs_Options s) h)
           | None \<Rightarrow>
          (case ar_SharedFilesystem a of
             Some s \<Rightarrow> env_String (Section b ''local'') ''path'' (sfs_Path s) h
           | None \<Rightarrow> h)))))"

definition anonymous_results_vars :: "string \<Rightarrow> AnonymousResultsSpec option \<Rightarrow> env_var list" where
  "anonymous_results_vars p anonymousResults =
     (case anonymousResults of
        None \<Rightarrow> []
      | Some a \<Rightarrow>
          (case ar_S3 a of
             Some s \<Rightarrow> object_store_vars (env_join p ''s3'') (ars3_Endpoint s) (ars3_PresignDuration s)
                         (ars3_Options s)
           | None \<Rightarrow>
          (case ar_ABS a of
             Some s \<Rightarrow> object_store_vars (env_join p ''abs'') (arabs_EndpointURL s)
                         (arabs_PresignDuration s) (arabs_Options s)
           | None \<Rightarrow>
          (case ar_GCS a of
             Some s \<Rightarrow> object_store_vars (env_join p ''gcs'') (argcs_EndpointURL s)
                         (argcs_PresignDuration s) (argcs_Options s)
           | None \<Rightarrow>
          (case ar_SharedFilesystem a of
             Some s \<Rightarrow> [lit (env_join p ''local'') ''path'' (sfs_Path s)]
           | None \<Rightarrow> [])))))"

interpretation w_anonymous: scoped_env_writer computedAnonymousResultsEnv anonymous_results_vars
proof
  show "computedAnonymousResultsEnv b a h = emits (eb_vars b) (anonymous_results_vars (eb_prefix b) a) h"
    for b a h
    by (simp add: computedAnonymousResultsEnv_def anonymous_results_vars_def object_store_vars_def
          Let_def env_norm split: option.splits)
  show "e \<in> set (anonymous_results_vars p a) \<Longrightarrow> under_prefix p (ev_Name e)" for e p a
    by (auto simp: anonymous_results_vars_def env_join_assoc split: option.splits
          dest!: object_store_vars_under
          intro: under_section [of "''s3''"] under_section [of "''abs''"] under_section [of "''gcs''"])
qed

section \<open>The computed pod spec\<close>

definition computedSchedulerPodSpec :: "PolarsCluster \<Rightarrow> string \<Rightarrow> bool \<Rightarrow> pod_spec" where
  "computedSchedulerPodSpec c containerName injectProbe =
     (let spec = cl_Spec c;
          (b, h) = newEnvBuilder [];
          h = env_String b ''RUST_BACKTRACE'' ''full'' h;
          cublet = Section b ''PC_CUBLET'';
          scheduler = Section cublet ''scheduler'';
          staticLeader = Section cublet ''static_leader'';
          observatory = Section cublet ''observatory'';
          h = env_Bool scheduler ''enabled'' True h;
          h = env_String cublet ''cluster_id'' (resolveClusterID c) h;
          h = env_FieldRef cublet ''instance_id'' fieldPathMetadataName h;
          h = env_FieldRef staticLeader ''leader_instance_id'' fieldPathMetadataName h;
          h = env_String staticLeader ''scheduler_service__public_addr__ip'' ''127.0.0.1'' h;
          h = env_String staticLeader ''scheduler_service__public_addr__port'' ''5050'' h;
          h = env_String staticLeader ''observatory_service__public_addr__ip'' ''127.0.0.1'' h;
          h = env_String staticLeader ''observatory_service__public_addr__port'' ''5049'' h;
          h = env_Bool observatory ''enabled'' True h;
          h = env_Int observatory ''max_metrics_bytes_total'' (observatoryMaxMetricsBytes c) h;
          h = env_String observatory ''database_path'' (observatoryDataMountPath @ ''/observatory.db'') h;
          h = env_String observatory ''cluster_mode'' ''kubernetes'' h;
          h = env_Bool (Section observatory ''rest_api'') ''enabled'' True h;
          monitoring = Section cublet ''monitoring'';
          h = env_Bool monitoring ''enabled'' True h;
          h = (if hostMetricsDisabled c
               then env_Bool (Section monitoring ''host_metrics'') ''enabled'' False h else h);
          h = env_Bool scheduler ''allow_local_sinks'' (spec_AllowLocalSinks spec) h;
          h = env_Bool scheduler ''allow_local_scans'' (spec_AllowLocalScans spec) h;
          h = env_Bool scheduler ''deny_anonymous_users'' (\<not> spec_AllowAnonymousUsers spec) h;
          h = env_String b ''OTEL_SERVICE_NAME'' (schedulerServiceName c) h;
          h = (if spec_AcceptEula spec then env_String b ''POLARS_EULA_ACCEPTED'' ''yes'' h else h);
          ((licenseVolumes, licenseMounts), h) = schedulerLicenseConfig cublet c h;
          volumes = [observatoryDataVolume c] @ licenseVolumes;
          volumeMounts = [mount observatoryDataVolumeName observatoryDataMountPath] @ licenseMounts;
          h = env_Int scheduler ''n_workers'' (scast (wp_Replicas (spec_WorkerPool spec))) h;
          h = computedAnonymousResultsEnv (Section scheduler ''anonymous_result_location'')
                (spec_AnonymousResults spec) h;
          h = (case spec_Checkpoint spec of
                 None \<Rightarrow> h
               | Some ck \<Rightarrow>
                   (let checkpoint = Section scheduler ''checkpoint'';
                        h = env_Bool checkpoint ''enabled'' True h
                    in env_String checkpoint ''period'' (checkpointPeriod ck) h));
          h = (case spec_Lineage spec of
                 None \<Rightarrow> h
               | Some lin \<Rightarrow>
                   (let lineage = Section cublet ''lineage'';
                        h = env_Bool lineage ''enabled'' True h
                    in (case lt_HTTP (lin_Transport lin) of
                          None \<Rightarrow> h
                        | Some http \<Rightarrow>
                            env_String lineage ''transport__http__endpoint'' (lth_Endpoint http) h)));
          h = (case spec_Telemetry spec of
                 None \<Rightarrow> h
               | Some t \<Rightarrow> env_ValueOrSource b ''OTLP_ENDPOINT'' (tel_OTLPEndpoint t) h);
          h = env_String b ''PLC_LOG_LEVEL'' (resolveLogLevel c) h;
          (initContainers, runtimeContainer, runtimeEnv, runtimeVolumes, runtimeMounts) =
            composedRuntimeConfig c;
          env = Vars b h @ runtimeEnv;
          volumes = volumes @ runtimeVolumes;
          volumeMounts = volumeMounts @ runtimeMounts;
          container = runtimeContainer\<lparr>c_Name := containerName,
            c_Ports :=
              [\<lparr>cp_Name = ''sched'', cp_ContainerPort = schedulerPort, cp_Protocol = ProtocolTCP\<rparr>,
               \<lparr>cp_Name = ''worker-sched'', cp_ContainerPort = 5050, cp_Protocol = ProtocolTCP\<rparr>,
               \<lparr>cp_Name = ''obser-grpc'', cp_ContainerPort = 5049, cp_Protocol = ProtocolTCP\<rparr>,
               \<lparr>cp_Name = ''obser-rest'', cp_ContainerPort = observatoryRESTPort,
                cp_Protocol = ProtocolTCP\<rparr>],
            c_Env := env, c_VolumeMounts := volumeMounts\<rparr>;
          container = (if injectProbe
                       then container\<lparr>c_ReadinessProbe :=
                              Some (defaultSchedulerReadinessProbe schedulerPort)\<rparr>
                       else container)
      in zero_pod_spec\<lparr>ps_ImagePullSecrets := spec_ImagePullSecrets spec,
           ps_InitContainers := initContainers, ps_Containers := [container],
           ps_Volumes := volumes\<rparr>)"

text \<open>The same environment as a list, every name in full.\<close>

definition scheduler_env_head :: "PolarsCluster \<Rightarrow> env_var list" where
  "scheduler_env_head c =
     [plain_var ''RUST_BACKTRACE'' ''full'',
      plain_var ''PC_CUBLET__scheduler__enabled'' ''true'',
      plain_var ''PC_CUBLET__cluster_id'' (resolveClusterID c),
      field_var ''PC_CUBLET__instance_id'' ''metadata.name'',
      field_var ''PC_CUBLET__static_leader__leader_instance_id'' ''metadata.name'',
      plain_var ''PC_CUBLET__static_leader__scheduler_service__public_addr__ip'' ''127.0.0.1'',
      plain_var ''PC_CUBLET__static_leader__scheduler_service__public_addr__port'' ''5050'',
      plain_var ''PC_CUBLET__static_leader__observatory_service__public_addr__ip'' ''127.0.0.1'',
      plain_var ''PC_CUBLET__static_leader__observatory_service__public_addr__port'' ''5049'',
      plain_var ''PC_CUBLET__observatory__enabled'' ''true'',
      plain_var ''PC_CUBLET__observatory__max_metrics_bytes_total''
        (FormatInt (sint (observatoryMaxMetricsBytes c))),
      plain_var ''PC_CUBLET__observatory__database_path'' ''/app/observatory_data/observatory.db'',
      plain_var ''PC_CUBLET__observatory__cluster_mode'' ''kubernetes'',
      plain_var ''PC_CUBLET__observatory__rest_api__enabled'' ''true'',
      plain_var ''PC_CUBLET__monitoring__enabled'' ''true''] @
     (if hostMetricsDisabled c
      then [plain_var ''PC_CUBLET__monitoring__host_metrics__enabled'' ''false''] else []) @
     [plain_var ''PC_CUBLET__scheduler__allow_local_sinks''
        (FormatBool (spec_AllowLocalSinks (cl_Spec c))),
      plain_var ''PC_CUBLET__scheduler__allow_local_scans''
        (FormatBool (spec_AllowLocalScans (cl_Spec c))),
      plain_var ''PC_CUBLET__scheduler__deny_anonymous_users''
        (FormatBool (\<not> spec_AllowAnonymousUsers (cl_Spec c))),
      plain_var ''OTEL_SERVICE_NAME'' (cl_Name c @ ''-scheduler'')] @
     (if spec_AcceptEula (cl_Spec c) then [plain_var ''POLARS_EULA_ACCEPTED'' ''yes''] else [])"

definition scheduler_env_tail :: "PolarsCluster \<Rightarrow> env_var list" where
  "scheduler_env_tail c =
     (case spec_Checkpoint (cl_Spec c) of
        None \<Rightarrow> []
      | Some ck \<Rightarrow>
          [plain_var ''PC_CUBLET__scheduler__checkpoint__enabled'' ''true'',
           plain_var ''PC_CUBLET__scheduler__checkpoint__period'' (checkpointPeriod ck)]) @
     (case spec_Lineage (cl_Spec c) of
        None \<Rightarrow> []
      | Some lin \<Rightarrow>
          plain_var ''PC_CUBLET__lineage__enabled'' ''true'' #
          (case lt_HTTP (lin_Transport lin) of
             None \<Rightarrow> []
           | Some http \<Rightarrow>
               [plain_var ''PC_CUBLET__lineage__transport__http__endpoint'' (lth_Endpoint http)])) @
     (case spec_Telemetry (cl_Spec c) of
        None \<Rightarrow> []
      | Some t \<Rightarrow> [value_or_source [] ''OTLP_ENDPOINT'' (tel_OTLPEndpoint t)]) @
     [plain_var ''PLC_LOG_LEVEL'' (resolveLogLevel c)]"

definition scheduler_env :: "PolarsCluster \<Rightarrow> env_var list" where
  "scheduler_env c =
     scheduler_env_head c @
     scheduler_license_vars ''PC_CUBLET'' c @
     [plain_var ''PC_CUBLET__scheduler__n_workers''
        (FormatInt (sint (wp_Replicas (spec_WorkerPool (cl_Spec c)))))] @
     anonymous_results_vars ''PC_CUBLET__scheduler__anonymous_result_location''
       (spec_AnonymousResults (cl_Spec c)) @
     scheduler_env_tail c"

section \<open>The builder computes the reference environment\<close>

definition observatory_volumes :: "PolarsCluster \<Rightarrow> volume_config" where
  "observatory_volumes c =
     ([observatoryDataVolume c], [mount observatoryDataVolumeName observatoryDataMountPath])"

definition scheduler_ports :: "container_port list" where
  "scheduler_ports =
     [\<lparr>cp_Name = ''sched'', cp_ContainerPort = 5051, cp_Protocol = ''TCP''\<rparr>,
      \<lparr>cp_Name = ''worker-sched'', cp_ContainerPort = 5050, cp_Protocol = ''TCP''\<rparr>,
      \<lparr>cp_Name = ''obser-grpc'', cp_ContainerPort = 5049, cp_Protocol = ''TCP''\<rparr>,
      \<lparr>cp_Name = ''obser-rest'', cp_ContainerPort = 3001, cp_Protocol = ''TCP''\<rparr>]"

definition scheduler_volumes :: "PolarsCluster \<Rightarrow> volume_config" where
  "scheduler_volumes = beside (beside observatory_volumes scheduler_license_volumes) rc_volumes"

definition scheduler_container :: "PolarsCluster \<Rightarrow> string \<Rightarrow> bool \<Rightarrow> container" where
  "scheduler_container c n ip =
     (rc_container c)\<lparr>c_Name := n, c_Ports := scheduler_ports, c_Env := scheduler_env c @ rc_env c,
        c_VolumeMounts := snd (scheduler_volumes c),
        c_ReadinessProbe := if ip then Some (defaultSchedulerReadinessProbe 5051) else None\<rparr>"

lemma computed_scheduler_spec:
  "computedSchedulerPodSpec c n ip =
     zero_pod_spec\<lparr>ps_ImagePullSecrets := spec_ImagePullSecrets (cl_Spec c),
       ps_InitContainers := rc_init c, ps_Containers := [scheduler_container c n ip],
       ps_Volumes := fst (scheduler_volumes c)\<rparr>"
  apply (simp only: computedSchedulerPodSpec_def builder_start composedRuntimeConfig_parts)
  apply (simp only: env_norm w_anonymous.write_emits envBuilder.simps Let_def [of "Section _ _"])
  apply (simp only: builder_run)
  apply (simp only: scheduler_env_def scheduler_env_head_def scheduler_env_tail_def builder_names
      fieldPathMetadataName_def schedulerServiceName_def observatoryDataMountPath_def beside_def
      observatory_volumes_def scheduler_volumes_def scheduler_ports_def scheduler_container_def
      fst_conv snd_conv schedulerPort_def observatoryRESTPort_def ProtocolTCP_def)
  apply (simp add: rc_container_fixed)
  done

lemmas computed_scheduler_parts [simp] =
  computed_scheduler_spec [THEN arg_cong [where f = ps_Containers], simplified]
  computed_scheduler_spec [THEN arg_cong [where f = ps_InitContainers], simplified]
  computed_scheduler_spec [THEN arg_cong [where f = ps_Volumes], simplified]
  computed_scheduler_spec [THEN arg_cong [where f = ps_ImagePullSecrets], simplified]

interpretation observatory_provider: volume_provider observatory_volumes
  "{observatoryDataVolumeName}" "{observatoryDataMountPath}"
  by unfold_locales (simp_all add: observatory_volumes_def)

lemmas scheduler_path_defs =
  volume_name_defs mount_path_defs licenseDataVolumeName_def licenseDataMountPath_def
  observatoryDataVolumeName_def observatoryDataMountPath_def

interpretation scheduler_own_volumes: volume_providers
  observatory_volumes "{observatoryDataVolumeName}" "{observatoryDataMountPath}"
  scheduler_license_volumes
  "{licenseDataVolumeName, enterpriseLicenseVolume, cloudLicenseVolume}"
  "{licenseDataMountPath, enterpriseLicenseMountDir, cloudLicenseMountDir}"
  by unfold_locales (simp_all add: scheduler_path_defs)

interpretation scheduler_all_volumes: volume_providers
  "beside observatory_volumes scheduler_license_volumes"
  "{observatoryDataVolumeName} \<union> {licenseDataVolumeName, enterpriseLicenseVolume, cloudLicenseVolume}"
  "{observatoryDataMountPath} \<union> {licenseDataMountPath, enterpriseLicenseMountDir, cloudLicenseMountDir}"
  rc_volumes
  "{tmpDataVolumeName, releaseDataVolumeName, requirementsVolumeName}"
  "{''/tmp'', releaseDataMountPath, requirementsMountPath}"
  by unfold_locales (simp_all add: scheduler_path_defs)

section \<open>No variable is defined twice\<close>

text \<open>
  The names the operator fixes are distinct and lie outside the two prefixes under which it writes
  license settings and the user's storage options.
\<close>

definition scheduler_fixed_names :: "string list" where
  "scheduler_fixed_names =
     [''RUST_BACKTRACE'', ''PC_CUBLET__scheduler__enabled'', ''PC_CUBLET__cluster_id'',
      ''PC_CUBLET__instance_id'', ''PC_CUBLET__static_leader__leader_instance_id'',
      ''PC_CUBLET__static_leader__scheduler_service__public_addr__ip'',
      ''PC_CUBLET__static_leader__scheduler_service__public_addr__port'',
      ''PC_CUBLET__static_leader__observatory_service__public_addr__ip'',
      ''PC_CUBLET__static_leader__observatory_service__public_addr__port'',
      ''PC_CUBLET__observatory__enabled'', ''PC_CUBLET__observatory__max_metrics_bytes_total'',
      ''PC_CUBLET__observatory__database_path'', ''PC_CUBLET__observatory__cluster_mode'',
      ''PC_CUBLET__observatory__rest_api__enabled'', ''PC_CUBLET__monitoring__enabled'',
      ''PC_CUBLET__monitoring__host_metrics__enabled'', ''PC_CUBLET__scheduler__allow_local_sinks'',
      ''PC_CUBLET__scheduler__allow_local_scans'', ''PC_CUBLET__scheduler__deny_anonymous_users'',
      ''OTEL_SERVICE_NAME'', ''POLARS_EULA_ACCEPTED'', ''PC_CUBLET__scheduler__n_workers'',
      ''PC_CUBLET__scheduler__checkpoint__enabled'', ''PC_CUBLET__scheduler__checkpoint__period'',
      ''PC_CUBLET__lineage__enabled'', ''PC_CUBLET__lineage__transport__http__endpoint'',
      ''OTLP_ENDPOINT'', ''PLC_LOG_LEVEL'',
      ''POLARS_EXTRAS'', ''POLARS_WHL_DIR'', ''UV_PATH'', ''PYTHON_REQUIREMENTS'']"

lemma distinct_scheduler_fixed: "distinct scheduler_fixed_names"
  by code_simp

lemma scheduler_fixed_apart:
  "list_all (\<lambda>n. \<not> under_prefix ''PC_CUBLET__license'' n \<and>
     \<not> under_prefix ''PC_CUBLET__scheduler__anonymous_result_location'' n) scheduler_fixed_names"
  by (simp add: scheduler_fixed_names_def under_prefix_take)

lemma scheduler_names_fixed:
  "subseq (map ev_Name (scheduler_env_head c @ [plain_var ''PC_CUBLET__scheduler__n_workers'' x]
     @ scheduler_env_tail c @ rc_env c)) scheduler_fixed_names"
proof -
  have split: "scheduler_fixed_names = take 21 scheduler_fixed_names @ [''PC_CUBLET__scheduler__n_workers''] @
     take 6 (drop 22 scheduler_fixed_names) @ drop 28 scheduler_fixed_names"
    by (simp add: scheduler_fixed_names_def)
  have "subseq (map ev_Name (scheduler_env_head c)) (take 21 scheduler_fixed_names)"
    by (simp add: scheduler_fixed_names_def scheduler_env_head_def)
  moreover have "subseq (map ev_Name (scheduler_env_tail c)) (take 6 (drop 22 scheduler_fixed_names))"
    by (simp add: scheduler_fixed_names_def scheduler_env_tail_def split: option.splits)
  moreover have "subseq (map ev_Name (rc_env c)) (drop 28 scheduler_fixed_names)"
    unfolding rc_env_names by (simp add: scheduler_fixed_names_def split: option.splits)
  ultimately show ?thesis
    by (subst split) (simp only: map_append list.map ev_Name_plain_var list_emb_append_mono subseq_order.order_refl)
qed

lemma scheduler_license_under:
  "e \<in> set (scheduler_license_vars p c) \<Longrightarrow> under_prefix (env_join p ''license'') (ev_Name e)"
  by (auto simp: scheduler_license_vars_def Let_def split: option.splits dest!: w_cloud.vars_under)

lemma distinct_scheduler_license: "distinct (map ev_Name (scheduler_license_vars p c))"
  by (simp add: scheduler_license_vars_def Let_def distinct_cloud_license split: option.splits)

definition anonymous_options :: "AnonymousResultsSpec \<Rightarrow> env_var list" where
  "anonymous_options a =
     (case ar_S3 a of Some s \<Rightarrow> ars3_Options s | None \<Rightarrow>
     (case ar_ABS a of Some s \<Rightarrow> arabs_Options s | None \<Rightarrow>
     (case ar_GCS a of Some s \<Rightarrow> argcs_Options s | None \<Rightarrow> [])))"

lemma distinct_anonymous_results:
  "(case a of None \<Rightarrow> True | Some x \<Rightarrow> options_ok (anonymous_options x)) \<Longrightarrow>
     distinct (map ev_Name (anonymous_results_vars p a))"
  by (auto simp: anonymous_results_vars_def anonymous_options_def distinct_object_store
        split: option.splits)

lemma distinct_scheduler_env:
  assumes "case spec_AnonymousResults (cl_Spec c) of None \<Rightarrow> True | Some x \<Rightarrow> options_ok (anonymous_options x)"
  shows "distinct (map ev_Name (scheduler_env c @ rc_env c))"
proof -
  let ?n = "plain_var ''PC_CUBLET__scheduler__n_workers''
        (FormatInt (sint (wp_Replicas (spec_WorkerPool (cl_Spec c)))))"
  let ?F = "map ev_Name (scheduler_env_head c @ [?n] @ scheduler_env_tail c @ rc_env c)"
  let ?L = "map ev_Name (scheduler_license_vars ''PC_CUBLET'' c)"
  let ?A = "map ev_Name (anonymous_results_vars ''PC_CUBLET__scheduler__anonymous_result_location''
        (spec_AnonymousResults (cl_Spec c)))"
  have sub: "set ?F \<subseteq> set scheduler_fixed_names" and F: "distinct ?F"
    using scheduler_names_fixed subseq_distinct [OF _ distinct_scheduler_fixed]
    by (blast dest: list_emb_set)+
  have L: "under_prefix ''PC_CUBLET__license'' n" if "n \<in> set ?L" for n
    using that by (auto dest!: scheduler_license_under simp: env_join_def)
  have A: "under_prefix ''PC_CUBLET__scheduler__anonymous_result_location'' n" if "n \<in> set ?A" for n
    using that by (auto dest!: w_anonymous.vars_under)
  have apart: "\<not> under_prefix ''PC_CUBLET__license'' n"
      "\<not> under_prefix ''PC_CUBLET__scheduler__anonymous_result_location'' n" if "n \<in> set ?F" for n
    using sub that scheduler_fixed_apart unfolding list_all_iff by blast+
  have "set ?F \<inter> set ?L = {}" "set ?F \<inter> set ?A = {}"
    using apart L A by blast+
  moreover have "set ?L \<inter> set ?A = {}"
  proof (rule equals0I)
    fix n assume "n \<in> set ?L \<inter> set ?A"
    then show False using under_prefix_clash [OF L A, of n] by simp
  qed
  ultimately show ?thesis
    using F distinct_scheduler_license [of "''PC_CUBLET''" c] distinct_anonymous_results [OF assms]
    unfolding scheduler_env_def map_append list.map append_Cons append_Nil
    by (intro distinct_shuffle)
qed

section \<open>The pod\<close>

definition schedulerPodTemplateBase :: "PolarsCluster \<Rightarrow> pod_template_spec" where
  "schedulerPodTemplateBase c =
     (case spec_Scheduler (cl_Spec c) of
        Some s \<Rightarrow> (case sch_PodTemplate s of Some t \<Rightarrow> t | None \<Rightarrow> zero_pod_template_spec)
      | None \<Rightarrow> zero_pod_template_spec)"

definition BuildSchedulerPodTemplate :: "pod_lib \<Rightarrow> PolarsCluster \<Rightarrow> pod result" where
  "BuildSchedulerPodTemplate pl c =
     (let base = schedulerPodTemplateBase c in
      case (case ps_Containers (pt_Spec base) of
              k # _ \<Rightarrow> Inr (c_Name k, c_ReadinessProbe k \<noteq> None)
            | [] \<Rightarrow>
                if spec_Runtime (cl_Spec c) = None then
                  Inl (specErrorf ''InvalidPodTemplate''
                    ''scheduler.podTemplate must include at least one container when no runtime is configured'')
                else Inr (componentScheduler, False)) of
        Inl e \<Rightarrow> Inl e
      | Inr (containerName, userProbe) \<Rightarrow>
          (case mergePodSpec pl (pt_Spec base)
                  (computedSchedulerPodSpec c containerName (\<not> userProbe)) of
             Inl err \<Rightarrow> Inl (specErrorf_w ''InvalidPodTemplate'' ''scheduler.podTemplate: '' err)
           | Inr mergedSpec \<Rightarrow>
               (let p = \<lparr>pod_Meta = pt_ObjectMeta base, pod_Spec = mergedSpec,
                         pod_Status = zero_pod_status\<rparr>;
                    p = applyPodLabels p c componentScheduler;
                    p = p\<lparr>pod_Meta := (pod_Meta p)\<lparr>om_Namespace := cl_Namespace c,
                                                    om_Name := schedulerPodName c\<rparr>\<rparr>;
                    p = p\<lparr>pod_Spec := (pod_Spec p)\<lparr>ps_ServiceAccountName :=
                           resolveServiceAccountName (schedulerServiceAccountSpec c)
                             (schedulerServiceAccountName c)\<rparr>\<rparr>
                in Inr p)))"

definition scheduler_buildable :: "PolarsCluster \<Rightarrow> bool" where
  "scheduler_buildable c =
     (ps_Containers (pt_Spec (schedulerPodTemplateBase c)) \<noteq> [] \<or> spec_Runtime (cl_Spec c) \<noteq> None)"

definition scheduler_patch :: "PolarsCluster \<Rightarrow> pod_spec" where
  "scheduler_patch c =
     (case ps_Containers (pt_Spec (schedulerPodTemplateBase c)) of
        k # _ \<Rightarrow> computedSchedulerPodSpec c (c_Name k) (c_ReadinessProbe k = None)
      | [] \<Rightarrow> computedSchedulerPodSpec c componentScheduler True)"

lemma BuildScheduler_not_buildable:
  "\<not> scheduler_buildable c \<Longrightarrow>
     BuildSchedulerPodTemplate pl c = Inl (specErrorf ''InvalidPodTemplate''
       ''scheduler.podTemplate must include at least one container when no runtime is configured'')"
  by (simp add: BuildSchedulerPodTemplate_def scheduler_buildable_def)

lemma BuildScheduler_buildable:
  "scheduler_buildable c \<Longrightarrow>
     BuildSchedulerPodTemplate pl c =
       (case mergePodSpec pl (pt_Spec (schedulerPodTemplateBase c)) (scheduler_patch c) of
          Inl err \<Rightarrow> Inl (specErrorf_w ''InvalidPodTemplate'' ''scheduler.podTemplate: '' err)
        | Inr merged \<Rightarrow>
            Inr \<lparr>pod_Meta =
                   (pod_Meta (applyPodLabels
                      \<lparr>pod_Meta = pt_ObjectMeta (schedulerPodTemplateBase c), pod_Spec = merged,
                       pod_Status = zero_pod_status\<rparr> c componentScheduler))
                     \<lparr>om_Namespace := cl_Namespace c, om_Name := schedulerPodName c\<rparr>,
                 pod_Spec = merged\<lparr>ps_ServiceAccountName :=
                   resolveServiceAccountName (schedulerServiceAccountSpec c)
                     (schedulerServiceAccountName c)\<rparr>,
                 pod_Status = zero_pod_status\<rparr>)"
  by (auto simp: BuildSchedulerPodTemplate_def scheduler_buildable_def scheduler_patch_def Let_def
        applyPodLabels_def split: list.splits sum.splits)

text \<open>Everything a successful build fixes, and that it succeeds exactly when the merge does.\<close>

lemma BuildScheduler_Inr:
  assumes "BuildSchedulerPodTemplate pl c = Inr p"
  obtains merged where
    "scheduler_buildable c"
    "mergePodSpec pl (pt_Spec (schedulerPodTemplateBase c)) (scheduler_patch c) = Inr merged"
    "pod_Spec p = merged\<lparr>ps_ServiceAccountName :=
       resolveServiceAccountName (schedulerServiceAccountSpec c) (schedulerServiceAccountName c)\<rparr>"
    "pod_labels p = pod_labels (applyPodLabels
       \<lparr>pod_Meta = pt_ObjectMeta (schedulerPodTemplateBase c), pod_Spec = merged,
        pod_Status = zero_pod_status\<rparr> c componentScheduler)"
    "om_Namespace (pod_Meta p) = cl_Namespace c" "om_Name (pod_Meta p) = schedulerPodName c"
    "pod_Status p = zero_pod_status"
proof (cases "scheduler_buildable c")
  case True
  with assms that show ?thesis
    by (auto simp: BuildScheduler_buildable split: sum.splits)
next
  case False
  with assms show ?thesis by (simp add: BuildScheduler_not_buildable)
qed

lemma BuildScheduler_isl_iff:
  "isl (BuildSchedulerPodTemplate pl c) \<longleftrightarrow>
     \<not> scheduler_buildable c \<or>
     isl (mergePodSpec pl (pt_Spec (schedulerPodTemplateBase c)) (scheduler_patch c))"
  by (cases "scheduler_buildable c")
     (simp_all add: BuildScheduler_buildable BuildScheduler_not_buildable split: sum.splits)

interpretation scheduler_builder: pod_builder BuildSchedulerPodTemplate componentScheduler
  "\<lambda>c. resolveServiceAccountName (schedulerServiceAccountSpec c) (schedulerServiceAccountName c)"
proof
  fix pl c p e
  show "BuildSchedulerPodTemplate pl c = Inr p \<Longrightarrow> pod_labels p clusterLabel = Some (cl_Name c)"
    by (erule BuildScheduler_Inr) (simp add: label_simps)
  show "BuildSchedulerPodTemplate pl c = Inr p \<Longrightarrow> pod_labels p componentLabel = Some componentScheduler"
    by (erule BuildScheduler_Inr) (simp add: label_simps)
  show "BuildSchedulerPodTemplate pl c = Inr p \<Longrightarrow> standardLabels c componentScheduler \<subseteq>\<^sub>m pod_labels p"
    by (erule BuildScheduler_Inr) (auto simp: map_le_def applyPodLabels_standard)
  show "BuildSchedulerPodTemplate pl c = Inr p \<Longrightarrow> om_Namespace (pod_Meta p) = cl_Namespace c"
    by (erule BuildScheduler_Inr)
  show "BuildSchedulerPodTemplate pl c = Inr p \<Longrightarrow> ps_ServiceAccountName (pod_Spec p) =
      resolveServiceAccountName (schedulerServiceAccountSpec c) (schedulerServiceAccountName c)"
    by (erule BuildScheduler_Inr) simp
  show "BuildSchedulerPodTemplate pl c = Inl e \<Longrightarrow> \<exists>err. e = SpecError ''InvalidPodTemplate'' err"
    by (cases "scheduler_buildable c")
       (auto simp: BuildScheduler_buildable BuildScheduler_not_buildable specErrorf_def
          specErrorf_w_def split: sum.splits)
qed

end
