(* ===== verification/Worker_Pod.thy ===== *)
theory Worker_Pod
  imports Scheduler_Pod
begin

text \<open>
  \<open>internal/controller/worker_pod.go\<close>: the worker pool's environment, shuffle, checkpoint and
  temporary storage, ports, container and the pod template built from them. As in \<open>Scheduler_Pod\<close>,
  the functions are translated over the builder's heap, \<open>worker_env\<close> is the reference list with every
  name spelled out, and the storage functions interpret the writer and volume contracts.
\<close>

section \<open>Constants\<close>

definition shuffleDataVolumeName :: string where "shuffleDataVolumeName = ''shuffle-data''"
definition shuffleDataMountPath :: string where "shuffleDataMountPath = ''/app/shuffle_data''"
definition temporaryDataVolumeName :: string where "temporaryDataVolumeName = ''temporary-data''"
definition temporaryDataMountPath :: string where "temporaryDataMountPath = ''/app/temporary_data''"
definition workerFlightPortName :: string where "workerFlightPortName = ''worker-flight''"

definition workerHeartBeatInterval :: "WorkerPoolDeclaration \<Rightarrow> string" where
  "workerHeartBeatInterval wp =
     (case wp_HeartBeatInterval wp of Some d \<Rightarrow> Duration_String d | None \<Rightarrow> defaultHeartBeatInterval)"

section \<open>Shuffle data\<close>

type_synonym shuffle_config = "volume list \<times> volume_mount list \<times> container_port list"

definition computedShuffleDataConfig ::
  "envBuilder \<Rightarrow> PolarsCluster \<Rightarrow> env_heap \<Rightarrow> shuffle_config \<times> env_heap" where
  "computedShuffleDataConfig b c h =
     (let shuffleData = wp_ShuffleData (spec_WorkerPool (cl_Spec c));
          ports = [\<lparr>cp_Name = workerFlightPortName, cp_ContainerPort = 5053,
                    cp_Protocol = ProtocolTCP\<rparr>];
          default =
            (let h = env_String (Section b ''local'') ''path''
                       (shuffleDataMountPath @ ''/shuffle_data'') h
             in (([emptyDirVolume shuffleDataVolumeName],
                  [mount shuffleDataVolumeName shuffleDataMountPath], ports), h))
      in (case shuffleData of
            None \<Rightarrow> default
          | Some sd \<Rightarrow>
              (case sd_S3 sd of
                 Some s \<Rightarrow>
                   (let s3 = Section b ''s3''; h = env_String s3 ''url'' (sds3_Endpoint s) h;
                        h = env_Options s3 (sds3_Options s) h
                    in (([], [], []), h))
               | None \<Rightarrow>
              (case sd_ABS sd of
                 Some s \<Rightarrow>
                   (let abs = Section b ''abs''; h = env_String abs ''url'' (sdabs_EndpointURL s) h;
                        h = env_Options abs (sdabs_Options s) h
                    in (([], [], []), h))
               | None \<Rightarrow>
              (case sd_GCS sd of
                 Some s \<Rightarrow>
                   (let gcs = Section b ''gcs''; h = env_String gcs ''url'' (sdgcs_EndpointURL s) h;
                        h = env_Options gcs (sdgcs_Options s) h
                    in (([], [], []), h))
               | None \<Rightarrow>
              (case sd_SharedFilesystem sd of
                 Some s \<Rightarrow>
                   (([], [], []), env_String (Section b ''shared_filesystem'') ''path'' (sfs_Path s) h)
               | None \<Rightarrow>
              (case sd_Local sd of
                 Some l \<Rightarrow>
                   if lfs_Path l \<noteq> [] then
                     (([], [], ports), env_String (Section b ''local'') ''path'' (lfs_Path l) h)
                   else default
               | None \<Rightarrow> default)))))))"

text \<open>Its three results, and the variables it appends, as functions of the spec and the prefix.\<close>

datatype shuffle_choice =
    ShuffleStore string string "env_var list"
  | ShuffleShared string
  | ShuffleLocalPath string
  | ShuffleManaged

definition shuffle_choice :: "PolarsCluster \<Rightarrow> shuffle_choice" where
  "shuffle_choice c =
     (case wp_ShuffleData (spec_WorkerPool (cl_Spec c)) of
        None \<Rightarrow> ShuffleManaged
      | Some sd \<Rightarrow>
          (case sd_S3 sd of Some s \<Rightarrow> ShuffleStore ''s3'' (sds3_Endpoint s) (sds3_Options s) | None \<Rightarrow>
          (case sd_ABS sd of Some s \<Rightarrow> ShuffleStore ''abs'' (sdabs_EndpointURL s) (sdabs_Options s) | None \<Rightarrow>
          (case sd_GCS sd of Some s \<Rightarrow> ShuffleStore ''gcs'' (sdgcs_EndpointURL s) (sdgcs_Options s) | None \<Rightarrow>
          (case sd_SharedFilesystem sd of Some s \<Rightarrow> ShuffleShared (sfs_Path s) | None \<Rightarrow>
          (case sd_Local sd of
             Some l \<Rightarrow> if lfs_Path l \<noteq> [] then ShuffleLocalPath (lfs_Path l) else ShuffleManaged
           | None \<Rightarrow> ShuffleManaged))))))"

fun shuffle_vars_of :: "string \<Rightarrow> shuffle_choice \<Rightarrow> env_var list" where
  "shuffle_vars_of p (ShuffleStore kind url options) =
     object_store_vars (env_join p kind) url None options"
| "shuffle_vars_of p (ShuffleShared path) = [lit (env_join p ''shared_filesystem'') ''path'' path]"
| "shuffle_vars_of p (ShuffleLocalPath path) = [lit (env_join p ''local'') ''path'' path]"
| "shuffle_vars_of p ShuffleManaged =
     [lit (env_join p ''local'') ''path'' ''/app/shuffle_data/shuffle_data'']"

definition shuffle_vars :: "string \<Rightarrow> PolarsCluster \<Rightarrow> env_var list" where
  "shuffle_vars p c = shuffle_vars_of p (shuffle_choice c)"

definition shuffle_volumes :: "PolarsCluster \<Rightarrow> volume_config" where
  "shuffle_volumes c =
     (if shuffle_choice c = ShuffleManaged then
        ([emptyDirVolume shuffleDataVolumeName], [mount shuffleDataVolumeName shuffleDataMountPath])
      else ([], []))"

definition flight_port :: container_port where
  "flight_port = \<lparr>cp_Name = ''worker-flight'', cp_ContainerPort = 5053, cp_Protocol = ''TCP''\<rparr>"

definition shuffle_ports :: "PolarsCluster \<Rightarrow> container_port list" where
  "shuffle_ports c =
     (case shuffle_choice c of
        ShuffleLocalPath _ \<Rightarrow> [flight_port] | ShuffleManaged \<Rightarrow> [flight_port] | _ \<Rightarrow> [])"

lemma computedShuffleDataConfig_eq [env_norm]:
  "computedShuffleDataConfig b c h =
     ((fst (shuffle_volumes c), snd (shuffle_volumes c), shuffle_ports c),
      emits (eb_vars b) (shuffle_vars (eb_prefix b) c) h)"
  by (simp add: computedShuffleDataConfig_def shuffle_choice_def shuffle_vars_def shuffle_volumes_def
        shuffle_ports_def flight_port_def object_store_vars_def env_norm Let_def workerFlightPortName_def
        ProtocolTCP_def shuffleDataMountPath_def split: option.splits)

lemma shuffle_choice_store_kind:
  "shuffle_choice c = ShuffleStore kind url options \<Longrightarrow> kind \<in> {''s3'', ''abs'', ''gcs''}"
  by (auto simp: shuffle_choice_def split: option.splits if_splits)

interpretation w_shuffle: scoped_env_writer
  "\<lambda>b c h. snd (computedShuffleDataConfig b c h)" shuffle_vars
proof
  show "snd (computedShuffleDataConfig b c h) = emits (eb_vars b) (shuffle_vars (eb_prefix b) c) h"
    for b c h by (simp add: computedShuffleDataConfig_eq)
  show "under_prefix p (ev_Name e)" if "e \<in> set (shuffle_vars p c)" for e p c
  proof (cases "shuffle_choice c")
    case (ShuffleStore kind url options)
    then have "kind \<noteq> []" by (auto dest: shuffle_choice_store_kind)
    moreover have "under_prefix (env_join p kind) (ev_Name e)"
      using that ShuffleStore by (auto simp: shuffle_vars_def dest!: object_store_vars_under)
    ultimately show ?thesis by (rule under_section)
  qed (use that in \<open>auto simp: shuffle_vars_def\<close>)
qed

interpretation shuffle_provider: volume_provider shuffle_volumes
  "{shuffleDataVolumeName}" "{shuffleDataMountPath}"
  by unfold_locales (auto simp: shuffle_volumes_def)

section \<open>Checkpoint data\<close>

definition computedCheckpointDataEnv :: "envBuilder \<Rightarrow> PolarsCluster \<Rightarrow> env_heap \<Rightarrow> env_heap" where
  "computedCheckpointDataEnv b c h =
     (case spec_Checkpoint (cl_Spec c) of
        None \<Rightarrow> h
      | Some checkpointSpec \<Rightarrow>
          (let checkpointData = ck_Data checkpointSpec in
           case cd_S3 checkpointData of
             Some s \<Rightarrow>
               (let s3 = Section b ''s3''; h = env_String s3 ''url'' (cks3_Endpoint s) h
                in env_Options s3 (cks3_Options s) h)
           | None \<Rightarrow>
          (case cd_ABS checkpointData of
             Some s \<Rightarrow>
               (let abs = Section b ''abs''; h = env_String abs ''url'' (ckabs_EndpointURL s) h
                in env_Options abs (ckabs_Options s) h)
           | None \<Rightarrow>
          (case cd_GCS checkpointData of
             Some s \<Rightarrow>
               (let gcs = Section b ''gcs''; h = env_String gcs ''url'' (ckgcs_EndpointURL s) h
                in env_Options gcs (ckgcs_Options s) h)
           | None \<Rightarrow>
          (case cd_SharedFilesystem checkpointData of
             Some s \<Rightarrow> env_String (Section b ''shared_filesystem'') ''path'' (sfs_Path s) h
           | None \<Rightarrow> h)))))"

definition checkpoint_vars :: "string \<Rightarrow> PolarsCluster \<Rightarrow> env_var list" where
  "checkpoint_vars p c =
     (case spec_Checkpoint (cl_Spec c) of
        None \<Rightarrow> []
      | Some ck \<Rightarrow>
          (case cd_S3 (ck_Data ck) of
             Some s \<Rightarrow> object_store_vars (env_join p ''s3'') (cks3_Endpoint s) None (cks3_Options s)
           | None \<Rightarrow>
          (case cd_ABS (ck_Data ck) of
             Some s \<Rightarrow> object_store_vars (env_join p ''abs'') (ckabs_EndpointURL s) None (ckabs_Options s)
           | None \<Rightarrow>
          (case cd_GCS (ck_Data ck) of
             Some s \<Rightarrow> object_store_vars (env_join p ''gcs'') (ckgcs_EndpointURL s) None (ckgcs_Options s)
           | None \<Rightarrow>
          (case cd_SharedFilesystem (ck_Data ck) of
             Some s \<Rightarrow> [lit (env_join p ''shared_filesystem'') ''path'' (sfs_Path s)]
           | None \<Rightarrow> [])))))"

interpretation w_checkpoint: scoped_env_writer computedCheckpointDataEnv checkpoint_vars
proof
  show "computedCheckpointDataEnv b c h = emits (eb_vars b) (checkpoint_vars (eb_prefix b) c) h"
    for b c h
    by (simp add: computedCheckpointDataEnv_def checkpoint_vars_def object_store_vars_def Let_def
          env_norm split: option.splits)
  show "e \<in> set (checkpoint_vars p c) \<Longrightarrow> under_prefix p (ev_Name e)" for e p c
    by (auto simp: checkpoint_vars_def split: option.splits dest!: object_store_vars_under
          intro: under_section [of "''s3''"] under_section [of "''abs''"] under_section [of "''gcs''"])
qed

section \<open>Temporary data\<close>

definition stringPtrOrNil :: "string \<Rightarrow> string option" where
  "stringPtrOrNil s = (if s = [] then None else Some s)"

definition ephemeralClaimVolume :: "string \<Rightarrow> EphemeralVolumeClaimSpec \<Rightarrow> volume" where
  "ephemeralClaimVolume name evc =
     \<lparr>v_Name = name,
      v_Source = EphemeralSource
        \<lparr>pvc_AccessModes = [''ReadWriteOnce''],
         pvc_StorageClassName = stringPtrOrNil (evc_StorageClassName evc),
         pvc_Requests = [(''storage'', evc_Size evc)]\<rparr>\<rparr>"

definition computedTemporaryDataVolume :: "TemporaryDataSpec option \<Rightarrow> volume" where
  "computedTemporaryDataVolume temporaryData =
     (case temporaryData of
        Some td \<Rightarrow>
          (case td_EphemeralVolumeClaim td of
             Some evc \<Rightarrow> ephemeralClaimVolume temporaryDataVolumeName evc
           | None \<Rightarrow> emptyDirVolume temporaryDataVolumeName)
      | None \<Rightarrow> emptyDirVolume temporaryDataVolumeName)"

definition temporary_volumes :: "PolarsCluster \<Rightarrow> volume_config" where
  "temporary_volumes c =
     ([computedTemporaryDataVolume (wp_TemporaryData (spec_WorkerPool (cl_Spec c)))],
      [mount temporaryDataVolumeName temporaryDataMountPath])"

lemma v_Name_temporary [simp]: "v_Name (computedTemporaryDataVolume td) = temporaryDataVolumeName"
  by (simp add: computedTemporaryDataVolume_def ephemeralClaimVolume_def split: option.splits)

interpretation temporary_provider: volume_provider temporary_volumes
  "{temporaryDataVolumeName}" "{temporaryDataMountPath}"
  by unfold_locales (simp_all add: temporary_volumes_def)

section \<open>License\<close>

text \<open>
  A worker only learns which license the scheduler runs under; the enterprise license file is mounted
  in both pods. (The \<open>switch\<close> on \<open>spec.License\<close> of \<open>computedWorkerPodSpec\<close>.)
\<close>

definition workerLicenseConfig ::
  "envBuilder \<Rightarrow> PolarsCluster \<Rightarrow> env_heap \<Rightarrow> volume_config \<times> env_heap" where
  "workerLicenseConfig cublet c h =
     (let license = Section cublet ''license'' in
      if lic_OnPrem (spec_License (cl_Spec c)) \<noteq> None then
        (([], []), env_Bool (Section license ''on_prem'') ''enabled'' True h)
      else if lic_OnPremEnterprise (spec_License (cl_Spec c)) \<noteq> None then
        (enterpriseLicenseConfig c,
         env_String (Section license ''on_prem_enterprise'') ''license_path'' enterpriseLicensePath h)
      else (([], []), h))"

definition worker_license_volumes :: "PolarsCluster \<Rightarrow> volume_config" where
  "worker_license_volumes c =
     (if lic_OnPrem (spec_License (cl_Spec c)) \<noteq> None then ([], []) else enterpriseLicenseConfig c)"

definition worker_license_vars :: "string \<Rightarrow> PolarsCluster \<Rightarrow> env_var list" where
  "worker_license_vars p c =
     (if lic_OnPrem (spec_License (cl_Spec c)) \<noteq> None then
        [lit (env_join (env_join p ''license'') ''on_prem'') ''enabled'' ''true'']
      else if lic_OnPremEnterprise (spec_License (cl_Spec c)) \<noteq> None then
        [lit (env_join (env_join p ''license'') ''on_prem_enterprise'') ''license_path''
           enterpriseLicensePath]
      else [])"

lemma workerLicenseConfig_eq [env_norm]:
  "workerLicenseConfig b c h =
     (worker_license_volumes c, emits (eb_vars b) (worker_license_vars (eb_prefix b) c) h)"
  by (simp add: workerLicenseConfig_def worker_license_volumes_def worker_license_vars_def Let_def
        env_norm FormatBool_def enterpriseLicenseConfig_def)

interpretation w_worker_license: scoped_env_writer
  "\<lambda>b c h. snd (workerLicenseConfig b c h)" worker_license_vars
proof
  show "snd (workerLicenseConfig b c h) = emits (eb_vars b) (worker_license_vars (eb_prefix b) c) h"
    for b c h by (simp add: workerLicenseConfig_eq)
  show "e \<in> set (worker_license_vars p c) \<Longrightarrow> under_prefix p (ev_Name e)" for e p c
    by (auto simp: worker_license_vars_def env_join_assoc split: if_splits
          intro: under_section [of "''license''"])
qed

interpretation worker_license_provider: volume_provider worker_license_volumes
  "{enterpriseLicenseVolume}" "{enterpriseLicenseMountDir}"
  by unfold_locales
     (auto simp: worker_license_volumes_def enterpriseLicenseConfig_def split: option.splits)

section \<open>The computed pod spec\<close>

definition internalHostname :: "PolarsCluster \<Rightarrow> string" where
  "internalHostname c =
     (if spec_ClusterDomain (cl_Spec c) \<noteq> [] then
        schedulerInternalServiceName c @ ''.'' @ cl_Namespace c @ ''.svc.'' @
          spec_ClusterDomain (cl_Spec c) @ ''.''
      else schedulerInternalServiceName c)"

definition computedWorkerPodSpec ::
  "pod_lib \<Rightarrow> PolarsCluster \<Rightarrow> string \<Rightarrow> container \<Rightarrow> bool \<Rightarrow> pod_spec" where
  "computedWorkerPodSpec pl c containerName baseContainer injectProbe =
     (let spec = cl_Spec c;
          wp = spec_WorkerPool spec;
          (b, h) = newEnvBuilder [];
          h = env_String b ''RUST_BACKTRACE'' ''full'' h;
          cublet = Section b ''PC_CUBLET'';
          monitoring = Section cublet ''monitoring'';
          worker = Section cublet ''worker'';
          staticLeader = Section cublet ''static_leader'';
          h = env_Bool monitoring ''enabled'' True h;
          h = (if hostMetricsDisabled c
               then env_Bool (Section monitoring ''host_metrics'') ''enabled'' False h else h);
          h = env_Bool worker ''enabled'' True h;
          h = env_String cublet ''cluster_id'' (resolveClusterID c) h;
          h = env_FieldRef cublet ''instance_id'' fieldPathMetadataName h;
          h = env_String staticLeader ''leader_instance_id'' ''not-me'' h;
          h = env_String staticLeader ''scheduler_service__public_addr__hostname'' (internalHostname c) h;
          h = env_String staticLeader ''scheduler_service__public_addr__port'' ''5050'' h;
          h = env_String staticLeader ''observatory_service__public_addr__hostname'' (internalHostname c) h;
          h = env_String staticLeader ''observatory_service__public_addr__port'' ''5049'' h;
          h = env_FieldRef worker ''task_service__public_addr__ip'' ''status.podIP'' h;
          h = env_FieldRef worker ''shuffle_service__public_addr__ip'' ''status.podIP'' h;
          h = env_String worker ''heartbeat_period'' (workerHeartBeatInterval wp) h;
          extras = Section worker ''extras'';
          h = (if ext_HDFS (wp_Extras wp) \<noteq> None
               then env_Bool (Section extras ''hdfs'') ''enabled'' True h else h);
          h = (if ext_PyIceberg (wp_Extras wp) \<noteq> None
               then env_Bool (Section extras ''pyiceberg'') ''enabled'' True h else h);
          h = env_String b ''POLARS_TEMP_DIR'' (temporaryDataMountPath @ ''/temporary_data'') h;
          h = env_String b ''OTEL_SERVICE_NAME'' (cl_Name c @ ''-worker'') h;
          h = (if spec_AcceptEula spec then env_String b ''POLARS_EULA_ACCEPTED'' ''yes'' h else h);
          ((licenseVolumes, licenseMounts), h) = workerLicenseConfig cublet c h;
          h = (case spec_Telemetry spec of
                 None \<Rightarrow> h
               | Some t \<Rightarrow> env_ValueOrSource b ''OTLP_ENDPOINT'' (tel_OTLPEndpoint t) h);
          h = env_String b ''PLC_LOG_LEVEL'' (resolveLogLevel c) h;
          h = (case c_Requests baseContainer ''cpu'' of
                 None \<Rightarrow> h
               | Some cpu \<Rightarrow> env_String cublet ''cpu_reserved'' (pl_QuantityString pl cpu) h);
          ((shuffleVolumes, shuffleMounts, shufflePorts), h) =
            computedShuffleDataConfig (Section worker ''shuffle_location'') c h;
          h = computedCheckpointDataEnv (Section worker ''checkpoint_location'') c h;
          (initContainers, runtimeContainer, runtimeEnv, runtimeVolumes, runtimeMounts) =
            composedRuntimeConfig c;
          env = Vars b h @ runtimeEnv;
          volumes = licenseVolumes @ shuffleVolumes @ runtimeVolumes @
            [computedTemporaryDataVolume (wp_TemporaryData wp)];
          volumeMounts = licenseMounts @ shuffleMounts @ runtimeMounts @
            [mount temporaryDataVolumeName temporaryDataMountPath];
          ports = [\<lparr>cp_Name = ''worker-service'', cp_ContainerPort = 5052, cp_Protocol = ProtocolTCP\<rparr>]
            @ shufflePorts;
          container = runtimeContainer\<lparr>c_Name := containerName, c_Ports := ports, c_Env := env,
            c_VolumeMounts := volumeMounts\<rparr>;
          container = (if injectProbe
                       then container\<lparr>c_ReadinessProbe := Some (defaultWorkerReadinessProbe 5052)\<rparr>
                       else container)
      in zero_pod_spec\<lparr>ps_ImagePullSecrets := spec_ImagePullSecrets spec,
           ps_InitContainers := initContainers, ps_Containers := [container],
           ps_Volumes := volumes\<rparr>)"

text \<open>The same environment as a list, every name in full.\<close>

definition worker_env_head :: "PolarsCluster \<Rightarrow> env_var list" where
  "worker_env_head c =
     [plain_var ''RUST_BACKTRACE'' ''full'',
      plain_var ''PC_CUBLET__monitoring__enabled'' ''true''] @
     (if hostMetricsDisabled c
      then [plain_var ''PC_CUBLET__monitoring__host_metrics__enabled'' ''false''] else []) @
     [plain_var ''PC_CUBLET__worker__enabled'' ''true'',
      plain_var ''PC_CUBLET__cluster_id'' (resolveClusterID c),
      field_var ''PC_CUBLET__instance_id'' ''metadata.name'',
      plain_var ''PC_CUBLET__static_leader__leader_instance_id'' ''not-me'',
      plain_var ''PC_CUBLET__static_leader__scheduler_service__public_addr__hostname'' (internalHostname c),
      plain_var ''PC_CUBLET__static_leader__scheduler_service__public_addr__port'' ''5050'',
      plain_var ''PC_CUBLET__static_leader__observatory_service__public_addr__hostname'' (internalHostname c),
      plain_var ''PC_CUBLET__static_leader__observatory_service__public_addr__port'' ''5049'',
      field_var ''PC_CUBLET__worker__task_service__public_addr__ip'' ''status.podIP'',
      field_var ''PC_CUBLET__worker__shuffle_service__public_addr__ip'' ''status.podIP'',
      plain_var ''PC_CUBLET__worker__heartbeat_period''
        (workerHeartBeatInterval (spec_WorkerPool (cl_Spec c)))] @
     (if ext_HDFS (wp_Extras (spec_WorkerPool (cl_Spec c))) \<noteq> None
      then [plain_var ''PC_CUBLET__worker__extras__hdfs__enabled'' ''true''] else []) @
     (if ext_PyIceberg (wp_Extras (spec_WorkerPool (cl_Spec c))) \<noteq> None
      then [plain_var ''PC_CUBLET__worker__extras__pyiceberg__enabled'' ''true''] else []) @
     [plain_var ''POLARS_TEMP_DIR'' ''/app/temporary_data/temporary_data'',
      plain_var ''OTEL_SERVICE_NAME'' (cl_Name c @ ''-worker'')] @
     (if spec_AcceptEula (cl_Spec c) then [plain_var ''POLARS_EULA_ACCEPTED'' ''yes''] else [])"

definition worker_env_tail :: "pod_lib \<Rightarrow> PolarsCluster \<Rightarrow> container \<Rightarrow> env_var list" where
  "worker_env_tail pl c k =
     (case spec_Telemetry (cl_Spec c) of
        None \<Rightarrow> []
      | Some t \<Rightarrow> [value_or_source [] ''OTLP_ENDPOINT'' (tel_OTLPEndpoint t)]) @
     [plain_var ''PLC_LOG_LEVEL'' (resolveLogLevel c)] @
     (case c_Requests k ''cpu'' of
        None \<Rightarrow> []
      | Some cpu \<Rightarrow> [plain_var ''PC_CUBLET__cpu_reserved'' (pl_QuantityString pl cpu)])"

definition worker_env :: "pod_lib \<Rightarrow> PolarsCluster \<Rightarrow> container \<Rightarrow> env_var list" where
  "worker_env pl c k =
     worker_env_head c @
     worker_license_vars ''PC_CUBLET'' c @
     worker_env_tail pl c k @
     shuffle_vars ''PC_CUBLET__worker__shuffle_location'' c @
     checkpoint_vars ''PC_CUBLET__worker__checkpoint_location'' c"

section \<open>The builder computes the reference environment\<close>

definition worker_volumes :: "PolarsCluster \<Rightarrow> volume_config" where
  "worker_volumes =
     beside (beside worker_license_volumes shuffle_volumes) (beside rc_volumes temporary_volumes)"

definition worker_ports :: "PolarsCluster \<Rightarrow> container_port list" where
  "worker_ports c =
     \<lparr>cp_Name = ''worker-service'', cp_ContainerPort = 5052, cp_Protocol = ''TCP''\<rparr> # shuffle_ports c"

definition worker_container ::
  "pod_lib \<Rightarrow> PolarsCluster \<Rightarrow> string \<Rightarrow> container \<Rightarrow> bool \<Rightarrow> container" where
  "worker_container pl c n k ip =
     (rc_container c)\<lparr>c_Name := n, c_Ports := worker_ports c, c_Env := worker_env pl c k @ rc_env c,
        c_VolumeMounts := snd (worker_volumes c),
        c_ReadinessProbe := if ip then Some (defaultWorkerReadinessProbe 5052) else None\<rparr>"

lemma computed_worker_spec:
  "computedWorkerPodSpec pl c n k ip =
     zero_pod_spec\<lparr>ps_ImagePullSecrets := spec_ImagePullSecrets (cl_Spec c),
       ps_InitContainers := rc_init c, ps_Containers := [worker_container pl c n k ip],
       ps_Volumes := fst (worker_volumes c)\<rparr>"
  apply (simp only: computedWorkerPodSpec_def builder_start composedRuntimeConfig_parts)
  apply (simp only: env_norm w_checkpoint.write_emits envBuilder.simps Let_def [of "Section _ _"])
  apply (simp only: builder_run)
  apply (simp only: worker_env_def worker_env_head_def worker_env_tail_def builder_names
      fieldPathMetadataName_def temporaryDataMountPath_def beside_def worker_volumes_def
      temporary_volumes_def worker_ports_def worker_container_def fst_conv snd_conv ProtocolTCP_def)
  apply (simp add: rc_container_fixed)
  done

lemmas computed_worker_parts [simp] =
  computed_worker_spec [THEN arg_cong [where f = ps_Containers], simplified]
  computed_worker_spec [THEN arg_cong [where f = ps_InitContainers], simplified]
  computed_worker_spec [THEN arg_cong [where f = ps_Volumes], simplified]
  computed_worker_spec [THEN arg_cong [where f = ps_ImagePullSecrets], simplified]

lemmas worker_path_defs = scheduler_path_defs
  shuffleDataVolumeName_def shuffleDataMountPath_def temporaryDataVolumeName_def
  temporaryDataMountPath_def

interpretation worker_front_volumes: volume_providers
  worker_license_volumes "{enterpriseLicenseVolume}" "{enterpriseLicenseMountDir}"
  shuffle_volumes "{shuffleDataVolumeName}" "{shuffleDataMountPath}"
  by unfold_locales (simp_all add: worker_path_defs)

interpretation worker_back_volumes: volume_providers
  rc_volumes
  "{tmpDataVolumeName, releaseDataVolumeName, requirementsVolumeName}"
  "{''/tmp'', releaseDataMountPath, requirementsMountPath}"
  temporary_volumes "{temporaryDataVolumeName}" "{temporaryDataMountPath}"
  by unfold_locales (simp_all add: worker_path_defs)

interpretation worker_all_volumes: volume_providers
  "beside worker_license_volumes shuffle_volumes"
  "{enterpriseLicenseVolume} \<union> {shuffleDataVolumeName}"
  "{enterpriseLicenseMountDir} \<union> {shuffleDataMountPath}"
  "beside rc_volumes temporary_volumes"
  "{tmpDataVolumeName, releaseDataVolumeName, requirementsVolumeName} \<union> {temporaryDataVolumeName}"
  "{''/tmp'', releaseDataMountPath, requirementsMountPath} \<union> {temporaryDataMountPath}"
  by unfold_locales (simp_all add: worker_path_defs)

section \<open>No variable is defined twice\<close>

definition worker_fixed_names :: "string list" where
  "worker_fixed_names =
     [''RUST_BACKTRACE'', ''PC_CUBLET__monitoring__enabled'',
      ''PC_CUBLET__monitoring__host_metrics__enabled'', ''PC_CUBLET__worker__enabled'',
      ''PC_CUBLET__cluster_id'', ''PC_CUBLET__instance_id'',
      ''PC_CUBLET__static_leader__leader_instance_id'',
      ''PC_CUBLET__static_leader__scheduler_service__public_addr__hostname'',
      ''PC_CUBLET__static_leader__scheduler_service__public_addr__port'',
      ''PC_CUBLET__static_leader__observatory_service__public_addr__hostname'',
      ''PC_CUBLET__static_leader__observatory_service__public_addr__port'',
      ''PC_CUBLET__worker__task_service__public_addr__ip'',
      ''PC_CUBLET__worker__shuffle_service__public_addr__ip'',
      ''PC_CUBLET__worker__heartbeat_period'', ''PC_CUBLET__worker__extras__hdfs__enabled'',
      ''PC_CUBLET__worker__extras__pyiceberg__enabled'', ''POLARS_TEMP_DIR'',
      ''OTEL_SERVICE_NAME'', ''POLARS_EULA_ACCEPTED'',
      ''OTLP_ENDPOINT'', ''PLC_LOG_LEVEL'', ''PC_CUBLET__cpu_reserved'',
      ''POLARS_EXTRAS'', ''POLARS_WHL_DIR'', ''UV_PATH'', ''PYTHON_REQUIREMENTS'']"

lemma distinct_worker_fixed: "distinct worker_fixed_names"
  by code_simp

lemma worker_fixed_apart:
  "list_all (\<lambda>n. \<not> under_prefix ''PC_CUBLET__license'' n \<and>
     \<not> under_prefix ''PC_CUBLET__worker__shuffle_location'' n \<and>
     \<not> under_prefix ''PC_CUBLET__worker__checkpoint_location'' n) worker_fixed_names"
  by (simp add: worker_fixed_names_def under_prefix_take)

lemma worker_names_fixed:
  "subseq (map ev_Name (worker_env_head c @ worker_env_tail pl c k @ rc_env c)) worker_fixed_names"
proof -
  have split: "worker_fixed_names = take 19 worker_fixed_names @
     take 3 (drop 19 worker_fixed_names) @ drop 22 worker_fixed_names"
    by (simp add: worker_fixed_names_def)
  have "subseq (map ev_Name (worker_env_head c)) (take 19 worker_fixed_names)"
    by (simp add: worker_fixed_names_def worker_env_head_def)
  moreover have "subseq (map ev_Name (worker_env_tail pl c k)) (take 3 (drop 19 worker_fixed_names))"
    by (simp add: worker_fixed_names_def worker_env_tail_def split: option.splits)
  moreover have "subseq (map ev_Name (rc_env c)) (drop 22 worker_fixed_names)"
    unfolding rc_env_names by (simp add: worker_fixed_names_def split: option.splits)
  ultimately show ?thesis
    by (subst split) (simp only: map_append list_emb_append_mono)
qed

lemma worker_license_under:
  "e \<in> set (worker_license_vars p c) \<Longrightarrow> under_prefix (env_join p ''license'') (ev_Name e)"
  by (auto simp: worker_license_vars_def split: if_splits)

lemma distinct_worker_license: "distinct (map ev_Name (worker_license_vars p c))"
  by (simp add: worker_license_vars_def)

definition shuffle_options :: "PolarsCluster \<Rightarrow> env_var list" where
  "shuffle_options c = (case shuffle_choice c of ShuffleStore k u options \<Rightarrow> options | _ \<Rightarrow> [])"

lemma distinct_shuffle_vars:
  "options_ok (shuffle_options c) \<Longrightarrow> distinct (map ev_Name (shuffle_vars p c))"
  by (cases "shuffle_choice c") (simp_all add: shuffle_vars_def shuffle_options_def distinct_object_store)

definition checkpoint_options :: "PolarsCluster \<Rightarrow> env_var list" where
  "checkpoint_options c =
     (case spec_Checkpoint (cl_Spec c) of
        None \<Rightarrow> []
      | Some ck \<Rightarrow>
          (case cd_S3 (ck_Data ck) of Some s \<Rightarrow> cks3_Options s | None \<Rightarrow>
          (case cd_ABS (ck_Data ck) of Some s \<Rightarrow> ckabs_Options s | None \<Rightarrow>
          (case cd_GCS (ck_Data ck) of Some s \<Rightarrow> ckgcs_Options s | None \<Rightarrow> []))))"

lemma distinct_checkpoint_vars:
  "options_ok (checkpoint_options c) \<Longrightarrow> distinct (map ev_Name (checkpoint_vars p c))"
  by (auto simp: checkpoint_vars_def checkpoint_options_def distinct_object_store split: option.splits)

lemma distinct_shuffle_blocks:
  assumes "distinct (a @ t @ r)" "set (a @ t @ r) \<inter> set l = {}" "set (a @ t @ r) \<inter> set s = {}"
    "set (a @ t @ r) \<inter> set k = {}" "set l \<inter> set s = {}" "set l \<inter> set k = {}" "set s \<inter> set k = {}"
    "distinct l" "distinct s" "distinct k"
  shows "distinct (a @ l @ t @ s @ k @ r)"
  using assms by auto

lemma distinct_worker_env:
  assumes "options_ok (shuffle_options c)" "options_ok (checkpoint_options c)"
  shows "distinct (map ev_Name (worker_env pl c k @ rc_env c))"
proof -
  let ?F = "map ev_Name (worker_env_head c @ worker_env_tail pl c k @ rc_env c)"
  let ?L = "map ev_Name (worker_license_vars ''PC_CUBLET'' c)"
  let ?S = "map ev_Name (shuffle_vars ''PC_CUBLET__worker__shuffle_location'' c)"
  let ?K = "map ev_Name (checkpoint_vars ''PC_CUBLET__worker__checkpoint_location'' c)"
  have sub: "set ?F \<subseteq> set worker_fixed_names" and F: "distinct ?F"
    using worker_names_fixed subseq_distinct [OF _ distinct_worker_fixed]
    by (blast dest: list_emb_set)+
  have L: "under_prefix ''PC_CUBLET__license'' n" if "n \<in> set ?L" for n
    using that by (auto dest!: worker_license_under simp: env_join_def)
  have S: "under_prefix ''PC_CUBLET__worker__shuffle_location'' n" if "n \<in> set ?S" for n
    using that by (auto dest!: w_shuffle.vars_under)
  have K: "under_prefix ''PC_CUBLET__worker__checkpoint_location'' n" if "n \<in> set ?K" for n
    using that by (auto dest!: w_checkpoint.vars_under)
  have apart: "\<not> under_prefix ''PC_CUBLET__license'' n"
      "\<not> under_prefix ''PC_CUBLET__worker__shuffle_location'' n"
      "\<not> under_prefix ''PC_CUBLET__worker__checkpoint_location'' n" if "n \<in> set ?F" for n
    using sub that worker_fixed_apart unfolding list_all_iff by blast+
  have "set ?F \<inter> set ?L = {}" "set ?F \<inter> set ?S = {}" "set ?F \<inter> set ?K = {}"
    using apart L S K by blast+
  moreover have "set ?L \<inter> set ?S = {}" "set ?L \<inter> set ?K = {}" "set ?S \<inter> set ?K = {}"
    using under_prefix_clash [OF L S] under_prefix_clash [OF L K] under_prefix_clash [OF S K]
    by (fastforce simp: disjoint_iff)+
  moreover have "distinct ?L" "distinct ?S" "distinct ?K"
    using assms by (simp_all add: distinct_worker_license distinct_shuffle_vars distinct_checkpoint_vars)
  ultimately show ?thesis
    using F unfolding worker_env_def map_append append_assoc
    by (intro distinct_shuffle_blocks)
qed

section \<open>The pod\<close>

definition workerPodTemplateBase :: "PolarsCluster \<Rightarrow> pod_template_spec" where
  "workerPodTemplateBase c =
     (case wp_PodTemplate (spec_WorkerPool (cl_Spec c)) of
        Some t \<Rightarrow> t | None \<Rightarrow> zero_pod_template_spec)"

definition BuildWorkerPodTemplate :: "pod_lib \<Rightarrow> PolarsCluster \<Rightarrow> pod result" where
  "BuildWorkerPodTemplate pl c =
     (let base = workerPodTemplateBase c in
      case (case ps_Containers (pt_Spec base) of
              k # _ \<Rightarrow> Inr (c_Name k, c_ReadinessProbe k \<noteq> None, k)
            | [] \<Rightarrow>
                if spec_Runtime (cl_Spec c) = None then
                  Inl (specErrorf ''InvalidPodTemplate''
                    ''workerPool.podTemplate must include at least one container when no runtime is configured'')
                else Inr (componentWorker, False, zero_container)) of
        Inl e \<Rightarrow> Inl e
      | Inr (containerName, userProbe, baseContainer) \<Rightarrow>
          (case mergePodSpec pl (pt_Spec base)
                  (computedWorkerPodSpec pl c containerName baseContainer (\<not> userProbe)) of
             Inl err \<Rightarrow> Inl (specErrorf_w ''InvalidPodTemplate'' ''workerPool.podTemplate: '' err)
           | Inr mergedSpec \<Rightarrow>
               (let p = \<lparr>pod_Meta = pt_ObjectMeta base, pod_Spec = mergedSpec,
                         pod_Status = zero_pod_status\<rparr>;
                    p = applyPodLabels p c componentWorker;
                    p = p\<lparr>pod_Meta := (pod_Meta p)\<lparr>om_Namespace := cl_Namespace c, om_Name := [],
                                                    om_GenerateName := cl_Name c @ ''-worker-''\<rparr>\<rparr>;
                    p = p\<lparr>pod_Spec := (pod_Spec p)\<lparr>ps_ServiceAccountName :=
                           resolveServiceAccountName (workerServiceAccountSpec c)
                             (workerServiceAccountName c)\<rparr>\<rparr>
                in Inr p)))"

definition worker_buildable :: "PolarsCluster \<Rightarrow> bool" where
  "worker_buildable c =
     (ps_Containers (pt_Spec (workerPodTemplateBase c)) \<noteq> [] \<or> spec_Runtime (cl_Spec c) \<noteq> None)"

definition worker_patch :: "pod_lib \<Rightarrow> PolarsCluster \<Rightarrow> pod_spec" where
  "worker_patch pl c =
     (case ps_Containers (pt_Spec (workerPodTemplateBase c)) of
        k # _ \<Rightarrow> computedWorkerPodSpec pl c (c_Name k) k (c_ReadinessProbe k = None)
      | [] \<Rightarrow> computedWorkerPodSpec pl c componentWorker zero_container True)"

lemma BuildWorker_not_buildable:
  "\<not> worker_buildable c \<Longrightarrow>
     BuildWorkerPodTemplate pl c = Inl (specErrorf ''InvalidPodTemplate''
       ''workerPool.podTemplate must include at least one container when no runtime is configured'')"
  by (simp add: BuildWorkerPodTemplate_def worker_buildable_def)

lemma BuildWorker_buildable:
  "worker_buildable c \<Longrightarrow>
     BuildWorkerPodTemplate pl c =
       (case mergePodSpec pl (pt_Spec (workerPodTemplateBase c)) (worker_patch pl c) of
          Inl err \<Rightarrow> Inl (specErrorf_w ''InvalidPodTemplate'' ''workerPool.podTemplate: '' err)
        | Inr merged \<Rightarrow>
            Inr \<lparr>pod_Meta =
                   (pod_Meta (applyPodLabels
                      \<lparr>pod_Meta = pt_ObjectMeta (workerPodTemplateBase c), pod_Spec = merged,
                       pod_Status = zero_pod_status\<rparr> c componentWorker))
                     \<lparr>om_Namespace := cl_Namespace c, om_Name := [],
                      om_GenerateName := cl_Name c @ ''-worker-''\<rparr>,
                 pod_Spec = merged\<lparr>ps_ServiceAccountName :=
                   resolveServiceAccountName (workerServiceAccountSpec c)
                     (workerServiceAccountName c)\<rparr>,
                 pod_Status = zero_pod_status\<rparr>)"
  by (auto simp: BuildWorkerPodTemplate_def worker_buildable_def worker_patch_def Let_def
        applyPodLabels_def split: list.splits sum.splits)

lemma BuildWorker_Inr:
  assumes "BuildWorkerPodTemplate pl c = Inr p"
  obtains merged where
    "worker_buildable c"
    "mergePodSpec pl (pt_Spec (workerPodTemplateBase c)) (worker_patch pl c) = Inr merged"
    "pod_Spec p = merged\<lparr>ps_ServiceAccountName :=
       resolveServiceAccountName (workerServiceAccountSpec c) (workerServiceAccountName c)\<rparr>"
    "pod_labels p = pod_labels (applyPodLabels
       \<lparr>pod_Meta = pt_ObjectMeta (workerPodTemplateBase c), pod_Spec = merged,
        pod_Status = zero_pod_status\<rparr> c componentWorker)"
    "om_Namespace (pod_Meta p) = cl_Namespace c" "om_Name (pod_Meta p) = []"
    "om_GenerateName (pod_Meta p) = cl_Name c @ ''-worker-''"
    "pod_Status p = zero_pod_status"
proof (cases "worker_buildable c")
  case True
  with assms that show ?thesis
    by (auto simp: BuildWorker_buildable split: sum.splits)
next
  case False
  with assms show ?thesis by (simp add: BuildWorker_not_buildable)
qed

lemma BuildWorker_isl_iff:
  "isl (BuildWorkerPodTemplate pl c) \<longleftrightarrow>
     \<not> worker_buildable c \<or>
     isl (mergePodSpec pl (pt_Spec (workerPodTemplateBase c)) (worker_patch pl c))"
  by (cases "worker_buildable c")
     (simp_all add: BuildWorker_buildable BuildWorker_not_buildable split: sum.splits)

interpretation worker_builder: pod_builder BuildWorkerPodTemplate componentWorker
  "\<lambda>c. resolveServiceAccountName (workerServiceAccountSpec c) (workerServiceAccountName c)"
proof
  fix pl c p e
  show "BuildWorkerPodTemplate pl c = Inr p \<Longrightarrow> pod_labels p clusterLabel = Some (cl_Name c)"
    by (erule BuildWorker_Inr) (simp add: label_simps)
  show "BuildWorkerPodTemplate pl c = Inr p \<Longrightarrow> pod_labels p componentLabel = Some componentWorker"
    by (erule BuildWorker_Inr) (simp add: label_simps)
  show "BuildWorkerPodTemplate pl c = Inr p \<Longrightarrow> standardLabels c componentWorker \<subseteq>\<^sub>m pod_labels p"
    by (erule BuildWorker_Inr) (auto simp: map_le_def applyPodLabels_standard)
  show "BuildWorkerPodTemplate pl c = Inr p \<Longrightarrow> om_Namespace (pod_Meta p) = cl_Namespace c"
    by (erule BuildWorker_Inr)
  show "BuildWorkerPodTemplate pl c = Inr p \<Longrightarrow> ps_ServiceAccountName (pod_Spec p) =
      resolveServiceAccountName (workerServiceAccountSpec c) (workerServiceAccountName c)"
    by (erule BuildWorker_Inr) simp
  show "BuildWorkerPodTemplate pl c = Inl e \<Longrightarrow> \<exists>err. e = SpecError ''InvalidPodTemplate'' err"
    by (cases "worker_buildable c")
       (auto simp: BuildWorker_buildable BuildWorker_not_buildable specErrorf_def
          specErrorf_w_def split: sum.splits)
qed

interpretation pod_templates: pod_builders
  BuildSchedulerPodTemplate componentScheduler
  "\<lambda>c. resolveServiceAccountName (schedulerServiceAccountSpec c) (schedulerServiceAccountName c)"
  BuildWorkerPodTemplate componentWorker
  "\<lambda>c. resolveServiceAccountName (workerServiceAccountSpec c) (workerServiceAccountName c)"
  by unfold_locales (simp add: componentScheduler_def componentWorker_def)

end
