(* ===== verification/Api_Client.thy ===== *)
theory Api_Client
  imports Worker_Pod
begin

text \<open>
  The reconciler's side of the Kubernetes API: \<open>client.Client\<close>, the event recorder and the library
  functions the reconcilers call. The API server is not code of this repository, so its operations
  are the record \<open>api_client\<close> over an abstract server state \<open>'s\<close>, and so are the library functions
  (\<open>SetControllerReference\<close>, \<open>IsControlledBy\<close>, the condition helpers of \<open>meta\<close>, \<open>CreateOrUpdate\<close>).
  A \<open>world\<close> is that state with the calls made so far and the events recorded so far, oldest first:
  what the reconcilers promise is stated over these two sequences.

  The locale \<open>api_handler\<close> is the contract every reconcile step keeps: it only appends calls, each of a
  kind the step is allowed to make, and only appends events.
\<close>

section \<open>Calls and events\<close>

datatype api_call =
    GetCluster string string
  | UpdateStatus PolarsCluster
  | GetPod string string
  | ListPods string str_map
  | CreatePod pod
  | DeletePod pod
  | GetService string string
  | CreateService service
  | UpdateService service
  | CreateServiceAccount service_account
  | GetRoute route_kind string string
  | CreateOrUpdateRoute route
  | DeleteRoute route

record event =
  evt_Type :: string
  evt_Reason :: string
  evt_Action :: string
  evt_Message :: string

definition EventTypeNormal :: string where "EventTypeNormal = ''Normal''"
definition EventTypeWarning :: string where "EventTypeWarning = ''Warning''"
definition actionReconcile :: string where "actionReconcile = ''Reconcile''"
definition actionCreatePod :: string where "actionCreatePod = ''CreatePod''"
definition actionDeletePod :: string where "actionDeletePod = ''DeletePod''"

record 's world =
  w_api :: 's
  w_calls :: "api_call list"
  w_events :: "event list"

definition call :: "api_call \<Rightarrow> ('s \<Rightarrow> 'a \<times> 's) \<Rightarrow> 's world \<Rightarrow> 'a \<times> 's world" where
  "call k f w = (case f (w_api w) of (x, s) \<Rightarrow> (x, w\<lparr>w_api := s, w_calls := w_calls w @ [k]\<rparr>))"

definition Eventf :: "string \<Rightarrow> string \<Rightarrow> string \<Rightarrow> string \<Rightarrow> 's world \<Rightarrow> 's world" where
  "Eventf etype reason action msg w =
     w\<lparr>w_events := w_events w @
        [\<lparr>evt_Type = etype, evt_Reason = reason, evt_Action = action, evt_Message = msg\<rparr>]\<rparr>"

section \<open>The reconciler and the code around it\<close>

record 's api_client =
  ac_GetCluster :: "string \<Rightarrow> string \<Rightarrow> 's \<Rightarrow> PolarsCluster result \<times> 's"
  ac_UpdateStatus :: "PolarsCluster \<Rightarrow> 's \<Rightarrow> PolarsCluster result \<times> 's"
  ac_GetPod :: "string \<Rightarrow> string \<Rightarrow> 's \<Rightarrow> pod result \<times> 's"
  ac_ListPods :: "string \<Rightarrow> str_map \<Rightarrow> 's \<Rightarrow> pod list result \<times> 's"
  ac_CreatePod :: "pod \<Rightarrow> 's \<Rightarrow> pod result \<times> 's"
  ac_DeletePod :: "pod \<Rightarrow> 's \<Rightarrow> go_error option \<times> 's"
  ac_GetService :: "string \<Rightarrow> string \<Rightarrow> 's \<Rightarrow> service result \<times> 's"
  ac_CreateService :: "service \<Rightarrow> 's \<Rightarrow> go_error option \<times> 's"
  ac_UpdateService :: "service \<Rightarrow> 's \<Rightarrow> go_error option \<times> 's"
  ac_CreateServiceAccount :: "service_account \<Rightarrow> 's \<Rightarrow> go_error option \<times> 's"
  ac_GetRoute :: "route_kind \<Rightarrow> string \<Rightarrow> string \<Rightarrow> 's \<Rightarrow> route result \<times> 's"
  ac_CreateOrUpdateRoute ::
    "route \<Rightarrow> (route \<Rightarrow> route result) \<Rightarrow> 's \<Rightarrow> (route \<times> go_error option) \<times> 's"
  ac_DeleteRoute :: "route \<Rightarrow> 's \<Rightarrow> go_error option \<times> 's"

record cond_lib =
  SetStatusCondition :: "condition \<Rightarrow> condition list \<Rightarrow> condition list"
  RemoveStatusCondition :: "string \<Rightarrow> condition list \<Rightarrow> condition list"
  IsStatusConditionTrue :: "condition list \<Rightarrow> string \<Rightarrow> bool"

text \<open>
  \<open>PolarsClusterReconciler\<close>: its client, its scheme (which only \<open>SetControllerReference\<close> reads; the owner is passed by its metadata), its
  flag, the libraries it calls, and what \<open>workqueue.ParallelizeUntil\<close> does with a number of pieces: the
  order in which pieces that make one call each run (\<open>r_Schedule\<close>), and whose turn it is, call by call,
  when pieces make several (\<open>r_Interleaving\<close>).
\<close>

record 's reconciler =
  r_Client :: "'s api_client"
  r_GatewayAPIEnabled :: bool
  r_Pods :: pod_lib
  r_Conditions :: cond_lib
  r_SetControllerReference :: "object_meta \<Rightarrow> object_meta \<Rightarrow> object_meta result"
  r_IsControlledBy :: "object_meta \<Rightarrow> object_meta \<Rightarrow> bool"
  r_Schedule :: "nat \<Rightarrow> nat list"
  r_Interleaving :: "nat \<Rightarrow> nat list"

lemma call_simps [client_simps]:
  "w_calls (snd (call k f w)) = w_calls w @ [k]"
  "w_events (snd (call k f w)) = w_events w"
  "w_api (snd (call k f w)) = snd (f (w_api w))"
  "fst (call k f w) = fst (f (w_api w))"
  by (simp_all add: call_def split: prod.splits)

lemma call_eqD [client_simps]:
  "call k f w = (x, w') \<longleftrightarrow>
     x = fst (f (w_api w)) \<and> w' = w\<lparr>w_api := snd (f (w_api w)), w_calls := w_calls w @ [k]\<rparr>"
  by (auto simp: call_def split: prod.splits)

lemma Eventf_simps [client_simps]:
  "w_calls (Eventf t r a m w) = w_calls w"
  "w_api (Eventf t r a m w) = w_api w"
  "w_events (Eventf t r a m w) =
     w_events w @ [\<lparr>evt_Type = t, evt_Reason = r, evt_Action = a, evt_Message = m\<rparr>]"
  by (simp_all add: Eventf_def)

section \<open>The contract of a reconcile step\<close>

text \<open>What a step adds to a sequence.\<close>

definition added :: "'a list \<Rightarrow> 'a list \<Rightarrow> 'a list" where
  "added xs ys = drop (length xs) ys"

definition new_calls :: "'s world \<Rightarrow> 's world \<Rightarrow> api_call list" where
  "new_calls w w' = added (w_calls w) (w_calls w')"

definition new_events :: "'s world \<Rightarrow> 's world \<Rightarrow> event list" where
  "new_events w w' = added (w_events w) (w_events w')"

definition extends :: "(api_call \<Rightarrow> bool) \<Rightarrow> 's world \<Rightarrow> 's world \<Rightarrow> bool" where
  "extends ok w w' \<longleftrightarrow> prefix (w_calls w) (w_calls w') \<and> prefix (w_events w) (w_events w') \<and>
     list_all ok (new_calls w w')"

lemma added_append [simp]: "added xs (xs @ ys) = ys"
  by (simp add: added_def)

lemma added_same [simp]: "added xs xs = []"
  by (simp add: added_def)

lemma added_trans: "prefix xs ys \<Longrightarrow> prefix ys zs \<Longrightarrow> added xs zs = added xs ys @ added ys zs"
  by (auto simp: prefix_def added_def)

lemma extends_refl [simp, intro]: "extends ok w w"
  by (simp add: extends_def new_calls_def)

lemma extends_trans [trans]: "extends ok w w' \<Longrightarrow> extends ok w' w'' \<Longrightarrow> extends ok w w''"
  unfolding extends_def new_calls_def
  by (metis added_trans list_all_append prefix_order.trans)

lemma extends_mono: "extends ok w w' \<Longrightarrow> (\<And>k. ok k \<Longrightarrow> ok' k) \<Longrightarrow> extends ok' w w'"
  by (auto simp: extends_def list_all_iff)

lemma extends_call [intro]: "ok k \<Longrightarrow> extends ok w (snd (call k f w))"
  by (simp add: extends_def new_calls_def client_simps)

lemma extends_call_eq: "call k f w = (x, w') \<Longrightarrow> ok k \<Longrightarrow> extends ok w w'"
  by (metis extends_call snd_conv)

lemma extends_step: "extends ok w w1 \<Longrightarrow> call k f w1 = (y, w2) \<Longrightarrow> ok k \<Longrightarrow> extends ok w w2"
  by (blast intro: extends_trans extends_call_eq)

lemma extends_event: "extends ok w w' \<Longrightarrow> extends ok w (w'\<lparr>w_events := w_events w' @ es\<rparr>)"
  by (auto simp: extends_def new_calls_def)

lemma extends_Eventf_trans: "extends ok w w' \<Longrightarrow> extends ok w (Eventf t r a m w')"
  by (simp add: Eventf_def extends_event)

lemma extends_Eventf [intro]: "extends ok w (Eventf t r a m w)"
  by (simp add: extends_def new_calls_def client_simps)

lemma new_calls_trans:
  "extends ok w w' \<Longrightarrow> extends ok' w' w'' \<Longrightarrow> new_calls w w'' = new_calls w w' @ new_calls w' w''"
  by (simp add: extends_def new_calls_def added_trans)

lemma new_events_trans:
  "extends ok w w' \<Longrightarrow> extends ok' w' w'' \<Longrightarrow> new_events w w'' = new_events w w' @ new_events w' w''"
  by (simp add: extends_def new_events_def added_trans)

locale api_handler =
  fixes run :: "'x \<Rightarrow> 's world \<Rightarrow> 'a \<times> 's world" and allowed :: "'x \<Rightarrow> api_call \<Rightarrow> bool"
  assumes run_extends: "extends (allowed x) w (snd (run x w))"
begin

lemma run_prefix: "prefix (w_calls w) (w_calls (snd (run x w)))"
  "prefix (w_events w) (w_events (snd (run x w)))"
  using run_extends [of x w] by (simp_all add: extends_def)

lemma run_allowed: "k \<in> set (new_calls w (snd (run x w))) \<Longrightarrow> allowed x k"
  using run_extends [of x w] by (simp add: extends_def list_all_iff)

lemma run_forbidden: "\<not> allowed x k \<Longrightarrow> k \<notin> set (new_calls w (snd (run x w)))"
  by (blast dest: run_allowed)

lemma run_within: "(\<And>k. allowed x k \<Longrightarrow> ok k) \<Longrightarrow> extends ok w (snd (run x w))"
  by (rule extends_mono [OF run_extends])

end

end
