(* ===== verification/Reconcile_Accounts.thy ===== *)
theory Reconcile_Accounts
  imports Api_Client
begin

text \<open>
  The reconciliation of \<open>internal/controller/serviceaccount.go\<close>: the accounts the spec asks the
  operator to create, scheduler first. The step interprets \<open>api_handler\<close>: all it ever does is create
  the accounts its component's pods name.
\<close>

definition reconcileServiceAccount ::
  "'s reconciler \<Rightarrow> PolarsCluster \<Rightarrow> string \<Rightarrow> string \<Rightarrow> ServiceAccountSpec option \<Rightarrow> 's world
     \<Rightarrow> go_error option \<times> 's world" where
  "reconcileServiceAccount r c component name spec w =
     (if (case spec of None \<Rightarrow> True | Some s \<Rightarrow> \<not> sas_Create s) then (None, w)
      else
        (let m = zero_object_meta\<lparr>om_Name := name, om_Namespace := cl_Namespace c,
                   om_Labels := standardLabels c component\<rparr>
         in case r_SetControllerReference r (cl_Meta c) m of
              Inl err \<Rightarrow> (Some err, w)
            | Inr m \<Rightarrow>
                (let sa = \<lparr>sa_Meta = m\<rparr> in
                 case call (CreateServiceAccount sa) (ac_CreateServiceAccount (r_Client r) sa) w of
                   (Some err, w) \<Rightarrow>
                     if \<not> IsAlreadyExists err
                     then (classifyAPIError ''ServiceAccountRejected'' (Some err), w) else (None, w)
                 | (None, w) \<Rightarrow> (None, w))))"

definition reconcilePolarsClusterServiceAccounts ::
  "'s reconciler \<Rightarrow> PolarsCluster \<Rightarrow> 's world \<Rightarrow> go_error option \<times> 's world" where
  "reconcilePolarsClusterServiceAccounts r c w =
     (let schedulerSpec = schedulerServiceAccountSpec c in
      case reconcileServiceAccount r c componentScheduler
             (resolveServiceAccountName schedulerSpec (schedulerServiceAccountName c)) schedulerSpec w of
        (Some err, w) \<Rightarrow> (Some err, w)
      | (None, w) \<Rightarrow>
          (let workerSpec = workerServiceAccountSpec c in
           reconcileServiceAccount r c componentWorker
             (resolveServiceAccountName workerSpec (workerServiceAccountName c)) workerSpec w))"

section \<open>What a step does\<close>

definition creates_account :: "ServiceAccountSpec option \<Rightarrow> bool" where
  "creates_account spec = (case spec of None \<Rightarrow> False | Some s \<Rightarrow> sas_Create s)"

definition account_meta :: "PolarsCluster \<Rightarrow> string \<Rightarrow> string \<Rightarrow> object_meta" where
  "account_meta c component name =
     zero_object_meta\<lparr>om_Name := name, om_Namespace := cl_Namespace c,
       om_Labels := standardLabels c component\<rparr>"

fun account_call :: "'s reconciler \<Rightarrow> PolarsCluster \<Rightarrow> string \<Rightarrow> string \<Rightarrow> api_call \<Rightarrow> bool" where
  "account_call r c component name (CreateServiceAccount sa) \<longleftrightarrow>
     r_SetControllerReference r (cl_Meta c) (account_meta c component name) = Inr (sa_Meta sa)"
| "account_call r c component name _ \<longleftrightarrow> False"

lemma reconcileServiceAccount_skip:
  "\<not> creates_account spec \<Longrightarrow> reconcileServiceAccount r c k n spec w = (None, w)"
  by (simp add: reconcileServiceAccount_def creates_account_def split: option.splits)

lemma reconcileServiceAccount_create:
  assumes "creates_account spec"
    and "r_SetControllerReference r (cl_Meta c) (account_meta c k n) = Inr m"
  shows "reconcileServiceAccount r c k n spec w =
     (case call (CreateServiceAccount \<lparr>sa_Meta = m\<rparr>)
             (ac_CreateServiceAccount (r_Client r) \<lparr>sa_Meta = m\<rparr>) w of
        (e, w') \<Rightarrow>
          (case e of
             None \<Rightarrow> None
           | Some err \<Rightarrow> if IsAlreadyExists err then None
                         else Some (classified ''ServiceAccountRejected'' err), w'))"
  using assms
  by (auto simp: reconcileServiceAccount_def creates_account_def account_meta_def Let_def
        classifyAPIError_Some split: option.splits prod.splits)

lemma reconcileServiceAccount_unowned:
  assumes "creates_account spec" and "r_SetControllerReference r (cl_Meta c) (account_meta c k n) = Inl e"
  shows "reconcileServiceAccount r c k n spec w = (Some e, w)"
  using assms
  by (auto simp: reconcileServiceAccount_def creates_account_def account_meta_def split: option.splits)

interpretation account_step: api_handler
  "\<lambda>(r, c, k, n, spec) w. reconcileServiceAccount r c k n spec w"
  "\<lambda>(r, c, k, n, spec). account_call r c k n"
proof (unfold_locales, clarify)
  fix r c k n spec w
  show "extends (account_call r c k n) w (snd (reconcileServiceAccount r c k n spec w))"
  proof (cases "creates_account spec")
    case True
    then show ?thesis
      by (cases "r_SetControllerReference r (cl_Meta c) (account_meta c k n)")
         (auto simp: reconcileServiceAccount_create reconcileServiceAccount_unowned
            split: prod.splits option.splits elim!: extends_call_eq)
  qed (simp add: reconcileServiceAccount_skip)
qed

definition accounts_call :: "'s reconciler \<Rightarrow> PolarsCluster \<Rightarrow> api_call \<Rightarrow> bool" where
  "accounts_call r c k \<longleftrightarrow>
     account_call r c componentScheduler
       (resolveServiceAccountName (schedulerServiceAccountSpec c) (schedulerServiceAccountName c)) k \<or>
     account_call r c componentWorker
       (resolveServiceAccountName (workerServiceAccountSpec c) (workerServiceAccountName c)) k"

interpretation accounts_step: api_handler
  "\<lambda>(r, c) w. reconcilePolarsClusterServiceAccounts r c w" "\<lambda>(r, c). accounts_call r c"
proof (unfold_locales, clarify)
  fix r c w
  let ?sn = "resolveServiceAccountName (schedulerServiceAccountSpec c) (schedulerServiceAccountName c)"
  let ?wn = "resolveServiceAccountName (workerServiceAccountSpec c) (workerServiceAccountName c)"
  have s: "extends (accounts_call r c) w'
      (snd (reconcileServiceAccount r c componentScheduler ?sn (schedulerServiceAccountSpec c) w'))" for w'
    using account_step.run_within [of "(r, c, componentScheduler, ?sn, schedulerServiceAccountSpec c)"
        "accounts_call r c" w'] by (simp add: accounts_call_def)
  have t: "extends (accounts_call r c) w'
      (snd (reconcileServiceAccount r c componentWorker ?wn (workerServiceAccountSpec c) w'))" for w'
    using account_step.run_within [of "(r, c, componentWorker, ?wn, workerServiceAccountSpec c)"
        "accounts_call r c" w'] by (simp add: accounts_call_def)
  show "extends (accounts_call r c) w (snd (reconcilePolarsClusterServiceAccounts r c w))"
    using s [of w] extends_trans [OF s [of w] t]
    by (auto simp: reconcilePolarsClusterServiceAccounts_def Let_def split: prod.splits option.splits)
qed

end
