(* ===== verification/Pod_Readiness.thy ===== *)
theory Pod_Readiness
  imports Api_Client
begin

text \<open>
  \<open>podIsReady\<close> and \<open>podNotReadyMessage\<close> of \<open>polarscluster_controller.go\<close>: the two loops over a pod's
  conditions and container states, and the template hash label both reconcilers compare. The lemmas
  say which condition decides, that a message is never empty, and in which order its sources win.
\<close>

definition PodReady :: string where "PodReady = ''Ready''"
definition ConditionTrue :: string where "ConditionTrue = ''True''"
definition ConditionFalse :: string where "ConditionFalse = ''False''"

fun ready_condition :: "pod_condition list \<Rightarrow> bool" where
  "ready_condition [] = False"
| "ready_condition (cond # conds) =
     (if pc_Type cond = PodReady \<and> pc_Status cond = ConditionTrue then True else ready_condition conds)"

definition podIsReady :: "pod \<Rightarrow> bool" where
  "podIsReady p = ready_condition (pst_Conditions (pod_Status p))"

text \<open>The two loops, each returning from the function at the first text it finds.\<close>

fun condition_message :: "pod_condition list \<Rightarrow> string option" where
  "condition_message [] = None"
| "condition_message (cond # conds) =
     (if pc_Type cond \<noteq> PodReady \<or> pc_Status cond = ConditionTrue then condition_message conds
      else if pc_Message cond \<noteq> [] then Some (pc_Message cond)
      else if pc_Reason cond \<noteq> [] then Some (pc_Reason cond)
      else condition_message conds)"

fun container_message :: "container_status list \<Rightarrow> string option" where
  "container_message [] = None"
| "container_message (cs # css) =
     (case cs_Waiting cs of
        Some (r # rs) \<Rightarrow> Some (''container '' @ cs_Name cs @ '' is waiting: '' @ r # rs)
      | _ \<Rightarrow>
          (case cs_Terminated cs of
             Some (r # rs) \<Rightarrow> Some (''container '' @ cs_Name cs @ '' terminated: '' @ r # rs)
           | _ \<Rightarrow> container_message css))"

definition podNotReadyMessage :: "pod \<Rightarrow> string" where
  "podNotReadyMessage p =
     (case condition_message (pst_Conditions (pod_Status p)) of
        Some m \<Rightarrow> m
      | None \<Rightarrow>
          (case container_message (pst_ContainerStatuses (pod_Status p)) of
             Some m \<Rightarrow> m
           | None \<Rightarrow> ''pod is not Ready''))"

lemma ready_condition_iff:
  "ready_condition conds \<longleftrightarrow>
     (\<exists>cond \<in> set conds. pc_Type cond = PodReady \<and> pc_Status cond = ConditionTrue)"
  by (induction conds) auto

lemma podIsReady_iff:
  "podIsReady p \<longleftrightarrow>
     (\<exists>cond \<in> set (pst_Conditions (pod_Status p)). pc_Type cond = PodReady \<and> pc_Status cond = ConditionTrue)"
  by (simp add: podIsReady_def ready_condition_iff)

lemma condition_message_nonempty: "condition_message conds = Some m \<Longrightarrow> m \<noteq> []"
  by (induction conds rule: condition_message.induct) (auto split: if_splits)

lemma container_message_nonempty: "container_message css = Some m \<Longrightarrow> m \<noteq> []"
  by (induction css rule: container_message.induct) (auto split: option.splits list.splits)

lemma podNotReadyMessage_nonempty [simp]: "podNotReadyMessage p \<noteq> []"
  by (auto simp: podNotReadyMessage_def split: option.splits
        dest: condition_message_nonempty container_message_nonempty)

text \<open>The kubelet's own words about a condition that is not True come before any container state.\<close>

lemma condition_message_source:
  "condition_message conds = Some m \<Longrightarrow>
     \<exists>cond \<in> set conds. pc_Type cond = PodReady \<and> pc_Status cond \<noteq> ConditionTrue \<and>
       (m = pc_Message cond \<or> pc_Message cond = [] \<and> m = pc_Reason cond)"
  by (induction conds rule: condition_message.induct) (auto split: if_splits)

lemma condition_message_None_iff:
  "condition_message conds = None \<longleftrightarrow>
     (\<forall>cond \<in> set conds. pc_Type cond = PodReady \<and> pc_Status cond \<noteq> ConditionTrue \<longrightarrow>
        pc_Message cond = [] \<and> pc_Reason cond = [])"
  by (induction conds rule: condition_message.induct) auto

section \<open>The template hash label\<close>

text \<open>Reading a missing key of a Go map gives the empty string.\<close>

definition label_of :: "pod \<Rightarrow> string \<Rightarrow> string" where
  "label_of p k = (case pod_labels p k of Some v \<Rightarrow> v | None \<Rightarrow> [])"

definition set_label :: "string \<Rightarrow> string \<Rightarrow> pod \<Rightarrow> pod" where
  "set_label k v p = p\<lparr>pod_Meta := (pod_Meta p)\<lparr>om_Labels := (pod_labels p)(k \<mapsto> v)\<rparr>\<rparr>"

definition terminating :: "pod \<Rightarrow> bool" where
  "terminating p = (om_DeletionTimestamp (pod_Meta p) \<noteq> None)"

definition stale :: "string \<Rightarrow> pod \<Rightarrow> bool" where
  "stale hash p = (\<not> terminating p \<and> label_of p templateHashLabel \<noteq> hash)"

lemma label_of_set_label [simp]: "label_of (set_label k v p) k' = (if k' = k then v else label_of p k')"
  by (simp add: label_of_def set_label_def)

lemma set_label_simps [simp]:
  "pod_labels (set_label k v p) = (pod_labels p)(k \<mapsto> v)"
  "pod_Spec (set_label k v p) = pod_Spec p" "pod_Status (set_label k v p) = pod_Status p"
  "om_Name (pod_Meta (set_label k v p)) = om_Name (pod_Meta p)"
  "om_Namespace (pod_Meta (set_label k v p)) = om_Namespace (pod_Meta p)"
  by (simp_all add: set_label_def)

text \<open>The hash is no part of a selector, so stamping it leaves every selection as it was.\<close>

lemma selects_set_label:
  "sel templateHashLabel = None \<Longrightarrow> selects sel (set_label templateHashLabel h p) \<longleftrightarrow> selects sel p"
  by (auto simp: selects_def map_le_def)

lemma component_selector_hash [simp]: "component_selector c k templateHashLabel = None"
  by (simp add: component_selector_def templateHashLabel_def clusterLabel_def componentLabel_def)

end
