(* ===== verification/Scheduler_Reconcile.thy ===== *)
theory Scheduler_Reconcile
  imports Pod_Readiness
begin

text \<open>
  \<open>reconcileScheduler\<close> of \<open>polarscluster_controller.go\<close>: the singleton scheduler pod, read by name,
  created when it is missing and deleted when its template hash is out of date. The pod the step
  wants (\<open>desired_scheduler\<close>) is split off; after that the step is a case distinction on the answer to
  its one read, and each case has a lemma giving the result, the calls and the events. That stamping the
  hash also writes the label map of the user's template is \<open>scheduler_labelled\<close> of \<open>Template_Labels\<close>.
\<close>

definition reconcileScheduler ::
  "'s reconciler \<Rightarrow> PolarsCluster \<Rightarrow> 's world \<Rightarrow> (SchedulerStatus \<times> string) result \<times> 's world" where
  "reconcileScheduler r c w =
     (case BuildSchedulerPodTemplate (r_Pods r) c of
        Inl err \<Rightarrow> (Inl err, w)
      | Inr p \<Rightarrow>
     (case podTemplateHash (r_Pods r) (pod_Spec p) of
        Inl err \<Rightarrow> (Inl err, w)
      | Inr hash \<Rightarrow>
     (let p = set_label templateHashLabel hash p;
          ns = om_Namespace (pod_Meta p); n = om_Name (pod_Meta p)
      in case call (GetPod ns n) (ac_GetPod (r_Client r) ns n) w of
        (Inl err, w) \<Rightarrow>
          if IsNotFound err then
            (case r_SetControllerReference r (cl_Meta c) (pod_Meta p) of
               Inl err \<Rightarrow> (Inl err, w)
             | Inr m \<Rightarrow>
                 (let p = p\<lparr>pod_Meta := m\<rparr> in
                  case call (CreatePod p) (ac_CreatePod (r_Client r) p) w of
                    (Inl err, w) \<Rightarrow> (Inl (classified ''SchedulerPodRejected'' err), w)
                  | (Inr p, w) \<Rightarrow>
                      (Inr (\<lparr>sst_Ready = False\<rparr>, ''scheduler pod was just created''),
                       Eventf EventTypeNormal ''SchedulerPodCreated'' actionCreatePod
                         (''Created scheduler pod '' @ om_Name (pod_Meta p)) w)))
          else (Inl err, w)
      | (Inr existing, w) \<Rightarrow>
          if \<not> terminating existing \<and> label_of existing templateHashLabel \<noteq> hash then
            (case call (DeletePod existing) (ac_DeletePod (r_Client r) existing) w of
               (derr, w) \<Rightarrow>
                 (case derr of
                    Some err \<Rightarrow>
                      if \<not> IsNotFound err then (Inl err, w)
                      else
                        (Inr (\<lparr>sst_Ready = False\<rparr>, ''scheduler pod is being recreated for a template change''),
                         Eventf EventTypeNormal ''SchedulerPodRecreating'' actionDeletePod
                           (''Deleted scheduler pod '' @ om_Name (pod_Meta existing)
                              @ '' for a template change'') w)
                  | None \<Rightarrow>
                      (Inr (\<lparr>sst_Ready = False\<rparr>, ''scheduler pod is being recreated for a template change''),
                       Eventf EventTypeNormal ''SchedulerPodRecreating'' actionDeletePod
                         (''Deleted scheduler pod '' @ om_Name (pod_Meta existing)
                            @ '' for a template change'') w)))
          else if podIsReady existing then (Inr (\<lparr>sst_Ready = True\<rparr>, []), w)
          else (Inr (\<lparr>sst_Ready = False\<rparr>, podNotReadyMessage existing), w))))"

section \<open>The wanted pod\<close>

definition desired_scheduler :: "'s reconciler \<Rightarrow> PolarsCluster \<Rightarrow> pod result" where
  "desired_scheduler r c =
     (case BuildSchedulerPodTemplate (r_Pods r) c of
        Inl err \<Rightarrow> Inl err
      | Inr p \<Rightarrow>
          (case podTemplateHash (r_Pods r) (pod_Spec p) of
             Inl err \<Rightarrow> Inl err
           | Inr hash \<Rightarrow> Inr (set_label templateHashLabel hash p)))"

definition scheduler_read :: "PolarsCluster \<Rightarrow> api_call" where
  "scheduler_read c = GetPod (cl_Namespace c) (schedulerPodName c)"

definition read_scheduler ::
  "'s reconciler \<Rightarrow> PolarsCluster \<Rightarrow> 's world \<Rightarrow> pod result \<times> 's world" where
  "read_scheduler r c = call (scheduler_read c)
     (ac_GetPod (r_Client r) (cl_Namespace c) (schedulerPodName c))"

lemma desired_scheduler_Inr:
  assumes "desired_scheduler r c = Inr p"
  shows "om_Name (pod_Meta p) = schedulerPodName c" "om_Namespace (pod_Meta p) = cl_Namespace c"
    and "podTemplateHash (r_Pods r) (pod_Spec p) = Inr (label_of p templateHashLabel)"
    and "selects (component_selector c componentScheduler) p"
    and "\<exists>b. BuildSchedulerPodTemplate (r_Pods r) c = Inr b \<and> pod_Spec p = pod_Spec b"
proof -
  from assms obtain b h where b: "BuildSchedulerPodTemplate (r_Pods r) c = Inr b"
    and h: "podTemplateHash (r_Pods r) (pod_Spec b) = Inr h" and p: "p = set_label templateHashLabel h b"
    by (auto simp: desired_scheduler_def split: sum.splits)
  show "om_Name (pod_Meta p) = schedulerPodName c" "om_Namespace (pod_Meta p) = cl_Namespace c"
    using b by (auto simp: p elim: BuildScheduler_Inr)
  show "podTemplateHash (r_Pods r) (pod_Spec p) = Inr (label_of p templateHashLabel)"
    using h by (simp add: p)
  show "selects (component_selector c componentScheduler) p"
    using scheduler_builder.built_selected [OF b] by (simp add: p selects_set_label)
  show "\<exists>b. BuildSchedulerPodTemplate (r_Pods r) c = Inr b \<and> pod_Spec p = pod_Spec b"
    using b by (simp add: p)
qed

text \<open>A hash is never the empty string a pod without the label reads as.\<close>

lemma desired_scheduler_hash:
  "desired_scheduler r c = Inr p \<Longrightarrow> label_of p templateHashLabel \<noteq> []"
  using podTemplateHash_length [OF desired_scheduler_Inr(3)] by fastforce

section \<open>The cases of the step\<close>

definition recreating_event :: "pod \<Rightarrow> event" where
  "recreating_event p =
     \<lparr>evt_Type = ''Normal'', evt_Reason = ''SchedulerPodRecreating'', evt_Action = ''DeletePod'',
      evt_Message = ''Deleted scheduler pod '' @ om_Name (pod_Meta p) @ '' for a template change''\<rparr>"

definition scheduler_created_event :: "pod \<Rightarrow> event" where
  "scheduler_created_event p =
     \<lparr>evt_Type = ''Normal'', evt_Reason = ''SchedulerPodCreated'', evt_Action = ''CreatePod'',
      evt_Message = ''Created scheduler pod '' @ om_Name (pod_Meta p)\<rparr>"

lemma reconcileScheduler_undesired:
  "desired_scheduler r c = Inl e \<Longrightarrow> reconcileScheduler r c w = (Inl e, w)"
  by (auto simp: desired_scheduler_def reconcileScheduler_def split: sum.splits)

lemma reconcileScheduler_eq:
  assumes "desired_scheduler r c = Inr p"
  shows "reconcileScheduler r c w =
     (case read_scheduler r c w of
        (Inl err, w) \<Rightarrow>
          if IsNotFound err then
            (case r_SetControllerReference r (cl_Meta c) (pod_Meta p) of
               Inl err \<Rightarrow> (Inl err, w)
             | Inr m \<Rightarrow>
                 (case call (CreatePod (p\<lparr>pod_Meta := m\<rparr>)) (ac_CreatePod (r_Client r) (p\<lparr>pod_Meta := m\<rparr>)) w of
                    (Inl err, w) \<Rightarrow> (Inl (classified ''SchedulerPodRejected'' err), w)
                  | (Inr q, w) \<Rightarrow>
                      (Inr (\<lparr>sst_Ready = False\<rparr>, ''scheduler pod was just created''),
                       w\<lparr>w_events := w_events w @ [scheduler_created_event q]\<rparr>)))
          else (Inl err, w)
      | (Inr existing, w) \<Rightarrow>
          if stale (label_of p templateHashLabel) existing then
            (case call (DeletePod existing) (ac_DeletePod (r_Client r) existing) w of
               (derr, w) \<Rightarrow>
                 (case IgnoreNotFound derr of
                    Some err \<Rightarrow> (Inl err, w)
                  | None \<Rightarrow>
                      (Inr (\<lparr>sst_Ready = False\<rparr>, ''scheduler pod is being recreated for a template change''),
                       w\<lparr>w_events := w_events w @ [recreating_event existing]\<rparr>)))
          else if podIsReady existing then (Inr (\<lparr>sst_Ready = True\<rparr>, []), w)
          else (Inr (\<lparr>sst_Ready = False\<rparr>, podNotReadyMessage existing), w))"
proof -
  from assms obtain b h where b: "BuildSchedulerPodTemplate (r_Pods r) c = Inr b"
    and h: "podTemplateHash (r_Pods r) (pod_Spec b) = Inr h" and p: "p = set_label templateHashLabel h b"
    by (auto simp: desired_scheduler_def split: sum.splits)
  have names: "om_Name (pod_Meta p) = schedulerPodName c" "om_Namespace (pod_Meta p) = cl_Namespace c"
    using desired_scheduler_Inr [OF assms] by simp_all
  have hash: "label_of p templateHashLabel = h" by (simp add: p)
  show ?thesis
    unfolding reconcileScheduler_def b h sum.case Let_def p [symmetric] names hash stale_def
      read_scheduler_def scheduler_read_def
    by (simp add: Eventf_def scheduler_created_event_def recreating_event_def EventTypeNormal_def
          actionCreatePod_def actionDeletePod_def IgnoreNotFound_def
          split: sum.splits prod.splits option.splits)
qed

lemma read_scheduler_calls:
  "read_scheduler r c w = (x, w') \<Longrightarrow> w_calls w' = w_calls w @ [scheduler_read c] \<and> w_events w' = w_events w"
  by (auto simp: read_scheduler_def client_simps)

lemma reconcileScheduler_kept:
  assumes "desired_scheduler r c = Inr p" and "read_scheduler r c w = (Inr e, w')"
    and "\<not> stale (label_of p templateHashLabel) e"
  shows "reconcileScheduler r c w =
     (Inr (\<lparr>sst_Ready = podIsReady e\<rparr>, if podIsReady e then [] else podNotReadyMessage e), w')"
  using assms by (simp add: reconcileScheduler_eq)

text \<open>The kinds of call the step makes.\<close>

fun scheduler_call :: "'s reconciler \<Rightarrow> PolarsCluster \<Rightarrow> api_call \<Rightarrow> bool" where
  "scheduler_call r c (GetPod ns n) \<longleftrightarrow> ns = cl_Namespace c \<and> n = schedulerPodName c"
| "scheduler_call r c (CreatePod q) \<longleftrightarrow>
     (\<exists>p m. desired_scheduler r c = Inr p \<and> r_SetControllerReference r (cl_Meta c) (pod_Meta p) = Inr m \<and>
        q = p\<lparr>pod_Meta := m\<rparr>)"
| "scheduler_call r c (DeletePod q) \<longleftrightarrow>
     (\<exists>p s. desired_scheduler r c = Inr p \<and> stale (label_of p templateHashLabel) q \<and>
        fst (ac_GetPod (r_Client r) (cl_Namespace c) (schedulerPodName c) s) = Inr q)"
| "scheduler_call r c _ \<longleftrightarrow> False"

interpretation scheduler_step: api_handler
  "\<lambda>(r, c) w. reconcileScheduler r c w" "\<lambda>(r, c). scheduler_call r c"
proof (unfold_locales, clarify)
  fix r c w
  show "extends (scheduler_call r c) w (snd (reconcileScheduler r c w))"
  proof (cases "desired_scheduler r c")
    case (Inl e)
    then show ?thesis by (simp add: reconcileScheduler_undesired)
  next
    case (Inr p)
    obtain x w1 where read: "read_scheduler r c w = (x, w1)" by (cases "read_scheduler r c w")
    then have w1: "extends (scheduler_call r c) w w1"
      by (auto simp: read_scheduler_def scheduler_read_def elim!: extends_call_eq)
    have got: "fst (ac_GetPod (r_Client r) (cl_Namespace c) (schedulerPodName c) (w_api w)) = x"
      using read by (simp add: read_scheduler_def client_simps)
    have delete: "scheduler_call r c (DeletePod e)" if "x = Inr e" "stale (label_of p templateHashLabel) e" for e
      using got Inr that by auto
    have create: "scheduler_call r c (CreatePod (p\<lparr>pod_Meta := m\<rparr>))"
      if "r_SetControllerReference r (cl_Meta c) (pod_Meta p) = Inr m" for m
      using Inr that by auto
    show ?thesis
      using w1 delete create
      by (cases x) (auto simp: reconcileScheduler_eq [OF Inr] read simp del: scheduler_call.simps
            split: sum.splits prod.splits option.splits intro!: extends_event elim!: extends_step)
  qed
qed

end
