(* ===== verification/Worker_Pool.thy ===== *)
theory Worker_Pool
  imports Pod_Readiness
begin

text \<open>
  \<open>reconcileWorkerPool\<close> of \<open>polarscluster_controller.go\<close>: the pool's pods are listed by label, pods of an
  old template are deleted, missing pods are created in parallel pieces, surplus pods are deleted,
  and the remaining pods are counted. Each loop of the source is a function of its own; the lemmas
  give the list it leaves, the calls it makes and the events it records. The pieces of
  \<open>workqueue.ParallelizeUntil\<close> run in the order of the schedule, a list of piece numbers; the schedule
  of a cancelled context leaves pieces out. That stamping the hash on the pod also writes the label map of
  the user's template is \<open>workers_labelled\<close> of \<open>Template_Labels\<close>, which \<open>Reconcile\<close> applies after the step.
\<close>

section \<open>The loops\<close>

text \<open>Terminating pods are skipped, pods of another template deleted, the others kept.\<close>

fun delete_stale ::
  "'s reconciler \<Rightarrow> string \<Rightarrow> pod list \<Rightarrow> pod list \<Rightarrow> 's world \<Rightarrow> pod list result \<times> 's world" where
  "delete_stale r hash [] active w = (Inr active, w)"
| "delete_stale r hash (p # ps) active w =
     (if terminating p then delete_stale r hash ps active w
      else if label_of p templateHashLabel \<noteq> hash then
        (case call (DeletePod p) (ac_DeletePod (r_Client r) p) w of
           (derr, w) \<Rightarrow>
             if (case derr of Some err \<Rightarrow> \<not> IsNotFound err | None \<Rightarrow> False) then (Inl (the derr), w)
             else delete_stale r hash ps active
                    (Eventf EventTypeNormal ''WorkerPodRecreating'' actionDeletePod
                       (''Deleted worker pod '' @ om_Name (pod_Meta p) @ '' for a template change'') w))
      else delete_stale r hash ps (active @ [p]) w)"

text \<open>One piece of the parallel creation, and the pieces in the order of a schedule.\<close>

type_synonym creations = "pod option list \<times> go_error option list"

definition create_piece ::
  "'s reconciler \<Rightarrow> pod \<Rightarrow> nat \<Rightarrow> creations \<times> 's world \<Rightarrow> creations \<times> 's world" where
  "create_piece r podTemplate i st =
     (case st of ((created, errs), w) \<Rightarrow>
        (case call (CreatePod podTemplate) (ac_CreatePod (r_Client r) podTemplate) w of
           (Inl err, w) \<Rightarrow> ((created, errs[i := Some (classified ''WorkerPodRejected'' err)]), w)
         | (Inr p, w) \<Rightarrow> ((created[i := Some p], errs), w)))"

definition create_pods ::
  "'s reconciler \<Rightarrow> pod \<Rightarrow> nat list \<Rightarrow> nat \<Rightarrow> 's world \<Rightarrow> creations \<times> 's world" where
  "create_pods r podTemplate order n w =
     fold (create_piece r podTemplate) order ((replicate n None, replicate n None), w)"

fun collect_created :: "pod option list \<Rightarrow> pod list \<Rightarrow> 's world \<Rightarrow> pod list \<times> 's world" where
  "collect_created [] active w = (active, w)"
| "collect_created (None # ps) active w = collect_created ps active w"
| "collect_created (Some p # ps) active w =
     collect_created ps (active @ [p])
       (Eventf EventTypeNormal ''WorkerPodCreated'' actionCreatePod
          (''Created worker pod '' @ om_Name (pod_Meta p)) w)"

text \<open>
  Deleting the first \<open>n\<close> active pods, and the slice past them. Go indexes the slice, so running off
  its end is a panic.
\<close>

fun delete_surplus ::
  "'s reconciler \<Rightarrow> nat \<Rightarrow> pod list \<Rightarrow> 's world \<Rightarrow> pod list result \<times> 's world" where
  "delete_surplus r 0 active w = (Inr active, w)"
| "delete_surplus r (Suc n) [] w = (Inl (PanicError ''index out of range''), w)"
| "delete_surplus r (Suc n) (p # active) w =
     (case call (DeletePod p) (ac_DeletePod (r_Client r) p) w of
        (Some err, w) \<Rightarrow>
          if IsNotFound err then delete_surplus r n active w else (Inl err, w)
      | (None, w) \<Rightarrow>
          delete_surplus r n active
            (Eventf EventTypeNormal ''WorkerPodDeleted'' actionDeletePod
               (''Deleted worker pod '' @ om_Name (pod_Meta p)) w))"

fun count_ready :: "pod list \<Rightarrow> int32 \<Rightarrow> pod option \<Rightarrow> int32 \<times> pod option" where
  "count_ready [] readyReplicas notReadyPod = (readyReplicas, notReadyPod)"
| "count_ready (p # ps) readyReplicas notReadyPod =
     (if podIsReady p then count_ready ps (readyReplicas + 1) notReadyPod
      else if notReadyPod = None then count_ready ps readyReplicas (Some p)
      else count_ready ps readyReplicas notReadyPod)"

definition pool_selector :: "PolarsCluster \<Rightarrow> string" where
  "pool_selector c =
     clusterLabel @ ''='' @ cl_Name c @ '','' @ componentLabel @ ''='' @ componentWorker"

section \<open>The step\<close>

definition pool_status :: "PolarsCluster \<Rightarrow> pod list \<Rightarrow> WorkerPoolStatus \<times> string" where
  "pool_status c active =
     (let wp = spec_WorkerPool (cl_Spec c);
          (readyReplicas, notReadyPod) = count_ready active 0 None;
          status = \<lparr>wps_Replicas = word_of_nat (length active), wps_ReadyReplicas = readyReplicas,
                    wps_Selector = pool_selector c\<rparr>;
          message =
            (if wps_Replicas status \<noteq> wp_Replicas wp then
               FormatInt (sint (wps_Replicas status)) @ ''/'' @ FormatInt (sint (wp_Replicas wp))
                 @ '' desired worker pods exist''
             else
               (case notReadyPod of
                  Some p \<Rightarrow> ''worker pod '' @ om_Name (pod_Meta p) @ '': '' @ podNotReadyMessage p
                | None \<Rightarrow> []))
      in (status, message))"

definition scale_pool ::
  "'s reconciler \<Rightarrow> PolarsCluster \<Rightarrow> pod \<Rightarrow> pod list \<Rightarrow> 's world \<Rightarrow> pod list result \<times> 's world" where
  "scale_pool r c podTemplate active w =
     (let lackingPodCount = sint (wp_Replicas (spec_WorkerPool (cl_Spec c))) - int (length active) in
      if lackingPodCount > 0 then
        (let n = nat lackingPodCount;
             ((created, errs), w) = create_pods r podTemplate (r_Schedule r n) n w;
             (active, w) = collect_created created active w
         in case reducePodErrors errs of
              (setAside, Some err) \<Rightarrow> (Inl err, w)
            | (setAside, None) \<Rightarrow> (Inr active, w))
      else if lackingPodCount < 0 then delete_surplus r (nat (- lackingPodCount)) active w
      else (Inr active, w))"

definition reconcileWorkerPool ::
  "'s reconciler \<Rightarrow> PolarsCluster \<Rightarrow> 's world \<Rightarrow> (WorkerPoolStatus \<times> string) result \<times> 's world" where
  "reconcileWorkerPool r c w =
     (case BuildWorkerPodTemplate (r_Pods r) c of
        Inl err \<Rightarrow> (Inl err, w)
      | Inr podTemplate \<Rightarrow>
     (case podTemplateHash (r_Pods r) (pod_Spec podTemplate) of
        Inl err \<Rightarrow> (Inl err, w)
      | Inr hash \<Rightarrow>
     (let podTemplate = set_label templateHashLabel hash podTemplate in
      case r_SetControllerReference r (cl_Meta c) (pod_Meta podTemplate) of
        Inl err \<Rightarrow> (Inl err, w)
      | Inr m \<Rightarrow>
     (let podTemplate = podTemplate\<lparr>pod_Meta := m\<rparr>;
          sel = [clusterLabel \<mapsto> cl_Name c, componentLabel \<mapsto> componentWorker]
      in case call (ListPods (cl_Namespace c) sel) (ac_ListPods (r_Client r) (cl_Namespace c) sel) w of
        (Inl err, w) \<Rightarrow> (Inl err, w)
      | (Inr managedPods, w) \<Rightarrow>
     (case delete_stale r hash managedPods [] w of
        (Inl err, w) \<Rightarrow> (Inl err, w)
      | (Inr activeManagedPods, w) \<Rightarrow>
     (case scale_pool r c podTemplate activeManagedPods w of
        (Inl err, w) \<Rightarrow> (Inl err, w)
      | (Inr activeManagedPods, w) \<Rightarrow> (Inr (pool_status c activeManagedPods), w)))))))"

section \<open>The stale pods\<close>

definition current :: "string \<Rightarrow> pod \<Rightarrow> bool" where
  "current hash p = (\<not> terminating p \<and> label_of p templateHashLabel = hash)"

lemma current_not_stale: "current h p \<Longrightarrow> \<not> stale h p"
  by (simp add: current_def stale_def)

lemma delete_stale_Inr:
  "delete_stale r h ps active w = (Inr active', w') \<Longrightarrow>
     active' = active @ filter (current h) ps \<and>
     w_calls w' = w_calls w @ map DeletePod (filter (stale h) ps)"
  by (induction r h ps active w rule: delete_stale.induct)
     (auto simp: current_def stale_def client_simps split: if_splits prod.splits option.splits)

lemma delete_stale_Inl:
  "delete_stale r h ps active w = (Inl e, w') \<Longrightarrow>
     (\<exists>ds. prefix ds (filter (stale h) ps) \<and> w_calls w' = w_calls w @ map DeletePod ds) \<and> \<not> IsNotFound e"
proof (induction r h ps active w rule: delete_stale.induct)
  case (2 r h p ps active w)
  show ?case
  proof (cases "stale h p")
    case False
    with 2 show ?thesis by (auto simp: stale_def split: if_splits)
  next
    case True
    obtain derr w1 where d: "call (DeletePod p) (ac_DeletePod (r_Client r) p) w = (derr, w1)"
      by (cases "call (DeletePod p) (ac_DeletePod (r_Client r) p) w")
    then have calls: "w_calls w1 = w_calls w @ [DeletePod p]" by (auto simp: client_simps)
    show ?thesis
    proof (cases "case derr of Some err \<Rightarrow> \<not> IsNotFound err | None \<Rightarrow> False")
      case fails: True
      then obtain err where derr: "derr = Some err" "\<not> IsNotFound err" by (cases derr) auto
      with 2(4) True d have "e = err" "w' = w1" by (auto simp: stale_def)
      with True calls derr show ?thesis
        by (intro conjI exI [of _ "[p]"]) auto
    next
      case ok: False
      have "\<not> terminating p" "label_of p templateHashLabel \<noteq> h" using True by (auto simp: stale_def)
      from 2(2) [OF this d [symmetric] ok] 2(4) this d ok
      obtain ds where "prefix ds (filter (stale h) ps)" "\<not> IsNotFound e"
          "w_calls w' = w_calls w1 @ map DeletePod ds"
        by (auto simp: client_simps)
      with True calls show ?thesis
        by (intro conjI exI [of _ "p # ds"]) auto
    qed
  qed
qed simp

section \<open>The created pods\<close>

lemma create_piece_calls:
  "w_calls (snd (create_piece r t i st)) = w_calls (snd st) @ [CreatePod t]"
  "w_events (snd (create_piece r t i st)) = w_events (snd st)"
  by (auto simp: create_piece_def client_simps split: prod.splits sum.splits)

lemma fold_create_calls:
  "w_calls (snd (fold (create_piece r t) order st)) = w_calls (snd st) @ replicate (length order) (CreatePod t)"
  "w_events (snd (fold (create_piece r t) order st)) = w_events (snd st)"
  by (induction order arbitrary: st) (simp_all add: create_piece_calls)

lemmas create_pods_calls = fold_create_calls [where st = "(_, _)", simplified]

text \<open>After the pieces of a schedule, a piece that ran left a pod or an error, another one nothing.\<close>

definition piece_done :: "creations \<Rightarrow> nat \<Rightarrow> bool" where
  "piece_done st i \<longleftrightarrow> (fst st ! i = None) \<noteq> (snd st ! i = None)"

definition piece_untouched :: "creations \<Rightarrow> nat \<Rightarrow> bool" where
  "piece_untouched st i \<longleftrightarrow> fst st ! i = None \<and> snd st ! i = None"

lemma create_piece_state:
  assumes "length (fst (fst st)) = n" "length (snd (fst st)) = n" "i < n" "piece_untouched (fst st) i"
  shows "length (fst (fst (create_piece r t i st))) = n" "length (snd (fst (create_piece r t i st))) = n"
    and "piece_done (fst (create_piece r t i st)) i"
    and "j \<noteq> i \<Longrightarrow> fst (fst (create_piece r t i st)) ! j = fst (fst st) ! j \<and>
           snd (fst (create_piece r t i st)) ! j = snd (fst st) ! j"
  using assms
  by (auto simp: create_piece_def piece_done_def piece_untouched_def split: prod.splits sum.splits)

lemma fold_create_state:
  fixes r :: "'s reconciler" and t :: pod
  assumes "distinct order" "set order \<subseteq> {..<n}" "length (fst (fst st)) = n" "length (snd (fst st)) = n"
    and "\<forall>i < n. piece_untouched (fst st) i \<or> i \<notin> set order"
  defines "st' \<equiv> fold (create_piece r t) order st"
  shows "length (fst (fst st')) = n \<and> length (snd (fst st')) = n \<and>
    (\<forall>i < n. if i \<in> set order then piece_done (fst st') i
             else fst (fst st') ! i = fst (fst st) ! i \<and> snd (fst st') ! i = snd (fst st) ! i)"
  using assms(1-5) unfolding st'_def
proof (induction order arbitrary: st)
  case (Cons i order)
  let ?s = "create_piece r t i st"
  have i: "i < n" "piece_untouched (fst st) i" using Cons.prems by auto
  note cp = create_piece_state [OF Cons.prems(3,4) i]
  have "piece_untouched (fst ?s) j \<or> j \<notin> set order" if "j < n" for j
  proof (cases "j = i")
    case False
    with that Cons.prems(5) cp(4) [of j] show ?thesis by (auto simp: piece_untouched_def)
  qed (use Cons.prems(1) in simp)
  then have "\<forall>j < n. piece_untouched (fst ?s) j \<or> j \<notin> set order" by blast
  from Cons.IH [of ?s, OF _ _ cp(1,2) this] Cons.prems(1,2) cp show ?case
    by (auto simp: piece_done_def)
qed simp

lemma create_pods_state:
  assumes "distinct order" "set order \<subseteq> {..<n}" "create_pods r t order n w = (st, w')"
  shows "length (fst st) = n" "length (snd st) = n"
    and "i < n \<Longrightarrow> i \<in> set order \<Longrightarrow> piece_done st i"
    and "i < n \<Longrightarrow> i \<notin> set order \<Longrightarrow> piece_untouched st i"
    and "w_calls w' = w_calls w @ replicate (length order) (CreatePod t)"
    and "w_events w' = w_events w"
proof -
  let ?s0 = "((replicate n None, replicate n None), w)"
  have st: "st = fst (fold (create_piece r t) order ?s0)" "w' = snd (fold (create_piece r t) order ?s0)"
    using assms(3) by (simp_all add: create_pods_def)
  note f = fold_create_state [of order n ?s0 r t, OF assms(1,2)]
  show "length (fst st) = n" "length (snd st) = n"
    using f by (simp_all add: st piece_untouched_def)
  show "i < n \<Longrightarrow> i \<in> set order \<Longrightarrow> piece_done st i"
    using f by (auto simp: st piece_untouched_def split: if_splits)
  show "i < n \<Longrightarrow> i \<notin> set order \<Longrightarrow> piece_untouched st i"
    using f by (auto simp: st piece_untouched_def split: if_splits)
  show "w_calls w' = w_calls w @ replicate (length order) (CreatePod t)" "w_events w' = w_events w"
    by (simp_all add: st fold_create_calls)
qed

definition created_event :: "pod \<Rightarrow> event" where
  "created_event p =
     \<lparr>evt_Type = ''Normal'', evt_Reason = ''WorkerPodCreated'', evt_Action = ''CreatePod'',
      evt_Message = ''Created worker pod '' @ om_Name (pod_Meta p)\<rparr>"

definition present :: "'a option list \<Rightarrow> 'a list" where
  "present xs = map the (filter (\<lambda>x. x \<noteq> None) xs)"

lemma collect_created_eq:
  "collect_created ps active w =
     (active @ present ps, w\<lparr>w_events := w_events w @ map created_event (present ps)\<rparr>)"
  by (induction ps active w rule: collect_created.induct)
     (simp_all add: present_def Eventf_def created_event_def EventTypeNormal_def actionCreatePod_def)

lemma length_present: "length (present xs) = length xs - count_list xs None"
  by (induction xs) (auto simp: present_def Suc_diff_le count_le_length)

lemma length_present_all: "(\<forall>i < length xs. xs ! i \<noteq> None) \<Longrightarrow> length (present xs) = length xs"
  by (simp add: present_def all_set_conv_all_nth [symmetric, where P = "\<lambda>x. x \<noteq> None"] filter_True
        del: not_None_eq)

section \<open>The surplus and the count\<close>

lemma delete_surplus_Inr:
  "delete_surplus r n active w = (Inr active', w') \<Longrightarrow>
     n \<le> length active \<and> active' = drop n active \<and>
     w_calls w' = w_calls w @ map DeletePod (take n active)"
  by (induction r n active w rule: delete_surplus.induct)
     (auto simp: client_simps split: prod.splits option.splits if_splits)

text \<open>When there are enough pods, only the API server can make the loop fail.\<close>

lemma delete_surplus_Inl:
  "delete_surplus r n active w = (Inl e, w') \<Longrightarrow> n \<le> length active \<Longrightarrow>
     (\<exists>p s. p \<in> set active \<and> fst (ac_DeletePod (r_Client r) p s) = Some e) \<and> \<not> IsNotFound e"
  by (induction r n active w rule: delete_surplus.induct)
     (auto simp: client_simps split: prod.splits option.splits if_splits)

lemma delete_surplus_calls:
  "delete_surplus r n active w = (x, w') \<Longrightarrow>
     \<exists>k \<le> n. w_calls w' = w_calls w @ map DeletePod (take k active)"
proof (induction r n active w rule: delete_surplus.induct)
  case (3 r n p active w)
  obtain derr w1 where d: "call (DeletePod p) (ac_DeletePod (r_Client r) p) w = (derr, w1)"
    by (cases "call (DeletePod p) (ac_DeletePod (r_Client r) p) w")
  then have calls: "w_calls w1 = w_calls w @ [DeletePod p]" by (auto simp: client_simps)
  have goal: "\<exists>k \<le> Suc n. w_calls w' = w_calls w @ map DeletePod (take k (p # active))"
    if "\<exists>k \<le> n. w_calls w' = w_calls w1 @ map DeletePod (take k active)"
  proof -
    from that obtain k where "k \<le> n" "w_calls w' = w_calls w1 @ map DeletePod (take k active)" by blast
    with calls show ?thesis by (intro exI [of _ "Suc k"]) simp
  qed
  show ?case
  proof (cases derr)
    case None
    with 3(1) [OF d [symmetric] None] 3(3) d goal show ?thesis by (auto simp: client_simps)
  next
    case (Some err)
    show ?thesis
    proof (cases "IsNotFound err")
      case True
      with 3(2) [OF d [symmetric] Some True] 3(3) d goal Some show ?thesis by auto
    next
      case False
      with 3(3) d Some calls show ?thesis by (auto intro!: exI [of _ "1"])
    qed
  qed
qed auto

lemma count_ready_eq:
  "count_ready ps k np =
     (k + word_of_nat (length (filter podIsReady ps)),
      if np \<noteq> None then np else find (\<lambda>p. \<not> podIsReady p) ps)"
  by (induction ps k np rule: count_ready.induct) auto

lemma find_not_ready_None_iff:
  "find (\<lambda>p. \<not> podIsReady p) ps = None \<longleftrightarrow> (\<forall>p \<in> set ps. podIsReady p)"
  by (auto simp: find_None_iff)

lemma pool_status_simps:
  "wps_Replicas (fst (pool_status c ps)) = word_of_nat (length ps)"
  "wps_ReadyReplicas (fst (pool_status c ps)) = word_of_nat (length (filter podIsReady ps))"
  "wps_Selector (fst (pool_status c ps)) = pool_selector c"
  by (simp_all add: pool_status_def count_ready_eq Let_def)

text \<open>The message explains exactly a pool that is not ready.\<close>

definition pool_ready :: "PolarsCluster \<Rightarrow> WorkerPoolStatus \<Rightarrow> bool" where
  "pool_ready c st =
     (wps_Replicas st = wp_Replicas (spec_WorkerPool (cl_Spec c)) \<and>
      wps_ReadyReplicas st = wps_Replicas st)"

lemma word_of_nat_lengths:
  assumes "length ps < 2 ^ 31"
  shows "(word_of_nat (length (filter P ps)) :: int32) = word_of_nat (length ps) \<longleftrightarrow> (\<forall>p \<in> set ps. P p)"
proof -
  have "length (filter P ps) < 2 ^ 31" using assms length_filter_le [of P ps] by linarith
  with assms have "(word_of_nat (length (filter P ps)) :: int32) = word_of_nat (length ps)
      \<longleftrightarrow> length (filter P ps) = length ps"
    by (simp add: word_of_nat_eq_iff take_bit_nat_eq_self)
  also have "\<dots> \<longleftrightarrow> (\<forall>p \<in> set ps. P p)"
    by (metis filter_id_conv filter_True length_filter_less nat_less_le)
  finally show ?thesis .
qed

lemma pool_message_empty_iff:
  assumes "length ps < 2 ^ 31"
  shows "snd (pool_status c ps) = [] \<longleftrightarrow> pool_ready c (fst (pool_status c ps))"
  using assms
  by (auto simp: pool_status_def pool_ready_def Let_def count_ready_eq word_of_nat_lengths find_None_iff
        find_Some_iff split: option.splits)

section \<open>The whole step\<close>

definition desired_worker :: "'s reconciler \<Rightarrow> PolarsCluster \<Rightarrow> (string \<times> pod) result" where
  "desired_worker r c =
     (case BuildWorkerPodTemplate (r_Pods r) c of
        Inl err \<Rightarrow> Inl err
      | Inr t \<Rightarrow>
          (case podTemplateHash (r_Pods r) (pod_Spec t) of
             Inl err \<Rightarrow> Inl err
           | Inr hash \<Rightarrow>
               (case r_SetControllerReference r (cl_Meta c) (pod_Meta (set_label templateHashLabel hash t)) of
                  Inl err \<Rightarrow> Inl err
                | Inr m \<Rightarrow> Inr (hash, (set_label templateHashLabel hash t)\<lparr>pod_Meta := m\<rparr>))))"

definition list_workers ::
  "'s reconciler \<Rightarrow> PolarsCluster \<Rightarrow> 's world \<Rightarrow> pod list result \<times> 's world" where
  "list_workers r c =
     call (ListPods (cl_Namespace c) (component_selector c componentWorker))
       (ac_ListPods (r_Client r) (cl_Namespace c) (component_selector c componentWorker))"

lemma reconcileWorkerPool_undesired:
  "desired_worker r c = Inl e \<Longrightarrow> reconcileWorkerPool r c w = (Inl e, w)"
  by (auto simp: desired_worker_def reconcileWorkerPool_def Let_def split: sum.splits)

lemma reconcileWorkerPool_eq:
  "desired_worker r c = Inr (hash, t) \<Longrightarrow>
     reconcileWorkerPool r c w =
       (case list_workers r c w of
          (Inl err, w) \<Rightarrow> (Inl err, w)
        | (Inr ps, w) \<Rightarrow>
            (case delete_stale r hash ps [] w of
               (Inl err, w) \<Rightarrow> (Inl err, w)
             | (Inr active, w) \<Rightarrow>
                 (case scale_pool r c t active w of
                    (Inl err, w) \<Rightarrow> (Inl err, w)
                  | (Inr active, w) \<Rightarrow> (Inr (pool_status c active), w))))"
  by (auto simp: desired_worker_def reconcileWorkerPool_def Let_def list_workers_def
        component_selector_def split: sum.splits)

lemma desired_worker_hash:
  assumes "desired_worker r c = Inr (hash, t)"
  shows "length hash = 8" "podTemplateHash (r_Pods r) (pod_Spec t) = Inr hash"
  using assms
  by (auto simp: desired_worker_def split: sum.splits dest: podTemplateHash_length)

lemma list_workers_calls:
  "list_workers r c w = (x, w') \<Longrightarrow>
     w_calls w' = w_calls w @ [ListPods (cl_Namespace c) (component_selector c componentWorker)]"
  by (auto simp: list_workers_def client_simps)

section \<open>Scaling\<close>

definition wanted :: "PolarsCluster \<Rightarrow> int" where
  "wanted c = sint (wp_Replicas (spec_WorkerPool (cl_Spec c)))"

text \<open>A schedule of \<open>n\<close> pieces runs each at most once; it is complete when none is left out.\<close>

definition schedule_ok :: "(nat \<Rightarrow> nat list) \<Rightarrow> nat \<Rightarrow> bool" where
  "schedule_ok sched n = (distinct (sched n) \<and> set (sched n) \<subseteq> {..<n})"

definition schedule_complete :: "(nat \<Rightarrow> nat list) \<Rightarrow> nat \<Rightarrow> bool" where
  "schedule_complete sched n = (distinct (sched n) \<and> set (sched n) = {..<n})"

lemma schedule_complete_ok: "schedule_complete s n \<Longrightarrow> schedule_ok s n"
  by (simp add: schedule_complete_def schedule_ok_def)

lemma schedule_complete_length: "schedule_complete s n \<Longrightarrow> length (s n) = n"
  by (metis card_lessThan distinct_card schedule_complete_def)

lemma schedule_ok_length: "schedule_ok s n \<Longrightarrow> length (s n) \<le> n"
  by (metis card_lessThan card_mono distinct_card finite_lessThan schedule_ok_def)

lemma scale_pool_calls:
  assumes "scale_pool r c t active w = (x, w')"
  shows "\<exists>ks. w_calls w' = w_calls w @ ks \<and>
     (if int (length active) < wanted c
      then ks = replicate (length (r_Schedule r (nat (wanted c - int (length active))))) (CreatePod t)
      else \<exists>k. ks = map DeletePod (take k active) \<and> int k \<le> int (length active) - wanted c)"
proof -
  let ?n = "nat (wanted c - int (length active))"
  consider (more) "int (length active) < wanted c" | (less) "wanted c < int (length active)"
    | (same) "wanted c = int (length active)" by linarith
  then show ?thesis
  proof cases
    case more
    obtain st w1 where cp: "create_pods r t (r_Schedule r ?n) ?n w = (st, w1)"
      by (cases "create_pods r t (r_Schedule r ?n) ?n w")
    then have "w_calls w1 = w_calls w @ replicate (length (r_Schedule r ?n)) (CreatePod t)"
      by (metis create_pods_def fold_create_calls(1) snd_conv)
    moreover have "w_calls w' = w_calls w1"
      using assms cp more
      by (auto simp: scale_pool_def wanted_def Let_def collect_created_eq split: prod.splits option.splits)
    ultimately show ?thesis using more by simp
  next
    case less
    with assms have "delete_surplus r (nat (int (length active) - wanted c)) active w = (x, w')"
      by (simp add: scale_pool_def wanted_def Let_def)
    from delete_surplus_calls [OF this] obtain k where "k \<le> nat (int (length active) - wanted c)"
        "w_calls w' = w_calls w @ map DeletePod (take k active)" by blast
    with less show ?thesis by (auto intro!: exI [of _ k])
  next
    case same
    with assms have "w' = w" by (simp add: scale_pool_def wanted_def Let_def)
    with same show ?thesis by (auto intro!: exI [of _ "0::nat"])
  qed
qed

text \<open>
  A pool that was scaled without an error has the wanted number of pods when the pieces all ran, and
  never more than that.
\<close>

lemma scale_pool_Inr_more:
  assumes "scale_pool r c t active w = (Inr active', w')" "int (length active) < wanted c"
    and "schedule_ok (r_Schedule r) (nat (wanted c - int (length active)))"
  shows "length active' = length active + length (r_Schedule r (nat (wanted c - int (length active))))"
    and "\<exists>ps. active' = active @ ps"
proof -
  let ?n = "nat (wanted c - int (length active))" let ?o = "r_Schedule r ?n"
  have o: "distinct ?o" "set ?o \<subseteq> {..<?n}" using assms(3) by (simp_all add: schedule_ok_def)
  obtain created errs w1 where cp: "create_pods r t ?o ?n w = ((created, errs), w1)"
    by (metis surj_pair)
  note st = create_pods_state [OF o cp, simplified]
  have a: "active' = active @ present created" and "snd (reducePodErrors errs) = None"
    using assms(1,2) cp
    by (auto simp: scale_pool_def wanted_def Let_def collect_created_eq split: prod.splits option.splits)
  then have none: "\<forall>e \<in> set errs. e = None" by (simp add: reduce_none present_errors_Nil_iff)
  have iff: "created ! i \<noteq> None \<longleftrightarrow> i \<in> set ?o" if "i < ?n" for i
    using st(2) st(3) [of i] st(4) [of i] none that
    by (cases "i \<in> set ?o") (auto simp: piece_done_def piece_untouched_def)
  have "length (present created) = card {i. i < ?n \<and> created ! i \<noteq> None}"
    using st(1) by (simp add: present_def length_filter_conv_card del: not_None_eq)
  also have "{i. i < ?n \<and> created ! i \<noteq> None} = set ?o" using iff o(2) by blast
  finally show "length active' = length active + length ?o"
    using o(1) a by (simp add: distinct_card)
  show "\<exists>ps. active' = active @ ps" using a by blast
qed

lemma scale_pool_Inr_less:
  assumes "scale_pool r c t active w = (Inr active', w')" "wanted c \<le> int (length active)"
  shows "0 \<le> wanted c" "int (length active') = wanted c"
    "active' = drop (nat (int (length active) - wanted c)) active"
    "w_calls w' = w_calls w @ map DeletePod (take (nat (int (length active) - wanted c)) active)"
proof -
  have "nat (int (length active) - wanted c) \<le> length active \<and>
      active' = drop (nat (int (length active) - wanted c)) active \<and>
      w_calls w' = w_calls w @ map DeletePod (take (nat (int (length active) - wanted c)) active)"
  proof (cases "wanted c = int (length active)")
    case True
    with assms show ?thesis by (simp add: scale_pool_def wanted_def Let_def)
  next
    case False
    with assms have "delete_surplus r (nat (int (length active) - wanted c)) active w = (Inr active', w')"
      by (simp add: scale_pool_def wanted_def Let_def)
    from delete_surplus_Inr [OF this] show ?thesis .
  qed
  with assms(2) show "0 \<le> wanted c" "int (length active') = wanted c"
    "active' = drop (nat (int (length active) - wanted c)) active"
    "w_calls w' = w_calls w @ map DeletePod (take (nat (int (length active) - wanted c)) active)"
    by auto
qed

lemma scale_pool_Inl:
  assumes "scale_pool r c t active w = (Inl e, w')" "0 \<le> wanted c"
  shows "(\<exists>errs. snd (reducePodErrors errs) = Some e) \<or>
     (\<exists>p s. p \<in> set active \<and> fst (ac_DeletePod (r_Client r) p s) = Some e)"
proof (cases "wanted c < int (length active)")
  case True
  with assms have "delete_surplus r (nat (int (length active) - wanted c)) active w = (Inl e, w')"
    by (simp add: scale_pool_def wanted_def Let_def)
  from delete_surplus_Inl [OF this] assms(2) show ?thesis by auto
next
  case False
  with assms show ?thesis
    by (auto simp: scale_pool_def wanted_def Let_def split: prod.splits option.splits if_splits)
       (metis snd_conv)
qed

section \<open>What the step may do\<close>

fun worker_call :: "'s reconciler \<Rightarrow> PolarsCluster \<Rightarrow> api_call \<Rightarrow> bool" where
  "worker_call r c (ListPods ns sel) \<longleftrightarrow>
     ns = cl_Namespace c \<and> sel = component_selector c componentWorker"
| "worker_call r c (CreatePod q) \<longleftrightarrow> (\<exists>h. desired_worker r c = Inr (h, q))"
| "worker_call r c (DeletePod q) \<longleftrightarrow> \<not> terminating q \<and>
     (\<exists>s ps. fst (ac_ListPods (r_Client r) (cl_Namespace c) (component_selector c componentWorker) s) = Inr ps
        \<and> q \<in> set ps)"
| "worker_call r c _ \<longleftrightarrow> False"

lemma delete_stale_extends:
  "(\<And>p. p \<in> set ps \<Longrightarrow> \<not> terminating p \<Longrightarrow> ok (DeletePod p)) \<Longrightarrow> extends ok w0 w \<Longrightarrow>
     extends ok w0 (snd (delete_stale r h ps active w))"
proof (induction r h ps active w rule: delete_stale.induct)
  case (2 r h p ps active w)
  have e: "extends ok w0 w2" if "\<not> terminating p"
    "call (DeletePod p) (ac_DeletePod (r_Client r) p) w = (y, w2)" for y w2
    by (rule extends_step [OF 2(5) that(2)]) (use 2(4) that(1) in auto)
  with 2 show ?case
    by (auto split: prod.splits option.splits simp: extends_Eventf_trans)
qed simp

lemma delete_surplus_extends:
  "(\<And>p. p \<in> set active \<Longrightarrow> ok (DeletePod p)) \<Longrightarrow> extends ok w0 w \<Longrightarrow>
     extends ok w0 (snd (delete_surplus r n active w))"
proof (induction r n active w rule: delete_surplus.induct)
  case (3 r n p active w)
  have e: "extends ok w0 w2"
    if "call (DeletePod p) (ac_DeletePod (r_Client r) p) w = (y, w2)" for y w2
    by (rule extends_step [OF 3(4) that]) (use 3(3) in auto)
  with 3 show ?case
    by (auto split: prod.splits option.splits simp: extends_Eventf_trans)
qed simp_all

lemma create_piece_extends:
  "ok (CreatePod t) \<Longrightarrow> extends ok w0 (snd st) \<Longrightarrow> extends ok w0 (snd (create_piece r t i st))"
  by (auto simp: create_piece_def split: prod.splits sum.splits elim: extends_step)

lemma create_pods_extends:
  assumes "ok (CreatePod t)" "extends ok w0 w"
  shows "extends ok w0 (snd (create_pods r t order n w))"
proof -
  have "extends ok w0 (snd (fold (create_piece r t) order st))" if "extends ok w0 (snd st)" for st
    using that by (induction order arbitrary: st) (simp_all add: create_piece_extends assms(1))
  then show ?thesis using assms(2) by (simp add: create_pods_def)
qed

lemma scale_pool_extends:
  assumes "ok (CreatePod t)" "\<And>p. p \<in> set active \<Longrightarrow> ok (DeletePod p)" "extends ok w0 w"
  shows "extends ok w0 (snd (scale_pool r c t active w))"
proof -
  let ?n = "nat (sint (wp_Replicas (spec_WorkerPool (cl_Spec c))) - int (length active))"
  have "extends ok w0 (snd (create_pods r t (r_Schedule r ?n) ?n w))"
    by (rule create_pods_extends [where ok = ok and t = t]) (use assms in auto)
  then show ?thesis
    using delete_surplus_extends [of active ok w0 w r] assms
    by (auto simp: scale_pool_def Let_def collect_created_eq split: prod.splits option.splits
          intro: extends_event)
qed

interpretation worker_step: api_handler
  "\<lambda>(r, c) w. reconcileWorkerPool r c w" "\<lambda>(r, c). worker_call r c"
proof (unfold_locales, clarify)
  fix r c w
  show "extends (worker_call r c) w (snd (reconcileWorkerPool r c w))"
  proof (cases "desired_worker r c")
    case (Inl e)
    then show ?thesis by (simp add: reconcileWorkerPool_undesired)
  next
    case (Inr d)
    obtain hash t where d: "desired_worker r c = Inr (hash, t)" using Inr by (cases d) auto
    obtain x w1 where l: "list_workers r c w = (x, w1)" by (cases "list_workers r c w")
    then have w1: "extends (worker_call r c) w w1"
      by (auto simp: list_workers_def elim!: extends_call_eq)
    show ?thesis
    proof (cases x)
      case x: (Inl e)
      with w1 d l show ?thesis by (simp add: reconcileWorkerPool_eq)
    next
      case x: (Inr ps)
      have ps: "worker_call r c (DeletePod p)" if "p \<in> set ps" "\<not> terminating p" for p
        using l x that by (auto simp: list_workers_def client_simps intro!: exI [of _ "w_api w"] exI [of _ ps])
      obtain y w2 where s: "delete_stale r hash ps [] w1 = (y, w2)"
        by (cases "delete_stale r hash ps [] w1")
      have w2: "extends (worker_call r c) w w2"
        using delete_stale_extends [OF ps w1, where ps = ps and r = r and h = hash and active = "[]"] s
        by (simp del: worker_call.simps)
      show ?thesis
      proof (cases y)
        case y: (Inl e)
        with w2 d l x s show ?thesis by (simp add: reconcileWorkerPool_eq)
      next
        case y: (Inr active)
        have "active = filter (current hash) ps" using delete_stale_Inr s y by fastforce
        then have "worker_call r c (DeletePod p)" if "p \<in> set active" for p
          using that ps by (auto simp: current_def simp del: worker_call.simps)
        from scale_pool_extends [OF _ this w2, where t = t and r = r and c = c] d
        have "extends (worker_call r c) w (snd (scale_pool r c t active w2))" by auto
        with d l x s y show ?thesis
          by (auto simp: reconcileWorkerPool_eq split: prod.splits sum.splits)
      qed
    qed
  qed
qed

text \<open>A step that succeeds, in full: its calls, and the pods its status counts.\<close>

lemma reconcileWorkerPool_Inr:
  assumes "reconcileWorkerPool r c w = (Inr x, w')"
  obtains hash t ps w1 w2 final where
    "desired_worker r c = Inr (hash, t)" "list_workers r c w = (Inr ps, w1)"
    "w_calls w2 = w_calls w @ [ListPods (cl_Namespace c) (component_selector c componentWorker)]
       @ map DeletePod (filter (stale hash) ps)"
    "scale_pool r c t (filter (current hash) ps) w2 = (Inr final, w')"
    "x = pool_status c final"
proof (cases "desired_worker r c")
  case (Inl e)
  with assms show ?thesis by (simp add: reconcileWorkerPool_undesired)
next
  case (Inr d)
  obtain hash t where d: "desired_worker r c = Inr (hash, t)" using Inr by (cases d) auto
  from assms obtain ps w1 active w2 final where l: "list_workers r c w = (Inr ps, w1)"
      and s: "delete_stale r hash ps [] w1 = (Inr active, w2)"
      and f: "scale_pool r c t active w2 = (Inr final, w')" and x: "x = pool_status c final"
    by (auto simp: reconcileWorkerPool_eq [OF d] split: prod.splits sum.splits)
  from delete_stale_Inr [OF s] list_workers_calls [OF l] that [OF d l _ _ x] f
  show ?thesis by auto
qed

text \<open>Errors come from a library, from the API, or are the reduction of creation errors.\<close>

lemma reconcileWorkerPool_replicas:
  assumes "reconcileWorkerPool r c w = (Inr (st, msg), w')" "0 \<le> wanted c"
    and "\<And>n. schedule_complete (r_Schedule r) n"
  shows "wps_Replicas st = wp_Replicas (spec_WorkerPool (cl_Spec c))"
proof -
  from assms(1) obtain hash t ps w1 w2 final where
    sc: "scale_pool r c t (filter (current hash) ps) w2 = (Inr final, w')"
    and x: "(st, msg) = pool_status c final"
    by (rule reconcileWorkerPool_Inr)
  let ?a = "filter (current hash) ps"
  have "int (length final) = wanted c"
  proof (cases "wanted c \<le> int (length ?a)")
    case True
    from scale_pool_Inr_less [OF sc True] show ?thesis by simp
  next
    case False
    with scale_pool_Inr_more [OF sc] assms(3) [of "nat (wanted c - int (length ?a))"]
    show ?thesis by (simp add: schedule_complete_ok schedule_complete_length)
  qed
  then have "wps_Replicas st = word_of_int (wanted c)"
    using x by (metis fst_conv of_int_of_nat_eq pool_status_simps(1))
  then show ?thesis by (simp add: wanted_def)
qed

end
