(* ===== verification/Interleaving.thy ===== *)
theory Interleaving
  imports Operator_Prelude
begin

text \<open>
  Pieces of work that run concurrently, each a little state machine over a shared world: a turn of
  piece \<open>i\<close> changes its own local state and the world, and a turn of no piece does nothing. What holds
  of all pieces and the world and is kept by every turn holds after any interleaving.
\<close>

definition turn ::
  "(nat \<Rightarrow> 'l \<Rightarrow> 'w \<Rightarrow> 'l \<times> 'w) \<Rightarrow> nat \<Rightarrow> 'l list \<times> 'w \<Rightarrow> 'l list \<times> 'w" where
  "turn step i st =
     (if i < length (fst st) then (case step i (fst st ! i) (snd st) of (l, w) \<Rightarrow> ((fst st)[i := l], w))
      else st)"

definition turns ::
  "(nat \<Rightarrow> 'l \<Rightarrow> 'w \<Rightarrow> 'l \<times> 'w) \<Rightarrow> nat list \<Rightarrow> 'l list \<times> 'w \<Rightarrow> 'l list \<times> 'w" where
  "turns step order st = fold (turn step) order st"

lemma turns_simps [simp]:
  "turns step [] st = st"
  "turns step (i # order) st = turns step order (turn step i st)"
  "turns step (xs @ ys) st = turns step ys (turns step xs st)"
  by (simp_all add: turns_def)

lemma turn_length [simp]: "length (fst (turn step i st)) = length (fst st)"
  by (simp add: turn_def split: prod.splits)

lemma turns_length [simp]: "length (fst (turns step order st)) = length (fst st)"
  by (induction order arbitrary: st) simp_all

lemma turns_keep:
  assumes "\<And>i st. I st \<Longrightarrow> I (turn step i st)"
  shows "I st \<Longrightarrow> I (turns step order st)"
  by (induction order arbitrary: st) (simp_all add: assms)

text \<open>Pieces whose every turn brings their own rank down end at rank zero.\<close>

lemma turns_rank:
  assumes "\<And>i l w. rank (fst (step i l w)) \<le> rank l - (1 :: nat)"
  shows "i < length (fst st) \<Longrightarrow> rank (fst (turns step order st) ! i) \<le> rank (fst st ! i) - count_list order i"
proof (induction order arbitrary: st)
  case (Cons j order)
  have len: "i < length (fst (turn step j st))" using Cons.prems by simp
  have "rank (fst (turn step j st) ! i) \<le> rank (fst st ! i) - (if j = i then 1 else 0)"
    using assms [of j "fst st ! j" "snd st"] Cons.prems
    by (auto simp: turn_def case_prod_beta nth_list_update)
  with Cons.IH [OF len] show ?case by (auto split: if_splits)
qed simp

text \<open>An invariant of the pieces' local states and of the world, from each turn alone.\<close>

lemma turns_invariant:
  assumes "\<And>i l w. i < n \<Longrightarrow> P i l \<Longrightarrow> R w \<Longrightarrow> P i (fst (step i l w)) \<and> R (snd (step i l w))"
  shows "length (fst st) = n \<Longrightarrow> \<forall>i < n. P i (fst st ! i) \<Longrightarrow> R (snd st) \<Longrightarrow>
     (\<forall>i < n. P i (fst (turns step order st) ! i)) \<and> R (snd (turns step order st))"
proof (induction order arbitrary: st)
  case (Cons i order)
  have "(\<forall>j < n. P j (fst (turn step i st) ! j)) \<and> R (snd (turn step i st))"
  proof (cases "i < n")
    case True
    from assms [of i "fst st ! i" "snd st"] True Cons.prems show ?thesis
      by (auto simp: turn_def case_prod_beta nth_list_update)
  next
    case False
    with Cons.prems show ?thesis by (simp add: turn_def)
  qed
  with Cons.IH [of "turn step i st"] Cons.prems(1) show ?case by simp
qed simp

end
