(* ===== verification/Services.thy ===== *)
theory Services
  imports Pod_Readiness Interleaving
begin

text \<open>
  The Services of \<open>polarscluster_controller.go\<close>: \<open>reconcileServices\<close> and \<open>reconcileService\<close>. A service is
  read and then created or updated; three of them are handled at once by \<open>workqueue.ParallelizeUntil\<close>.
  \<open>reconcileService\<close> is the function as written; \<open>service_step\<close> cuts it at its calls, so that the
  reconciliation of the three runs under any interleaving of their calls (an interleaving is a sequence of
  piece numbers, and \<open>reconcileServices\<close> runs the cut function), and \<open>service_piece_alone\<close> shows
  that the cut function is the original one.
\<close>

section \<open>The wanted services\<close>

record desired_service =
  ds_Name :: string
  ds_Config :: "ServiceConfig option"
  ds_Ports :: "service_port list"

definition schedulerServices :: "PolarsCluster \<Rightarrow> SchedulerServicesSpec" where
  "schedulerServices c =
     (case spec_Scheduler (cl_Spec c) of
        Some s \<Rightarrow>
          (case sch_Services s of
             Some services \<Rightarrow> services
           | None \<Rightarrow> \<lparr>sss_Scheduler = None, sss_Internal = None, sss_Observatory = None\<rparr>)
      | None \<Rightarrow> \<lparr>sss_Scheduler = None, sss_Internal = None, sss_Observatory = None\<rparr>)"

definition serviceConfig :: "ExposedServiceConfig option \<Rightarrow> ServiceConfig option" where
  "serviceConfig config = (case config of None \<Rightarrow> None | Some x \<Rightarrow> Some (esc_ServiceConfig x))"

definition desired_services :: "PolarsCluster \<Rightarrow> desired_service list" where
  "desired_services c =
     (let services = schedulerServices c in
      [\<lparr>ds_Name = schedulerServiceName c, ds_Config = serviceConfig (sss_Scheduler services),
        ds_Ports = [\<lparr>sp_Name = ''sched'', sp_Port = schedulerPort, sp_Protocol = ProtocolTCP,
                     sp_AppProtocol = Some ''kubernetes.io/h2c''\<rparr>]\<rparr>,
       \<lparr>ds_Name = schedulerInternalServiceName c, ds_Config = sss_Internal services,
        ds_Ports = [\<lparr>sp_Name = ''worker-sched'', sp_Port = 5050, sp_Protocol = ProtocolTCP,
                     sp_AppProtocol = None\<rparr>,
                    \<lparr>sp_Name = ''obser-grpc'', sp_Port = 5049, sp_Protocol = ProtocolTCP,
                     sp_AppProtocol = None\<rparr>]\<rparr>,
       \<lparr>ds_Name = observatoryServiceName c, ds_Config = serviceConfig (sss_Observatory services),
        ds_Ports = [\<lparr>sp_Name = ''obser-rest'', sp_Port = observatoryRESTPort, sp_Protocol = ProtocolTCP,
                     sp_AppProtocol = None\<rparr>]\<rparr>])"

definition scheduler_selector :: "PolarsCluster \<Rightarrow> str_map" where
  "scheduler_selector c = [clusterLabel \<mapsto> cl_Name c, componentLabel \<mapsto> componentScheduler]"

section \<open>One service\<close>

text \<open>Service type, annotations, readiness publication and cluster IP of a configuration.\<close>

definition service_settings :: "ServiceConfig option \<Rightarrow> string \<times> str_map \<times> bool \<times> string" where
  "service_settings config =
     (case config of
        None \<Rightarrow> (''ClusterIP'', Map.empty, True, [])
      | Some cfg \<Rightarrow>
          ((case sc_Type cfg of Some t \<Rightarrow> if t \<noteq> [] then t else ''ClusterIP'' | None \<Rightarrow> ''ClusterIP''),
           sc_Annotations cfg,
           (case sc_PublishNotReadyAddresses cfg of Some b \<Rightarrow> b | None \<Rightarrow> True),
           sc_ClusterIP cfg))"

definition new_service ::
  "PolarsCluster \<Rightarrow> string \<Rightarrow> ServiceConfig option \<Rightarrow> service_port list \<Rightarrow> str_map \<Rightarrow> service" where
  "new_service c name config ports selector =
     (case service_settings config of
        (serviceType, annotations, publishNotReadyAddresses, clusterIP) \<Rightarrow>
          \<lparr>svc_Meta = zero_object_meta\<lparr>om_Name := name, om_Namespace := cl_Namespace c,
             om_Labels := schedulerObjectLabels c, om_Annotations := annotations\<rparr>,
           svc_Spec = \<lparr>ss_Type = serviceType, ss_ClusterIP = clusterIP, ss_Ports = ports,
             ss_Selector = selector, ss_PublishNotReadyAddresses = publishNotReadyAddresses,
             ss_Other = []\<rparr>\<rparr>)"

definition updated_service ::
  "ServiceConfig option \<Rightarrow> service_port list \<Rightarrow> str_map \<Rightarrow> service \<Rightarrow> service" where
  "updated_service config ports selector existing =
     (case service_settings config of
        (serviceType, annotations, publishNotReadyAddresses, clusterIP) \<Rightarrow>
          existing\<lparr>svc_Meta := (svc_Meta existing)\<lparr>om_Annotations := annotations\<rparr>,
            svc_Spec := (svc_Spec existing)\<lparr>ss_Type := serviceType, ss_Ports := ports,
              ss_Selector := selector, ss_PublishNotReadyAddresses := publishNotReadyAddresses\<rparr>\<rparr>)"

definition reconcileService ::
  "'s reconciler \<Rightarrow> PolarsCluster \<Rightarrow> string \<Rightarrow> ServiceConfig option \<Rightarrow> service_port list \<Rightarrow> str_map
     \<Rightarrow> 's world \<Rightarrow> go_error option \<times> 's world" where
  "reconcileService r c name config ports selector w =
     (case call (GetService (cl_Namespace c) name) (ac_GetService (r_Client r) (cl_Namespace c) name) w of
        (Inl err, w) \<Rightarrow>
          if IsNotFound err then
            (let service = new_service c name config ports selector in
             case r_SetControllerReference r (cl_Meta c) (svc_Meta service) of
               Inl err \<Rightarrow> (Some err, w)
             | Inr m \<Rightarrow>
                 (let service = service\<lparr>svc_Meta := m\<rparr> in
                  case call (CreateService service) (ac_CreateService (r_Client r) service) w of
                    (Some err, w) \<Rightarrow> (classifyAPIError ''ServiceRejected'' (Some err), w)
                  | (None, w) \<Rightarrow> (None, w)))
          else (Some err, w)
      | (Inr existing, w) \<Rightarrow>
          (let existing = updated_service config ports selector existing in
           case call (UpdateService existing) (ac_UpdateService (r_Client r) existing) w of
             (Some err, w) \<Rightarrow> (classifyAPIError ''ServiceRejected'' (Some err), w)
           | (None, w) \<Rightarrow> (None, w)))"

section \<open>The function cut at its calls\<close>

datatype service_phase =
    SvcStart
  | SvcCreate service
  | SvcUpdate service
  | SvcDone "go_error option"

definition service_step ::
  "'s reconciler \<Rightarrow> PolarsCluster \<Rightarrow> desired_service \<Rightarrow> str_map \<Rightarrow> service_phase \<Rightarrow> 's world
     \<Rightarrow> service_phase \<times> 's world" where
  "service_step r c d selector phase w =
     (case phase of
        SvcStart \<Rightarrow>
          (case call (GetService (cl_Namespace c) (ds_Name d))
                  (ac_GetService (r_Client r) (cl_Namespace c) (ds_Name d)) w of
             (Inl err, w) \<Rightarrow>
               if IsNotFound err then
                 (let service = new_service c (ds_Name d) (ds_Config d) (ds_Ports d) selector in
                  case r_SetControllerReference r (cl_Meta c) (svc_Meta service) of
                    Inl err \<Rightarrow> (SvcDone (Some err), w)
                  | Inr m \<Rightarrow> (SvcCreate (service\<lparr>svc_Meta := m\<rparr>), w))
               else (SvcDone (Some err), w)
           | (Inr existing, w) \<Rightarrow>
               (SvcUpdate (updated_service (ds_Config d) (ds_Ports d) selector existing), w))
      | SvcCreate service \<Rightarrow>
          (case call (CreateService service) (ac_CreateService (r_Client r) service) w of
             (err, w) \<Rightarrow> (SvcDone (classifyAPIError ''ServiceRejected'' err), w))
      | SvcUpdate service \<Rightarrow>
          (case call (UpdateService service) (ac_UpdateService (r_Client r) service) w of
             (err, w) \<Rightarrow> (SvcDone (classifyAPIError ''ServiceRejected'' err), w))
      | SvcDone err \<Rightarrow> (SvcDone err, w))"

lemma classifyAPIError_None [simp]: "classifyAPIError r None = None"
  by (simp add: classifyAPIError_def)

lemma service_piece_alone:
  "(case service_step r c d sel SvcStart w of (phase, w) \<Rightarrow> service_step r c d sel phase w)
     = (case reconcileService r c (ds_Name d) (ds_Config d) (ds_Ports d) sel w of
          (err, w) \<Rightarrow> (SvcDone err, w))"
  by (simp add: service_step_def reconcileService_def Let_def split: prod.splits sum.splits option.splits)

definition phase_error :: "service_phase \<Rightarrow> go_error option" where
  "phase_error phase = (case phase of SvcDone err \<Rightarrow> err | _ \<Rightarrow> None)"

definition services_turn ::
  "'s reconciler \<Rightarrow> PolarsCluster \<Rightarrow> nat \<Rightarrow> service_phase \<Rightarrow> 's world \<Rightarrow> service_phase \<times> 's world" where
  "services_turn r c i = service_step r c (desired_services c ! i) (scheduler_selector c)"

definition reconcileServices ::
  "'s reconciler \<Rightarrow> PolarsCluster \<Rightarrow> 's world \<Rightarrow> go_error option \<times> 's world" where
  "reconcileServices r c w =
     (let n = length (desired_services c) in
      case turns (services_turn r c) (r_Interleaving r n) (replicate n SvcStart, w) of
        (phases, w) \<Rightarrow>
          (case reducePodErrors (map phase_error phases) of (setAside, err) \<Rightarrow> (err, w)))"

section \<open>What the wanted services are\<close>

lemma desired_services_names:
  "map ds_Name (desired_services c) =
     [schedulerServiceName c, schedulerInternalServiceName c, observatoryServiceName c]"
  by (simp add: desired_services_def Let_def)

lemma length_desired_services [simp]: "length (desired_services c) = 3"
  by (simp add: desired_services_def Let_def)

lemma distinct_desired_services: "distinct (map ds_Name (desired_services c))"
  unfolding desired_services_names
  using sched_internal.names_disjoint [of c c] sched_observatory.names_disjoint [of c c]
    internal_observatory.names_disjoint [of c c]
  by simp

lemma scheduler_selector_eq: "scheduler_selector c = component_selector c componentScheduler"
  by (simp add: scheduler_selector_def component_selector_def)

text \<open>Every port of a wanted service is a port of the scheduler's container, under the same name.\<close>

lemma service_ports_exposed:
  "d \<in> set (desired_services c) \<Longrightarrow> p \<in> set (ds_Ports d) \<Longrightarrow>
     \<exists>q \<in> set scheduler_ports. cp_Name q = sp_Name p \<and> cp_ContainerPort q = sp_Port p \<and>
       cp_Protocol q = sp_Protocol p"
  by (auto simp: desired_services_def Let_def scheduler_ports_def schedulerPort_def observatoryRESTPort_def
        ProtocolTCP_def)

lemma updated_service_owned:
  "ss_Type (svc_Spec (updated_service cfg ports sel s)) = fst (service_settings cfg)"
  "om_Annotations (svc_Meta (updated_service cfg ports sel s)) = fst (snd (service_settings cfg))"
  "ss_PublishNotReadyAddresses (svc_Spec (updated_service cfg ports sel s))
     = fst (snd (snd (service_settings cfg)))"
  "ss_Ports (svc_Spec (updated_service cfg ports sel s)) = ports"
  "ss_Selector (svc_Spec (updated_service cfg ports sel s)) = sel"
  by (simp_all add: updated_service_def split: prod.splits)

text \<open>An update leaves the rest of the object as the API server has it, its cluster IP first of all.\<close>

lemma updated_service_kept:
  "ss_ClusterIP (svc_Spec (updated_service cfg ports sel s)) = ss_ClusterIP (svc_Spec s)"
  "ss_Other (svc_Spec (updated_service cfg ports sel s)) = ss_Other (svc_Spec s)"
  "svc_Meta (updated_service cfg ports sel s) =
     (svc_Meta s)\<lparr>om_Annotations := fst (snd (service_settings cfg))\<rparr>"
  by (simp_all add: updated_service_def split: prod.splits)

lemma new_service_agrees:
  "updated_service cfg ports sel (new_service c name cfg ports sel) = new_service c name cfg ports sel"
  by (simp add: updated_service_def new_service_def split: prod.splits)

lemma updated_service_idem:
  "updated_service cfg ports sel (updated_service cfg ports sel s) = updated_service cfg ports sel s"
  by (simp add: updated_service_def split: prod.splits)

section \<open>What the step may do\<close>

fun service_call :: "'s reconciler \<Rightarrow> PolarsCluster \<Rightarrow> api_call \<Rightarrow> bool" where
  "service_call r c (GetService ns n) \<longleftrightarrow>
     ns = cl_Namespace c \<and> n \<in> ds_Name ` set (desired_services c)"
| "service_call r c (CreateService s) \<longleftrightarrow>
     (\<exists>d \<in> set (desired_services c). \<exists>m.
        let new = new_service c (ds_Name d) (ds_Config d) (ds_Ports d) (scheduler_selector c) in
        r_SetControllerReference r (cl_Meta c) (svc_Meta new) = Inr m \<and> s = new\<lparr>svc_Meta := m\<rparr>)"
| "service_call r c (UpdateService s) \<longleftrightarrow>
     (\<exists>d \<in> set (desired_services c). \<exists>e st.
        fst (ac_GetService (r_Client r) (cl_Namespace c) (ds_Name d) st) = Inr e \<and>
        s = updated_service (ds_Config d) (ds_Ports d) (scheduler_selector c) e)"
| "service_call r c _ \<longleftrightarrow> False"

definition phase_ok :: "'s reconciler \<Rightarrow> PolarsCluster \<Rightarrow> service_phase \<Rightarrow> bool" where
  "phase_ok r c phase \<longleftrightarrow>
     (case phase of
        SvcCreate s \<Rightarrow> service_call r c (CreateService s)
      | SvcUpdate s \<Rightarrow> service_call r c (UpdateService s)
      | _ \<Rightarrow> True)"

lemma phase_ok_simps [simp]:
  "phase_ok r c SvcStart" "phase_ok r c (SvcDone e)"
  "phase_ok r c (SvcCreate s) \<longleftrightarrow> service_call r c (CreateService s)"
  "phase_ok r c (SvcUpdate s) \<longleftrightarrow> service_call r c (UpdateService s)"
  by (simp_all add: phase_ok_def)

lemma service_step_ok:
  assumes d: "d \<in> set (desired_services c)" and ok: "phase_ok r c phase"
    and ext: "extends (service_call r c) w0 w"
  shows "phase_ok r c (fst (service_step r c d (scheduler_selector c) phase w)) \<and>
     extends (service_call r c) w0 (snd (service_step r c d (scheduler_selector c) phase w))"
proof (cases phase)
  case SvcStart
  let ?k = "GetService (cl_Namespace c) (ds_Name d)"
  obtain x w1 where g: "call ?k (ac_GetService (r_Client r) (cl_Namespace c) (ds_Name d)) w = (x, w1)"
    by (metis surj_pair)
  have w1: "extends (service_call r c) w0 w1"
    by (rule extends_step [OF ext g]) (use d in simp)
  have x: "fst (ac_GetService (r_Client r) (cl_Namespace c) (ds_Name d) (w_api w)) = x"
    using g by (simp add: client_simps)
  show ?thesis
  proof (cases x)
    case (Inl e)
    with SvcStart w1 d g show ?thesis
      by (auto simp: service_step_def Let_def split: sum.splits intro!: bexI [of _ d])
  next
    case (Inr s)
    with SvcStart w1 d g x show ?thesis
      by (auto simp: service_step_def intro!: bexI [of _ d] exI [of _ s] exI [of _ "w_api w"])
  qed
next
  case (SvcCreate s)
  with ok ext show ?thesis
    by (auto simp: service_step_def split: prod.splits elim: extends_step simp del: service_call.simps)
next
  case (SvcUpdate s)
  with ok ext show ?thesis
    by (auto simp: service_step_def split: prod.splits elim: extends_step simp del: service_call.simps)
next
  case (SvcDone e)
  with ext show ?thesis by (simp add: service_step_def)
qed

interpretation services_step: api_handler
  "\<lambda>(r, c) w. reconcileServices r c w" "\<lambda>(r, c). service_call r c"
proof (unfold_locales, clarify)
  fix r c w
  have "(\<forall>i < 3. phase_ok r c (fst (turns (services_turn r c) (r_Interleaving r 3)
            (replicate 3 SvcStart, w)) ! i)) \<and>
      extends (service_call r c) w (snd (turns (services_turn r c) (r_Interleaving r 3)
            (replicate 3 SvcStart, w)))"
    by (rule turns_invariant [where P = "\<lambda>i. phase_ok r c" and R = "extends (service_call r c) w"])
       (simp_all add: services_turn_def service_step_ok)
  then show "extends (service_call r c) w (snd (reconcileServices r c w))"
    by (auto simp: reconcileServices_def split: prod.splits)
qed

section \<open>What each Service gets\<close>

text \<open>A service is returned under the name it was asked for, and owning an object does not rename it.\<close>

definition names_kept :: "'s reconciler \<Rightarrow> PolarsCluster \<Rightarrow> bool" where
  "names_kept r c \<longleftrightarrow>
     (\<forall>n s e. fst (ac_GetService (r_Client r) (cl_Namespace c) n s) = Inr e \<longrightarrow> om_Name (svc_Meta e) = n) \<and>
     (\<forall>m m'. r_SetControllerReference r (cl_Meta c) m = Inr m' \<longrightarrow> om_Name m' = om_Name m)"

lemma service_names [simp]:
  "om_Name (svc_Meta (new_service c n cfg ports sel)) = n"
  "om_Name (svc_Meta (updated_service cfg ports sel e)) = om_Name (svc_Meta e)"
  by (simp_all add: new_service_def updated_service_def split: prod.splits)

text \<open>The calls that concern the Service of a name.\<close>

fun service_named :: "string \<Rightarrow> api_call \<Rightarrow> bool" where
  "service_named n (GetService ns m) \<longleftrightarrow> m = n"
| "service_named n (CreateService v) \<longleftrightarrow> om_Name (svc_Meta v) = n"
| "service_named n (UpdateService v) \<longleftrightarrow> om_Name (svc_Meta v) = n"
| "service_named n _ \<longleftrightarrow> False"

text \<open>
  What is asked of the server after it has answered the read of a wanted Service with \<open>x\<close>: an existing
  one is updated, a missing one created with the cluster as its owner, and any other error ends the
  piece, as does an owner that cannot be set.
\<close>

definition service_request ::
  "'s reconciler \<Rightarrow> PolarsCluster \<Rightarrow> desired_service \<Rightarrow> service result \<Rightarrow> api_call result" where
  "service_request r c d x =
     (case x of
        Inr existing \<Rightarrow>
          Inr (UpdateService (updated_service (ds_Config d) (ds_Ports d) (scheduler_selector c) existing))
      | Inl err \<Rightarrow>
          if \<not> IsNotFound err then Inl err
          else
            (let new = new_service c (ds_Name d) (ds_Config d) (ds_Ports d) (scheduler_selector c) in
             case r_SetControllerReference r (cl_Meta c) (svc_Meta new) of
               Inl err \<Rightarrow> Inl err
             | Inr m \<Rightarrow> Inr (CreateService (new\<lparr>svc_Meta := m\<rparr>))))"

definition request_calls :: "api_call result \<Rightarrow> api_call list" where
  "request_calls q = (case q of Inl err \<Rightarrow> [] | Inr k \<Rightarrow> [k])"

text \<open>The errors a piece can end with after this request, one for each state the server may be in.\<close>

definition request_errors :: "'s reconciler \<Rightarrow> api_call result \<Rightarrow> go_error option set" where
  "request_errors r q =
     (case q of
        Inr (CreateService v) \<Rightarrow>
          range (\<lambda>s. classifyAPIError ''ServiceRejected'' (fst (ac_CreateService (r_Client r) v s)))
      | Inr (UpdateService v) \<Rightarrow>
          range (\<lambda>s. classifyAPIError ''ServiceRejected'' (fst (ac_UpdateService (r_Client r) v s)))
      | Inl err \<Rightarrow> {Some err}
      | _ \<Rightarrow> {})"

text \<open>Where a piece stands, and the calls it has made by then.\<close>

definition request_phase :: "api_call result \<Rightarrow> service_phase" where
  "request_phase q =
     (case q of
        Inr (CreateService v) \<Rightarrow> SvcCreate v
      | Inr (UpdateService v) \<Rightarrow> SvcUpdate v
      | Inl err \<Rightarrow> SvcDone (Some err)
      | _ \<Rightarrow> SvcStart)"

definition piece_trace ::
  "'s reconciler \<Rightarrow> PolarsCluster \<Rightarrow> desired_service \<Rightarrow> service_phase \<Rightarrow> api_call list \<Rightarrow> bool" where
  "piece_trace r c d phase ks \<longleftrightarrow>
     (if phase = SvcStart then ks = []
      else \<exists>s q. q = service_request r c d (fst (ac_GetService (r_Client r) (cl_Namespace c) (ds_Name d) s)) \<and>
        (case phase of
           SvcDone e \<Rightarrow> ks = GetService (cl_Namespace c) (ds_Name d) # request_calls q \<and> e \<in> request_errors r q
         | _ \<Rightarrow> ks = [GetService (cl_Namespace c) (ds_Name d)] \<and> phase = request_phase q))"

lemma service_step_start:
  "service_step r c d (scheduler_selector c) SvcStart w =
     map_prod (\<lambda>x. request_phase (service_request r c d x)) id
       (call (GetService (cl_Namespace c) (ds_Name d))
          (ac_GetService (r_Client r) (cl_Namespace c) (ds_Name d)) w)"
  by (simp add: service_step_def service_request_def request_phase_def Let_def split: prod.splits sum.splits)

lemma service_request_cases:
  assumes "names_kept r c"
  obtains (fails) e where "service_request r c d (fst (ac_GetService (r_Client r) (cl_Namespace c) (ds_Name d) s)) = Inl e"
  | (creates) v where "service_request r c d (fst (ac_GetService (r_Client r) (cl_Namespace c) (ds_Name d) s)) =
      Inr (CreateService v)" "om_Name (svc_Meta v) = ds_Name d"
  | (updates) v where "service_request r c d (fst (ac_GetService (r_Client r) (cl_Namespace c) (ds_Name d) s)) =
      Inr (UpdateService v)" "om_Name (svc_Meta v) = ds_Name d"
proof (cases "fst (ac_GetService (r_Client r) (cl_Namespace c) (ds_Name d) s)")
  case (Inl err)
  let ?new = "new_service c (ds_Name d) (ds_Config d) (ds_Ports d) (scheduler_selector c)"
  show ?thesis
  proof (cases "IsNotFound err")
    case False
    with Inl show ?thesis by (intro fails) (simp add: service_request_def)
  next
    case missing: True
    show ?thesis
    proof (cases "r_SetControllerReference r (cl_Meta c) (svc_Meta ?new)")
      case (Inl e)
      with missing \<open>fst _ = Inl err\<close> show ?thesis
        by (intro fails [of e]) (simp add: service_request_def Let_def)
    next
      case (Inr m)
      with assms have "om_Name m = ds_Name d" by (auto simp: names_kept_def)
      with missing Inr \<open>fst _ = Inl err\<close> show ?thesis
        by (intro creates [of "?new\<lparr>svc_Meta := m\<rparr>"]) (simp_all add: service_request_def Let_def)
    qed
  qed
next
  case (Inr e)
  moreover from this assms have "om_Name (svc_Meta e) = ds_Name d" by (auto simp: names_kept_def)
  ultimately show ?thesis
    by (intro updates [of "updated_service (ds_Config d) (ds_Ports d) (scheduler_selector c) e"])
      (simp_all add: service_request_def Inr)
qed

lemma request_phase_iff:
  "request_phase q = SvcCreate v \<longleftrightarrow> q = Inr (CreateService v)"
  "request_phase q = SvcUpdate v \<longleftrightarrow> q = Inr (UpdateService v)"
  by (auto simp: request_phase_def split: sum.splits api_call.splits)

lemma service_request_named:
  assumes "names_kept r c"
    and "service_request r c d (fst (ac_GetService (r_Client r) (cl_Namespace c) (ds_Name d) s)) = Inr k"
  shows "service_named (ds_Name d) k"
  by (rule service_request_cases [OF assms(1), of d s]) (use assms(2) in auto)

text \<open>A turn adds the calls of its own piece, and keeps them in step with its phase.\<close>

lemma service_step_trace:
  assumes "names_kept r c" "piece_trace r c d phase ks"
  obtains ks' where "w_calls (snd (service_step r c d (scheduler_selector c) phase w)) = w_calls w @ ks'"
    "list_all (service_named (ds_Name d)) ks'"
    "piece_trace r c d (fst (service_step r c d (scheduler_selector c) phase w)) (ks @ ks')"
proof (cases phase)
  case SvcStart
  let ?q = "service_request r c d (fst (ac_GetService (r_Client r) (cl_Namespace c) (ds_Name d) (w_api w)))"
  have "piece_trace r c d (request_phase ?q) [GetService (cl_Namespace c) (ds_Name d)]"
    by (rule service_request_cases [OF assms(1), of d "w_api w"])
      (auto simp: piece_trace_def request_phase_def request_calls_def request_errors_def
        intro!: exI [of _ "w_api w"])
  with SvcStart assms(2) show ?thesis
    by (intro that [of "[GetService (cl_Namespace c) (ds_Name d)]"])
      (simp_all add: service_step_start client_simps piece_trace_def)
next
  case (SvcCreate v)
  with assms(2) obtain s where q: "ks = [GetService (cl_Namespace c) (ds_Name d)]"
    "service_request r c d (fst (ac_GetService (r_Client r) (cl_Namespace c) (ds_Name d) s)) = Inr (CreateService v)"
    by (auto simp: piece_trace_def eq_commute [of "SvcCreate v"] request_phase_iff)
  with SvcCreate service_request_named [OF assms(1) q(2)] show ?thesis
    by (intro that [of "[CreateService v]"])
      (auto simp: service_step_def client_simps piece_trace_def request_calls_def request_errors_def
        case_prod_beta intro!: exI [of _ s])
next
  case (SvcUpdate v)
  with assms(2) obtain s where q: "ks = [GetService (cl_Namespace c) (ds_Name d)]"
    "service_request r c d (fst (ac_GetService (r_Client r) (cl_Namespace c) (ds_Name d) s)) = Inr (UpdateService v)"
    by (auto simp: piece_trace_def eq_commute [of "SvcUpdate v"] request_phase_iff)
  with SvcUpdate service_request_named [OF assms(1) q(2)] show ?thesis
    by (intro that [of "[UpdateService v]"])
      (auto simp: service_step_def client_simps piece_trace_def request_calls_def request_errors_def
        case_prod_beta intro!: exI [of _ s])
next
  case (SvcDone e)
  with assms(2) show ?thesis by (intro that [of "[]"]) (simp_all add: service_step_def)
qed


text \<open>All three pieces at once.\<close>

definition services_trace ::
  "'s reconciler \<Rightarrow> PolarsCluster \<Rightarrow> 's world \<Rightarrow> service_phase list \<times> 's world \<Rightarrow> bool" where
  "services_trace r c w st \<longleftrightarrow>
     length (fst st) = 3 \<and>
     (\<exists>ks. w_calls (snd st) = w_calls w @ ks \<and>
        (\<forall>k \<in> set ks. \<exists>d \<in> set (desired_services c). service_named (ds_Name d) k) \<and>
        (\<forall>i < 3. let d = desired_services c ! i in
           piece_trace r c d (fst st ! i) (filter (service_named (ds_Name d)) ks)))"

lemma service_named_unique: "service_named n k \<Longrightarrow> service_named m k \<Longrightarrow> n = m"
  by (cases k) simp_all

lemma services_turn_trace:
  assumes "names_kept r c" "services_trace r c w st"
  shows "services_trace r c w (turn (services_turn r c) i st)"
proof (cases "i < 3")
  case True
  let ?d = "\<lambda>i. desired_services c ! i"
  from assms(2) obtain ks where st: "length (fst st) = 3" "w_calls (snd st) = w_calls w @ ks"
      "\<forall>k \<in> set ks. \<exists>d \<in> set (desired_services c). service_named (ds_Name d) k"
      "\<And>i. i < 3 \<Longrightarrow> piece_trace r c (?d i) (fst st ! i) (filter (service_named (ds_Name (?d i))) ks)"
    by (auto simp: services_trace_def Let_def)
  obtain ks' where ks': "w_calls (snd (turn (services_turn r c) i st)) = w_calls (snd st) @ ks'"
      "list_all (service_named (ds_Name (?d i))) ks'"
      "piece_trace r c (?d i) (fst (turn (services_turn r c) i st) ! i)
         (filter (service_named (ds_Name (?d i))) ks @ ks')"
    by (rule service_step_trace [OF assms(1) st(4) [OF True], of "snd st"])
      (use True st(1) in \<open>simp add: turn_def services_turn_def case_prod_beta\<close>)
  have other: "filter (service_named (ds_Name (?d j))) ks' = (if j = i then ks' else [])" if "j < 3" for j
  proof (cases "j = i")
    case False
    then have "ds_Name (?d j) \<noteq> ds_Name (?d i)"
      using distinct_desired_services [of c] True that
      by (metis length_desired_services length_map nth_eq_iff_index_eq nth_map)
    then show ?thesis
      using ks'(2) False by (auto simp: filter_empty_conv list_all_iff dest: service_named_unique)
  qed (use ks'(2) in \<open>simp add: list_all_iff filter_id_conv\<close>)
  have "fst (turn (services_turn r c) i st) ! j = fst st ! j" if "j \<noteq> i" for j
    using that by (simp add: turn_def case_prod_beta)
  then have "piece_trace r c (?d j) (fst (turn (services_turn r c) i st) ! j)
      (filter (service_named (ds_Name (?d j))) (ks @ ks'))" if "j < 3" for j
    using that st(4) [OF that] ks'(3) other [OF that] by (cases "j = i") simp_all
  moreover have "?d i \<in> set (desired_services c)" using True by simp
  ultimately show ?thesis
    using st(1-3) ks'(1,2) by (auto simp: services_trace_def Let_def list_all_iff intro!: exI [of _ "ks @ ks'"])
next
  case False
  with assms(2) show ?thesis by (simp add: turn_def services_trace_def)
qed

text \<open>An interleaving is fair when it names the three pieces only and gives each both its calls.\<close>

definition interleaving_ok :: "nat list \<Rightarrow> bool" where
  "interleaving_ok order \<longleftrightarrow> set order \<subseteq> {..<3} \<and> (\<forall>j \<in> {..<3}. 2 \<le> count_list order j)"

definition phase_rank :: "service_phase \<Rightarrow> nat" where
  "phase_rank phase =
     (case phase of SvcStart \<Rightarrow> 2 | SvcCreate s \<Rightarrow> 1 | SvcUpdate s \<Rightarrow> 1 | SvcDone e \<Rightarrow> 0)"

lemma service_step_rank: "phase_rank (fst (service_step r c d sel phase w)) \<le> phase_rank phase - 1"
  by (cases phase) (auto simp: phase_rank_def service_step_def Let_def split: prod.splits sum.splits)

lemma services_done:
  assumes "interleaving_ok order" "i < 3"
  obtains e where "fst (turns (services_turn r c) order (replicate 3 SvcStart, w)) ! i = SvcDone e"
proof -
  have "phase_rank (fst (turns (services_turn r c) order (replicate 3 SvcStart, w)) ! i)
      \<le> phase_rank (fst (replicate 3 SvcStart, w) ! i) - count_list order i"
    by (rule turns_rank) (simp_all add: services_turn_def service_step_rank [unfolded One_nat_def] assms(2))
  moreover have "2 \<le> count_list order i" using assms by (simp add: interleaving_ok_def)
  ultimately have "phase_rank (fst (turns (services_turn r c) order (replicate 3 SvcStart, w)) ! i) = 0"
    using assms(2) by (simp add: phase_rank_def)
  then show thesis using that by (auto simp: phase_rank_def split: service_phase.splits)
qed

lemma reconcileServices_traces:
  assumes "names_kept r c" "interleaving_ok (r_Interleaving r 3)" "reconcileServices r c w = (e, w')"
  obtains ks errs where "w_calls w' = w_calls w @ ks" "length errs = 3" "e = snd (reducePodErrors errs)"
    "\<forall>k \<in> set ks. \<exists>d \<in> set (desired_services c). service_named (ds_Name d) k"
    "\<And>i. i < 3 \<Longrightarrow> piece_trace r c (desired_services c ! i) (SvcDone (errs ! i))
       (filter (service_named (ds_Name (desired_services c ! i))) ks)"
proof -
  let ?st = "turns (services_turn r c) (r_Interleaving r 3) (replicate 3 SvcStart, w)"
  have "services_trace r c w ?st"
  proof (rule turns_keep [where I = "services_trace r c w", OF services_turn_trace [OF assms(1)]])
    have start: "(replicate 3 SvcStart :: service_phase list) ! i = SvcStart" if "i < 3" for i
      using that by simp
    show "services_trace r c w (replicate 3 SvcStart, w)"
      by (auto simp: services_trace_def piece_trace_def start simp del: replicate.simps)
  qed
  then obtain ks where t: "length (fst ?st) = 3" "w_calls (snd ?st) = w_calls w @ ks"
      "\<forall>k \<in> set ks. \<exists>d \<in> set (desired_services c). service_named (ds_Name d) k"
      "\<And>i. i < 3 \<Longrightarrow> piece_trace r c (desired_services c ! i) (fst ?st ! i)
         (filter (service_named (ds_Name (desired_services c ! i))) ks)"
    by (auto simp: services_trace_def Let_def)
  have "fst ?st ! i = SvcDone (map phase_error (fst ?st) ! i)" if "i < 3" for i
    by (rule services_done [OF assms(2) that, of r c w]) (use t(1) that in \<open>simp add: phase_error_def\<close>)
  then show thesis
    using t assms(3) by (intro that [of ks "map phase_error (fst ?st)"])
      (auto simp: reconcileServices_def split: prod.splits)
qed

end
