(* ===== verification/Routes.thy ===== *)
theory Routes
  imports Services
begin

text \<open>
  \<open>internal/controller/routes.go\<close>: the GRPCRoute of the scheduler service and the HTTPRoute of the
  observatory service. A target is the route as the source's closures see it: the pointers
  \<open>common\<close>, \<open>hostnames\<close> and \<open>status\<close> point into the one route object, which is what the functions here
  pass along. \<open>controllerutil.CreateOrUpdate\<close> takes the mutation as an argument, as in the source.

  The lemmas characterise the merged status: ready when every requested route was applied and
  accepted, and otherwise the explanation chosen by \<open>notReady\<close>, which prefers the first failure that
  is not merely a missing acceptance.
\<close>

definition conditionRoutesReady :: string where "conditionRoutesReady = ''RoutesReady''"
definition reasonNotAccepted :: string where "reasonNotAccepted = ''NotAccepted''"
definition reasonRouteConflict :: string where "reasonRouteConflict = ''RouteConflict''"
definition routeConflictRetryInterval :: duration where
  "routeConflictRetryInterval = 60 * 1000000000"

section \<open>The Gateway API\<close>

text \<open>The REST mapper answers for a kind with an error or none; \<open>IsNoMatchError\<close> is the library's.\<close>

fun kinds_installed ::
  "(go_error \<Rightarrow> bool) \<Rightarrow> (string \<Rightarrow> go_error option) \<Rightarrow> string list \<Rightarrow> bool result" where
  "kinds_installed IsNoMatchError mapper [] = Inr True"
| "kinds_installed IsNoMatchError mapper (kind # kinds) =
     (case mapper kind of
        Some err \<Rightarrow> if IsNoMatchError err then Inr False else Inl err
      | None \<Rightarrow> kinds_installed IsNoMatchError mapper kinds)"

definition GatewayAPIInstalled ::
  "(go_error \<Rightarrow> bool) \<Rightarrow> (string \<Rightarrow> go_error option) \<Rightarrow> bool result" where
  "GatewayAPIInstalled IsNoMatchError mapper =
     kinds_installed IsNoMatchError mapper [''GRPCRoute'', ''HTTPRoute'']"

section \<open>Targets\<close>

record route_target =
  rg_Route :: route
  rg_Kind :: string
  rg_Port :: int32
  rg_Spec :: "RouteSpec option"

definition new_route :: "route_kind \<Rightarrow> string \<Rightarrow> string \<Rightarrow> route" where
  "new_route kind name ns =
     \<lparr>rt_Kind = kind, rt_Meta = zero_object_meta\<lparr>om_Name := name, om_Namespace := ns\<rparr>,
      rt_ParentRefs = [], rt_Hostnames = [], rt_Rules = [], rt_Parents = []\<rparr>"

definition routeSpec :: "ExposedServiceConfig option \<Rightarrow> RouteSpec option" where
  "routeSpec config = (case config of None \<Rightarrow> None | Some x \<Rightarrow> esc_Route x)"

definition routeTargets :: "PolarsCluster \<Rightarrow> route_target list" where
  "routeTargets c =
     (let services = schedulerServices c in
      [\<lparr>rg_Route = new_route GRPCRoute (schedulerServiceName c) (cl_Namespace c),
        rg_Kind = ''GRPCRoute'', rg_Port = schedulerPort, rg_Spec = routeSpec (sss_Scheduler services)\<rparr>,
       \<lparr>rg_Route = new_route HTTPRoute (observatoryServiceName c) (cl_Namespace c),
        rg_Kind = ''HTTPRoute'', rg_Port = observatoryRESTPort,
        rg_Spec = routeSpec (sss_Observatory services)\<rparr>])"

text \<open>The two \<open>setRules\<close> closures, told apart by the route's kind.\<close>

definition setRules :: "backend_ref \<Rightarrow> route \<Rightarrow> route" where
  "setRules backend rt =
     (case rt_Kind rt of
        GRPCRoute \<Rightarrow> rt\<lparr>rt_Rules := [\<lparr>rr_PathPrefixes = [], rr_BackendRefs = [backend]\<rparr>]\<rparr>
      | HTTPRoute \<Rightarrow> rt\<lparr>rt_Rules := [\<lparr>rr_PathPrefixes = [''/''], rr_BackendRefs = [backend]\<rparr>]\<rparr>)"

section \<open>The status\<close>

record routes_status =
  rts_requested :: bool
  rts_ready :: bool
  rts_reason :: string
  rts_message :: string
  rts_conflict :: bool

definition notReady :: "string \<Rightarrow> string \<Rightarrow> routes_status \<Rightarrow> routes_status" where
  "notReady reason message s =
     (if rts_ready s \<or> (rts_reason s = reasonNotAccepted \<and> reason \<noteq> reasonNotAccepted)
      then s\<lparr>rts_ready := False, rts_reason := reason, rts_message := message\<rparr> else s)"

definition routeMessage :: "route_target \<Rightarrow> string \<Rightarrow> string" where
  "routeMessage target detail =
     rg_Kind target @ '' '' @ om_Name (rt_Meta (rg_Route target)) @ '': '' @ detail"

definition routeAccepted :: "cond_lib \<Rightarrow> route_target \<Rightarrow> bool" where
  "routeAccepted cl target =
     list_ex (\<lambda>parent. IsStatusConditionTrue cl (rps_Conditions parent) ''Accepted'' \<and>
                       IsStatusConditionTrue cl (rps_Conditions parent) ''ResolvedRefs'')
       (rt_Parents (rg_Route target))"

section \<open>Applying and deleting a route\<close>

definition route_mutation ::
  "'s reconciler \<Rightarrow> PolarsCluster \<Rightarrow> RouteSpec \<Rightarrow> int32 \<Rightarrow> route \<Rightarrow> route result" where
  "route_mutation r c spec port rt =
     (let labels = Map.empty ++ rs_Labels spec ++ schedulerObjectLabels c;
          rt = rt\<lparr>rt_Meta := (rt_Meta rt)\<lparr>om_Labels := labels, om_Annotations := rs_Annotations spec\<rparr>,
                  rt_ParentRefs := rs_ParentRefs spec, rt_Hostnames := rs_Hostnames spec\<rparr>;
          rt = setRules \<lparr>br_Group = [], br_Kind = ''Service'', br_Name = om_Name (rt_Meta rt),
                         br_Port = port, br_Weight = 1\<rparr> rt
      in (case r_SetControllerReference r (cl_Meta c) (rt_Meta rt) of
            Inl err \<Rightarrow> Inl err
          | Inr m \<Rightarrow> Inr (rt\<lparr>rt_Meta := m\<rparr>)))"

definition applyRoute ::
  "'s reconciler \<Rightarrow> PolarsCluster \<Rightarrow> route_target \<Rightarrow> RouteSpec \<Rightarrow> 's world
     \<Rightarrow> (route_target \<times> go_error option) \<times> 's world" where
  "applyRoute r c target spec w =
     (case call (CreateOrUpdateRoute (rg_Route target))
             (ac_CreateOrUpdateRoute (r_Client r) (rg_Route target)
                (route_mutation r c spec (rg_Port target))) w of
        ((rt, err), w) \<Rightarrow>
          ((target\<lparr>rg_Route := rt\<rparr>,
            (case err of
               None \<Rightarrow> classifyAPIError ''RouteRejected'' None
             | Some e \<Rightarrow>
                 (case as_owned e of
                    Some _ \<Rightarrow> Some (SpecError reasonRouteConflict e)
                  | None \<Rightarrow> classifyAPIError ''RouteRejected'' (Some e)))), w))"

definition deleteOwnedRoute ::
  "'s reconciler \<Rightarrow> PolarsCluster \<Rightarrow> route \<Rightarrow> 's world \<Rightarrow> go_error option \<times> 's world" where
  "deleteOwnedRoute r c rt w =
     (let ns = om_Namespace (rt_Meta rt); n = om_Name (rt_Meta rt) in
      case call (GetRoute (rt_Kind rt) ns n) (ac_GetRoute (r_Client r) (rt_Kind rt) ns n) w of
        (Inl err, w) \<Rightarrow> (IgnoreNotFound (Some err), w)
      | (Inr rt, w) \<Rightarrow>
          if \<not> r_IsControlledBy r (rt_Meta rt) (cl_Meta c) then (None, w)
          else
            (case call (DeleteRoute rt) (ac_DeleteRoute (r_Client r) rt) w of
               (err, w) \<Rightarrow> (IgnoreNotFound err, w)))"

section \<open>The step\<close>

fun reconcile_targets ::
  "'s reconciler \<Rightarrow> PolarsCluster \<Rightarrow> route_target list \<Rightarrow> routes_status \<Rightarrow> 's world
     \<Rightarrow> routes_status result \<times> 's world" where
  "reconcile_targets r c [] status w = (Inr status, w)"
| "reconcile_targets r c (target # targets) status w =
     (case rg_Spec target of
        None \<Rightarrow>
          if r_GatewayAPIEnabled r then
            (case deleteOwnedRoute r c (rg_Route target) w of
               (Some err, w) \<Rightarrow> (Inl err, w)
             | (None, w) \<Rightarrow> reconcile_targets r c targets status w)
          else reconcile_targets r c targets status w
      | Some spec \<Rightarrow>
          if \<not> r_GatewayAPIEnabled r then
            (Inr \<lparr>rts_requested = True, rts_ready = False, rts_reason = ''GatewayAPIUnavailable'',
                  rts_message = ''the Gateway API v1 GRPCRoute and HTTPRoute CRDs were not installed when the operator started'',
                  rts_conflict = False\<rparr>, w)
          else
            (let status = status\<lparr>rts_requested := True\<rparr> in
             case applyRoute r c target spec w of
               ((target, Some err), w) \<Rightarrow>
                 (case as_spec err of
                    None \<Rightarrow> (Inl err, w)
                  | Some (reason, e) \<Rightarrow>
                      (let status = notReady reason (routeMessage target (error_text e)) status;
                           status = status\<lparr>rts_conflict :=
                             rts_conflict status \<or> reason = reasonRouteConflict\<rparr>
                       in reconcile_targets r c targets status w))
             | ((target, None), w) \<Rightarrow>
                 reconcile_targets r c targets
                   (if \<not> routeAccepted (r_Conditions r) target
                    then notReady reasonNotAccepted
                           (routeMessage target ''no parent has accepted it yet'') status
                    else status) w))"

definition reconcileRoutes ::
  "'s reconciler \<Rightarrow> PolarsCluster \<Rightarrow> 's world \<Rightarrow> routes_status result \<times> 's world" where
  "reconcileRoutes r c w =
     reconcile_targets r c (routeTargets c)
       \<lparr>rts_requested = False, rts_ready = True, rts_reason = [], rts_message = [], rts_conflict = False\<rparr> w"

section \<open>What \<open>notReady\<close> reports\<close>

definition report :: "(string \<times> string) list \<Rightarrow> routes_status \<Rightarrow> routes_status" where
  "report fs s = fold (\<lambda>(reason, message). notReady reason message) fs s"

definition decisive :: "(string \<times> string) list \<Rightarrow> string \<times> string" where
  "decisive fs = (case filter (\<lambda>f. fst f \<noteq> reasonNotAccepted) fs of f # _ \<Rightarrow> f | [] \<Rightarrow> hd fs)"

lemma notReady_simps [simp]:
  "rts_requested (notReady a m s) = rts_requested s" "rts_conflict (notReady a m s) = rts_conflict s"
  "\<not> rts_ready (notReady a m s)"
  by (simp_all add: notReady_def)

lemma report_simps [simp]:
  "report [] s = s" "report ((a, m) # fs) s = report fs (notReady a m s)"
  "report (xs @ ys) s = report ys (report xs s)"
  by (simp_all add: report_def)

lemma report_kept [simp]:
  "rts_requested (report fs s) = rts_requested s" "rts_conflict (report fs s) = rts_conflict s"
  by (induction fs arbitrary: s) (auto simp: report_def split: prod.splits)

lemma report_not_ready: "\<not> rts_ready s \<Longrightarrow> report fs s =
     (if rts_reason s \<noteq> reasonNotAccepted \<or> (\<forall>f \<in> set fs. fst f = reasonNotAccepted) then s
      else s\<lparr>rts_reason := fst (decisive fs), rts_message := snd (decisive fs)\<rparr>)"
proof (induction fs arbitrary: s)
  case (Cons f fs)
  obtain a m where f: "f = (a, m)" by (cases f)
  show ?case
  proof (cases "rts_reason s = reasonNotAccepted \<and> a \<noteq> reasonNotAccepted")
    case True
    then have n: "notReady a m s = s\<lparr>rts_ready := False, rts_reason := a, rts_message := m\<rparr>"
      by (simp add: notReady_def)
    with True Cons.IH [of "notReady a m s"] Cons.prems show ?thesis by (simp add: f decisive_def)
  next
    case False
    then have n: "notReady a m s = s" using Cons.prems by (auto simp: notReady_def)
    with False Cons.IH [of s] Cons.prems show ?thesis
      by (auto simp: f decisive_def filter_empty_conv split: list.splits)
  qed
qed simp

text \<open>Starting from a ready status: ready without failures, and the decisive failure otherwise.\<close>

lemma report_ready:
  assumes "rts_ready s"
  shows "rts_ready (report fs s) \<longleftrightarrow> fs = []"
    and "fs \<noteq> [] \<Longrightarrow> (rts_reason (report fs s), rts_message (report fs s)) = decisive fs"
proof -
  show ready: "rts_ready (report fs s) \<longleftrightarrow> fs = []"
    using assms by (cases fs) (auto simp: report_not_ready split: prod.splits if_splits)
  assume "fs \<noteq> []"
  then obtain a m gs where fs: "fs = (a, m) # gs" by (metis neq_Nil_conv surj_pair)
  have n: "notReady a m s = s\<lparr>rts_ready := False, rts_reason := a, rts_message := m\<rparr>"
    using assms by (simp add: notReady_def)
  show "(rts_reason (report fs s), rts_message (report fs s)) = decisive fs"
    by (auto simp: fs report_not_ready n decisive_def filter_empty_conv split: list.splits)
qed

section \<open>The step as a list of failures\<close>

text \<open>
  With the Gateway API there, every target is worked on: one without a spec is cleaned up, one with a
  spec is applied and contributes the failure (a reason and a message) that keeps it from being ready.
\<close>

definition target_failures ::
  "'s reconciler \<Rightarrow> PolarsCluster \<Rightarrow> route_target \<Rightarrow> 's world
     \<Rightarrow> (string \<times> string) list result \<times> 's world" where
  "target_failures r c target w =
     (case rg_Spec target of
        None \<Rightarrow>
          (case deleteOwnedRoute r c (rg_Route target) w of
             (Some err, w) \<Rightarrow> (Inl err, w) | (None, w) \<Rightarrow> (Inr [], w))
      | Some spec \<Rightarrow>
          (case applyRoute r c target spec w of
             ((target, Some err), w) \<Rightarrow>
               (case as_spec err of
                  None \<Rightarrow> (Inl err, w)
                | Some (reason, e) \<Rightarrow> (Inr [(reason, routeMessage target (error_text e))], w))
           | ((target, None), w) \<Rightarrow>
               (Inr (if routeAccepted (r_Conditions r) target then []
                     else [(reasonNotAccepted, routeMessage target ''no parent has accepted it yet'')]), w)))"

fun targets_failures ::
  "'s reconciler \<Rightarrow> PolarsCluster \<Rightarrow> route_target list \<Rightarrow> 's world
     \<Rightarrow> (string \<times> string) list result \<times> 's world" where
  "targets_failures r c [] w = (Inr [], w)"
| "targets_failures r c (target # targets) w =
     (case target_failures r c target w of
        (Inl err, w) \<Rightarrow> (Inl err, w)
      | (Inr fs, w) \<Rightarrow>
          (case targets_failures r c targets w of
             (Inl err, w) \<Rightarrow> (Inl err, w)
           | (Inr gs, w) \<Rightarrow> (Inr (fs @ gs), w)))"

definition is_conflict :: "string \<times> string \<Rightarrow> bool" where
  "is_conflict f = (fst f = reasonRouteConflict)"

definition routes_outcome ::
  "(string \<times> string) list \<Rightarrow> bool \<Rightarrow> routes_status \<Rightarrow> routes_status" where
  "routes_outcome fs requested s =
     (report fs s)\<lparr>rts_requested := rts_requested s \<or> requested,
        rts_conflict := rts_conflict s \<or> list_ex is_conflict fs\<rparr>"

lemma notReady_frame [simp]:
  "notReady a m (s\<lparr>rts_requested := b\<rparr>) = (notReady a m s)\<lparr>rts_requested := b\<rparr>"
  "notReady a m (s\<lparr>rts_conflict := b\<rparr>) = (notReady a m s)\<lparr>rts_conflict := b\<rparr>"
  by (cases s; simp add: notReady_def)+

lemma report_frame [simp]:
  "report fs (s\<lparr>rts_requested := b\<rparr>) = (report fs s)\<lparr>rts_requested := b\<rparr>"
  "report fs (s\<lparr>rts_conflict := b\<rparr>) = (report fs s)\<lparr>rts_conflict := b\<rparr>"
  by (induction fs arbitrary: s) auto

lemma reasonNotAccepted_no_conflict [simp]: "reasonNotAccepted \<noteq> reasonRouteConflict"
  by (simp add: reasonNotAccepted_def reasonRouteConflict_def)

lemma routes_outcome_Nil [simp]: "routes_outcome [] False s = s"
  by (simp add: routes_outcome_def)

lemma routes_outcome_steps:
  "routes_outcome [] True s = s\<lparr>rts_requested := True\<rparr>"
  "routes_outcome [(a, m)] True s =
     (notReady a m (s\<lparr>rts_requested := True\<rparr>))\<lparr>rts_conflict := rts_conflict s \<or> a = reasonRouteConflict\<rparr>"
  by (cases s; simp add: routes_outcome_def is_conflict_def notReady_def)+

lemma conflict_same: "rts_conflict t = b \<Longrightarrow> t\<lparr>rts_conflict := b\<rparr> = t"
  by (cases t) simp

lemma routes_outcome_append:
  "routes_outcome gs q (routes_outcome fs p s) = routes_outcome (fs @ gs) (p \<or> q) s"
  by (simp add: routes_outcome_def disj_assoc)

lemma reconcile_targets_step:
  "r_GatewayAPIEnabled r \<Longrightarrow>
     reconcile_targets r c (target # targets) s w =
       (case target_failures r c target w of
          (Inl err, w) \<Rightarrow> (Inl err, w)
        | (Inr fs, w) \<Rightarrow>
            reconcile_targets r c targets (routes_outcome fs (rg_Spec target \<noteq> None) s) w)"
  by (auto simp: target_failures_def routes_outcome_steps conflict_same Let_def simp del: notReady_frame
        split: option.splits prod.splits)

lemma reconcile_targets_eq:
  "r_GatewayAPIEnabled r \<Longrightarrow>
     reconcile_targets r c targets s w =
       (case targets_failures r c targets w of
          (Inl err, w) \<Rightarrow> (Inl err, w)
        | (Inr fs, w) \<Rightarrow>
            (Inr (routes_outcome fs (list_ex (\<lambda>t. rg_Spec t \<noteq> None) targets) s), w))"
proof (induction targets arbitrary: s w)
  case (Cons target targets)
  show ?case
    unfolding reconcile_targets_step [OF Cons.prems]
    by (auto simp: Cons.IH [OF Cons.prems] routes_outcome_append split: prod.splits sum.splits
          simp del: reconcile_targets.simps)
qed simp

definition route_requested :: "PolarsCluster \<Rightarrow> bool" where
  "route_requested c = list_ex (\<lambda>t. rg_Spec t \<noteq> None) (routeTargets c)"

lemma reconcileRoutes_enabled:
  assumes "r_GatewayAPIEnabled r" "reconcileRoutes r c w = (Inr s, w')"
  obtains fs where "targets_failures r c (routeTargets c) w = (Inr fs, w')"
    "rts_requested s = route_requested c" "rts_ready s \<longleftrightarrow> fs = []"
    "fs \<noteq> [] \<Longrightarrow> (rts_reason s, rts_message s) = decisive fs"
    "rts_conflict s = list_ex is_conflict fs"
proof -
  let ?s0 = "\<lparr>rts_requested = False, rts_ready = True, rts_reason = [], rts_message = [], rts_conflict = False\<rparr>"
  from assms obtain fs where fs: "targets_failures r c (routeTargets c) w = (Inr fs, w')"
    and s: "s = routes_outcome fs (route_requested c) ?s0"
    by (auto simp: reconcileRoutes_def reconcile_targets_eq route_requested_def
          split: prod.splits sum.splits)
  show ?thesis
    using that [OF fs] report_ready [of ?s0 fs] by (simp add: s routes_outcome_def)
qed

lemma reconcileRoutes_disabled:
  assumes "\<not> r_GatewayAPIEnabled r"
  shows "reconcileRoutes r c w =
    (Inr (if route_requested c then
            \<lparr>rts_requested = True, rts_ready = False, rts_reason = ''GatewayAPIUnavailable'',
             rts_message = ''the Gateway API v1 GRPCRoute and HTTPRoute CRDs were not installed when the operator started'',
             rts_conflict = False\<rparr>
          else
            \<lparr>rts_requested = False, rts_ready = True, rts_reason = [], rts_message = [],
             rts_conflict = False\<rparr>), w)"
proof -
  have "reconcile_targets r c ts s w =
      (Inr (if list_ex (\<lambda>t. rg_Spec t \<noteq> None) ts then
              \<lparr>rts_requested = True, rts_ready = False, rts_reason = ''GatewayAPIUnavailable'',
               rts_message = ''the Gateway API v1 GRPCRoute and HTTPRoute CRDs were not installed when the operator started'',
               rts_conflict = False\<rparr> else s), w)" for ts s
    using assms by (induction ts) (auto split: option.splits)
  then show ?thesis by (simp add: reconcileRoutes_def route_requested_def)
qed

section \<open>What the step may do\<close>

fun route_call :: "'s reconciler \<Rightarrow> PolarsCluster \<Rightarrow> api_call \<Rightarrow> bool" where
  "route_call r c (GetRoute kind ns n) \<longleftrightarrow> r_GatewayAPIEnabled r \<and>
     (\<exists>t \<in> set (routeTargets c). rg_Spec t = None \<and> kind = rt_Kind (rg_Route t) \<and>
        ns = cl_Namespace c \<and> n = om_Name (rt_Meta (rg_Route t)))"
| "route_call r c (CreateOrUpdateRoute rt) \<longleftrightarrow> r_GatewayAPIEnabled r \<and>
     (\<exists>t \<in> set (routeTargets c). rg_Spec t \<noteq> None \<and> rt = rg_Route t)"
| "route_call r c (DeleteRoute rt) \<longleftrightarrow> r_GatewayAPIEnabled r \<and> r_IsControlledBy r (rt_Meta rt) (cl_Meta c)"
| "route_call r c _ \<longleftrightarrow> False"

lemma routeTargets_namespace:
  "t \<in> set (routeTargets c) \<Longrightarrow> om_Namespace (rt_Meta (rg_Route t)) = cl_Namespace c"
  by (auto simp: routeTargets_def Let_def new_route_def)

lemma deleteOwnedRoute_extends:
  assumes "r_GatewayAPIEnabled r" "t \<in> set (routeTargets c)" "rg_Spec t = None"
    and "extends (route_call r c) w0 w"
  shows "extends (route_call r c) w0 (snd (deleteOwnedRoute r c (rg_Route t) w))"
proof -
  let ?rt = "rg_Route t"
  let ?k = "GetRoute (rt_Kind ?rt) (om_Namespace (rt_Meta ?rt)) (om_Name (rt_Meta ?rt))"
  obtain x w1 where g: "call ?k (ac_GetRoute (r_Client r) (rt_Kind ?rt) (om_Namespace (rt_Meta ?rt))
      (om_Name (rt_Meta ?rt))) w = (x, w1)" by (metis surj_pair)
  have w1: "extends (route_call r c) w0 w1"
    by (rule extends_step [OF assms(4) g]) (use assms routeTargets_namespace in auto)
  have del: "extends (route_call r c) w0 w2"
    if "call (DeleteRoute rt) (ac_DeleteRoute (r_Client r) rt) w1 = (y, w2)"
      "r_IsControlledBy r (rt_Meta rt) (cl_Meta c)" for rt y w2
    by (rule extends_step [OF w1 that(1)]) (use assms(1) that(2) in simp)
  show ?thesis
    using w1 del g by (auto simp: deleteOwnedRoute_def Let_def split: sum.splits prod.splits)
qed

lemma target_failures_extends:
  assumes "r_GatewayAPIEnabled r" "t \<in> set (routeTargets c)" "extends (route_call r c) w0 w"
  shows "extends (route_call r c) w0 (snd (target_failures r c t w))"
proof (cases "rg_Spec t")
  case None
  with deleteOwnedRoute_extends [OF assms(1,2) None assms(3)] show ?thesis
    by (auto simp: target_failures_def split: prod.splits option.splits)
next
  case (Some spec)
  have "extends (route_call r c) w0 w1"
    if "call (CreateOrUpdateRoute (rg_Route t)) f w = (y, w1)" for f and y :: "route \<times> go_error option" and w1
    by (rule extends_step [OF assms(3) that]) (use assms Some in auto)
  with Some show ?thesis
    by (auto simp: target_failures_def applyRoute_def split: prod.splits option.splits)
qed

lemma targets_failures_extends:
  "r_GatewayAPIEnabled r \<Longrightarrow> set ts \<subseteq> set (routeTargets c) \<Longrightarrow> extends (route_call r c) w0 w \<Longrightarrow>
     extends (route_call r c) w0 (snd (targets_failures r c ts w))"
proof (induction ts arbitrary: w)
  case (Cons t ts)
  have w1: "extends (route_call r c) w0 (snd (target_failures r c t w))"
    by (rule target_failures_extends) (use Cons.prems in auto)
  with Cons.IH [of "snd (target_failures r c t w)"] Cons.prems show ?case
    by (auto split: prod.splits sum.splits)
qed simp

interpretation routes_step: api_handler
  "\<lambda>(r, c) w. reconcileRoutes r c w" "\<lambda>(r, c). route_call r c"
proof (unfold_locales, clarify)
  fix r c w
  show "extends (route_call r c) w (snd (reconcileRoutes r c w))"
  proof (cases "r_GatewayAPIEnabled r")
    case True
    from targets_failures_extends [OF True order_refl, of c w w] True show ?thesis
      by (auto simp: reconcileRoutes_def reconcile_targets_eq split: prod.splits sum.splits)
  next
    case False
    then show ?thesis by (simp add: reconcileRoutes_disabled)
  qed
qed

section \<open>What a route looks like\<close>

lemma route_mutation_Inr:
  assumes "route_mutation r c spec port rt = Inr rt'"
    and "\<And>m m'. r_SetControllerReference r (cl_Meta c) m = Inr m' \<Longrightarrow>
           om_Labels m' = om_Labels m \<and> om_Annotations m' = om_Annotations m"
  shows "rt_ParentRefs rt' = rs_ParentRefs spec" "rt_Hostnames rt' = rs_Hostnames spec"
    "om_Annotations (rt_Meta rt') = rs_Annotations spec"
    "om_Labels (rt_Meta rt') = rs_Labels spec ++ schedulerObjectLabels c"
    "rt_Parents rt' = rt_Parents rt"
    "\<exists>paths. rt_Rules rt' = [\<lparr>rr_PathPrefixes = paths, rr_BackendRefs =
       [\<lparr>br_Group = [], br_Kind = ''Service'', br_Name = om_Name (rt_Meta rt), br_Port = port, br_Weight = 1\<rparr>]\<rparr>]"
  using assms(1) assms(2)
  by (auto simp: route_mutation_def setRules_def Let_def split: sum.splits route_kind.splits)

text \<open>A target's route is named after a wanted service, and sends to a port of that service.\<close>

lemma routeTargets_backend:
  assumes "t \<in> set (routeTargets c)"
  shows "\<exists>d \<in> set (desired_services c). ds_Name d = om_Name (rt_Meta (rg_Route t)) \<and>
     rg_Port t \<in> sp_Port ` set (ds_Ports d)"
  using assms
  by (auto simp: routeTargets_def desired_services_def new_route_def Let_def)

end
