(* ===== verification/Template_Labels.thy ===== *)
theory Template_Labels
  imports Scheduler_Reconcile Worker_Pool Services Routes
begin

text \<open>
  The label maps of the user's pod templates. A pod is built with the \<open>ObjectMeta\<close> of its template, so
  when the template has a label map, the pod's labels are that map: \<open>applyPodLabels\<close> and the stamping
  of the hash write into the spec of the cluster object a reconcile works on. The functions here give
  the object after these writes; the theory \<open>Label_Sharing\<close> has the writes themselves, on memory. No
  later step of the reconcile reads what is written.
\<close>

section \<open>The writes\<close>

definition set_template_labels :: "str_map \<Rightarrow> pod_template_spec \<Rightarrow> pod_template_spec" where
  "set_template_labels l t =
     (if pt_HasLabels t then t\<lparr>pt_ObjectMeta := (pt_ObjectMeta t)\<lparr>om_Labels := l\<rparr>\<rparr> else t)"

definition write_scheduler_labels :: "str_map \<Rightarrow> PolarsCluster \<Rightarrow> PolarsCluster" where
  "write_scheduler_labels l c =
     c\<lparr>cl_Spec := (cl_Spec c)\<lparr>spec_Scheduler := map_option (\<lambda>s. s\<lparr>sch_PodTemplate :=
        map_option (set_template_labels l) (sch_PodTemplate s)\<rparr>) (spec_Scheduler (cl_Spec c))\<rparr>\<rparr>"

definition write_worker_labels :: "str_map \<Rightarrow> PolarsCluster \<Rightarrow> PolarsCluster" where
  "write_worker_labels l c =
     c\<lparr>cl_Spec := (cl_Spec c)\<lparr>spec_WorkerPool := (spec_WorkerPool (cl_Spec c))\<lparr>wp_PodTemplate :=
        map_option (set_template_labels l) (wp_PodTemplate (spec_WorkerPool (cl_Spec c)))\<rparr>\<rparr>\<rparr>"

text \<open>
  The cluster object after \<open>reconcileScheduler\<close> and after \<open>reconcileWorkerPool\<close>: a pod that could not be
  built was not labelled, one whose spec could not be hashed has all labels but the hash.
\<close>

definition scheduler_labelled :: "pod_lib \<Rightarrow> PolarsCluster \<Rightarrow> PolarsCluster" where
  "scheduler_labelled pl c =
     (case BuildSchedulerPodTemplate pl c of
        Inl _ \<Rightarrow> c
      | Inr p \<Rightarrow>
          (case podTemplateHash pl (pod_Spec p) of
             Inl _ \<Rightarrow> write_scheduler_labels (pod_labels p) c
           | Inr hash \<Rightarrow> write_scheduler_labels (pod_labels (set_label templateHashLabel hash p)) c))"

definition workers_labelled :: "pod_lib \<Rightarrow> PolarsCluster \<Rightarrow> PolarsCluster" where
  "workers_labelled pl c =
     (case BuildWorkerPodTemplate pl c of
        Inl _ \<Rightarrow> c
      | Inr p \<Rightarrow>
          (case podTemplateHash pl (pod_Spec p) of
             Inl _ \<Rightarrow> write_worker_labels (pod_labels p) c
           | Inr hash \<Rightarrow> write_worker_labels (pod_labels (set_label templateHashLabel hash p)) c))"

section \<open>What they leave alone\<close>

lemma write_labels_simps [simp]:
  "cl_Meta (write_scheduler_labels l c) = cl_Meta c" "cl_Status (write_scheduler_labels l c) = cl_Status c"
  "cl_Meta (write_worker_labels l c) = cl_Meta c" "cl_Status (write_worker_labels l c) = cl_Status c"
  "wp_Replicas (spec_WorkerPool (cl_Spec (write_worker_labels l c))) = wp_Replicas (spec_WorkerPool (cl_Spec c))"
  by (simp_all add: write_scheduler_labels_def write_worker_labels_def)

lemma write_scheduler_labels_spec [simp]:
  "spec_Telemetry (cl_Spec (write_scheduler_labels l c)) = spec_Telemetry (cl_Spec c)"
  "spec_LogLevel (cl_Spec (write_scheduler_labels l c)) = spec_LogLevel (cl_Spec c)"
  "spec_ImagePullSecrets (cl_Spec (write_scheduler_labels l c)) = spec_ImagePullSecrets (cl_Spec c)"
  "spec_ClusterID (cl_Spec (write_scheduler_labels l c)) = spec_ClusterID (cl_Spec c)"
  "spec_AcceptEula (cl_Spec (write_scheduler_labels l c)) = spec_AcceptEula (cl_Spec c)"
  "spec_Version (cl_Spec (write_scheduler_labels l c)) = spec_Version (cl_Spec c)"
  "spec_Runtime (cl_Spec (write_scheduler_labels l c)) = spec_Runtime (cl_Spec c)"
  "spec_License (cl_Spec (write_scheduler_labels l c)) = spec_License (cl_Spec c)"
  "spec_AllowLocalSinks (cl_Spec (write_scheduler_labels l c)) = spec_AllowLocalSinks (cl_Spec c)"
  "spec_AllowLocalScans (cl_Spec (write_scheduler_labels l c)) = spec_AllowLocalScans (cl_Spec c)"
  "spec_AllowAnonymousUsers (cl_Spec (write_scheduler_labels l c)) = spec_AllowAnonymousUsers (cl_Spec c)"
  "spec_AnonymousResults (cl_Spec (write_scheduler_labels l c)) = spec_AnonymousResults (cl_Spec c)"
  "spec_Checkpoint (cl_Spec (write_scheduler_labels l c)) = spec_Checkpoint (cl_Spec c)"
  "spec_Lineage (cl_Spec (write_scheduler_labels l c)) = spec_Lineage (cl_Spec c)"
  "spec_Observatory (cl_Spec (write_scheduler_labels l c)) = spec_Observatory (cl_Spec c)"
  "spec_HostMetrics (cl_Spec (write_scheduler_labels l c)) = spec_HostMetrics (cl_Spec c)"
  "spec_ClusterDomain (cl_Spec (write_scheduler_labels l c)) = spec_ClusterDomain (cl_Spec c)"
  "spec_WorkerPool (cl_Spec (write_scheduler_labels l c)) = spec_WorkerPool (cl_Spec c)"
  by (simp_all add: write_scheduler_labels_def)

lemma write_worker_labels_spec [simp]:
  "spec_Telemetry (cl_Spec (write_worker_labels l c)) = spec_Telemetry (cl_Spec c)"
  "spec_LogLevel (cl_Spec (write_worker_labels l c)) = spec_LogLevel (cl_Spec c)"
  "spec_ImagePullSecrets (cl_Spec (write_worker_labels l c)) = spec_ImagePullSecrets (cl_Spec c)"
  "spec_ClusterID (cl_Spec (write_worker_labels l c)) = spec_ClusterID (cl_Spec c)"
  "spec_AcceptEula (cl_Spec (write_worker_labels l c)) = spec_AcceptEula (cl_Spec c)"
  "spec_Version (cl_Spec (write_worker_labels l c)) = spec_Version (cl_Spec c)"
  "spec_Runtime (cl_Spec (write_worker_labels l c)) = spec_Runtime (cl_Spec c)"
  "spec_License (cl_Spec (write_worker_labels l c)) = spec_License (cl_Spec c)"
  "spec_AllowLocalSinks (cl_Spec (write_worker_labels l c)) = spec_AllowLocalSinks (cl_Spec c)"
  "spec_AllowLocalScans (cl_Spec (write_worker_labels l c)) = spec_AllowLocalScans (cl_Spec c)"
  "spec_AllowAnonymousUsers (cl_Spec (write_worker_labels l c)) = spec_AllowAnonymousUsers (cl_Spec c)"
  "spec_AnonymousResults (cl_Spec (write_worker_labels l c)) = spec_AnonymousResults (cl_Spec c)"
  "spec_Checkpoint (cl_Spec (write_worker_labels l c)) = spec_Checkpoint (cl_Spec c)"
  "spec_Lineage (cl_Spec (write_worker_labels l c)) = spec_Lineage (cl_Spec c)"
  "spec_Observatory (cl_Spec (write_worker_labels l c)) = spec_Observatory (cl_Spec c)"
  "spec_HostMetrics (cl_Spec (write_worker_labels l c)) = spec_HostMetrics (cl_Spec c)"
  "spec_ClusterDomain (cl_Spec (write_worker_labels l c)) = spec_ClusterDomain (cl_Spec c)"
  "spec_Scheduler (cl_Spec (write_worker_labels l c)) = spec_Scheduler (cl_Spec c)"
  by (simp_all add: write_worker_labels_def)

lemma scheduler_labelled_cases:
  obtains (unlabelled) "scheduler_labelled pl c = c"
  | (labelled) l where "scheduler_labelled pl c = write_scheduler_labels l c"
  by atomize_elim (auto simp: scheduler_labelled_def split: sum.split)

lemma workers_labelled_cases:
  obtains (unlabelled) "workers_labelled pl c = c"
  | (labelled) l where "workers_labelled pl c = write_worker_labels l c"
  by atomize_elim (auto simp: workers_labelled_def split: sum.split)

lemma labelled_simps [simp]:
  "cl_Meta (scheduler_labelled pl c) = cl_Meta c" "cl_Status (scheduler_labelled pl c) = cl_Status c"
  "cl_Meta (workers_labelled pl c) = cl_Meta c" "cl_Status (workers_labelled pl c) = cl_Status c"
  "spec_WorkerPool (cl_Spec (scheduler_labelled pl c)) = spec_WorkerPool (cl_Spec c)"
  "wp_Replicas (spec_WorkerPool (cl_Spec (workers_labelled pl c))) = wp_Replicas (spec_WorkerPool (cl_Spec c))"
  by (rule scheduler_labelled_cases [of pl c]; rule workers_labelled_cases [of pl c]; simp)+

text \<open>
  The specs the cluster object goes through in a reconcile: as it was read, with the labels of the
  scheduler pod, and with those of the workers as well.
\<close>

definition written_specs :: "pod_lib \<Rightarrow> PolarsCluster \<Rightarrow> PolarsClusterSpec set" where
  "written_specs pl c =
     {cl_Spec c, cl_Spec (scheduler_labelled pl c), cl_Spec (workers_labelled pl (scheduler_labelled pl c))}"

section \<open>What reads them\<close>

text \<open>
  Only the builder of the same pod reads the template: everything else is computed as if nothing had
  been written.
\<close>

named_theorems unread \<open>computations that do not read the labels of a template\<close>

lemma unread_labels [unread]:
  "distTag (write_scheduler_labels l c) = distTag c"
  "distTag (write_worker_labels l c) = distTag c"
  "standardLabels (write_scheduler_labels l c) k = standardLabels c k"
  "standardLabels (write_worker_labels l c) k = standardLabels c k"
  "schedulerObjectLabels (write_scheduler_labels l c) = schedulerObjectLabels c"
  "schedulerObjectLabels (write_worker_labels l c) = schedulerObjectLabels c"
  unfolding standardLabels_def schedulerObjectLabels_def distTag_def write_scheduler_labels_spec
    write_worker_labels_spec write_labels_simps by (rule refl)+

lemma unread_names [unread]:
  "schedulerServiceName (write_scheduler_labels l c) = schedulerServiceName c"
  "schedulerInternalServiceName (write_scheduler_labels l c) = schedulerInternalServiceName c"
  "observatoryServiceName (write_scheduler_labels l c) = observatoryServiceName c"
  "schedulerServiceName (write_worker_labels l c) = schedulerServiceName c"
  "schedulerInternalServiceName (write_worker_labels l c) = schedulerInternalServiceName c"
  "observatoryServiceName (write_worker_labels l c) = observatoryServiceName c"
  "workerServiceAccountName (write_scheduler_labels l c) = workerServiceAccountName c"
  by (simp_all add: schedulerServiceName_def schedulerInternalServiceName_def observatoryServiceName_def
        workerServiceAccountName_def)

lemma unread_services [unread]:
  "schedulerServices (write_scheduler_labels l c) = schedulerServices c"
  "schedulerServices (write_worker_labels l c) = schedulerServices c"
  by (auto simp: schedulerServices_def write_scheduler_labels_def split: option.splits)

subsection \<open>The worker pod\<close>

lemma unread_worker_parts [unread]:
  "hostMetricsDisabled (write_scheduler_labels l c) = hostMetricsDisabled c"
  "resolveClusterID (write_scheduler_labels l c) = resolveClusterID c"
  "resolveLogLevel (write_scheduler_labels l c) = resolveLogLevel c"
  "internalHostname (write_scheduler_labels l c) = internalHostname c"
  "workerLicenseConfig b (write_scheduler_labels l c) h = workerLicenseConfig b c h"
  "computedShuffleDataConfig b (write_scheduler_labels l c) h = computedShuffleDataConfig b c h"
  "computedCheckpointDataEnv b (write_scheduler_labels l c) h = computedCheckpointDataEnv b c h"
  "composedRuntimeConfig (write_scheduler_labels l c) = composedRuntimeConfig c"
  "workerPodTemplateBase (write_scheduler_labels l c) = workerPodTemplateBase c"
  "workerServiceAccountSpec (write_scheduler_labels l c) = workerServiceAccountSpec c"
  unfolding hostMetricsDisabled_def resolveClusterID_def resolveLogLevel_def internalHostname_def
    workerLicenseConfig_def enterpriseLicenseConfig_def computedShuffleDataConfig_def
    computedCheckpointDataEnv_def composedRuntimeConfig_def workerPodTemplateBase_def
    workerServiceAccountSpec_def unread write_scheduler_labels_spec write_labels_simps
  by (rule refl)+

lemma unread_computed_worker [unread]:
  "computedWorkerPodSpec pl (write_scheduler_labels l c) n k p = computedWorkerPodSpec pl c n k p"
  unfolding computedWorkerPodSpec_def Let_def [of "cl_Spec _"] unread write_scheduler_labels_spec write_labels_simps
  by (rule refl)

lemma unread_BuildWorker [unread]:
  "BuildWorkerPodTemplate pl (write_scheduler_labels l c) = BuildWorkerPodTemplate pl c"
  unfolding BuildWorkerPodTemplate_def applyPodLabels_def unread write_scheduler_labels_spec write_labels_simps
  by (rule refl)

text \<open>Nor is the status read.\<close>

lemma BuildWorker_status: "BuildWorkerPodTemplate pl (c\<lparr>cl_Status := s\<rparr>) = BuildWorkerPodTemplate pl c"
proof -
  have parts: "cl_Spec (c\<lparr>cl_Status := s\<rparr>) = cl_Spec c" "cl_Meta (c\<lparr>cl_Status := s\<rparr>) = cl_Meta c"
    by simp_all
  show ?thesis
    unfolding BuildWorkerPodTemplate_def applyPodLabels_def standardLabels_def distTag_def
      workerPodTemplateBase_def workerServiceAccountSpec_def workerServiceAccountName_def
      computedWorkerPodSpec_def hostMetricsDisabled_def resolveClusterID_def resolveLogLevel_def
      internalHostname_def schedulerInternalServiceName_def workerLicenseConfig_def
      enterpriseLicenseConfig_def computedShuffleDataConfig_def computedCheckpointDataEnv_def
      composedRuntimeConfig_def parts
    by (rule refl)
qed

lemma workers_labelled_status:
  "workers_labelled pl (c\<lparr>cl_Status := s\<rparr>) = (workers_labelled pl c)\<lparr>cl_Status := s\<rparr>"
  by (simp add: workers_labelled_def BuildWorker_status write_worker_labels_def split: sum.split)

subsection \<open>The steps\<close>

lemma unread_step_parts [unread]:
  "desired_services (write_scheduler_labels l c) = desired_services c"
  "scheduler_selector (write_scheduler_labels l c) = scheduler_selector c"
  "new_service (write_scheduler_labels l c) n cfg ports sel = new_service c n cfg ports sel"
  "pool_selector (write_scheduler_labels l c) = pool_selector c"
  "pool_status (write_scheduler_labels l c) ps = pool_status c ps"
  "scale_pool r (write_scheduler_labels l c) t ps w = scale_pool r c t ps w"
  unfolding desired_services_def scheduler_selector_def new_service_def pool_selector_def pool_status_def
    scale_pool_def unread write_scheduler_labels_spec write_labels_simps
  by (rule refl)+

lemma unread_reconcileServices [unread]:
  "reconcileServices r (write_scheduler_labels l c) = reconcileServices r c"
  unfolding reconcileServices_def services_turn_def service_step_def unread write_labels_simps
  by (rule refl)

lemma unread_reconcileWorkerPool [unread]:
  "reconcileWorkerPool r (write_scheduler_labels l c) = reconcileWorkerPool r c"
  unfolding reconcileWorkerPool_def unread write_labels_simps by (rule refl)

lemma unread_routes [unread]:
  "routeTargets (write_scheduler_labels l c) = routeTargets c"
  "routeTargets (write_worker_labels l c) = routeTargets c"
  "route_mutation r (write_scheduler_labels l c) = route_mutation r c"
  "route_mutation r (write_worker_labels l c) = route_mutation r c"
  unfolding routeTargets_def route_mutation_def unread write_labels_simps by (rule refl)+

lemma unread_reconcileRoutes [unread]:
  "reconcileRoutes r (write_scheduler_labels l c) = reconcileRoutes r c"
  "reconcileRoutes r (write_worker_labels l c) = reconcileRoutes r c"
proof -
  have eq: "reconcile_targets r c' ts st w = reconcile_targets r c ts st w"
    if "applyRoute r c' = applyRoute r c" "deleteOwnedRoute r c' = deleteOwnedRoute r c" for c' ts st w
    by (induction ts arbitrary: st w)
      (simp_all add: that Let_def split: option.split prod.split sum.split)
  have parts: "applyRoute r (write_scheduler_labels l c) = applyRoute r c"
    "deleteOwnedRoute r (write_scheduler_labels l c) = deleteOwnedRoute r c"
    "applyRoute r (write_worker_labels l c) = applyRoute r c"
    "deleteOwnedRoute r (write_worker_labels l c) = deleteOwnedRoute r c"
    unfolding applyRoute_def deleteOwnedRoute_def unread write_labels_simps by (rule refl)+
  show "reconcileRoutes r (write_scheduler_labels l c) = reconcileRoutes r c"
    "reconcileRoutes r (write_worker_labels l c) = reconcileRoutes r c"
    unfolding reconcileRoutes_def unread by (rule ext, rule eq; rule parts)+
qed

section \<open>What is written\<close>

text \<open>
  The cluster with the label maps of its templates emptied, the labels of the templates, and the keys
  that are the operator's.
\<close>

definition without_template_labels :: "PolarsCluster \<Rightarrow> PolarsCluster" where
  "without_template_labels c = write_worker_labels Map.empty (write_scheduler_labels Map.empty c)"

definition scheduler_template_label :: "PolarsCluster \<Rightarrow> string \<Rightarrow> string option" where
  "scheduler_template_label c = om_Labels (pt_ObjectMeta (schedulerPodTemplateBase c))"

definition worker_template_label :: "PolarsCluster \<Rightarrow> string \<Rightarrow> string option" where
  "worker_template_label c = om_Labels (pt_ObjectMeta (workerPodTemplateBase c))"

definition operator_keys :: "PolarsCluster \<Rightarrow> string \<Rightarrow> string set" where
  "operator_keys c k = {clusterLabel, componentLabel, templateHashLabel} \<union> dom (standardLabels c k)"

lemma set_template_labels_twice [simp]:
  "set_template_labels l' (set_template_labels l t) = set_template_labels l' t"
  by (simp add: set_template_labels_def)

lemma without_labels_written:
  "without_template_labels (write_scheduler_labels l c) = without_template_labels c"
  "without_template_labels (write_worker_labels l c) = without_template_labels c"
  by (simp_all add: without_template_labels_def write_scheduler_labels_def write_worker_labels_def
      option.map_comp comp_def)

lemma without_labels_labelled:
  "without_template_labels (scheduler_labelled pl c) = without_template_labels c"
  "without_template_labels (workers_labelled pl c) = without_template_labels c"
  by (rule scheduler_labelled_cases [of pl c]; rule workers_labelled_cases [of pl c];
      simp add: without_labels_written)+

lemma write_labels_template:
  "scheduler_template_label (write_scheduler_labels l c) k \<in> {scheduler_template_label c k, l k}"
  "worker_template_label (write_worker_labels l c) k \<in> {worker_template_label c k, l k}"
  "scheduler_template_label (write_worker_labels l c) = scheduler_template_label c"
  "worker_template_label (write_scheduler_labels l c) = worker_template_label c"
  by (auto simp: scheduler_template_label_def worker_template_label_def schedulerPodTemplateBase_def
      workerPodTemplateBase_def write_scheduler_labels_def write_worker_labels_def set_template_labels_def
      split: option.split)

lemma scheduler_labelled_user:
  assumes "k \<notin> operator_keys c componentScheduler"
  shows "scheduler_template_label (scheduler_labelled pl c) k = scheduler_template_label c k"
proof (cases "BuildSchedulerPodTemplate pl c")
  case (Inr p)
  from Inr obtain merged where "pod_labels p = pod_labels (applyPodLabels
      \<lparr>pod_Meta = pt_ObjectMeta (schedulerPodTemplateBase c), pod_Spec = merged, pod_Status = zero_pod_status\<rparr>
      c componentScheduler)"
    by (rule BuildScheduler_Inr)
  then have "pod_labels p k = scheduler_template_label c k" "pod_labels (set_label templateHashLabel h p) k = pod_labels p k" for h
    using assms by (auto simp: operator_keys_def applyPodLabels_user scheduler_template_label_def set_label_def)
  then show ?thesis
    using write_labels_template(1) [of "pod_labels p" c k]
      write_labels_template(1) [of "pod_labels (set_label templateHashLabel _ p)" c k]
    by (fastforce simp: scheduler_labelled_def Inr split: sum.split)
qed (simp add: scheduler_labelled_def)

lemma workers_labelled_user:
  assumes "k \<notin> operator_keys c componentWorker"
  shows "worker_template_label (workers_labelled pl c) k = worker_template_label c k"
proof (cases "BuildWorkerPodTemplate pl c")
  case (Inr p)
  from Inr obtain merged where "pod_labels p = pod_labels (applyPodLabels
      \<lparr>pod_Meta = pt_ObjectMeta (workerPodTemplateBase c), pod_Spec = merged, pod_Status = zero_pod_status\<rparr>
      c componentWorker)"
    by (rule BuildWorker_Inr)
  then have "pod_labels p k = worker_template_label c k" "pod_labels (set_label templateHashLabel h p) k = pod_labels p k" for h
    using assms by (auto simp: operator_keys_def applyPodLabels_user worker_template_label_def set_label_def)
  then show ?thesis
    using write_labels_template(2) [of "pod_labels p" c k]
      write_labels_template(2) [of "pod_labels (set_label templateHashLabel _ p)" c k]
    by (fastforce simp: workers_labelled_def Inr split: sum.split)
qed (simp add: workers_labelled_def)

lemma written_specs_user:
  assumes "cl_Spec c' \<in> written_specs pl c" "cl_Meta c' = cl_Meta c"
  shows "cl_Spec (without_template_labels c') = cl_Spec (without_template_labels c)"
    and "k \<notin> operator_keys c componentScheduler \<Longrightarrow> scheduler_template_label c' k = scheduler_template_label c k"
    and "k \<notin> operator_keys c componentWorker \<Longrightarrow> worker_template_label c' k = worker_template_label c k"
proof -
  let ?c1 = "scheduler_labelled pl c" and ?c2 = "workers_labelled pl (scheduler_labelled pl c)"
  obtain c0 where c0: "cl_Spec c' = cl_Spec c0" "c0 \<in> {c, ?c1, ?c2}"
    using assms(1) by (auto simp: written_specs_def)
  have spec: "cl_Spec (without_template_labels c') = cl_Spec (without_template_labels c0)"
    "scheduler_template_label c' = scheduler_template_label c0" "worker_template_label c' = worker_template_label c0"
    by (simp_all add: without_template_labels_def write_scheduler_labels_def write_worker_labels_def c0(1)
        scheduler_template_label_def worker_template_label_def schedulerPodTemplateBase_def workerPodTemplateBase_def)
  from c0(2) show "cl_Spec (without_template_labels c') = cl_Spec (without_template_labels c)"
    by (auto simp: spec without_labels_labelled)
  have keys: "operator_keys ?c1 componentWorker = operator_keys c componentWorker"
    by (rule scheduler_labelled_cases [of pl c]) (simp_all add: operator_keys_def unread)
  have other: "scheduler_template_label ?c2 = scheduler_template_label ?c1" "worker_template_label ?c1 = worker_template_label c"
    by (rule workers_labelled_cases [of pl ?c1]; simp add: write_labels_template)
       (rule scheduler_labelled_cases [of pl c]; simp add: write_labels_template)
  from c0(2) show "scheduler_template_label c' k = scheduler_template_label c k"
    if "k \<notin> operator_keys c componentScheduler"
    by (auto simp: spec other scheduler_labelled_user that)
  from c0(2) show "worker_template_label c' k = worker_template_label c k"
    if "k \<notin> operator_keys c componentWorker"
    by (auto simp: spec other workers_labelled_user that keys)
qed

end
