(* ===== verification/Reconcile.thy ===== *)
theory Reconcile
  imports Reconcile_Accounts Template_Labels
begin

text \<open>
  \<open>Reconcile\<close> of \<open>polarscluster_controller.go\<close> with \<open>recordSpecError\<close> and \<open>setReadyCondition\<close>: the five
  steps in order, what each of their errors becomes, the conditions and the single status write at
  the end, the events on a change of readiness and the request to come back on a route conflict.
\<close>

definition conditionReady :: string where "conditionReady = ''Ready''"
definition conditionSchedulerReady :: string where "conditionSchedulerReady = ''SchedulerReady''"
definition conditionWorkerPoolReady :: string where "conditionWorkerPoolReady = ''WorkerPoolReady''"

text \<open>\<open>ctrl.Result\<close>: when to come back; zero is not at all.\<close>

record ctrl_result =
  RequeueAfter :: duration

section \<open>Conditions\<close>

definition set_conditions :: "(condition list \<Rightarrow> condition list) \<Rightarrow> PolarsCluster \<Rightarrow> PolarsCluster" where
  "set_conditions f c =
     c\<lparr>cl_Status := (cl_Status c)\<lparr>st_Conditions := f (st_Conditions (cl_Status c))\<rparr>\<rparr>"

definition setCondition ::
  "'s reconciler \<Rightarrow> string \<Rightarrow> string \<Rightarrow> string \<Rightarrow> string \<Rightarrow> PolarsCluster \<Rightarrow> PolarsCluster" where
  "setCondition r condType status reason message c =
     set_conditions
       (SetStatusCondition (r_Conditions r)
          \<lparr>cond_Type = condType, cond_Status = status, cond_Reason = reason, cond_Message = message,
           cond_ObservedGeneration = cl_Generation c, cond_LastTransitionTime = 0\<rparr>) c"

definition setReadyCondition ::
  "'s reconciler \<Rightarrow> PolarsCluster \<Rightarrow> string \<Rightarrow> bool \<Rightarrow> string \<Rightarrow> string \<Rightarrow> PolarsCluster" where
  "setReadyCondition r c condType ready notReadyReason notReadyMessage =
     (let (status, reason, message) =
        (if ready then (ConditionTrue, ''Reconciled'', [])
         else (ConditionFalse, notReadyReason, notReadyMessage))
      in setCondition r condType status reason message c)"

definition observed :: "PolarsCluster \<Rightarrow> PolarsCluster" where
  "observed c = c\<lparr>cl_Status := (cl_Status c)\<lparr>st_ObservedGeneration := cl_Generation c\<rparr>\<rparr>"

definition is_ready :: "'s reconciler \<Rightarrow> PolarsCluster \<Rightarrow> bool" where
  "is_ready r c = IsStatusConditionTrue (r_Conditions r) (st_Conditions (cl_Status c)) conditionReady"

section \<open>Errors\<close>

definition recordSpecError ::
  "'s reconciler \<Rightarrow> PolarsCluster \<Rightarrow> string \<Rightarrow> string \<times> go_error \<Rightarrow> 's world
     \<Rightarrow> ctrl_result result \<times> 's world" where
  "recordSpecError r c condType se w =
     (case se of (reason, err) \<Rightarrow>
       (let c = setCondition r condType ConditionFalse reason (error_text err) c;
            c = (if condType \<noteq> conditionReady
                 then setCondition r conditionReady ConditionFalse reason (error_text err) c else c);
            w = Eventf EventTypeWarning reason actionReconcile (error_text err) w;
            c = observed c
        in case call (UpdateStatus c) (ac_UpdateStatus (r_Client r) c) w of
             (Inl err, w) \<Rightarrow> (Inl err, w)
           | (Inr c, w) \<Rightarrow> (Inr \<lparr>RequeueAfter = 0\<rparr>, w)))"

text \<open>What \<open>Reconcile\<close> does with the error of a step: \<open>errors.As\<close>, then \<open>recordSpecError\<close>.\<close>

definition step_error ::
  "'s reconciler \<Rightarrow> PolarsCluster \<Rightarrow> string \<Rightarrow> go_error \<Rightarrow> 's world \<Rightarrow> ctrl_result result \<times> 's world" where
  "step_error r c condType err w =
     (case as_spec err of
        Some se \<Rightarrow> recordSpecError r c condType se w
      | None \<Rightarrow> (Inl err, w))"

section \<open>The end of a reconcile\<close>

definition readyMessage ::
  "SchedulerStatus \<Rightarrow> string \<Rightarrow> bool \<Rightarrow> string \<Rightarrow> routes_status \<Rightarrow> string" where
  "readyMessage schedulerStatus schedulerMessage workerPoolReady workerMessage routes =
     (if \<not> sst_Ready schedulerStatus then schedulerMessage
      else if \<not> workerPoolReady then workerMessage
      else if \<not> rts_ready routes then rts_message routes
      else [])"

definition finish_reconcile ::
  "'s reconciler \<Rightarrow> PolarsCluster \<Rightarrow> bool \<Rightarrow> SchedulerStatus \<Rightarrow> string \<Rightarrow> bool \<Rightarrow> string \<Rightarrow> routes_status
     \<Rightarrow> 's world \<Rightarrow> ctrl_result result \<times> 's world" where
  "finish_reconcile r c wasReady schedulerStatus schedulerMessage workerPoolReady workerMessage routes w =
     (let c = (if rts_requested routes
               then setReadyCondition r c conditionRoutesReady (rts_ready routes) (rts_reason routes)
                      (rts_message routes)
               else set_conditions (RemoveStatusCondition (r_Conditions r) conditionRoutesReady) c);
          readyMsg = readyMessage schedulerStatus schedulerMessage workerPoolReady workerMessage routes;
          c = setReadyCondition r c conditionReady
                (sst_Ready schedulerStatus \<and> workerPoolReady \<and> rts_ready routes) ''NotReady'' readyMsg;
          c = observed c
      in case call (UpdateStatus c) (ac_UpdateStatus (r_Client r) c) w of
           (Inl err, w) \<Rightarrow> (Inl err, w)
         | (Inr c, w) \<Rightarrow>
             (let nowReady = is_ready r c;
                  w = (if \<not> wasReady \<and> nowReady then
                         Eventf EventTypeNormal ''Reconciled'' actionReconcile ''PolarsCluster is Ready'' w
                       else if wasReady \<and> \<not> nowReady then
                         Eventf EventTypeWarning ''NotReady'' actionReconcile readyMsg w
                       else w)
              in if rts_conflict routes then (Inr \<lparr>RequeueAfter = routeConflictRetryInterval\<rparr>, w)
                 else (Inr \<lparr>RequeueAfter = 0\<rparr>, w)))"

section \<open>\<open>Reconcile\<close>\<close>

definition Reconcile ::
  "'v version_lib \<Rightarrow> 'v version_vars \<Rightarrow> 's reconciler \<Rightarrow> string \<Rightarrow> string \<Rightarrow> 's world
     \<Rightarrow> ctrl_result result \<times> 's world" where
  "Reconcile vl vv r ns name w =
     (case call (GetCluster ns name) (ac_GetCluster (r_Client r) ns name) w of
        (Inl err, w) \<Rightarrow>
          (case IgnoreNotFound (Some err) of
             Some err \<Rightarrow> (Inl err, w) | None \<Rightarrow> (Inr \<lparr>RequeueAfter = 0\<rparr>, w))
      | (Inr c, w) \<Rightarrow>
     (let wasReady = is_ready r c in
      case clusterVersion vl vv c of
        Inl err \<Rightarrow>
          recordSpecError r c conditionReady (''InvalidVersion'', PlainError (error_text err)) w
      | Inr v \<Rightarrow>
     (case reconcilePolarsClusterServiceAccounts r c w of
        (Some err, w) \<Rightarrow> step_error r c conditionReady err w
      | (None, w) \<Rightarrow>
     (case reconcileScheduler r c w of (step, w) \<Rightarrow>
     (let c = scheduler_labelled (r_Pods r) c in
      case step of
        Inl err \<Rightarrow> step_error r c conditionSchedulerReady err w
      | Inr (schedulerStatus, schedulerMessage) \<Rightarrow>
     (let c = c\<lparr>cl_Status := (cl_Status c)\<lparr>st_Scheduler := schedulerStatus\<rparr>\<rparr>;
          c = setReadyCondition r c conditionSchedulerReady (sst_Ready schedulerStatus) ''NotReady''
                schedulerMessage
      in case reconcileServices r c w of
        (Some err, w) \<Rightarrow> step_error r c conditionReady err w
      | (None, w) \<Rightarrow>
     (case reconcileWorkerPool r c w of (step, w) \<Rightarrow>
     (let c = workers_labelled (r_Pods r) c in
      case step of
        Inl err \<Rightarrow> step_error r c conditionWorkerPoolReady err w
      | Inr (workerPoolStatus, workerMessage) \<Rightarrow>
     (let c = c\<lparr>cl_Status := (cl_Status c)\<lparr>st_WorkerPool := workerPoolStatus\<rparr>\<rparr>;
          workerPoolReady =
            (wps_Replicas workerPoolStatus = wp_Replicas (spec_WorkerPool (cl_Spec c)) \<and>
             wps_ReadyReplicas workerPoolStatus = wps_Replicas workerPoolStatus);
          c = setReadyCondition r c conditionWorkerPoolReady workerPoolReady ''NotReady'' workerMessage
      in case reconcileRoutes r c w of
        (Inl err, w) \<Rightarrow> (Inl err, w)
      | (Inr routes, w) \<Rightarrow>
          finish_reconcile r c wasReady schedulerStatus schedulerMessage workerPoolReady workerMessage
            routes w)))))))))"

section \<open>Frames\<close>

text \<open>
  A reconcile works on one cluster: its metadata is never changed, its spec only by the labelling of
  pods. The clusters of the steps are the one that was read but for the status; the ones written also
  have the labels.
\<close>

definition same_cluster :: "PolarsCluster \<Rightarrow> PolarsCluster \<Rightarrow> bool" where
  "same_cluster c c' \<longleftrightarrow> cl_Meta c' = cl_Meta c \<and> cl_Spec c' = cl_Spec c"

definition relabelled :: "pod_lib \<Rightarrow> PolarsCluster \<Rightarrow> PolarsCluster \<Rightarrow> bool" where
  "relabelled pl c c' \<longleftrightarrow> cl_Meta c' = cl_Meta c \<and> cl_Spec c' \<in> written_specs pl c"

lemma same_cluster_relabelled: "same_cluster c c' \<Longrightarrow> relabelled pl c c'"
  by (simp add: same_cluster_def relabelled_def written_specs_def)

lemma set_conditions_simps [simp]:
  "cl_Meta (set_conditions f c) = cl_Meta c" "cl_Spec (set_conditions f c) = cl_Spec c"
  "st_Conditions (cl_Status (set_conditions f c)) = f (st_Conditions (cl_Status c))"
  "st_Scheduler (cl_Status (set_conditions f c)) = st_Scheduler (cl_Status c)"
  "st_WorkerPool (cl_Status (set_conditions f c)) = st_WorkerPool (cl_Status c)"
  by (simp_all add: set_conditions_def)

lemma setCondition_simps [simp]:
  "cl_Meta (setCondition r t s a m c) = cl_Meta c" "cl_Spec (setCondition r t s a m c) = cl_Spec c"
  "st_Scheduler (cl_Status (setCondition r t s a m c)) = st_Scheduler (cl_Status c)"
  "st_WorkerPool (cl_Status (setCondition r t s a m c)) = st_WorkerPool (cl_Status c)"
  by (simp_all add: setCondition_def)

lemma setReadyCondition_simps [simp]:
  "cl_Meta (setReadyCondition r c t b a m) = cl_Meta c"
  "cl_Spec (setReadyCondition r c t b a m) = cl_Spec c"
  "st_Scheduler (cl_Status (setReadyCondition r c t b a m)) = st_Scheduler (cl_Status c)"
  "st_WorkerPool (cl_Status (setReadyCondition r c t b a m)) = st_WorkerPool (cl_Status c)"
  by (simp_all add: setReadyCondition_def)

lemma observed_simps [simp]:
  "cl_Meta (observed c) = cl_Meta c" "cl_Spec (observed c) = cl_Spec c"
  "st_Conditions (cl_Status (observed c)) = st_Conditions (cl_Status c)"
  "st_ObservedGeneration (cl_Status (observed c)) = cl_Generation c"
  "st_Scheduler (cl_Status (observed c)) = st_Scheduler (cl_Status c)"
  "st_WorkerPool (cl_Status (observed c)) = st_WorkerPool (cl_Status c)"
  by (simp_all add: observed_def)

section \<open>The condition library\<close>

text \<open>
  The documented behaviour of \<open>meta.SetStatusCondition\<close> and \<open>meta.RemoveStatusCondition\<close> as far as
  \<open>meta.IsStatusConditionTrue\<close> sees it: an upsert decides its own type, a removal clears it, and neither
  touches another type.
\<close>

definition condition_laws :: "cond_lib \<Rightarrow> bool" where
  "condition_laws cl \<longleftrightarrow>
     (\<forall>cond cs t. IsStatusConditionTrue cl (SetStatusCondition cl cond cs) t \<longleftrightarrow>
        (if t = cond_Type cond then cond_Status cond = ConditionTrue else IsStatusConditionTrue cl cs t)) \<and>
     (\<forall>cs t t'. IsStatusConditionTrue cl (RemoveStatusCondition cl t' cs) t \<longleftrightarrow>
        t \<noteq> t' \<and> IsStatusConditionTrue cl cs t)"

definition cond_true :: "'s reconciler \<Rightarrow> PolarsCluster \<Rightarrow> string \<Rightarrow> bool" where
  "cond_true r c t = IsStatusConditionTrue (r_Conditions r) (st_Conditions (cl_Status c)) t"

lemma ConditionFalse_not_True [simp]: "ConditionFalse \<noteq> ConditionTrue"
  by (simp add: ConditionFalse_def ConditionTrue_def)

lemma cond_true_setCondition:
  "condition_laws (r_Conditions r) \<Longrightarrow>
     cond_true r (setCondition r t s a m c) u \<longleftrightarrow> (if u = t then s = ConditionTrue else cond_true r c u)"
  by (simp add: condition_laws_def cond_true_def setCondition_def)

lemma cond_true_setReadyCondition:
  "condition_laws (r_Conditions r) \<Longrightarrow>
     cond_true r (setReadyCondition r c t b a m) u \<longleftrightarrow> (if u = t then b else cond_true r c u)"
  by (simp add: setReadyCondition_def cond_true_setCondition)

lemma cond_true_remove:
  "condition_laws (r_Conditions r) \<Longrightarrow>
     cond_true r (set_conditions (RemoveStatusCondition (r_Conditions r) t) c) u
       \<longleftrightarrow> u \<noteq> t \<and> cond_true r c u"
  by (simp add: condition_laws_def cond_true_def)

lemma cond_true_status [simp]:
  "cond_true r (observed c) u = cond_true r c u"
  "cond_true r (c\<lparr>cl_Status := (cl_Status c)\<lparr>st_Scheduler := x\<rparr>\<rparr>) u = cond_true r c u"
  "cond_true r (c\<lparr>cl_Status := (cl_Status c)\<lparr>st_WorkerPool := y\<rparr>\<rparr>) u = cond_true r c u"
  by (simp_all add: cond_true_def)

lemma condition_types_distinct [simp]:
  "conditionReady \<noteq> conditionSchedulerReady" "conditionReady \<noteq> conditionWorkerPoolReady"
  "conditionReady \<noteq> conditionRoutesReady" "conditionSchedulerReady \<noteq> conditionReady"
  "conditionWorkerPoolReady \<noteq> conditionReady" "conditionRoutesReady \<noteq> conditionReady"
  "conditionSchedulerReady \<noteq> conditionWorkerPoolReady" "conditionWorkerPoolReady \<noteq> conditionSchedulerReady"
  "conditionSchedulerReady \<noteq> conditionRoutesReady" "conditionRoutesReady \<noteq> conditionSchedulerReady"
  "conditionWorkerPoolReady \<noteq> conditionRoutesReady" "conditionRoutesReady \<noteq> conditionWorkerPoolReady"
  by (simp_all add: conditionReady_def conditionSchedulerReady_def conditionWorkerPoolReady_def
        conditionRoutesReady_def)

section \<open>The ways a reconcile goes\<close>

definition read_cluster ::
  "'s reconciler \<Rightarrow> string \<Rightarrow> string \<Rightarrow> 's world \<Rightarrow> PolarsCluster result \<times> 's world" where
  "read_cluster r ns name = call (GetCluster ns name) (ac_GetCluster (r_Client r) ns name)"

definition note_scheduler ::
  "'s reconciler \<Rightarrow> SchedulerStatus \<Rightarrow> string \<Rightarrow> PolarsCluster \<Rightarrow> PolarsCluster" where
  "note_scheduler r st msg c =
     setReadyCondition r (c\<lparr>cl_Status := (cl_Status c)\<lparr>st_Scheduler := st\<rparr>\<rparr>)
       conditionSchedulerReady (sst_Ready st) ''NotReady'' msg"

definition note_workers ::
  "'s reconciler \<Rightarrow> WorkerPoolStatus \<Rightarrow> string \<Rightarrow> PolarsCluster \<Rightarrow> PolarsCluster" where
  "note_workers r st msg c =
     setReadyCondition r (c\<lparr>cl_Status := (cl_Status c)\<lparr>st_WorkerPool := st\<rparr>\<rparr>)
       conditionWorkerPoolReady (pool_ready c st) ''NotReady'' msg"

lemma note_simps [simp]:
  "cl_Meta (note_scheduler r st m c) = cl_Meta c" "cl_Spec (note_scheduler r st m c) = cl_Spec c"
  "cl_Meta (note_workers r wst m c) = cl_Meta c" "cl_Spec (note_workers r wst m c) = cl_Spec c"
  "st_Scheduler (cl_Status (note_scheduler r st m c)) = st"
  "st_Scheduler (cl_Status (note_workers r wst m c)) = st_Scheduler (cl_Status c)"
  "st_WorkerPool (cl_Status (note_workers r wst m c)) = wst"
  by (simp_all add: note_scheduler_def note_workers_def)

lemma same_cluster_note [simp]:
  "same_cluster c (note_scheduler r st m c') = same_cluster c c'"
  "same_cluster c (note_workers r wst m c') = same_cluster c c'"
  "same_cluster c c"
  by (simp_all add: same_cluster_def)

text \<open>The calls the five steps may make for a cluster, whatever its status.\<close>

definition reconcile_call :: "'s reconciler \<Rightarrow> PolarsCluster \<Rightarrow> api_call \<Rightarrow> bool" where
  "reconcile_call r c k \<longleftrightarrow>
     (\<exists>c'. same_cluster c c' \<and>
        (accounts_call r c' k \<or> scheduler_call r c' k \<or> service_call r c' k \<or> worker_call r c' k \<or>
         route_call r c' k))"

lemma steps_within:
  assumes "same_cluster c c'" "extends (reconcile_call r c) w0 w"
  shows "reconcilePolarsClusterServiceAccounts r c' w = (e1, w1) \<Longrightarrow> extends (reconcile_call r c) w0 w1"
    and "reconcileScheduler r c' w = (e2, w1) \<Longrightarrow> extends (reconcile_call r c) w0 w1"
    and "reconcileServices r c' w = (e3, w1) \<Longrightarrow> extends (reconcile_call r c) w0 w1"
    and "reconcileWorkerPool r c' w = (e4, w1) \<Longrightarrow> extends (reconcile_call r c) w0 w1"
    and "reconcileRoutes r c' w = (e5, w1) \<Longrightarrow> extends (reconcile_call r c) w0 w1"
proof -
  have ok: "extends (reconcile_call r c) w0 w1" if "extends P w w1" "\<And>k. P k \<Longrightarrow> reconcile_call r c k" for P w1
    using assms(2) extends_mono [OF that] by (rule extends_trans)
  show "reconcilePolarsClusterServiceAccounts r c' w = (e1, w1) \<Longrightarrow> extends (reconcile_call r c) w0 w1"
    using accounts_step.run_extends [of "(r, c')" w] assms(1)
    by (intro ok [of "accounts_call r c'"]) (auto simp: reconcile_call_def)
  show "reconcileScheduler r c' w = (e2, w1) \<Longrightarrow> extends (reconcile_call r c) w0 w1"
    using scheduler_step.run_extends [of "(r, c')" w] assms(1)
    by (intro ok [of "scheduler_call r c'"]) (auto simp: reconcile_call_def)
  show "reconcileServices r c' w = (e3, w1) \<Longrightarrow> extends (reconcile_call r c) w0 w1"
    using services_step.run_extends [of "(r, c')" w] assms(1)
    by (intro ok [of "service_call r c'"]) (auto simp: reconcile_call_def)
  show "reconcileWorkerPool r c' w = (e4, w1) \<Longrightarrow> extends (reconcile_call r c) w0 w1"
    using worker_step.run_extends [of "(r, c')" w] assms(1)
    by (intro ok [of "worker_call r c'"]) (auto simp: reconcile_call_def)
  show "reconcileRoutes r c' w = (e5, w1) \<Longrightarrow> extends (reconcile_call r c) w0 w1"
    using routes_step.run_extends [of "(r, c')" w] assms(1)
    by (intro ok [of "route_call r c'"]) (auto simp: reconcile_call_def)
qed

text \<open>The steps after the version gate, cut in two: up to the scheduler, and from the Services on.\<close>

definition reconcile_tail ::
  "'s reconciler \<Rightarrow> PolarsCluster \<Rightarrow> bool \<Rightarrow> SchedulerStatus \<Rightarrow> string \<Rightarrow> 's world
     \<Rightarrow> ctrl_result result \<times> 's world" where
  "reconcile_tail r c wasReady st msg w =
     (case reconcileServices r c w of
        (Some err, w) \<Rightarrow> step_error r c conditionReady err w
      | (None, w) \<Rightarrow>
     (case reconcileWorkerPool r c w of
        (Inl err, w) \<Rightarrow> step_error r (workers_labelled (r_Pods r) c) conditionWorkerPoolReady err w
      | (Inr (wst, wmsg), w) \<Rightarrow>
     (let c = note_workers r wst wmsg (workers_labelled (r_Pods r) c)
      in case reconcileRoutes r c w of
        (Inl err, w) \<Rightarrow> (Inl err, w)
      | (Inr routes, w) \<Rightarrow> finish_reconcile r c wasReady st msg (pool_ready c wst) wmsg routes w)))"

definition reconcile_body ::
  "'s reconciler \<Rightarrow> PolarsCluster \<Rightarrow> 's world \<Rightarrow> ctrl_result result \<times> 's world" where
  "reconcile_body r c w =
     (case reconcilePolarsClusterServiceAccounts r c w of
        (Some err, w) \<Rightarrow> step_error r c conditionReady err w
      | (None, w) \<Rightarrow>
     (case reconcileScheduler r c w of
        (Inl err, w) \<Rightarrow> step_error r (scheduler_labelled (r_Pods r) c) conditionSchedulerReady err w
      | (Inr (st, msg), w) \<Rightarrow>
          reconcile_tail r (note_scheduler r st msg (scheduler_labelled (r_Pods r) c)) (is_ready r c) st msg w))"

lemma pool_ready_simps [simp]:
  "pool_ready (note_scheduler r st msg c) wst = pool_ready c wst"
  "pool_ready (note_workers r x msg c) wst = pool_ready c wst"
  "pool_ready (scheduler_labelled pl c) wst = pool_ready c wst"
  "pool_ready (workers_labelled pl c) wst = pool_ready c wst"
  by (simp_all add: pool_ready_def)

lemma Reconcile_version:
  assumes "read_cluster r ns name w = (Inr c, w1)"
  shows "Reconcile vl vv r ns name w =
     (case clusterVersion vl vv c of
        Inl err \<Rightarrow> recordSpecError r c conditionReady (''InvalidVersion'', PlainError (error_text err)) w1
      | Inr v \<Rightarrow> reconcile_body r c w1)"
  unfolding Reconcile_def assms [unfolded read_cluster_def] reconcile_body_def reconcile_tail_def Let_def
    pool_ready_simps
  unfolding note_workers_def note_scheduler_def pool_ready_def Let_def
  by (auto split: sum.splits prod.splits option.splits)

text \<open>The cluster as all five steps leave it.\<close>

definition noted_cluster ::
  "'s reconciler \<Rightarrow> SchedulerStatus \<Rightarrow> string \<Rightarrow> WorkerPoolStatus \<Rightarrow> string \<Rightarrow> PolarsCluster \<Rightarrow> PolarsCluster" where
  "noted_cluster r st msg wst wmsg c =
     note_workers r wst wmsg (workers_labelled (r_Pods r)
       (note_scheduler r st msg (scheduler_labelled (r_Pods r) c)))"

lemma note_with_status:
  "note_scheduler r st msg c = c\<lparr>cl_Status := cl_Status (note_scheduler r st msg c)\<rparr>"
  "note_workers r wst msg c = c\<lparr>cl_Status := cl_Status (note_workers r wst msg c)\<rparr>"
  by (cases c; simp add: note_scheduler_def note_workers_def setReadyCondition_def setCondition_def
        set_conditions_def Let_def)+

lemma relabelled_steps:
  "relabelled (r_Pods r) c (scheduler_labelled (r_Pods r) c)"
  "relabelled (r_Pods r) c (note_scheduler r st msg (scheduler_labelled (r_Pods r) c))"
  "relabelled (r_Pods r) c (workers_labelled (r_Pods r) (note_scheduler r st msg (scheduler_labelled (r_Pods r) c)))"
  "relabelled (r_Pods r) c (noted_cluster r st msg wst wmsg c)"
proof -
  have "cl_Spec (workers_labelled (r_Pods r) (note_scheduler r st msg d)) = cl_Spec (workers_labelled (r_Pods r) d)"
    for d
    by (subst note_with_status(1)) (simp add: workers_labelled_status)
  then show "relabelled (r_Pods r) c (scheduler_labelled (r_Pods r) c)"
    "relabelled (r_Pods r) c (note_scheduler r st msg (scheduler_labelled (r_Pods r) c))"
    "relabelled (r_Pods r) c (workers_labelled (r_Pods r) (note_scheduler r st msg (scheduler_labelled (r_Pods r) c)))"
    "relabelled (r_Pods r) c (noted_cluster r st msg wst wmsg c)"
    by (simp_all add: relabelled_def written_specs_def noted_cluster_def)
qed

text \<open>
  \<open>reads_as r d d'\<close>: the steps from the Services on go for \<open>d'\<close> as for \<open>d\<close>. The labels of the scheduler are
  not read, so they go as if nothing had been written.
\<close>

definition reads_as :: "'s reconciler \<Rightarrow> PolarsCluster \<Rightarrow> PolarsCluster \<Rightarrow> bool" where
  "reads_as r d d' \<longleftrightarrow>
     reconcileServices r d' = reconcileServices r d \<and> reconcileWorkerPool r d' = reconcileWorkerPool r d \<and>
     (\<forall>wst. pool_ready d' wst = pool_ready d wst) \<and>
     (\<forall>wst m. reconcileRoutes r (note_workers r wst m (workers_labelled (r_Pods r) d')) =
        reconcileRoutes r (note_workers r wst m d))"

lemma reads_asD:
  assumes "reads_as r d d'"
  shows "reconcileServices r d' = reconcileServices r d" "reconcileWorkerPool r d' = reconcileWorkerPool r d"
    and "pool_ready d' wst = pool_ready d wst"
    and "reconcileRoutes r (note_workers r wst m (workers_labelled (r_Pods r) d')) =
        reconcileRoutes r (note_workers r wst m d)"
  using assms by (simp_all add: reads_as_def)

lemma note_write:
  "note_scheduler r st msg (write_scheduler_labels l c) = write_scheduler_labels l (note_scheduler r st msg c)"
  "note_workers r wst msg (write_scheduler_labels l c) = write_scheduler_labels l (note_workers r wst msg c)"
  "note_workers r wst msg (write_worker_labels l c) = write_worker_labels l (note_workers r wst msg c)"
  by (simp_all add: note_scheduler_def note_workers_def setReadyCondition_def setCondition_def set_conditions_def
        pool_ready_def write_scheduler_labels_def write_worker_labels_def Let_def)

lemma note_scheduler_reads_as:
  "reads_as r (note_scheduler r st msg c) (note_scheduler r st msg (scheduler_labelled (r_Pods r) c))"
proof -
  have workers: "reconcileRoutes r (note_workers r wst m (workers_labelled (r_Pods r) d)) =
      reconcileRoutes r (note_workers r wst m d)" for wst m d
    by (rule workers_labelled_cases [of "r_Pods r" d]) (simp_all add: note_write unread)
  show ?thesis
    by (rule scheduler_labelled_cases [of "r_Pods r" c])
      (simp_all add: reads_as_def note_write unread workers pool_ready_def)
qed

lemma Reconcile_complete:
  assumes "read_cluster r ns name w = (Inr c, w1)" "clusterVersion vl vv c = Inr v"
    and "reconcilePolarsClusterServiceAccounts r c w1 = (None, wa)"
    and "reconcileScheduler r c wa = (Inr (st, msg), wb)"
    and "reconcileServices r (note_scheduler r st msg c) wb = (None, wc)"
    and "reconcileWorkerPool r (note_scheduler r st msg c) wc = (Inr (wst, wmsg), wd)"
    and "reconcileRoutes r (note_workers r wst wmsg (note_scheduler r st msg c)) wd = (Inr routes, we)"
  shows "Reconcile vl vv r ns name w =
     finish_reconcile r (noted_cluster r st msg wst wmsg c) (is_ready r c) st msg (pool_ready c wst) wmsg routes we"
  using assms reads_asD [OF note_scheduler_reads_as [of r st msg c]]
  by (simp add: Reconcile_version reconcile_body_def reconcile_tail_def noted_cluster_def Let_def)

lemma reconcile_tail_cases:
  assumes "same_cluster c0 d" "extends (reconcile_call r c0) w0 w" "reads_as r d d'"
  obtains
    (failed) c' t err w2 where "c' \<in> {d', workers_labelled (r_Pods r) d'}" "extends (reconcile_call r c0) w0 w2"
      "t \<in> {conditionReady, conditionSchedulerReady, conditionWorkerPoolReady}"
      "reconcile_tail r d' wasReady st msg w = step_error r c' t err w2"
  | (routes_failed) err w2 c' wd where "extends (reconcile_call r c0) w0 w2"
      "reconcile_tail r d' wasReady st msg w = (Inl err, w2)" "reconcileRoutes r c' wd = (Inl err, w2)"
  | (finished) wst wmsg wc wd we routes where
      "reconcileServices r d w = (None, wc)" "reconcileWorkerPool r d wc = (Inr (wst, wmsg), wd)"
      "reconcileRoutes r (note_workers r wst wmsg d) wd = (Inr routes, we)"
      "extends (reconcile_call r c0) w0 we"
      "reconcile_tail r d' wasReady st msg w =
         finish_reconcile r (note_workers r wst wmsg (workers_labelled (r_Pods r) d')) wasReady st msg
           (pool_ready d wst) wmsg routes we"
proof -
  obtain ec wc where c: "reconcileServices r d w = (ec, wc)" by (metis surj_pair)
  obtain xd wd where p: "reconcileWorkerPool r d wc = (xd, wd)" by (metis surj_pair)
  note ext_c = steps_within(3) [OF assms(1,2) c]
  note ext_d = steps_within(4) [OF assms(1) ext_c p]
  note eq = reconcile_tail_def [of r d' wasReady st msg w] c p reads_asD [OF assms(3)]
  show ?thesis
  proof (cases ec)
    case (Some err)
    with ext_c eq show ?thesis by (intro failed [of d' wc conditionReady err]) simp_all
  next
    case ec: None
    show ?thesis
    proof (cases xd)
      case (Inl err)
      with ec ext_d eq show ?thesis
        by (intro failed [of "workers_labelled (r_Pods r) d'" wd conditionWorkerPoolReady err]) simp_all
    next
      case (Inr s)
      obtain wst wmsg where xd: "xd = Inr (wst, wmsg)" using Inr by (cases s) auto
      let ?d = "note_workers r wst wmsg d"
      obtain xe we where e: "reconcileRoutes r ?d wd = (xe, we)" by (metis surj_pair)
      have "same_cluster c0 ?d" using assms(1) by simp
      note ext_e = steps_within(5) [OF this ext_d e]
      show ?thesis
      proof (cases xe)
        case (Inl err)
        with ec xd e ext_e eq show ?thesis
          by (intro routes_failed [of we err ?d wd]) (simp_all add: Let_def)
      next
        case (Inr routes)
        with ec xd e ext_e eq c p show ?thesis
          by (intro finished [of wc wst wmsg wd routes we]) (simp_all add: Let_def)
      qed
    qed
  qed
qed

lemma reconcile_body_cases:
  obtains
    (failed) c' t err w2 where "relabelled (r_Pods r) c c'" "extends (reconcile_call r c) w w2"
      "t \<in> {conditionReady, conditionSchedulerReady, conditionWorkerPoolReady}"
      "reconcile_body r c w = step_error r c' t err w2"
  | (routes_failed) err w2 c' wd where "extends (reconcile_call r c) w w2"
      "reconcile_body r c w = (Inl err, w2)" "reconcileRoutes r c' wd = (Inl err, w2)"
  | (finished) st msg wst wmsg wa wb wc wd we routes where
      "reconcilePolarsClusterServiceAccounts r c w = (None, wa)"
      "reconcileScheduler r c wa = (Inr (st, msg), wb)"
      "reconcileServices r (note_scheduler r st msg c) wb = (None, wc)"
      "reconcileWorkerPool r (note_scheduler r st msg c) wc = (Inr (wst, wmsg), wd)"
      "reconcileRoutes r (note_workers r wst wmsg (note_scheduler r st msg c)) wd = (Inr routes, we)"
      "extends (reconcile_call r c) w we"
      "reconcile_body r c w = finish_reconcile r (noted_cluster r st msg wst wmsg c)
         (is_ready r c) st msg (pool_ready c wst) wmsg routes we"
proof -
  have same: "same_cluster c c" by simp
  obtain ea wa where a: "reconcilePolarsClusterServiceAccounts r c w = (ea, wa)" by (metis surj_pair)
  obtain xb wb where b: "reconcileScheduler r c wa = (xb, wb)" by (metis surj_pair)
  note ext_a = steps_within(1) [OF same extends_refl a]
  note ext_b = steps_within(2) [OF same ext_a b]
  note eq = reconcile_body_def [of r c w] a b
  show ?thesis
  proof (cases ea)
    case (Some err)
    with ext_a eq same_cluster_relabelled [OF same] show ?thesis
      by (intro failed [of c wa conditionReady err]) simp_all
  next
    case ea: None
    show ?thesis
    proof (cases xb)
      case (Inl err)
      with ea ext_b eq relabelled_steps(1) show ?thesis
        by (intro failed [of "scheduler_labelled (r_Pods r) c" wb conditionSchedulerReady err]) simp_all
    next
      case (Inr s)
      obtain st msg where xb: "xb = Inr (st, msg)" using Inr by (cases s) auto
      let ?d = "note_scheduler r st msg (scheduler_labelled (r_Pods r) c)"
      have noted: "same_cluster c (note_scheduler r st msg c)" by simp
      have body: "reconcile_body r c w = reconcile_tail r ?d (is_ready r c) st msg wb"
        using ea xb eq by simp
      have labels: "relabelled (r_Pods r) c c'" if "c' \<in> {?d, workers_labelled (r_Pods r) ?d}" for c'
        using that relabelled_steps(2,3) by auto
      from noted ext_b note_scheduler_reads_as show ?thesis
      proof (cases rule: reconcile_tail_cases [where wasReady = "is_ready r c" and st = st and msg = msg])
        case tail: (failed c' t err w2)
        from tail(4) body show ?thesis by (intro failed [OF labels [OF tail(1)] tail(2,3)]) simp
      next
        case tail: (routes_failed err w2 c' wd)
        from tail(2) body show ?thesis by (intro routes_failed [OF tail(1) _ tail(3)]) simp
      next
        case tail: (finished wst wmsg wc wd we routes)
        from tail(5) body show ?thesis
          by (intro finished [OF a [unfolded ea] b [unfolded xb] tail(1-4)]) (simp add: noted_cluster_def)
      qed
    qed
  qed
qed

lemma Reconcile_cases:
  obtains
    (missing) err w1 where "read_cluster r ns name w = (Inl err, w1)"
      "Reconcile vl vv r ns name w =
         (case IgnoreNotFound (Some err) of Some err \<Rightarrow> Inl err | None \<Rightarrow> Inr \<lparr>RequeueAfter = 0\<rparr>, w1)"
  | (version) c w1 err where "read_cluster r ns name w = (Inr c, w1)"
      "clusterVersion vl vv c = Inl err"
      "Reconcile vl vv r ns name w =
         recordSpecError r c conditionReady (''InvalidVersion'', PlainError (error_text err)) w1"
  | (failed) c w1 c' t err w2 where "read_cluster r ns name w = (Inr c, w1)"
      "version_accepted vl vv c" "relabelled (r_Pods r) c c'" "extends (reconcile_call r c) w1 w2"
      "t \<in> {conditionReady, conditionSchedulerReady, conditionWorkerPoolReady}"
      "Reconcile vl vv r ns name w = step_error r c' t err w2"
  | (routes_failed) c w1 err w2 c' wd where "read_cluster r ns name w = (Inr c, w1)"
      "version_accepted vl vv c" "extends (reconcile_call r c) w1 w2"
      "Reconcile vl vv r ns name w = (Inl err, w2)"
      "reconcileRoutes r c' wd = (Inl err, w2)"
  | (finished) c w1 st msg wst wmsg wa wb wc wd we routes where
      "read_cluster r ns name w = (Inr c, w1)"
      "version_accepted vl vv c"
      "reconcilePolarsClusterServiceAccounts r c w1 = (None, wa)"
      "reconcileScheduler r c wa = (Inr (st, msg), wb)"
      "reconcileServices r (note_scheduler r st msg c) wb = (None, wc)"
      "reconcileWorkerPool r (note_scheduler r st msg c) wc = (Inr (wst, wmsg), wd)"
      "reconcileRoutes r (note_workers r wst wmsg (note_scheduler r st msg c)) wd = (Inr routes, we)"
      "extends (reconcile_call r c) w1 we"
      "Reconcile vl vv r ns name w =
         finish_reconcile r (noted_cluster r st msg wst wmsg c) (is_ready r c) st msg (pool_ready c wst)
           wmsg routes we"
proof -
  obtain x w1 where read: "read_cluster r ns name w = (x, w1)" by (metis surj_pair)
  show ?thesis
  proof (cases x)
    case (Inl err)
    with read show ?thesis
      by (intro missing) (auto simp: Reconcile_def read_cluster_def split: option.splits)
  next
    case (Inr c)
    note read = read [unfolded Inr]
    show ?thesis
    proof (cases "clusterVersion vl vv c")
      case (Inl err)
      with read show ?thesis by (intro version) (simp_all add: Reconcile_version)
    next
      case (Inr v)
      then have acc: "version_accepted vl vv c" using clusterVersion_isl [of vl vv c] by simp
      have run: "Reconcile vl vv r ns name w = reconcile_body r c w1"
        using Inr by (simp add: Reconcile_version [OF read])
      note ends = failed [OF read acc] routes_failed [OF read acc] finished [OF read acc]
      show ?thesis
        by (rule reconcile_body_cases [of r c w1]) (use run in \<open>auto intro: ends\<close>)
    qed
  qed
qed

section \<open>The status that is written\<close>

definition spec_error_cluster ::
  "'s reconciler \<Rightarrow> PolarsCluster \<Rightarrow> string \<Rightarrow> string \<times> go_error \<Rightarrow> PolarsCluster" where
  "spec_error_cluster r c condType se =
     observed
       (if condType \<noteq> conditionReady
        then setCondition r conditionReady ConditionFalse (fst se) (error_text (snd se))
               (setCondition r condType ConditionFalse (fst se) (error_text (snd se)) c)
        else setCondition r condType ConditionFalse (fst se) (error_text (snd se)) c)"

definition warning_event :: "string \<Rightarrow> string \<Rightarrow> event" where
  "warning_event reason msg =
     \<lparr>evt_Type = ''Warning'', evt_Reason = reason, evt_Action = ''Reconcile'', evt_Message = msg\<rparr>"

definition ready_event :: event where
  "ready_event =
     \<lparr>evt_Type = ''Normal'', evt_Reason = ''Reconciled'', evt_Action = ''Reconcile'',
      evt_Message = ''PolarsCluster is Ready''\<rparr>"

lemma recordSpecError_eq:
  "recordSpecError r c t se w =
     (let c' = spec_error_cluster r c t se;
          w1 = w\<lparr>w_events := w_events w @ [warning_event (fst se) (error_text (snd se))]\<rparr>;
          (x, w2) = call (UpdateStatus c') (ac_UpdateStatus (r_Client r) c') w1
      in (case x of Inl err \<Rightarrow> Inl err | Inr _ \<Rightarrow> Inr \<lparr>RequeueAfter = 0\<rparr>, w2))"
  by (cases se)
     (auto simp: recordSpecError_def spec_error_cluster_def warning_event_def Eventf_def EventTypeWarning_def
        actionReconcile_def Let_def split: prod.splits sum.splits)

lemma spec_error_cluster_same: "same_cluster c (spec_error_cluster r c t se)"
  by (simp add: same_cluster_def spec_error_cluster_def)

lemma spec_error_cluster_not_ready:
  "condition_laws (r_Conditions r) \<Longrightarrow> \<not> cond_true r (spec_error_cluster r c t se) conditionReady \<and>
     \<not> cond_true r (spec_error_cluster r c t se) t"
  by (simp add: spec_error_cluster_def cond_true_setCondition)

definition finished_cluster ::
  "'s reconciler \<Rightarrow> PolarsCluster \<Rightarrow> SchedulerStatus \<Rightarrow> string \<Rightarrow> bool \<Rightarrow> string \<Rightarrow> routes_status \<Rightarrow> PolarsCluster" where
  "finished_cluster r c st msg pr wmsg routes =
     observed (setReadyCondition r
       (if rts_requested routes
        then setReadyCondition r c conditionRoutesReady (rts_ready routes) (rts_reason routes)
               (rts_message routes)
        else set_conditions (RemoveStatusCondition (r_Conditions r) conditionRoutesReady) c)
       conditionReady (sst_Ready st \<and> pr \<and> rts_ready routes) ''NotReady''
       (readyMessage st msg pr wmsg routes))"

definition transition_events :: "bool \<Rightarrow> bool \<Rightarrow> string \<Rightarrow> event list" where
  "transition_events wasReady nowReady msg =
     (if \<not> wasReady \<and> nowReady then [ready_event]
      else if wasReady \<and> \<not> nowReady then [warning_event ''NotReady'' msg] else [])"

lemma finish_reconcile_eq:
  "finish_reconcile r c wasReady st msg pr wmsg routes w =
     (let c' = finished_cluster r c st msg pr wmsg routes;
          (x, w1) = call (UpdateStatus c') (ac_UpdateStatus (r_Client r) c') w
      in (case x of
            Inl err \<Rightarrow> (Inl err, w1)
          | Inr c'' \<Rightarrow>
              (Inr \<lparr>RequeueAfter = (if rts_conflict routes then routeConflictRetryInterval else 0)\<rparr>,
               w1\<lparr>w_events := w_events w1 @
                 transition_events wasReady (is_ready r c'') (readyMessage st msg pr wmsg routes)\<rparr>)))"
  by (auto simp: finish_reconcile_def finished_cluster_def transition_events_def ready_event_def
        warning_event_def Eventf_def EventTypeWarning_def EventTypeNormal_def actionReconcile_def Let_def
        split: prod.splits sum.splits)

lemma finished_cluster_same: "same_cluster c (finished_cluster r c st msg pr wmsg routes)"
  by (simp add: same_cluster_def finished_cluster_def)

lemma finished_cluster_conditions:
  assumes "condition_laws (r_Conditions r)"
  shows "cond_true r (finished_cluster r c st msg pr wmsg routes) conditionReady
           \<longleftrightarrow> sst_Ready st \<and> pr \<and> rts_ready routes"
    and "cond_true r (finished_cluster r c st msg pr wmsg routes) conditionRoutesReady
           \<longleftrightarrow> rts_requested routes \<and> rts_ready routes"
    and "t \<in> {conditionSchedulerReady, conditionWorkerPoolReady} \<Longrightarrow>
         cond_true r (finished_cluster r c st msg pr wmsg routes) t \<longleftrightarrow> cond_true r c t"
  using assms
  by (auto simp: finished_cluster_def cond_true_setReadyCondition cond_true_remove)

section \<open>The calls of a whole reconcile\<close>

text \<open>
  A reconcile reads its cluster, makes the calls of its steps, and writes one status, last. What it
  hands to the status update is the cluster it read, with its generation observed and, in the label
  maps of the user's pod templates, the labels of the pods it built.
\<close>

definition status_write :: "'s reconciler \<Rightarrow> PolarsCluster \<Rightarrow> api_call \<Rightarrow> bool" where
  "status_write r c k \<longleftrightarrow>
     (\<exists>c'. k = UpdateStatus c' \<and> cl_Meta c' = cl_Meta c \<and> cl_Spec c' \<in> written_specs (r_Pods r) c \<and>
        st_ObservedGeneration (cl_Status c') = cl_Generation c)"

lemma new_calls_call:
  assumes "w_calls w2 = w_calls w1 @ ks" "prefix (w_calls w) (w_calls w1)"
  shows "new_calls w w2 = new_calls w w1 @ ks"
  using assms by (auto simp: new_calls_def added_def prefix_def)

lemma recordSpecError_write:
  "recordSpecError r c t se w = (res, w') \<Longrightarrow> w_calls w' = w_calls w @ [UpdateStatus (spec_error_cluster r c t se)]"
  by (auto simp: recordSpecError_eq Let_def client_simps split: prod.splits)

lemma finish_reconcile_write:
  "finish_reconcile r c was st msg ready wmsg routes w = (res, w') \<Longrightarrow>
     w_calls w' = w_calls w @ [UpdateStatus (finished_cluster r c st msg ready wmsg routes)]"
  by (auto simp: finish_reconcile_eq Let_def client_simps split: prod.splits sum.splits)

lemma recordSpecError_calls:
  assumes "recordSpecError r c' t se w = (x, w')" "relabelled (r_Pods r) c c'"
  shows "\<exists>k. w_calls w' = w_calls w @ [k] \<and> status_write r c k"
proof -
  note recordSpecError_write [OF assms(1)]
  moreover have "status_write r c (UpdateStatus (spec_error_cluster r c' t se))"
    using assms(2) spec_error_cluster_same [of c' r t se]
    by (simp add: status_write_def relabelled_def same_cluster_def) (simp add: spec_error_cluster_def)
  ultimately show ?thesis by blast
qed

lemma finish_reconcile_calls:
  assumes "finish_reconcile r c' wr st msg pr wmsg routes w = (x, w')" "relabelled (r_Pods r) c c'"
  shows "\<exists>k. w_calls w' = w_calls w @ [k] \<and> status_write r c k"
proof -
  let ?f = "finished_cluster r c' st msg pr wmsg routes"
  note finish_reconcile_write [OF assms(1)]
  moreover have "status_write r c (UpdateStatus ?f)"
    using assms(2) finished_cluster_same [of c' r st msg pr wmsg routes]
    by (simp add: status_write_def relabelled_def same_cluster_def) (simp add: finished_cluster_def)
  ultimately show ?thesis by blast
qed

lemma read_cluster_calls:
  "read_cluster r ns name w = (x, w1) \<Longrightarrow>
     w_calls w1 = w_calls w @ [GetCluster ns name] \<and> w_events w1 = w_events w"
  by (auto simp: read_cluster_def client_simps)

lemma new_calls_read:
  assumes "read_cluster r ns name w = (x, w1)" "extends (reconcile_call r c) w1 w2" "w_calls w' = w_calls w2 @ ks"
  shows "new_calls w w' = GetCluster ns name # new_calls w1 w2 @ ks"
  using read_cluster_calls [OF assms(1)] assms(2,3)
  by (auto simp: new_calls_def added_def extends_def prefix_def)

lemma calls_split:
  assumes "read_cluster r ns name w = (Inr c, w1)" "extends (reconcile_call r c) w1 w2"
    and "w_calls w' = w_calls w2 @ us" "list_all (status_write r c) us" "length us \<le> 1"
  shows "\<exists>ks us. new_calls w w' = GetCluster ns name # ks @ us \<and>
     (ks @ us \<noteq> [] \<longrightarrow> (\<exists>c w1. read_cluster r ns name w = (Inr c, w1) \<and>
        list_all (reconcile_call r c) ks \<and> list_all (status_write r c) us \<and> length us \<le> 1))"
  using new_calls_read [OF assms(1-3)] assms
  by (intro exI [of _ "new_calls w1 w2"] exI [of _ us]) (simp add: extends_def)

lemma calls_split_write:
  assumes "read_cluster r ns name w = (Inr c, w1)" "extends (reconcile_call r c) w1 w2"
    and "\<exists>k. w_calls w' = w_calls w2 @ [k] \<and> status_write r c k"
  shows "\<exists>ks us. new_calls w w' = GetCluster ns name # ks @ us \<and>
     (ks @ us \<noteq> [] \<longrightarrow> (\<exists>c w1. read_cluster r ns name w = (Inr c, w1) \<and>
        list_all (reconcile_call r c) ks \<and> list_all (status_write r c) us \<and> length us \<le> 1))"
proof -
  from assms(3) obtain k where "w_calls w' = w_calls w2 @ [k]" "list_all (status_write r c) [k]" by auto
  from calls_split [OF assms(1,2) this] show ?thesis by simp
qed

lemma Reconcile_calls:
  assumes "Reconcile vl vv r ns name w = (res, w')"
  shows "\<exists>ks us. new_calls w w' = GetCluster ns name # ks @ us \<and>
     (ks @ us \<noteq> [] \<longrightarrow> (\<exists>c w1. read_cluster r ns name w = (Inr c, w1) \<and>
        list_all (reconcile_call r c) ks \<and> list_all (status_write r c) us \<and> length us \<le> 1))"
proof (cases rule: Reconcile_cases [of r ns name w vl vv])
  case (missing err w1)
  with assms read_cluster_calls [OF missing(1)] have "new_calls w w' = [GetCluster ns name]"
    by (auto simp: new_calls_def split: option.splits)
  then show ?thesis by (intro exI [of _ "[]"]) simp
next
  case (version c w1 err)
  have "relabelled (r_Pods r) c c" by (simp add: same_cluster_relabelled)
  from recordSpecError_calls [OF version(3) [symmetric, unfolded assms] this] show ?thesis
    by (rule calls_split_write [OF version(1) extends_refl])
next
  case (failed c w1 c' t err w2)
  show ?thesis
  proof (cases "as_spec err")
    case None
    with failed(6) assms have "w_calls w' = w_calls w2 @ []" by (simp add: step_error_def)
    from calls_split [OF failed(1,4) this] show ?thesis by simp
  next
    case (Some se)
    with failed(6) assms have "recordSpecError r c' t se w2 = (res, w')" by (simp add: step_error_def)
    from recordSpecError_calls [OF this failed(3)] show ?thesis by (rule calls_split_write [OF failed(1,4)])
  qed
next
  case (routes_failed c w1 err w2 c' wd)
  with assms have "w_calls w' = w_calls w2 @ []" by simp
  from calls_split [OF routes_failed(1,3) this] show ?thesis by simp
next
  case (finished c w1 st msg wst wmsg wa wb wc wd we routes)
  from finish_reconcile_calls [OF finished(9) [symmetric, unfolded assms] relabelled_steps(4)] show ?thesis
    by (rule calls_split_write [OF finished(1,8)])
qed

lemma no_status_in_steps: "\<not> reconcile_call r c (UpdateStatus c')"
  by (simp add: reconcile_call_def accounts_call_def)

lemma no_status_extends: "extends (reconcile_call r c) w w' \<Longrightarrow> UpdateStatus c' \<notin> set (new_calls w w')"
  by (auto simp: extends_def list_all_iff no_status_in_steps)

text \<open>The only two statuses a reconcile writes.\<close>

lemma Reconcile_writes:
  assumes "Reconcile vl vv r ns name w = (res, w')" "UpdateStatus c' \<in> set (new_calls w w')"
  obtains
    (spec_error) c w1 c0 t se where "read_cluster r ns name w = (Inr c, w1)" "relabelled (r_Pods r) c c0"
      "c' = spec_error_cluster r c0 t se"
  | (complete) c w1 st msg wst wmsg wd we routes where
      "read_cluster r ns name w = (Inr c, w1)"
      "reconcileRoutes r (note_workers r wst wmsg (note_scheduler r st msg c)) wd = (Inr routes, we)"
      "c' = finished_cluster r (noted_cluster r st msg wst wmsg c) st msg (pool_ready c wst) wmsg routes"
proof (cases rule: Reconcile_cases [of r ns name w vl vv])
  case (missing err w1)
  with assms read_cluster_calls [OF missing(1)] show ?thesis
    by (auto simp: new_calls_def split: option.splits)
next
  case (version c w1 err)
  let ?se = "(''InvalidVersion'', PlainError (error_text err))"
  from recordSpecError_write [OF version(3) [symmetric, unfolded assms(1)]] assms(2)
    read_cluster_calls [OF version(1)]
  have "c' = spec_error_cluster r c conditionReady ?se" by (simp add: new_calls_def)
  moreover have "relabelled (r_Pods r) c c" by (simp add: same_cluster_relabelled)
  ultimately show ?thesis using version(1) by (intro spec_error)
next
  case (failed c w1 c0 t err w2)
  show ?thesis
  proof (cases "as_spec err")
    case None
    with failed(6) assms(1) have "w' = w2" by (simp add: step_error_def)
    with assms(2) new_calls_read [OF failed(1,4), of w' "[]"] no_status_extends [OF failed(4)]
    show ?thesis by simp
  next
    case (Some se)
    with failed(6) assms(1) have "recordSpecError r c0 t se w2 = (res, w')" by (simp add: step_error_def)
    from recordSpecError_write [OF this] assms(2) new_calls_read [OF failed(1,4)] no_status_extends [OF failed(4)]
    have "c' = spec_error_cluster r c0 t se" by simp
    with failed(1,3) show ?thesis by (intro spec_error)
  qed
next
  case (routes_failed c w1 err w2)
  with assms new_calls_read [OF routes_failed(1,3), of w' "[]"] no_status_extends [OF routes_failed(3)]
  show ?thesis by simp
next
  case (finished c w1 st msg wst wmsg wa wb wc wd we routes)
  from finish_reconcile_write [OF finished(9) [symmetric, unfolded assms(1)]] assms(2)
    new_calls_read [OF finished(1,8)] no_status_extends [OF finished(8)]
  have "c' = finished_cluster r (noted_cluster r st msg wst wmsg c) st msg (pool_ready c wst) wmsg routes" by simp
  with finished(1,7) show ?thesis by (intro complete) simp_all
qed

text \<open>The labels do not show in the conditions, nor in what the spec says about routes.\<close>

lemma noted_cluster_simps [simp]:
  "cl_Meta (noted_cluster r st msg wst wmsg c) = cl_Meta c"
  "cl_Status (noted_cluster r st msg wst wmsg c) =
     cl_Status (note_workers r wst wmsg (note_scheduler r st msg c))"
  by (simp_all add: noted_cluster_def note_workers_def note_scheduler_def setReadyCondition_def setCondition_def
        set_conditions_def pool_ready_def Let_def)

lemma noted_cluster_cond [simp]:
  "cond_true r (noted_cluster r st msg wst wmsg c) t = cond_true r (note_workers r wst wmsg (note_scheduler r st msg c)) t"
  by (simp add: cond_true_def)

lemma route_requested_same: "cl_Spec c' = cl_Spec c \<Longrightarrow> route_requested c' = route_requested c"
  by (simp add: route_requested_def routeTargets_def schedulerServices_def Let_def)

lemma route_requested_noted: "route_requested (noted_cluster r st msg wst wmsg c) = route_requested c"
proof -
  have steps: "route_requested (scheduler_labelled pl d) = route_requested d"
    "route_requested (workers_labelled pl d) = route_requested d" for pl d
    by (rule scheduler_labelled_cases [of pl d]; rule workers_labelled_cases [of pl d];
        simp add: route_requested_def unread)+
  show ?thesis
    by (simp add: noted_cluster_def route_requested_same [OF note_simps(4)] route_requested_same [OF note_simps(2)]
        steps)
qed

lemma reconcileRoutes_requested:
  "reconcileRoutes r c w = (Inr routes, w') \<Longrightarrow> rts_requested routes = route_requested c"
  by (cases "r_GatewayAPIEnabled r") (auto elim: reconcileRoutes_enabled simp: reconcileRoutes_disabled split: if_splits)

lemma written_ready:
  assumes "condition_laws (r_Conditions r)"
    and "c' = finished_cluster r (noted_cluster r st msg wst wmsg c) st msg (pool_ready c wst) wmsg routes"
  shows "cond_true r c' conditionReady \<longleftrightarrow>
      cond_true r c' conditionSchedulerReady \<and> cond_true r c' conditionWorkerPoolReady \<and> rts_ready routes"
    and "cond_true r c' conditionSchedulerReady \<longleftrightarrow> sst_Ready st"
    and "cond_true r c' conditionWorkerPoolReady \<longleftrightarrow> pool_ready c wst"
    and "cond_true r c' conditionRoutesReady \<longleftrightarrow> rts_requested routes \<and> rts_ready routes"
  using assms(1)
  by (auto simp: assms(2) finished_cluster_conditions note_workers_def note_scheduler_def
        cond_true_setReadyCondition pool_ready_def)

lemma written_status_consistent:
  assumes "condition_laws (r_Conditions r)"
    and "Reconcile vl vv r ns name w = (res, w')" and "UpdateStatus c' \<in> set (new_calls w w')"
    and "cond_true r c' conditionReady"
  shows "cond_true r c' conditionSchedulerReady \<and> cond_true r c' conditionWorkerPoolReady \<and>
     (route_requested c' \<longrightarrow> cond_true r c' conditionRoutesReady)"
  using assms(2,3)
proof (cases rule: Reconcile_writes)
  case (spec_error c w1 c0 t se)
  with assms(4) spec_error_cluster_not_ready [OF assms(1)] show ?thesis by simp
next
  case (complete c w1 st msg wst wmsg wd we routes)
  have "cl_Spec c' = cl_Spec (noted_cluster r st msg wst wmsg c)"
    unfolding complete(3) by (simp add: finished_cluster_same [unfolded same_cluster_def])
  from route_requested_same [OF this] reconcileRoutes_requested [OF complete(2)]
  have "route_requested c' = rts_requested routes"
    by (simp add: route_requested_noted route_requested_same [OF note_simps(4)] route_requested_same [OF note_simps(2)])
  with written_ready [OF assms(1) complete(3)] assms(4) show ?thesis by simp
qed

lemma reconcile_delete_cases:
  assumes "reconcile_call r c (DeletePod q)"
  obtains c' where "same_cluster c c'" "scheduler_call r c' (DeletePod q) \<or> worker_call r c' (DeletePod q)"
  using assms
  by (auto simp: reconcile_call_def accounts_call_def simp del: scheduler_call.simps worker_call.simps)

text \<open>The log of calls only grows.\<close>

lemma Reconcile_log:
  assumes "Reconcile vl vv r ns name w = (res, w')"
  shows "w_calls w' = w_calls w @ new_calls w w'"
proof -
  have "prefix (w_calls w) (w_calls w')"
  proof (cases rule: Reconcile_cases [of r ns name w vl vv])
    case (missing err w1)
    with assms read_cluster_calls [OF missing(1)] show ?thesis by (auto split: option.splits)
  next
    case (version c w1 err)
    from recordSpecError_write [OF version(3) [symmetric, unfolded assms]]
      read_cluster_calls [OF version(1)] show ?thesis by auto
  next
    case (failed c w1 c' t err w2)
    have w2: "prefix (w_calls w) (w_calls w2)"
      using failed(4) read_cluster_calls [OF failed(1)] by (auto simp: extends_def prefix_def)
    show ?thesis
    proof (cases "as_spec err")
      case None
      with failed(6) assms w2 show ?thesis by (simp add: step_error_def)
    next
      case (Some se)
      with failed(6) assms have "recordSpecError r c' t se w2 = (res, w')" by (simp add: step_error_def)
      from recordSpecError_write [OF this] w2 show ?thesis by auto
    qed
  next
    case (routes_failed c w1 err w2 c' wd)
    with assms read_cluster_calls [OF routes_failed(1)] show ?thesis
      by (auto simp: extends_def prefix_def)
  next
    case (finished c w1 st msg wst wmsg wa wb wc wd we routes)
    have "prefix (w_calls w) (w_calls we)"
      using finished(8) read_cluster_calls [OF finished(1)] by (auto simp: extends_def prefix_def)
    with finish_reconcile_write [OF finished(9) [symmetric, unfolded assms]] show ?thesis by auto
  qed
  then show ?thesis by (auto simp: new_calls_def prefix_def)
qed

section \<open>Results and events\<close>

lemma recordSpecError_result:
  assumes "recordSpecError r c t se w = (res, w')"
  shows "w_events w' = w_events w @ [warning_event (fst se) (error_text (snd se))]"
    and "res = Inr \<lparr>RequeueAfter = 0\<rparr> \<or>
      (\<exists>err s. res = Inl err \<and> fst (ac_UpdateStatus (r_Client r) (spec_error_cluster r c t se) s) = Inl err)"
  using assms
  by (auto simp: recordSpecError_eq Let_def client_simps split: prod.splits sum.splits)

lemma finish_reconcile_result:
  assumes "finish_reconcile r c wasReady st msg pr wmsg routes w = (Inr x, w')"
  shows "\<exists>c''. fst (ac_UpdateStatus (r_Client r) (finished_cluster r c st msg pr wmsg routes) (w_api w)) = Inr c'' \<and>
      w_events w' = w_events w @
        transition_events wasReady (is_ready r c'') (readyMessage st msg pr wmsg routes)"
    and "RequeueAfter x = (if rts_conflict routes then routeConflictRetryInterval else 0)"
  using assms
  by (auto simp: finish_reconcile_eq Let_def client_simps split: prod.splits sum.splits)

lemma finish_reconcile_error:
  assumes "finish_reconcile r c wasReady st msg pr wmsg routes w = (Inl err, w')"
  shows "fst (ac_UpdateStatus (r_Client r) (finished_cluster r c st msg pr wmsg routes) (w_api w)) = Inl err"
  using assms by (auto simp: finish_reconcile_eq Let_def client_simps split: prod.splits sum.splits)

end
