(* ===== verification/Sample_Cluster.thy ===== *)
theory Sample_Cluster
  imports Reconcile
begin

text \<open>
  A concrete cluster, an in-memory API server and concrete libraries, so that the properties of the
  development can be applied to a run of the model. The server keeps objects by name, names pods from
  their prefix and a counter, and answers missing objects with \<open>NotFound\<close>. None of it models code of
  the repository: it instantiates the parameters of the model.
\<close>

section \<open>The cluster\<close>

definition sample_workers :: "int32 \<Rightarrow> WorkerPoolDeclaration" where
  "sample_workers n =
     \<lparr>wp_PodTemplate = None, wp_ServiceAccount = Some \<lparr>sas_Create = True, sas_Name = []\<rparr>,
      wp_Replicas = n, wp_HeartBeatInterval = None, wp_ShuffleData = None, wp_TemporaryData = None,
      wp_Extras = \<lparr>ext_HDFS = None, ext_PyIceberg = None\<rparr>\<rparr>"

definition sample_runtime :: RuntimeSpec where
  "sample_runtime =
     \<lparr>rt_Composed = \<lparr>crt_Dist = None, crt_Runtime = None, crt_Requirements = [],
        crt_PolarsExtras = [], crt_ImageVolume = None\<rparr>\<rparr>"

definition sample_license :: LicenseSpec where
  "sample_license =
     \<lparr>lic_OnPrem = None,
      lic_OnPremEnterprise = Some \<lparr>loe_SecretName = ''license'', loe_SecretProperty = ''key''\<rparr>,
      lic_Cloud = None\<rparr>"

definition sample_spec :: "int32 \<Rightarrow> PolarsClusterSpec" where
  "sample_spec n =
     \<lparr>spec_Telemetry = None, spec_LogLevel = None, spec_ImagePullSecrets = [], spec_ClusterID = [],
      spec_AcceptEula = True, spec_Version = ''0.8.0'', spec_Runtime = Some sample_runtime,
      spec_License = sample_license, spec_AllowLocalSinks = False, spec_AllowLocalScans = False,
      spec_AllowAnonymousUsers = False, spec_AnonymousResults = None, spec_Checkpoint = None,
      spec_Lineage = None, spec_Observatory = None, spec_HostMetrics = None, spec_ClusterDomain = [],
      spec_Scheduler = None, spec_WorkerPool = sample_workers n\<rparr>"

definition sample_status :: PolarsClusterStatus where
  "sample_status =
     \<lparr>st_Conditions = [], st_ObservedGeneration = 0, st_Scheduler = \<lparr>sst_Ready = False\<rparr>,
      st_WorkerPool = \<lparr>wps_Replicas = 0, wps_ReadyReplicas = 0, wps_Selector = []\<rparr>\<rparr>"

definition sample_with :: "int32 \<Rightarrow> PolarsClusterStatus \<Rightarrow> PolarsCluster" where
  "sample_with n s =
     \<lparr>cl_Meta = zero_object_meta\<lparr>om_Name := ''demo'', om_Namespace := ''ml'', om_UID := ''u1'',
        om_Generation := 3\<rparr>,
      cl_Spec = sample_spec n, cl_Status = s\<rparr>"

abbreviation sample_cluster :: "int32 \<Rightarrow> PolarsCluster" where
  "sample_cluster n \<equiv> sample_with n sample_status"

lemmas sample_defs =
  sample_with_def sample_spec_def sample_license_def sample_runtime_def sample_workers_def
  sample_status_def

section \<open>The libraries\<close>

definition sample_merged :: pod_spec where
  "sample_merged = zero_pod_spec\<lparr>ps_Containers := [zero_container\<lparr>c_Name := ''main''\<rparr>]\<rparr>"

definition sample_pods :: pod_lib where
  "sample_pods =
     \<lparr>pl_Marshal = (\<lambda>s. Inr []), pl_StrategicMerge = (\<lambda>a b. Inr b), pl_Unmarshal = (\<lambda>s. Inr sample_merged),
      pl_QuantityString = (\<lambda>q. case q of Quantity s \<Rightarrow> s)\<rparr>"

fun upsert :: "condition \<Rightarrow> condition list \<Rightarrow> condition list" where
  "upsert cond [] = [cond]"
| "upsert cond (d # ds) = (if cond_Type d = cond_Type cond then cond # ds else d # upsert cond ds)"

definition drop_condition :: "string \<Rightarrow> condition list \<Rightarrow> condition list" where
  "drop_condition t = filter (\<lambda>d. cond_Type d \<noteq> t)"

fun first_true :: "condition list \<Rightarrow> string \<Rightarrow> bool" where
  "first_true [] t = False"
| "first_true (d # ds) t = (if cond_Type d = t then cond_Status d = ConditionTrue else first_true ds t)"

definition sample_conditions :: cond_lib where
  "sample_conditions =
     \<lparr>SetStatusCondition = upsert, RemoveStatusCondition = drop_condition,
      IsStatusConditionTrue = first_true\<rparr>"

lemma first_true_upsert:
  "first_true (upsert cond cs) t = (if t = cond_Type cond then cond_Status cond = ConditionTrue else first_true cs t)"
  by (induction cs) auto

lemma first_true_drop: "first_true (drop_condition t' cs) t \<longleftrightarrow> t \<noteq> t' \<and> first_true cs t"
  by (induction cs) (auto simp: drop_condition_def)

lemma sample_condition_laws: "condition_laws sample_conditions"
  by (simp add: condition_laws_def sample_conditions_def first_true_upsert first_true_drop)

definition sample_owner :: "object_meta \<Rightarrow> object_meta \<Rightarrow> object_meta result" where
  "sample_owner c m =
     (case om_OwnerReferences m of
        [] \<Rightarrow> Inr (m\<lparr>om_OwnerReferences :=
               [\<lparr>or_UID = om_UID c, or_Name = om_Name c, or_Controller = True\<rparr>]\<rparr>)
      | o1 # _ \<Rightarrow> if or_UID o1 = om_UID c then Inr m else Inl (AlreadyOwnedError ''owned''))"

definition sample_controlled :: "object_meta \<Rightarrow> object_meta \<Rightarrow> bool" where
  "sample_controlled m c = list_ex (\<lambda>x. or_Controller x \<and> or_UID x = om_UID c) (om_OwnerReferences m)"

section \<open>The API server\<close>

record store =
  s_cluster :: "PolarsCluster option"
  s_pods :: "pod list"
  s_services :: "string \<rightharpoonup> service"
  s_accounts :: "string \<rightharpoonup> service_account"
  s_routes :: "string \<rightharpoonup> route"
  s_next :: nat

definition not_found :: go_error where
  "not_found = StatusError NotFound ''not found''"

definition already_exists :: go_error where
  "already_exists = StatusError AlreadyExists ''already exists''"

definition store_create_pod :: "pod \<Rightarrow> store \<Rightarrow> pod result \<times> store" where
  "store_create_pod p s =
     (let n = om_Name (pod_Meta p);
          p = (if n \<noteq> [] then p
               else p\<lparr>pod_Meta := (pod_Meta p)\<lparr>om_Name :=
                 om_GenerateName (pod_Meta p) @ FormatInt (int (s_next s))\<rparr>\<rparr>)
      in (Inr p, s\<lparr>s_pods := s_pods s @ [p], s_next := Suc (s_next s)\<rparr>))"

definition store_delete_pod :: "pod \<Rightarrow> store \<Rightarrow> go_error option \<times> store" where
  "store_delete_pod p s =
     (let same = (\<lambda>q. om_Name (pod_Meta q) = om_Name (pod_Meta p)) in
      if list_ex same (s_pods s) then (None, s\<lparr>s_pods := filter (\<lambda>q. \<not> same q) (s_pods s)\<rparr>)
      else (Some not_found, s))"

definition store_get_pod :: "string \<Rightarrow> string \<Rightarrow> store \<Rightarrow> pod result \<times> store" where
  "store_get_pod ns n s =
     (case find (\<lambda>q. om_Name (pod_Meta q) = n \<and> om_Namespace (pod_Meta q) = ns) (s_pods s) of
        Some p \<Rightarrow> (Inr p, s) | None \<Rightarrow> (Inl not_found, s))"

definition store_list_pods :: "string \<Rightarrow> str_map \<Rightarrow> store \<Rightarrow> pod list result \<times> store" where
  "store_list_pods ns sel s =
     (Inr (filter (\<lambda>p. om_Namespace (pod_Meta p) = ns \<and> pod_labels p clusterLabel = sel clusterLabel \<and>
             pod_labels p componentLabel = sel componentLabel) (s_pods s)), s)"

definition get_from :: "('k \<rightharpoonup> 'o) \<Rightarrow> 'k \<Rightarrow> 'o result" where
  "get_from m k = (case m k of Some x \<Rightarrow> Inr x | None \<Rightarrow> Inl not_found)"

definition sample_client :: "store api_client" where
  "sample_client =
     \<lparr>ac_GetCluster = (\<lambda>ns n s. (case s_cluster s of
          Some c \<Rightarrow> if cl_Name c = n \<and> cl_Namespace c = ns then Inr c else Inl not_found
        | None \<Rightarrow> Inl not_found, s)),
      ac_UpdateStatus = (\<lambda>c s. (Inr c, s\<lparr>s_cluster := Some c\<rparr>)),
      ac_GetPod = store_get_pod, ac_ListPods = store_list_pods,
      ac_CreatePod = store_create_pod, ac_DeletePod = store_delete_pod,
      ac_GetService = (\<lambda>ns n s. (get_from (s_services s) n, s)),
      ac_CreateService = (\<lambda>v s. (None, s\<lparr>s_services := (s_services s)(om_Name (svc_Meta v) \<mapsto> v)\<rparr>)),
      ac_UpdateService = (\<lambda>v s. (None, s\<lparr>s_services := (s_services s)(om_Name (svc_Meta v) \<mapsto> v)\<rparr>)),
      ac_CreateServiceAccount = (\<lambda>a s.
        if s_accounts s (om_Name (sa_Meta a)) = None
        then (None, s\<lparr>s_accounts := (s_accounts s)(om_Name (sa_Meta a) \<mapsto> a)\<rparr>)
        else (Some already_exists, s)),
      ac_GetRoute = (\<lambda>kind ns n s. (get_from (s_routes s) n, s)),
      ac_CreateOrUpdateRoute = (\<lambda>rt f s.
        (case f (case s_routes s (om_Name (rt_Meta rt)) of Some old \<Rightarrow> old | None \<Rightarrow> rt) of
           Inl err \<Rightarrow> ((rt, Some err), s)
         | Inr new \<Rightarrow> ((new, None), s\<lparr>s_routes := (s_routes s)(om_Name (rt_Meta rt) \<mapsto> new)\<rparr>))),
      ac_DeleteRoute = (\<lambda>rt s. (None, s\<lparr>s_routes := (s_routes s)(om_Name (rt_Meta rt) := None)\<rparr>))\<rparr>"

definition sample_reconciler :: "store reconciler" where
  "sample_reconciler =
     \<lparr>r_Client = sample_client, r_GatewayAPIEnabled = True, r_Pods = sample_pods,
      r_Conditions = sample_conditions, r_SetControllerReference = sample_owner,
      r_IsControlledBy = sample_controlled, r_Schedule = (\<lambda>n. [0..<n]),
      r_Interleaving = (\<lambda>n. [0, 1, 2, 0, 1, 2])\<rparr>"

lemma sample_reconciler_simps [simp]:
  "r_Client sample_reconciler = sample_client" "r_GatewayAPIEnabled sample_reconciler"
  "r_Pods sample_reconciler = sample_pods" "r_Conditions sample_reconciler = sample_conditions"
  "r_SetControllerReference sample_reconciler = sample_owner"
  "r_IsControlledBy sample_reconciler = sample_controlled"
  "r_Schedule sample_reconciler n = [0..<n]" "r_Interleaving sample_reconciler n = [0, 1, 2, 0, 1, 2]"
  by (simp_all add: sample_reconciler_def)

definition sample_store :: "int32 \<Rightarrow> pod list \<Rightarrow> store" where
  "sample_store n ps =
     \<lparr>s_cluster = Some (sample_cluster n), s_pods = ps, s_services = Map.empty, s_accounts = Map.empty,
      s_routes = Map.empty, s_next = 0\<rparr>"

definition sample_world :: "int32 \<Rightarrow> pod list \<Rightarrow> store world" where
  "sample_world n ps = \<lparr>w_api = sample_store n ps, w_calls = [], w_events = []\<rparr>"

section \<open>What the sample libraries build\<close>

lemma sample_names [simp]:
  "cl_Name (sample_with n s) = ''demo''" "cl_Namespace (sample_with n s) = ''ml''"
  "cl_Generation (sample_with n s) = 3"
  by (simp_all add: sample_with_def zero_object_meta_def)

lemma sample_buildable: "scheduler_buildable (sample_with n s)" "worker_buildable (sample_with n s)"
  by (simp_all add: scheduler_buildable_def worker_buildable_def sample_defs)

lemma sample_merge: "mergePodSpec sample_pods base patch = Inr sample_merged"
  by (simp add: mergePodSpec_def sample_pods_def)

definition sample_hash :: string where "sample_hash = ''811c9dc5''"

lemma sample_hash_eq: "podTemplateHash sample_pods x = Inr sample_hash"
  by (simp add: podTemplateHash_def sample_pods_def fnv32a_def fnv32_offset_def sample_hash_def hex8_def
        digit_def digit_chars_def)

definition sample_pod :: "string \<Rightarrow> pod" where
  "sample_pod k =
     \<lparr>pod_Meta = zero_object_meta\<lparr>om_Name := ''demo-'' @ k, om_Namespace := ''ml'',
        om_Labels := [''compute.pola.rs/cluster'' \<mapsto> ''demo'', ''compute.pola.rs/component'' \<mapsto> k,
          ''compute.pola.rs/template-hash'' \<mapsto> sample_hash]\<rparr>,
      pod_Spec = sample_merged, pod_Status = zero_pod_status\<rparr>"

definition ready_pod :: "string \<Rightarrow> string \<Rightarrow> string \<Rightarrow> pod" where
  "ready_pod name k hash =
     \<lparr>pod_Meta = zero_object_meta\<lparr>om_Name := name, om_Namespace := ''ml'',
        om_Labels := [''compute.pola.rs/cluster'' \<mapsto> ''demo'', ''compute.pola.rs/component'' \<mapsto> k,
          ''compute.pola.rs/template-hash'' \<mapsto> hash]\<rparr>,
      pod_Spec = sample_merged,
      pod_Status = \<lparr>pst_Conditions = [\<lparr>pc_Type = ''Ready'', pc_Status = ''True'', pc_Reason = [],
                      pc_Message = []\<rparr>], pst_ContainerStatuses = []\<rparr>\<rparr>"

definition sample_scheduler :: "int32 \<Rightarrow> PolarsClusterStatus \<Rightarrow> pod" where
  "sample_scheduler n s =
     set_label templateHashLabel sample_hash
       \<lparr>pod_Meta = (pod_Meta (applyPodLabels
            \<lparr>pod_Meta = zero_object_meta, pod_Spec = sample_merged, pod_Status = zero_pod_status\<rparr>
            (sample_with n s) componentScheduler))
          \<lparr>om_Namespace := ''ml'', om_Name := ''demo-scheduler''\<rparr>,
        pod_Spec = sample_merged\<lparr>ps_ServiceAccountName := ''default''\<rparr>, pod_Status = zero_pod_status\<rparr>"

definition sample_worker :: "int32 \<Rightarrow> PolarsClusterStatus \<Rightarrow> pod" where
  "sample_worker n s =
     set_label templateHashLabel sample_hash
       \<lparr>pod_Meta = (pod_Meta (applyPodLabels
            \<lparr>pod_Meta = zero_object_meta, pod_Spec = sample_merged, pod_Status = zero_pod_status\<rparr>
            (sample_with n s) componentWorker))
          \<lparr>om_Namespace := ''ml'', om_Name := [], om_GenerateName := ''demo-worker-''\<rparr>,
        pod_Spec = sample_merged\<lparr>ps_ServiceAccountName := ''demo-worker''\<rparr>, pod_Status = zero_pod_status\<rparr>"

lemma sample_parts [simp]:
  "schedulerPodTemplateBase (sample_with n s) = zero_pod_template_spec"
  "workerPodTemplateBase (sample_with n s) = zero_pod_template_spec"
  "schedulerServiceAccountSpec (sample_with n s) = None"
  "workerServiceAccountSpec (sample_with n s) = Some \<lparr>sas_Create = True, sas_Name = []\<rparr>"
  "om_UID (cl_Meta (sample_with n s)) = ''u1''"
  "wp_Replicas (spec_WorkerPool (cl_Spec (sample_with n s))) = n"
  by (simp_all add: schedulerPodTemplateBase_def workerPodTemplateBase_def schedulerServiceAccountSpec_def
        workerServiceAccountSpec_def sample_defs)

lemma zero_object_meta_simps [simp]:
  "om_OwnerReferences zero_object_meta = []" "om_Labels zero_object_meta = Map.empty"
  "om_DeletionTimestamp zero_object_meta = None"
  by (simp_all add: zero_object_meta_def)

lemma sample_desired_scheduler:
  "desired_scheduler sample_reconciler (sample_with n s) = Inr (sample_scheduler n s)"
  by (simp add: desired_scheduler_def BuildScheduler_buildable sample_buildable sample_merge sample_hash_eq
        sample_scheduler_def schedulerPodName_def resolveServiceAccountName_def
        defaultServiceAccountName_def zero_pod_template_spec_def applyPodLabels_def)

lemma sample_desired_worker:
  "desired_worker sample_reconciler (sample_with n s) =
     Inr (sample_hash, (sample_worker n s)\<lparr>pod_Meta := (pod_Meta (sample_worker n s))\<lparr>om_OwnerReferences :=
       [\<lparr>or_UID = ''u1'', or_Name = ''demo'', or_Controller = True\<rparr>]\<rparr>\<rparr>)"
  by (simp add: desired_worker_def BuildWorker_buildable sample_buildable sample_merge sample_hash_eq
        sample_worker_def resolveServiceAccountName_def workerServiceAccountName_def
        zero_pod_template_spec_def applyPodLabels_def sample_owner_def set_label_def)

section \<open>A run\<close>

text \<open>Versions of the sample are compared as texts; the two the package parses are its limits.\<close>

definition sample_versions :: "string version_lib" where
  "sample_versions =
     \<lparr>vl_ParseSemantic = (\<lambda>s. if s = ''nonsense'' then Inl (PlainError ''bad version'') else Inr s),
      vl_LessThan = (\<lambda>a b. a = ''0.7.0'' \<and> b \<noteq> a), vl_String = id\<rparr>"

definition sample_limits :: "string version_vars" where
  "sample_limits = \<lparr>minSupportedVersion = ''0.7.1'', minCloudLicenseVersion = ''0.8.0''\<rparr>"

lemma sample_init_versions: "init_versions sample_versions = Inr sample_limits"
  by (simp add: init_versions_def MustParseSemantic_def sample_versions_def sample_limits_def)

lemma sample_version: "clusterVersion sample_versions sample_limits (sample_with n s) = Inr (Some ''0.8.0'')"
  by (simp add: clusterVersion_def sample_versions_def sample_limits_def sample_defs LatestVersion_def)

lemma sample_same: "same_cluster (sample_with n s) c \<Longrightarrow> c = sample_with n (cl_Status c)"
  by (cases c) (simp add: same_cluster_def sample_with_def)

text \<open>Its pod templates are the defaults, so labelling pods writes nothing into it.\<close>

lemma sample_labelled [simp]:
  "scheduler_labelled pl (sample_with n s) = sample_with n s"
  "workers_labelled pl (sample_with n s) = sample_with n s"
proof -
  have "write_scheduler_labels l (sample_with n s) = sample_with n s"
    "write_worker_labels l (sample_with n s) = sample_with n s" for l
    by (simp_all add: write_scheduler_labels_def write_worker_labels_def sample_defs)
  then show "scheduler_labelled pl (sample_with n s) = sample_with n s"
    "workers_labelled pl (sample_with n s) = sample_with n s"
    using scheduler_labelled_cases [of pl "sample_with n s"] workers_labelled_cases [of pl "sample_with n s"]
    by metis+
qed

text \<open>One whole reconcile of a ready scheduler and an empty pool, step by step.\<close>

definition run_start :: "store world" where
  "run_start = sample_world 0 [ready_pod ''demo-scheduler'' ''scheduler'' sample_hash]"

definition run_read :: "store world" where
  "run_read = snd (read_cluster sample_reconciler ''ml'' ''demo'' run_start)"

definition run_accounts :: "store world" where
  "run_accounts = snd (reconcilePolarsClusterServiceAccounts sample_reconciler (sample_cluster 0) run_read)"

definition run_scheduler :: "store world" where
  "run_scheduler = snd (read_scheduler sample_reconciler (sample_cluster 0) run_accounts)"

definition run_noted :: PolarsCluster where
  "run_noted = note_scheduler sample_reconciler \<lparr>sst_Ready = True\<rparr> [] (sample_cluster 0)"

definition run_services :: "store world" where
  "run_services = snd (reconcileServices sample_reconciler run_noted run_scheduler)"

definition run_workers :: "store world" where
  "run_workers = snd (list_workers sample_reconciler run_noted run_services)"

definition run_pool :: WorkerPoolStatus where
  "run_pool = \<lparr>wps_Replicas = 0, wps_ReadyReplicas = 0, wps_Selector = pool_selector run_noted\<rparr>"

definition run_cluster :: PolarsCluster where
  "run_cluster = note_workers sample_reconciler run_pool [] run_noted"

definition run_routes :: "store world" where
  "run_routes = snd (reconcileRoutes sample_reconciler run_cluster run_workers)"

definition run_status :: routes_status where
  "run_status =
     \<lparr>rts_requested = False, rts_ready = True, rts_reason = [], rts_message = [], rts_conflict = False\<rparr>"

lemma run_step_read: "read_cluster sample_reconciler ''ml'' ''demo'' run_start = (Inr (sample_cluster 0), run_read)"
proof (rule prod_eqI)
  show "fst (read_cluster sample_reconciler ''ml'' ''demo'' run_start) = fst (Inr (sample_cluster 0), run_read)"
    by (simp add: run_start_def read_cluster_def client_simps sample_client_def sample_world_def
          sample_store_def)
qed (simp add: run_read_def)

lemma run_step_accounts:
  "reconcilePolarsClusterServiceAccounts sample_reconciler (sample_cluster 0) run_read = (None, run_accounts)"
proof (rule prod_eqI)
  show "fst (reconcilePolarsClusterServiceAccounts sample_reconciler (sample_cluster 0) run_read)
      = fst (None, run_accounts)"
    by code_simp
qed (simp add: run_accounts_def)

text \<open>Accounts and services leave the pods of the store alone.\<close>

lemma accounts_pods:
  "s_pods (w_api (snd (reconcileServiceAccount sample_reconciler c k n spec w))) = s_pods (w_api w)"
  by (auto simp: reconcileServiceAccount_def call_def sample_client_def Let_def
        split: option.splits sum.splits prod.splits if_splits)

lemma run_accounts_pods:
  "s_pods (w_api run_accounts) = [ready_pod ''demo-scheduler'' ''scheduler'' sample_hash]"
proof -
  have "s_pods (w_api (snd (reconcilePolarsClusterServiceAccounts sample_reconciler c w))) = s_pods (w_api w)"
    for c w
    using accounts_pods
    by (auto simp: reconcilePolarsClusterServiceAccounts_def Let_def split: prod.splits option.splits)
       (metis snd_conv)+
  then show ?thesis
    by (simp add: run_accounts_def run_read_def read_cluster_def client_simps run_start_def sample_world_def
          sample_store_def sample_client_def)
qed

lemma services_pods:
  "s_pods (w_api (snd (reconcileServices sample_reconciler c w))) = s_pods (w_api w)"
proof -
  let ?R = "\<lambda>v. s_pods (w_api v) = s_pods (w_api w)"
  have "?R (snd (turns (services_turn sample_reconciler c) order (replicate 3 SvcStart, w)))" for order
    by (rule turns_invariant [where P = "\<lambda>i l. True" and R = ?R and n = 3, THEN conjunct2])
       (auto simp: services_turn_def service_step_def call_def sample_client_def Let_def
          split: service_phase.splits sum.splits prod.splits)
  from this [of "[0, 1, 2, 0, 1, 2]"] show ?thesis
    by (simp add: reconcileServices_def case_prod_beta)
qed

lemma run_step_scheduler:
  "reconcileScheduler sample_reconciler (sample_cluster 0) run_accounts = (Inr (\<lparr>sst_Ready = True\<rparr>, []), run_scheduler)"
proof -
  let ?p = "ready_pod ''demo-scheduler'' ''scheduler'' sample_hash"
  have "read_scheduler sample_reconciler (sample_cluster 0) run_accounts = (Inr ?p, run_scheduler)"
  proof (rule prod_eqI)
    show "fst (read_scheduler sample_reconciler (sample_cluster 0) run_accounts) = fst (Inr ?p, run_scheduler)"
      by (simp add: read_scheduler_def client_simps sample_client_def store_get_pod_def run_accounts_pods
            ready_pod_def schedulerPodName_def)
  qed (simp add: run_scheduler_def)
  moreover have "\<not> stale (label_of (sample_scheduler 0 sample_status) templateHashLabel) ?p" "podIsReady ?p"
    by (simp_all add: stale_def sample_scheduler_def label_of_def ready_pod_def templateHashLabel_def
          podIsReady_def PodReady_def ConditionTrue_def)
  ultimately show ?thesis
    using reconcileScheduler_kept [OF sample_desired_scheduler] by simp
qed

lemma run_noted_eq: "run_noted = sample_with 0 (cl_Status run_noted)"
  by (rule sample_same [of 0 sample_status]) (simp add: run_noted_def)

lemma run_step_services: "reconcileServices sample_reconciler run_noted run_scheduler = (None, run_services)"
proof (rule prod_eqI)
  show "fst (reconcileServices sample_reconciler run_noted run_scheduler) = fst (None, run_services)"
    by code_simp
qed (simp add: run_services_def)

lemma run_step_workers:
  "reconcileWorkerPool sample_reconciler run_noted run_services = (Inr (run_pool, []), run_workers)"
proof -
  have pods: "s_pods (w_api run_services) = [ready_pod ''demo-scheduler'' ''scheduler'' sample_hash]"
    by (simp add: run_services_def services_pods run_scheduler_def read_scheduler_def client_simps
          sample_client_def store_get_pod_def run_accounts_pods split: option.splits)
  have l: "list_workers sample_reconciler run_noted run_services = (Inr [], run_workers)"
  proof (rule prod_eqI)
    show "fst (list_workers sample_reconciler run_noted run_services) = fst (Inr [], run_workers)"
      by (simp add: list_workers_def client_simps sample_client_def store_list_pods_def pods ready_pod_def
            component_selector_def componentLabel_def clusterLabel_def componentWorker_def)
  qed (simp add: run_workers_def)
  have r: "wp_Replicas (spec_WorkerPool (cl_Spec run_noted)) = 0"
    by (subst run_noted_eq) simp
  then have scale: "scale_pool sample_reconciler run_noted t [] w = (Inr [], w)" for t and w :: "store world"
    by (simp add: scale_pool_def)
  have "desired_worker sample_reconciler run_noted \<in> range Inr"
    by (subst run_noted_eq) (simp add: sample_desired_worker)
  then obtain h t where d: "desired_worker sample_reconciler run_noted = Inr (h, t)" by auto
  from l scale r show ?thesis
    by (simp add: reconcileWorkerPool_eq [OF d] pool_status_def run_pool_def)
qed

lemma run_step_routes:
  "reconcileRoutes sample_reconciler run_cluster run_workers = (Inr run_status, run_routes)"
proof (rule prod_eqI)
  show "fst (reconcileRoutes sample_reconciler run_cluster run_workers) = fst (Inr run_status, run_routes)"
    by code_simp
qed (simp add: run_routes_def)

lemma run_cluster_noted: "noted_cluster sample_reconciler \<lparr>sst_Ready = True\<rparr> [] run_pool [] (sample_cluster 0) = run_cluster"
proof -
  have "workers_labelled (r_Pods sample_reconciler) run_noted = run_noted"
    by (subst (1 2) run_noted_eq) (rule sample_labelled)
  then show ?thesis by (simp add: noted_cluster_def run_cluster_def run_noted_def)
qed

definition run_written :: PolarsCluster where
  "run_written =
     finished_cluster sample_reconciler run_cluster \<lparr>sst_Ready = True\<rparr> [] True [] run_status"

definition run_end :: "store world" where
  "run_end = snd (finish_reconcile sample_reconciler run_cluster False \<lparr>sst_Ready = True\<rparr> [] True [] run_status
     run_routes)"

lemma run_finish:
  "finish_reconcile sample_reconciler run_cluster False \<lparr>sst_Ready = True\<rparr> [] True [] run_status run_routes
     = (Inr \<lparr>RequeueAfter = 0\<rparr>, run_end)"
proof (rule prod_eqI)
  show "fst (finish_reconcile sample_reconciler run_cluster False \<lparr>sst_Ready = True\<rparr> [] True [] run_status
      run_routes) = fst (Inr \<lparr>RequeueAfter = 0\<rparr>, run_end)"
    by (simp add: finish_reconcile_eq Let_def call_def sample_client_def run_status_def)
qed (simp add: run_end_def)

lemma sample_run:
  "Reconcile sample_versions sample_limits sample_reconciler ''ml'' ''demo'' run_start
     = (Inr \<lparr>RequeueAfter = 0\<rparr>, run_end)"
proof -
  have ready: "\<not> is_ready sample_reconciler (sample_cluster 0)"
    by (simp add: is_ready_def sample_conditions_def sample_defs)
  have pool: "pool_ready run_noted run_pool"
    by (subst run_noted_eq) (simp add: pool_ready_def run_pool_def)
  have "pool_ready (sample_cluster 0) run_pool"
    using pool by (simp add: pool_ready_def run_noted_def)
  with Reconcile_complete [OF run_step_read sample_version run_step_accounts run_step_scheduler
      run_step_services [unfolded run_noted_def] run_step_workers [unfolded run_noted_def]
      run_step_routes [unfolded run_cluster_def run_noted_def]] run_finish ready
  show ?thesis by (simp add: run_cluster_noted)
qed

text \<open>The status it writes, last.\<close>

lemma sample_run_writes: "UpdateStatus run_written \<in> set (new_calls run_start run_end)"
proof -
  have c: "w_calls run_end = w_calls run_routes @ [UpdateStatus run_written]"
    by (simp add: run_end_def finish_reconcile_eq Let_def call_def sample_client_def run_written_def)
  have s: "w_calls run_start = []" by (simp add: run_start_def sample_world_def)
  show ?thesis by (simp add: new_calls_def c s added_def)
qed

end
