(* ===== verification/Pod_Properties.thy ===== *)
theory Pod_Properties
  imports Sample_Cluster
begin

text \<open>
  The properties of the pod templates and of what they are assembled from: the environment builder, the
  computed environments and volumes, the version gate, the labels, the merge and the template hash.
\<close>

section \<open>The environment builder\<close>

definition write_all :: "envBuilder \<Rightarrow> (string list \<times> string \<times> string) list \<Rightarrow> env_heap \<Rightarrow> env_heap" where
  "write_all b ops h = fold (\<lambda>(path, n, v). env_String (foldl Section b path) n v) ops h"

lemma foldl_Section:
  "eb_vars (foldl Section b path) = eb_vars b"
  "eb_prefix (foldl Section b path) = foldl env_join (eb_prefix b) path"
  by (induction path arbitrary: b) simp_all

lemma write_all_emits:
  "write_all b ops h =
     emits (eb_vars b) (map (\<lambda>(path, n, v). lit (foldl env_join (eb_prefix b) path) n v) ops) h"
  by (induction ops arbitrary: h)
     (auto simp: write_all_def env_String_emits foldl_Section)

text \<open>
  Every builder derived from one root writes to one list, in call order. Take any sequence of
  writes, each through a builder reached from \<open>b\<close> by any path of sections: read through \<open>b\<close>, the list is
  what it was, then one variable per write, in the order of the writes, each under the names of its path
  joined with two underscores; and a builder of another root still reads what it read before.
\<close>

theorem builders_share_one_list:
  assumes "eb_vars b < length h"
  shows "Vars b (write_all b ops h) =
      Vars b h @ map (\<lambda>(path, n, v). plain_var (env_join (foldl env_join (eb_prefix b) path) n) v) ops \<and>
    (eb_vars b' \<noteq> eb_vars b \<longrightarrow> Vars b' (write_all b ops h) = Vars b' h)"
  using assms by (auto simp: write_all_emits Vars_def emits_same emits_other lit_plain)

theorem builders_share_one_list_witness:
  "Vars \<lparr>eb_prefix = [], eb_vars = 0\<rparr>
     (write_all \<lparr>eb_prefix = [], eb_vars = 0\<rparr> [([''A'', ''b''], ''c'', ''1''), ([], ''D'', ''2'')] [[], []])
   = [plain_var ''A__b__c'' ''1'', plain_var ''D'' ''2''] \<and>
   Vars \<lparr>eb_prefix = [], eb_vars = 1\<rparr>
     (write_all \<lparr>eb_prefix = [], eb_vars = 0\<rparr> [([''A''], ''c'', ''1'')] [[], []]) = []"
  using builders_share_one_list [of "\<lparr>eb_prefix = [], eb_vars = 0\<rparr>" "[[], []]"
      "[([''A'', ''b''], ''c'', ''1''), ([], ''D'', ''2'')]"]
    builders_share_one_list [of "\<lparr>eb_prefix = [], eb_vars = 0\<rparr>" "[[], []]"
      "[([''A''], ''c'', ''1'')]" "\<lparr>eb_prefix = [], eb_vars = 1\<rparr>"]
  by (simp add: Vars_def env_join_def)

section \<open>Computed environments\<close>

text \<open>
  C19: What the code writes through nested builders is the environment the design names. The scheduler's
  container has the reference list \<open>scheduler_env\<close> and the worker's \<open>worker_env\<close>, every name spelled out,
  each followed by the runtime's variables, with the ports of the chosen settings, the volume mounts
  of their parts, and a readiness probe only when the user brought none.
\<close>

theorem containers_computed:
  "ps_Containers (computedSchedulerPodSpec c n ip) =
     [(rc_container c)\<lparr>c_Name := n, c_Ports := scheduler_ports, c_Env := scheduler_env c @ rc_env c,
        c_VolumeMounts := snd (scheduler_volumes c),
        c_ReadinessProbe := if ip then Some (defaultSchedulerReadinessProbe 5051) else None\<rparr>] \<and>
   ps_Containers (computedWorkerPodSpec pl c n k ip) =
     [(rc_container c)\<lparr>c_Name := n, c_Ports := worker_ports c, c_Env := worker_env pl c k @ rc_env c,
        c_VolumeMounts := snd (worker_volumes c),
        c_ReadinessProbe := if ip then Some (defaultWorkerReadinessProbe 5052) else None\<rparr>]"
  by (simp add: scheduler_container_def worker_container_def)

text \<open>
  C28: No variable of a container is defined twice, so none silently overrides another, as long as the
  user's storage options repeat no name and do not redefine the location's own settings: the options
  of anonymous results for the scheduler, of shuffle and checkpoint data for the workers.
\<close>

theorem env_names_distinct:
  assumes "case spec_AnonymousResults (cl_Spec c) of None \<Rightarrow> True | Some x \<Rightarrow> options_ok (anonymous_options x)"
    and "options_ok (shuffle_options c)" "options_ok (checkpoint_options c)"
    and "k \<in> set (ps_Containers (computedSchedulerPodSpec c n ip)) \<union>
           set (ps_Containers (computedWorkerPodSpec pl c n' base ip'))"
  shows "distinct (map ev_Name (c_Env k))"
  using distinct_scheduler_env [OF assms(1)] distinct_worker_env [OF assms(2,3)] assms(4)
  by (auto simp: scheduler_container_def worker_container_def)

lemma options_ok_Nil [simp]: "options_ok []"
  by (simp add: options_ok_def)

lemma sample_options [simp]:
  "shuffle_options (sample_with n s) = []" "checkpoint_options (sample_with n s) = []"
  "spec_AnonymousResults (cl_Spec (sample_with n s)) = None"
  by (simp_all add: shuffle_options_def shuffle_choice_def checkpoint_options_def sample_defs)

theorem env_names_distinct_witness:
  "distinct (map ev_Name (c_Env (hd (ps_Containers
     (computedWorkerPodSpec sample_pods (sample_cluster 2) ''main'' zero_container True)))))"
  by (rule env_names_distinct [of "sample_cluster 2" _ "''main''" True sample_pods "''main''" zero_container True])
     simp_all

section \<open>Volumes\<close>

text \<open>
  A pod spec is well mounted when no two volumes share a name, and every container, the init containers
  included, mounts only declared volumes and no two of them at one path.
\<close>

definition well_mounted :: "pod_spec \<Rightarrow> bool" where
  "well_mounted s =
     (distinct (map v_Name (ps_Volumes s)) \<and>
      list_all (\<lambda>k. mounts_declared (c_VolumeMounts k) (ps_Volumes s) \<and>
         distinct (map vm_MountPath (c_VolumeMounts k))) (ps_InitContainers s @ ps_Containers s))"

lemma rc_init_paths_distinct: "k \<in> set (rc_init c) \<Longrightarrow> distinct (map vm_MountPath (c_VolumeMounts k))"
  by (auto simp: rc_defs zero_container_def Let_def split: option.splits if_splits)

lemma scheduler_spec_well_mounted: "well_mounted (computedSchedulerPodSpec c n ip)"
proof -
  have "mounts_declared (c_VolumeMounts k) (fst (scheduler_volumes c))" if "k \<in> set (rc_init c)" for k
    using rc_init_declared [OF that]
    by (rule mounts_declared_mono) (auto simp: scheduler_volumes_def beside_def)
  then show ?thesis
    using scheduler_all_volumes.both.cfg_declared [of c] scheduler_all_volumes.both.cfg_distinct [of c]
      scheduler_all_volumes.both.cfg_paths_distinct [of c] rc_init_paths_distinct
    by (auto simp: well_mounted_def scheduler_container_def scheduler_volumes_def list_all_iff)
qed

lemma worker_spec_well_mounted: "well_mounted (computedWorkerPodSpec pl c n k ip)"
proof -
  have "mounts_declared (c_VolumeMounts k) (fst (worker_volumes c))" if "k \<in> set (rc_init c)" for k
    using rc_init_declared [OF that]
    by (rule mounts_declared_mono) (auto simp: worker_volumes_def beside_def)
  then show ?thesis
    using worker_all_volumes.both.cfg_declared [of c] worker_all_volumes.both.cfg_distinct [of c]
      worker_all_volumes.both.cfg_paths_distinct [of c] rc_init_paths_distinct
    by (auto simp: well_mounted_def worker_container_def worker_volumes_def list_all_iff)
qed

text \<open>
  C27: The computed pod specs are well mounted, whatever license, observatory, runtime, shuffle location
  and temporary storage the spec combines: no volume is declared twice, every mount of a container or
  init container names a declared volume, and no two mounts of one container share a path.
\<close>

theorem pods_well_mounted:
  "well_mounted (computedSchedulerPodSpec c n ip) \<and> well_mounted (computedWorkerPodSpec pl c n k ip)"
  by (simp add: scheduler_spec_well_mounted worker_spec_well_mounted)

section \<open>Release and replicas\<close>

text \<open>
  The release reaches the runtime container exactly one way. With image volumes off, an init
  container named \<open>release\<close> fills an emptyDir volume; with image volumes on there is neither. In both
  cases exactly one volume is named \<open>release-data\<close>, and the container that runs the engine mounts it.
\<close>

theorem release_delivered_once:
  assumes "spec_Runtime (cl_Spec c) = Some rt"
  shows "(''release'' \<in> c_Name ` set (rc_init c)) = (\<not> image_volume_enabled rt) \<and>
    (emptyDirVolume releaseDataVolumeName \<in> set (fst (rc_volumes c))) = (\<not> image_volume_enabled rt) \<and>
    count_list (map v_Name (fst (rc_volumes c))) releaseDataVolumeName = 1 \<and>
    count_list (map vm_Name (snd (rc_volumes c))) releaseDataVolumeName = 1"
  using rc_release_init [OF assms] rc_release_volume [OF assms] rc_volume_names [of c] rc_mount_names [of c]
    assms
  by (auto simp: volume_name_defs)

theorem release_delivered_once_witness:
  "''release'' \<in> c_Name ` set (rc_init (sample_cluster 2))"
proof -
  have "spec_Runtime (cl_Spec (sample_cluster 2)) = Some sample_runtime" by (simp add: sample_defs)
  from release_delivered_once [OF this] show ?thesis
    by (simp add: image_volume_enabled_def sample_runtime_def)
qed

lemma filter_distinct_key:
  "distinct (map f xs) \<Longrightarrow> x \<in> set xs \<Longrightarrow> filter (\<lambda>y. f y = f x) xs = [x]"
  by (induction xs) (auto simp: filter_empty_conv image_iff)

text \<open>
  The replica count survives its trip through the environment. The scheduler gets exactly one
  \<open>n_workers\<close> variable, and reading its text back as a decimal number gives the count of the spec.
\<close>

theorem n_workers_reads_back:
  assumes "case spec_AnonymousResults (cl_Spec c) of None \<Rightarrow> True | Some x \<Rightarrow> options_ok (anonymous_options x)"
  shows "map (\<lambda>v. read_int (ev_Value v))
      (filter (\<lambda>v. ev_Name v = ''PC_CUBLET__scheduler__n_workers'')
        (c_Env (hd (ps_Containers (computedSchedulerPodSpec c n ip)))))
    = [Some (sint (wp_Replicas (spec_WorkerPool (cl_Spec c))))]"
proof -
  let ?v = "plain_var ''PC_CUBLET__scheduler__n_workers''
    (FormatInt (sint (wp_Replicas (spec_WorkerPool (cl_Spec c)))))"
  have "?v \<in> set (scheduler_env c @ rc_env c)" by (simp add: scheduler_env_def)
  from filter_distinct_key [OF distinct_scheduler_env [OF assms] this]
  have "filter (\<lambda>v. ev_Name v = ''PC_CUBLET__scheduler__n_workers'') (scheduler_env c @ rc_env c) = [?v]"
    by simp
  then show ?thesis
    by (simp add: scheduler_container_def plain_var_def read_int_FormatInt del: filter_append)
qed

theorem n_workers_reads_back_witness:
  "map (\<lambda>v. read_int (ev_Value v))
      (filter (\<lambda>v. ev_Name v = ''PC_CUBLET__scheduler__n_workers'')
        (c_Env (hd (ps_Containers (computedSchedulerPodSpec (sample_cluster 2) ''main'' True)))))
    = [Some 2]"
  using n_workers_reads_back [of "sample_cluster 2" "''main''" True] by (simp add: sample_defs)

section \<open>Building the pods\<close>

text \<open>
  C30: Building the scheduler pod fails exactly when the template has no container and no runtime is
  configured, or when the merge fails, and then with a spec error under the reason
  \<open>InvalidPodTemplate\<close>, never a panic or an infrastructure error. A pod that is built has its stable
  name, its cluster's namespace and the account the spec resolves to, and otherwise the merged spec.
\<close>

theorem scheduler_build_outcome:
  "case BuildSchedulerPodTemplate pl c of
     Inl e \<Rightarrow> (scheduler_buildable c \<longrightarrow>
         isl (mergePodSpec pl (pt_Spec (schedulerPodTemplateBase c)) (scheduler_patch c))) \<and>
       (\<exists>err. e = SpecError ''InvalidPodTemplate'' err)
   | Inr p \<Rightarrow> scheduler_buildable c \<and>
       (\<exists>merged. mergePodSpec pl (pt_Spec (schedulerPodTemplateBase c)) (scheduler_patch c) = Inr merged \<and>
          pod_Spec p = merged\<lparr>ps_ServiceAccountName :=
            resolveServiceAccountName (schedulerServiceAccountSpec c) (schedulerServiceAccountName c)\<rparr>) \<and>
       om_Name (pod_Meta p) = schedulerPodName c \<and> om_Namespace (pod_Meta p) = cl_Namespace c"
proof (cases "BuildSchedulerPodTemplate pl c")
  case (Inl e)
  with scheduler_builder.build_error [OF Inl] BuildScheduler_isl_iff [of pl c] show ?thesis by auto
next
  case (Inr p)
  then show ?thesis by (rule BuildScheduler_Inr) (simp add: Inr)
qed

theorem scheduler_build_outcome_witness:
  "\<exists>p. BuildSchedulerPodTemplate sample_pods (sample_cluster 2) = Inr p \<and>
     om_Name (pod_Meta p) = ''demo-scheduler''"
  using scheduler_build_outcome [where pl = sample_pods and c = "sample_cluster 2"]
  by (simp add: BuildScheduler_buildable sample_buildable sample_merge schedulerPodName_def)

text \<open>
  C29: The labels the operator selects by are always its own, whatever the user's template says, and
  every label of the user's that the operator does not own reaches the pod unchanged.
\<close>

theorem operator_labels_win:
  assumes "BuildWorkerPodTemplate pl c = Inr p"
  shows "pod_labels p clusterLabel = Some (cl_Name c) \<and>
    pod_labels p componentLabel = Some componentWorker \<and>
    standardLabels c componentWorker \<subseteq>\<^sub>m pod_labels p \<and>
    (\<forall>l. l \<notin> {clusterLabel, componentLabel} \<union> dom (standardLabels c componentWorker) \<longrightarrow>
       pod_labels p l = om_Labels (pt_ObjectMeta (workerPodTemplateBase c)) l)"
proof -
  from assms obtain merged where "pod_labels p = pod_labels (applyPodLabels
       \<lparr>pod_Meta = pt_ObjectMeta (workerPodTemplateBase c), pod_Spec = merged,
        pod_Status = zero_pod_status\<rparr> c componentWorker)"
    by (rule BuildWorker_Inr)
  with worker_builder.build_laws [OF assms] show ?thesis by (simp add: applyPodLabels_user)
qed

lemma sample_worker_built: "\<exists>p. BuildWorkerPodTemplate sample_pods (sample_cluster 2) = Inr p"
  by (simp add: BuildWorker_buildable sample_buildable sample_merge)

theorem operator_labels_win_witness:
  "\<exists>p. BuildWorkerPodTemplate sample_pods (sample_cluster 2) = Inr p \<and>
     pod_labels p clusterLabel = Some ''demo'' \<and> pod_labels p ''team'' = None"
proof -
  obtain p where p: "BuildWorkerPodTemplate sample_pods (sample_cluster 2) = Inr p"
    using sample_worker_built by blast
  have "''team'' \<notin> {clusterLabel, componentLabel} \<union> dom (standardLabels (sample_cluster 2) componentWorker)"
    by (auto simp: clusterLabel_def componentLabel_def standardLabels_def Let_def split: if_splits)
  with operator_labels_win [OF p] p show ?thesis by (simp add: zero_pod_template_spec_def)
qed

text \<open>
  Two encodings that differ in a single byte never share a template hash, so such a change of the
  computed pod spec is always noticed; and a hash is always eight hexadecimal digits, so it is never
  the empty text that a pod without the label reads as.
\<close>

theorem template_hash_sees_one_byte:
  assumes "pl_Marshal pl s = Inr (xs @ c # ys)" "pl_Marshal pl t = Inr (xs @ d # ys)"
  shows "(podTemplateHash pl s = podTemplateHash pl t) = (c = d) \<and>
    (\<exists>h. podTemplateHash pl s = Inr h \<and> length h = 8)"
  using assms by (simp add: podTemplateHash_def fnv32a_one_byte)

definition byte_marshal :: pod_lib where
  "byte_marshal = sample_pods\<lparr>pl_Marshal := (\<lambda>s. Inr (''{'' @ ps_ServiceAccountName s @ ''}''))\<rparr>"

theorem template_hash_sees_one_byte_witness:
  "podTemplateHash byte_marshal (zero_pod_spec\<lparr>ps_ServiceAccountName := ''a''\<rparr>)
     \<noteq> podTemplateHash byte_marshal (zero_pod_spec\<lparr>ps_ServiceAccountName := ''b''\<rparr>)"
  using template_hash_sees_one_byte [of byte_marshal "zero_pod_spec\<lparr>ps_ServiceAccountName := ''a''\<rparr>"
      "''{''" "CHR ''a''" "''}''" "zero_pod_spec\<lparr>ps_ServiceAccountName := ''b''\<rparr>" "CHR ''b''"]
  by (simp add: byte_marshal_def)

section \<open>Settings and names\<close>

text \<open>
  C31: The version gate refuses exactly what it should: a version that does not parse, one below the
  minimum, or one below the cloud license's minimum when that license is used; the empty version and
  \<open>latest\<close> always pass. Its message names the version it refuses.
\<close>

theorem version_gate_exact:
  "case clusterVersion vl vv c of
     Inl e \<Rightarrow> \<not> version_accepted vl vv c \<and>
       (\<exists>t. error_text e = ''spec.version '' @ quote (spec_Version (cl_Spec c)) @ t)
   | Inr v \<Rightarrow> version_accepted vl vv c \<and>
       (v = None) = (spec_Version (cl_Spec c) \<in> {[], LatestVersion})"
proof (cases "clusterVersion vl vv c")
  case (Inl e)
  with clusterVersion_isl [of vl vv c] clusterVersion_error_text [OF Inl] show ?thesis by simp
next
  case (Inr v)
  have "(v = None) = (spec_Version (cl_Spec c) \<in> {[], LatestVersion})"
    using Inr by (auto simp: clusterVersion_def Let_def split: if_splits sum.splits)
  with Inr clusterVersion_isl [of vl vv c] show ?thesis by simp
qed

text \<open>
  The names of the three Services never meet, neither of one cluster nor of two clusters of one
  namespace, and each tells its cluster. (The scheduler pod and the scheduler Service share a name,
  being objects of different kinds.)
\<close>

lemma service_names_apart:
  "schedulerServiceName c \<noteq> schedulerInternalServiceName d \<and>
   schedulerServiceName c \<noteq> observatoryServiceName d \<and>
   schedulerInternalServiceName c \<noteq> observatoryServiceName d \<and>
   (schedulerServiceName c = schedulerServiceName d) = (cl_Name c = cl_Name d) \<and>
   (schedulerInternalServiceName c = schedulerInternalServiceName d) = (cl_Name c = cl_Name d) \<and>
   (observatoryServiceName c = observatoryServiceName d) = (cl_Name c = cl_Name d) \<and>
   (schedulerPodName c = schedulerPodName d) = (cl_Name c = cl_Name d)"
  by (simp add: sched_internal.names_disjoint sched_observatory.names_disjoint
        internal_observatory.names_disjoint sched_name.name_inject internal_name.name_inject
        observatory_name.name_inject sched_pod_name.name_inject)

end
