(* ===== verification/Step_Properties.thy ===== *)
theory Step_Properties
  imports Sample_Cluster
begin

text \<open>
  The properties of the single reconcile steps: the worker pool, the scheduler pod, the Services, the
  routes, the service accounts, and the reduction of errors they share.
\<close>

section \<open>The worker pool\<close>

lemma delete_stale_none:
  "filter (stale h) ps = [] \<Longrightarrow> delete_stale r h ps active w = (Inr (active @ filter (current h) ps), w)"
  by (induction ps arbitrary: active) (auto simp: stale_def current_def split: if_splits)

lemma delete_stale_error:
  "delete_stale r h ps active w = (Inl e, w') \<Longrightarrow>
     \<exists>p s. p \<in> set ps \<and> fst (ac_DeletePod (r_Client r) p s) = Some e"
  by (induction r h ps active w rule: delete_stale.induct)
     (auto simp: client_simps split: if_splits prod.splits option.splits)

text \<open>
  C11: What a reconcile of the pool does to the API, call by call. It lists the pods by the pool's
  labels; it deletes, in order, exactly the listed pods that are not terminating and carry another
  template hash; and then it either creates the missing pods or deletes the surplus from the front,
  never both. Nothing else is called.
\<close>

theorem pool_calls_exact:
  assumes "reconcileWorkerPool r c w = (Inr x, w')"
  shows "\<exists>hash t ps. desired_worker r c = Inr (hash, t) \<and> fst (list_workers r c w) = Inr ps \<and>
    (let active = filter (current hash) ps; lacking = wanted c - int (length active) in
     new_calls w w' =
       ListPods (cl_Namespace c) (component_selector c componentWorker) #
       map DeletePod (filter (stale hash) ps) @
       (if 0 < lacking then replicate (length (r_Schedule r (nat lacking))) (CreatePod t)
        else map DeletePod (take (nat (- lacking)) active)))"
  using assms
proof (rule reconcileWorkerPool_Inr)
  fix hash t ps w1 w2 final
  let ?a = "filter (current hash) ps"
  assume d: "desired_worker r c = Inr (hash, t)" and l: "list_workers r c w = (Inr ps, w1)"
    and w2: "w_calls w2 = w_calls w @ [ListPods (cl_Namespace c) (component_selector c componentWorker)]
       @ map DeletePod (filter (stale hash) ps)"
    and s: "scale_pool r c t ?a w2 = (Inr final, w')"
  have "w_calls w' = w_calls w2 @
      (if 0 < wanted c - int (length ?a)
       then replicate (length (r_Schedule r (nat (wanted c - int (length ?a))))) (CreatePod t)
       else map DeletePod (take (nat (- (wanted c - int (length ?a)))) ?a))"
    using scale_pool_calls [OF s] scale_pool_Inr_less(4) [OF s] by auto
  with d l w2 show ?thesis
    by (intro exI [of _ hash] exI [of _ t] exI [of _ ps]) (simp add: new_calls_def Let_def)
qed

lemma sample_list_workers:
  "list_workers sample_reconciler (sample_with n s) w =
     (Inr (filter (\<lambda>p. om_Namespace (pod_Meta p) = ''ml'' \<and> pod_labels p clusterLabel = Some ''demo'' \<and>
             pod_labels p componentLabel = Some ''worker'') (s_pods (w_api w))),
      w\<lparr>w_calls := w_calls w @ [ListPods ''ml'' (component_selector (sample_with n s) componentWorker)]\<rparr>)"
  by (simp add: list_workers_def call_def sample_client_def store_list_pods_def component_selector_def
        label_simps clusterLabel_def componentLabel_def componentWorker_def)

lemma ready_pod_simps [simp]:
  "om_Namespace (pod_Meta (ready_pod n k h)) = ''ml''" "om_Name (pod_Meta (ready_pod n k h)) = n"
  "pod_labels (ready_pod n k h) clusterLabel = Some ''demo''"
  "pod_labels (ready_pod n k h) componentLabel = Some k"
  "stale h' (ready_pod n k h) = (h \<noteq> h')" "current h' (ready_pod n k h) = (h = h')"
  "podIsReady (ready_pod n k h)"
  by (auto simp: ready_pod_def clusterLabel_def componentLabel_def stale_def current_def terminating_def
        label_of_def templateHashLabel_def podIsReady_def PodReady_def ConditionTrue_def)

lemma sample_world_simps [simp]:
  "w_calls (sample_world n ps) = []" "w_events (sample_world n ps) = []"
  "s_pods (w_api (sample_world n ps)) = ps"
  by (simp_all add: sample_world_def sample_store_def)

lemma sample_pool_stale:
  "\<exists>x w'. reconcileWorkerPool sample_reconciler (sample_cluster 0)
     (sample_world 0 [ready_pod ''a'' ''worker'' ''old'']) = (Inr x, w')"
  by (simp add: reconcileWorkerPool_eq [OF sample_desired_worker] sample_list_workers call_def
        sample_client_def store_delete_pod_def Let_def label_of_def templateHashLabel_def ready_pod_def
        terminating_def sample_hash_def scale_pool_def sample_world_def sample_store_def
        clusterLabel_def componentLabel_def)

theorem pool_calls_exact_witness:
  "\<exists>x w'. reconcileWorkerPool sample_reconciler (sample_cluster 0)
     (sample_world 0 [ready_pod ''a'' ''worker'' ''old'']) = (Inr x, w') \<and>
   DeletePod (ready_pod ''a'' ''worker'' ''old'') \<in> set (new_calls (sample_world 0 [ready_pod ''a'' ''worker'' ''old'']) w')"
proof -
  obtain x w' where run: "reconcileWorkerPool sample_reconciler (sample_cluster 0)
     (sample_world 0 [ready_pod ''a'' ''worker'' ''old'']) = (Inr x, w')"
    using sample_pool_stale by blast
  from pool_calls_exact [OF run] show ?thesis
    by (auto simp: run sample_desired_worker sample_list_workers Let_def sample_hash_def)
qed

lemma sample_wanted [simp]: "wanted (sample_with n s) = sint n"
  by (simp add: wanted_def)

lemma sample_schedule: "schedule_complete (r_Schedule sample_reconciler) n"
  by (auto simp: schedule_complete_def)

text \<open>
  A settled pool stays untouched: when no listed pod is stale and the current ones are as many as
  wanted, the step reads the list and does nothing else.
\<close>

lemma settled_pool_step:
  assumes "desired_worker r c = Inr (hash, t)" "list_workers r c w = (Inr ps, w1)"
    and "filter (stale hash) ps = []" "int (length (filter (current hash) ps)) = wanted c"
  shows "reconcileWorkerPool r c w = (Inr (pool_status c (filter (current hash) ps)), w1) \<and>
    new_calls w w1 = [ListPods (cl_Namespace c) (component_selector c componentWorker)] \<and>
    new_events w w1 = []"
proof -
  have "w_events w1 = w_events w" using assms(2) by (auto simp: list_workers_def client_simps)
  with assms list_workers_calls [OF assms(2)] show ?thesis
    by (simp add: reconcileWorkerPool_eq [OF assms(1)] delete_stale_none scale_pool_def
          wanted_def Let_def new_calls_def new_events_def)
qed

text \<open>
  C25: The surplus loop indexes the slice of active pods and never runs off its end: for a count that
  is not negative, the pool step cannot panic on its own account. The hypotheses say that the API
  client and the building of the pod do not panic.
\<close>

theorem pool_never_panics:
  assumes "0 \<le> wanted c" and "desired_worker r c \<noteq> Inl (PanicError m)"
    and "\<And>ns sel s. fst (ac_ListPods (r_Client r) ns sel s) \<noteq> Inl (PanicError m)"
    and "\<And>p s. fst (ac_DeletePod (r_Client r) p s) \<noteq> Some (PanicError m)"
  shows "fst (reconcileWorkerPool r c w) \<noteq> Inl (PanicError m)"
proof (cases "desired_worker r c")
  case (Inl e)
  with assms(2) show ?thesis by (simp add: reconcileWorkerPool_undesired)
next
  case (Inr d)
  obtain hash t where d: "desired_worker r c = Inr (hash, t)" using Inr by (cases d) auto
  have "fst (list_workers r c w) \<noteq> Inl (PanicError m)"
    using assms(3) by (simp add: list_workers_def client_simps)
  moreover have "fst (delete_stale r hash ps [] v) \<noteq> Inl (PanicError m)" for ps v
    using delete_stale_error [of r hash ps "[]" v "PanicError m"] assms(4)
    by (metis prod.collapse)
  moreover have "fst (scale_pool r c t active v) \<noteq> Inl (PanicError m)" for active v
    using scale_pool_Inl [of r c t active v "PanicError m", OF _ assms(1)] assms(4) reduce_no_panic
    by (metis prod.collapse)
  ultimately show ?thesis
    by (auto simp: reconcileWorkerPool_eq [OF d] split: prod.splits sum.splits)
       (metis fst_conv)+
qed

lemma sample_api_no_panic:
  "fst (ac_ListPods sample_client ns sel s) \<noteq> Inl (PanicError m)"
  "fst (ac_DeletePod sample_client p s) \<noteq> Some (PanicError m)"
  by (simp_all add: sample_client_def store_list_pods_def store_delete_pod_def Let_def not_found_def)

theorem pool_never_panics_witness:
  "fst (reconcileWorkerPool sample_reconciler (sample_cluster 1)
     (sample_world 1 [ready_pod ''a'' ''worker'' sample_hash, ready_pod ''b'' ''worker'' sample_hash]))
   \<noteq> Inl (PanicError ''index out of range'')"
  by (rule pool_never_panics) (simp_all add: sample_desired_worker sample_api_no_panic)

text \<open>
  C26: The pool's status counts without wrapping, and its message is there exactly when it is needed.
  For fewer than 2^31 pods the 32-bit counters read back as the number of pods and of ready pods, and
  the message is empty exactly for a pool that is reported ready, which is one of the wanted size whose
  pods are all ready.
\<close>

theorem pool_status_counts:
  assumes "length ps < 2 ^ 31" "pool_status c ps = (st, msg)"
  shows "sint (wps_Replicas st) = int (length ps) \<and>
    sint (wps_ReadyReplicas st) = int (length (filter podIsReady ps)) \<and>
    (msg = []) = pool_ready c st \<and>
    pool_ready c st = (int (length ps) = wanted c \<and> list_all podIsReady ps)"
proof -
  have s: "sint (word_of_nat n :: int32) = int n" if "n < 2 ^ 31" for n
    using that by (simp add: signed_of_nat signed_take_bit_int_eq_self)
  have len: "length (filter podIsReady ps) < 2 ^ 31"
    using assms(1) length_filter_le [of podIsReady ps] by linarith
  have st: "st = fst (pool_status c ps)" "msg = snd (pool_status c ps)" using assms(2) by simp_all
  have w: "(word_of_nat (length ps) = wp_Replicas (spec_WorkerPool (cl_Spec c))) = (int (length ps) = wanted c)"
    using s [OF assms(1)] unfolding wanted_def by (metis signed_word_eqI)
  show ?thesis
    using s [OF assms(1)] s [OF len] pool_message_empty_iff [OF assms(1), of c]
      word_of_nat_lengths [OF assms(1), of podIsReady]
    by (simp add: st pool_ready_def pool_status_simps w list_all_iff)
qed

theorem pool_status_counts_witness:
  "\<exists>st msg. pool_status (sample_cluster 1) [ready_pod ''a'' ''worker'' sample_hash] = (st, msg) \<and>
     sint (wps_Replicas st) = 1 \<and> sint (wps_ReadyReplicas st) = 1 \<and> msg = []"
proof -
  obtain st msg where "pool_status (sample_cluster 1) [ready_pod ''a'' ''worker'' sample_hash] = (st, msg)"
    by (metis surj_pair)
  with pool_status_counts [OF _ this] show ?thesis by simp
qed

section \<open>The scheduler pod\<close>

text \<open>
  C14: The scheduler is reported ready exactly when the pod of its name was there, is not about to be
  replaced, and is Ready; in every other case, a missing, stale, unready or unreadable pod or one that
  cannot be built, it is not.
\<close>

theorem scheduler_ready_exactly:
  "(\<exists>msg. fst (reconcileScheduler r c w) = Inr (\<lparr>sst_Ready = True\<rparr>, msg)) =
   (\<exists>p e. desired_scheduler r c = Inr p \<and> fst (read_scheduler r c w) = Inr e \<and>
      \<not> stale (label_of p templateHashLabel) e \<and> podIsReady e)"
proof (cases "desired_scheduler r c")
  case (Inl e)
  then show ?thesis by (simp add: reconcileScheduler_undesired)
next
  case (Inr p)
  obtain x w1 where "read_scheduler r c w = (x, w1)" by (metis surj_pair)
  with Inr show ?thesis
    by (auto simp: reconcileScheduler_eq [OF Inr] split: sum.splits prod.splits option.splits)
qed

lemma scheduler_calls_aux:
  assumes "desired_scheduler r c = Inr p"
  shows "new_calls w (snd (reconcileScheduler r c w)) =
    scheduler_read c #
    (case fst (read_scheduler r c w) of
       Inl err \<Rightarrow>
         if IsNotFound err
         then (case r_SetControllerReference r (cl_Meta c) (pod_Meta p) of
                 Inl _ \<Rightarrow> [] | Inr m \<Rightarrow> [CreatePod (p\<lparr>pod_Meta := m\<rparr>)])
         else []
     | Inr e \<Rightarrow> if stale (label_of p templateHashLabel) e then [DeletePod e] else [])"
proof -
  obtain x w1 where read: "read_scheduler r c w = (x, w1)" by (metis surj_pair)
  have w1: "w_calls w1 = w_calls w @ [scheduler_read c]" using read_scheduler_calls [OF read] by simp
  show ?thesis
    using w1 read
    by (auto simp: reconcileScheduler_eq [OF assms] new_calls_def client_simps
          split: sum.splits prod.splits option.splits)
qed

text \<open>
  C10: What a reconcile of the scheduler does to the API: one read by name, and then at most one write,
  decided by the answer. A missing pod is created, owned by the cluster; a stale one is deleted; a pod
  that is terminating or of the current template is left alone, and so is everything when the read
  failed otherwise.
\<close>

theorem scheduler_calls_exact:
  assumes "desired_scheduler r c = Inr p"
  shows "new_calls w (snd (reconcileScheduler r c w)) =
    scheduler_read c #
    (case fst (read_scheduler r c w) of
       Inl err \<Rightarrow>
         if IsNotFound err
         then (case r_SetControllerReference r (cl_Meta c) (pod_Meta p) of
                 Inl _ \<Rightarrow> [] | Inr m \<Rightarrow> [CreatePod (p\<lparr>pod_Meta := m\<rparr>)])
         else []
     | Inr e \<Rightarrow> if stale (label_of p templateHashLabel) e then [DeletePod e] else [])"
  by (rule scheduler_calls_aux [OF assms])

theorem scheduler_calls_exact_witness:
  "new_calls (sample_world 1 []) (snd (reconcileScheduler sample_reconciler (sample_cluster 1) (sample_world 1 [])))
   = [GetPod ''ml'' ''demo-scheduler'', CreatePod ((sample_scheduler 1 sample_status)\<lparr>pod_Meta :=
        (pod_Meta (sample_scheduler 1 sample_status))\<lparr>om_OwnerReferences :=
          [\<lparr>or_UID = ''u1'', or_Name = ''demo'', or_Controller = True\<rparr>]\<rparr>\<rparr>)]"
  by (subst scheduler_calls_exact [OF sample_desired_scheduler])
     (simp add: read_scheduler_def client_simps scheduler_read_def sample_client_def store_get_pod_def
        schedulerPodName_def not_found_def IsNotFound_def sample_owner_def sample_scheduler_def set_label_def
        applyPodLabels_def)

text \<open>
  C13: The scheduler is replaced exactly when its template changed. Take the pod built for a cluster
  and deployed with its labels, and reconcile any later state of a cluster that reads this pod: it is
  deleted if and only if the hash of the newly computed pod spec is another one. In particular an
  unchanged cluster never deletes the scheduler it has created.
\<close>

theorem scheduler_replaced_iff_template_changed:
  assumes "desired_scheduler r c = Inr p" "desired_scheduler r c' = Inr p'"
    and "pod_labels e = pod_labels p" "\<not> terminating e"
    and "fst (read_scheduler r c' w) = Inr e"
  shows "(DeletePod e \<in> set (new_calls w (snd (reconcileScheduler r c' w)))) =
    (podTemplateHash (r_Pods r) (pod_Spec p) \<noteq> podTemplateHash (r_Pods r) (pod_Spec p'))"
proof -
  have "label_of e templateHashLabel = label_of p templateHashLabel" by (simp add: label_of_def assms(3))
  moreover have "(DeletePod e \<in> set (new_calls w (snd (reconcileScheduler r c' w)))) =
      stale (label_of p' templateHashLabel) e"
    using assms(5) unfolding scheduler_calls_aux [OF assms(2)] by (simp add: scheduler_read_def)
  ultimately show ?thesis
    using desired_scheduler_Inr(3) [OF assms(1)] desired_scheduler_Inr(3) [OF assms(2)] assms(4)
    by (auto simp: stale_def)
qed

theorem scheduler_replaced_iff_template_changed_witness:
  "DeletePod (sample_scheduler 1 sample_status) \<notin>
     set (new_calls (sample_world 2 [sample_scheduler 1 sample_status]) (snd (reconcileScheduler sample_reconciler
       (sample_cluster 2) (sample_world 2 [sample_scheduler 1 sample_status]))))"
proof -
  let ?e = "sample_scheduler 1 sample_status"
  have "fst (read_scheduler sample_reconciler (sample_cluster 2) (sample_world 2 [?e])) = Inr ?e"
    by (simp add: read_scheduler_def client_simps sample_client_def store_get_pod_def schedulerPodName_def
          sample_scheduler_def)
  moreover have "\<not> terminating ?e"
    by (simp add: terminating_def sample_scheduler_def set_label_def applyPodLabels_def)
  ultimately show ?thesis
    using scheduler_replaced_iff_template_changed [OF sample_desired_scheduler sample_desired_scheduler refl,
        of 1 sample_status 2 sample_status "sample_world 2 [?e]"]
    by (simp add: sample_hash_eq)
qed

section \<open>The Services\<close>

text \<open>
  C20: The three Services are reconciled in parallel, and each gets what it needs, however the calls
  interleave and whatever becomes of the other two. Of the calls of the step, those that concern one
  wanted Service are exactly: a read, then, if it was found, one update of what the server returned, if
  it is missing, one creation of the wanted object owned by the cluster, and nothing after any other
  answer. There are no other calls, and the error of the step is the reduction of the three pieces'
  errors. The hypothesis \<open>names_kept\<close> says that the server returns a Service under the name asked for.
\<close>

theorem services_calls_exact:
  assumes "names_kept r c" "interleaving_ok (r_Interleaving r 3)" "reconcileServices r c w = (e, w')"
  shows "\<exists>x errs. length errs = 3 \<and> e = snd (reducePodErrors errs) \<and>
     (\<forall>k \<in> set (new_calls w w'). \<exists>d \<in> set (desired_services c). service_named (ds_Name d) k) \<and>
     (\<forall>i < 3. let d = desired_services c ! i; q = service_request r c d (x i) in
        x i \<in> range (\<lambda>s. fst (ac_GetService (r_Client r) (cl_Namespace c) (ds_Name d) s)) \<and>
        filter (service_named (ds_Name d)) (new_calls w w') =
          GetService (cl_Namespace c) (ds_Name d) # request_calls q \<and>
        errs ! i \<in> request_errors r q)"
proof -
  let ?d = "\<lambda>i. desired_services c ! i"
  obtain ks errs where t: "w_calls w' = w_calls w @ ks" "length errs = 3" "e = snd (reducePodErrors errs)"
    "\<forall>k \<in> set ks. \<exists>d \<in> set (desired_services c). service_named (ds_Name d) k"
    "\<And>i. i < 3 \<Longrightarrow> piece_trace r c (?d i) (SvcDone (errs ! i)) (filter (service_named (ds_Name (?d i))) ks)"
    by (rule reconcileServices_traces [OF assms]) blast
  have "\<forall>i. \<exists>s. i < 3 \<longrightarrow>
      (let q = service_request r c (?d i) (fst (ac_GetService (r_Client r) (cl_Namespace c) (ds_Name (?d i)) s)) in
       filter (service_named (ds_Name (?d i))) ks = GetService (cl_Namespace c) (ds_Name (?d i)) # request_calls q \<and>
       errs ! i \<in> request_errors r q)"
    using t(5) by (simp add: piece_trace_def Let_def)
  then obtain s where "\<And>i. i < 3 \<Longrightarrow>
      (let q = service_request r c (?d i) (fst (ac_GetService (r_Client r) (cl_Namespace c) (ds_Name (?d i)) (s i))) in
       filter (service_named (ds_Name (?d i))) ks = GetService (cl_Namespace c) (ds_Name (?d i)) # request_calls q \<and>
       errs ! i \<in> request_errors r q)"
    by metis
  moreover have "new_calls w w' = ks" using t(1) by (simp add: new_calls_def)
  ultimately show ?thesis
    using t(2-4)
    by (intro exI [of _ "\<lambda>i. fst (ac_GetService (r_Client r) (cl_Namespace c) (ds_Name (?d i)) (s i))"]
        exI [of _ errs]) (simp add: Let_def)
qed

text \<open>A server that has the scheduler's Service only, and an interleaving that mixes the three.\<close>

definition scheduler_service :: service where
  "scheduler_service =
     \<lparr>svc_Meta = zero_object_meta\<lparr>om_Name := ''demo-scheduler'', om_Namespace := ''ml''\<rparr>,
      svc_Spec = \<lparr>ss_Type = ''ClusterIP'', ss_ClusterIP = ''10.0.0.7'', ss_Ports = [], ss_Selector = Map.empty,
        ss_PublishNotReadyAddresses = True, ss_Other = []\<rparr>\<rparr>"

definition services_reconciler :: "store reconciler" where
  "services_reconciler = sample_reconciler
     \<lparr>r_Client := sample_client\<lparr>ac_GetService := \<lambda>ns n s.
        (if n = ''demo-scheduler'' then Inr scheduler_service else Inl not_found, s)\<rparr>,
      r_Interleaving := \<lambda>_. [2, 0, 0, 1, 2, 1]\<rparr>"

lemma services_reconciler_ok:
  "names_kept services_reconciler c" "interleaving_ok (r_Interleaving services_reconciler 3)"
  by (auto simp: names_kept_def services_reconciler_def scheduler_service_def sample_reconciler_def sample_owner_def
      interleaving_ok_def lessThan_Suc numeral_3_eq_3 split: list.splits if_splits)

theorem services_calls_exact_witness:
  "\<exists>e w' u v. reconcileServices services_reconciler (sample_cluster 1) (sample_world 1 []) = (e, w') \<and>
     filter (service_named ''demo-scheduler'') (w_calls w') =
       [GetService ''ml'' ''demo-scheduler'', UpdateService u] \<and> ss_ClusterIP (svc_Spec u) = ''10.0.0.7'' \<and>
     filter (service_named ''demo-observatory'') (w_calls w') =
       [GetService ''ml'' ''demo-observatory'', CreateService v]"
proof -
  obtain e w' where run: "reconcileServices services_reconciler (sample_cluster 1) (sample_world 1 []) = (e, w')"
    by (metis surj_pair)
  obtain x errs where calls: "\<forall>i < 3. let d = desired_services (sample_cluster 1) ! i;
        q = service_request services_reconciler (sample_cluster 1) d (x i) in
      x i \<in> range (\<lambda>s. fst (ac_GetService (r_Client services_reconciler) (cl_Namespace (sample_cluster 1)) (ds_Name d) s)) \<and>
      filter (service_named (ds_Name d)) (new_calls (sample_world 1 []) w') =
        GetService (cl_Namespace (sample_cluster 1)) (ds_Name d) # request_calls q \<and>
      errs ! i \<in> request_errors services_reconciler q"
    using services_calls_exact [OF services_reconciler_ok run] by blast
  have names: "ds_Name (desired_services (sample_cluster 1) ! 0) = ''demo-scheduler''"
    "ds_Name (desired_services (sample_cluster 1) ! 2) = ''demo-observatory''"
    by (simp_all add: desired_services_def Let_def schedulerServiceName_def observatoryServiceName_def)
  note c0 = calls [rule_format, of 0, unfolded Let_def names, simplified]
    and c2 = calls [rule_format, of 2, unfolded Let_def names, simplified]
  have "x 0 = Inr scheduler_service" "x 2 = Inl not_found"
    using c0 c2 by (auto simp: services_reconciler_def)
  moreover have "service_request services_reconciler (sample_cluster 1) d (Inl not_found) =
      Inr (CreateService ((new_service (sample_cluster 1) (ds_Name d) (ds_Config d) (ds_Ports d)
        (scheduler_selector (sample_cluster 1)))\<lparr>svc_Meta := (svc_Meta (new_service (sample_cluster 1) (ds_Name d)
          (ds_Config d) (ds_Ports d) (scheduler_selector (sample_cluster 1))))\<lparr>om_OwnerReferences :=
          [\<lparr>or_UID = ''u1'', or_Name = ''demo'', or_Controller = True\<rparr>]\<rparr>\<rparr>))" for d
    by (simp add: service_request_def services_reconciler_def not_found_def IsNotFound_def sample_owner_def
        new_service_def Let_def split: prod.splits)
  moreover have "new_calls (sample_world 1 []) w' = w_calls w'" by (simp add: new_calls_def added_def)
  ultimately show ?thesis
    using run c0 c2
    by (simp add: service_request_def request_calls_def updated_service_kept) (simp add: scheduler_service_def)
qed

text \<open>
  Updating a Service writes what the spec decides and nothing else. Type, annotations, ports,
  selector and the publication of unready addresses are the configured ones; the cluster IP, which is
  immutable, the labels, the owner and every other field stay as the API server has them; doing it
  again changes nothing, and a Service just created is already in this state.
\<close>

lemma service_update_frame:
  "let s' = updated_service cfg ports sel s in
     (ss_Type (svc_Spec s'), om_Annotations (svc_Meta s'), ss_PublishNotReadyAddresses (svc_Spec s'))
       = (fst (service_settings cfg), fst (snd (service_settings cfg)), fst (snd (snd (service_settings cfg)))) \<and>
     (ss_Ports (svc_Spec s'), ss_Selector (svc_Spec s')) = (ports, sel) \<and>
     ss_ClusterIP (svc_Spec s') = ss_ClusterIP (svc_Spec s) \<and> ss_Other (svc_Spec s') = ss_Other (svc_Spec s) \<and>
     (svc_Meta s')\<lparr>om_Annotations := om_Annotations (svc_Meta s)\<rparr> = svc_Meta s \<and>
     updated_service cfg ports sel s' = s' \<and>
     updated_service cfg ports sel (new_service c name cfg ports sel) = new_service c name cfg ports sel"
  by (simp add: Let_def updated_service_owned updated_service_kept updated_service_idem new_service_agrees)

text \<open>
  C35: A Service reaches the scheduler of its cluster and nothing else. Its selector matches the
  scheduler pod of the cluster it was written for, no scheduler of another cluster and no worker pod
  at all, and each of its ports is one the scheduler's container exposes, by name, number and protocol.
\<close>

theorem services_reach_the_scheduler:
  assumes "BuildSchedulerPodTemplate pl d = Inr p" "BuildWorkerPodTemplate pl d = Inr q"
  shows "(selects (scheduler_selector c) p = (cl_Name c = cl_Name d)) \<and>
    \<not> selects (scheduler_selector c) q \<and>
    (\<forall>s \<in> set (desired_services c). \<forall>sp \<in> set (ds_Ports s).
       \<exists>cp \<in> set (c_Ports (hd (ps_Containers (computedSchedulerPodSpec d n ip)))).
         cp_Name cp = sp_Name sp \<and> cp_ContainerPort cp = sp_Port sp \<and> cp_Protocol cp = sp_Protocol sp)"
  using scheduler_builder.built_selected_iff [OF assms(1)] pod_templates.builders_apart [OF assms]
    service_ports_exposed
  by (auto simp: scheduler_selector_eq scheduler_container_def)

lemma sample_built:
  "\<exists>p. BuildSchedulerPodTemplate sample_pods (sample_with n s) = Inr p"
  "\<exists>p. BuildWorkerPodTemplate sample_pods (sample_with n s) = Inr p"
  by (simp_all add: BuildScheduler_buildable BuildWorker_buildable sample_buildable sample_merge)

theorem services_reach_the_scheduler_witness:
  "\<exists>p q. BuildSchedulerPodTemplate sample_pods (sample_cluster 1) = Inr p \<and>
     BuildWorkerPodTemplate sample_pods (sample_cluster 1) = Inr q \<and>
     selects (scheduler_selector (sample_cluster 1)) p \<and> \<not> selects (scheduler_selector (sample_cluster 1)) q"
proof -
  obtain p q where "BuildSchedulerPodTemplate sample_pods (sample_cluster 1) = Inr p"
      "BuildWorkerPodTemplate sample_pods (sample_cluster 1) = Inr q"
    using sample_built by blast
  with services_reach_the_scheduler [OF this, of "sample_cluster 1"] show ?thesis by blast
qed

definition leader_vars :: "string \<Rightarrow> int32 \<Rightarrow> int32 \<Rightarrow> env_var list" where
  "leader_vars host sched obs =
     [plain_var ''PC_CUBLET__static_leader__scheduler_service__public_addr__hostname'' host,
      plain_var ''PC_CUBLET__static_leader__scheduler_service__public_addr__port'' (FormatInt (sint sched)),
      plain_var ''PC_CUBLET__static_leader__observatory_service__public_addr__hostname'' host,
      plain_var ''PC_CUBLET__static_leader__observatory_service__public_addr__port'' (FormatInt (sint obs))]"

lemma leader_vars_written:
  "set (leader_vars (internalHostname c) 5050 5049)
     \<subseteq> set (c_Env (hd (ps_Containers (computedWorkerPodSpec pl c n k ip))))"
proof -
  have ports: "FormatInt (sint (5050 :: int32)) = ''5050''" "FormatInt (sint (5049 :: int32)) = ''5049''"
    by (simp_all add: FormatInt_def dec_small dec_large digit_def digit_chars_def)
  have "set (leader_vars (internalHostname c) 5050 5049) \<subseteq> set (worker_env_head c)"
    by (simp only: leader_vars_def worker_env_head_def ports set_append list.set insert_subset
        empty_subsetI Un_iff insert_iff refl simp_thms)
  moreover have "c_Env (hd (ps_Containers (computedWorkerPodSpec pl c n k ip))) = worker_env pl c k @ rc_env c"
    by (simp add: worker_container_def)
  ultimately show ?thesis
    by (simp only: worker_env_def set_append) (rule subset_trans, assumption, rule subset_trans, rule Un_upper1, rule Un_upper1)
qed

text \<open>
  C36: The workers dial a Service that the operator creates. The host names a worker is given for the
  scheduler and the observatory begin with the name of the internal Service, and the two port numbers
  it is given are, as decimal text, the ports of that Service.
\<close>

theorem workers_dial_the_internal_service:
  "\<exists>s sched obs. s \<in> set (desired_services c) \<and> ds_Name s = schedulerInternalServiceName c \<and>
     map sp_Port (ds_Ports s) = [sched, obs] \<and> prefix (ds_Name s) (internalHostname c) \<and>
     set (leader_vars (internalHostname c) sched obs)
       \<subseteq> set (c_Env (hd (ps_Containers (computedWorkerPodSpec pl c n k ip))))"
proof (intro exI conjI)
  let ?s = "desired_services c ! 1"
  show "?s \<in> set (desired_services c)" by (rule nth_mem) simp
  show "map sp_Port (ds_Ports ?s) = [5050, 5049]" "ds_Name ?s = schedulerInternalServiceName c"
    "prefix (ds_Name ?s) (internalHostname c)"
    by (simp_all add: desired_services_def Let_def internalHostname_def)
qed (rule leader_vars_written)

section \<open>The routes\<close>

text \<open>
  C23: The routes are reported by their decisive failure. Where the Gateway API is installed, every
  target is worked on and contributes what keeps it from being ready; the status is ready exactly when
  nothing does, and otherwise names the first failure that is more than a missing acceptance, or else
  the first one. A retry is asked for exactly when one of the failures is a conflict of ownership.
\<close>

theorem routes_report_the_decisive_failure:
  assumes "r_GatewayAPIEnabled r" "reconcileRoutes r c w = (Inr s, w')"
  shows "\<exists>fs. targets_failures r c (routeTargets c) w = (Inr fs, w') \<and>
    rts_requested s = route_requested c \<and> rts_ready s = (fs = []) \<and>
    (fs \<noteq> [] \<longrightarrow> (rts_reason s, rts_message s) = decisive fs) \<and>
    rts_conflict s = list_ex is_conflict fs"
  using assms by (rule reconcileRoutes_enabled) blast

definition sample_route :: RouteSpec where
  "sample_route =
     \<lparr>rs_ParentRefs = [], rs_Hostnames = [''demo.example''], rs_Labels = [''team'' \<mapsto> ''ml''],
      rs_Annotations = Map.empty\<rparr>"

definition routed_cluster :: PolarsCluster where
  "routed_cluster = (sample_cluster 1)\<lparr>cl_Spec := (sample_spec 1)\<lparr>spec_Scheduler := Some
     \<lparr>sch_Services = Some \<lparr>sss_Scheduler = Some \<lparr>esc_ServiceConfig = \<lparr>sc_Type = None,
          sc_Annotations = Map.empty, sc_PublishNotReadyAddresses = None, sc_ClusterIP = []\<rparr>,
        esc_Route = Some sample_route\<rparr>, sss_Internal = None, sss_Observatory = None\<rparr>,
      sch_PodTemplate = None, sch_ServiceAccount = None\<rparr>\<rparr>\<rparr>"

lemma routed_cluster_simps [simp]:
  "cl_Name routed_cluster = ''demo''" "cl_Namespace routed_cluster = ''ml''"
  "schedulerServices routed_cluster = \<lparr>sss_Scheduler = Some \<lparr>esc_ServiceConfig = \<lparr>sc_Type = None,
          sc_Annotations = Map.empty, sc_PublishNotReadyAddresses = None, sc_ClusterIP = []\<rparr>,
        esc_Route = Some sample_route\<rparr>, sss_Internal = None, sss_Observatory = None\<rparr>"
  "om_UID (cl_Meta routed_cluster) = ''u1''"
  by (simp_all add: routed_cluster_def sample_defs schedulerServices_def zero_object_meta_def)

lemma routed_targets:
  "routeTargets routed_cluster =
     [\<lparr>rg_Route = new_route GRPCRoute ''demo-scheduler'' ''ml'', rg_Kind = ''GRPCRoute'',
       rg_Port = schedulerPort, rg_Spec = Some sample_route\<rparr>,
      \<lparr>rg_Route = new_route HTTPRoute ''demo-observatory'' ''ml'', rg_Kind = ''HTTPRoute'',
       rg_Port = observatoryRESTPort, rg_Spec = None\<rparr>]"
  by (simp add: routeTargets_def routeSpec_def schedulerServiceName_def observatoryServiceName_def)

lemma route_request_witness:
  "\<exists>rt w'. reconcileRoutes sample_reconciler routed_cluster (sample_world 1 []) =
     (Inr \<lparr>rts_requested = True, rts_ready = False, rts_reason = reasonNotAccepted, rts_message = rt,
           rts_conflict = False\<rparr>, w')"
  by (simp add: reconcileRoutes_def routed_targets applyRoute_def deleteOwnedRoute_def call_def
        sample_client_def sample_world_def sample_store_def route_mutation_def setRules_def new_route_def
        sample_owner_def get_from_def not_found_def IgnoreNotFound_def IsNotFound_def classifyAPIError_def
        routeAccepted_def notReady_def Let_def)

theorem routes_report_the_decisive_failure_witness:
  "\<exists>s w' fs. reconcileRoutes sample_reconciler routed_cluster (sample_world 1 []) = (Inr s, w') \<and>
     \<not> rts_ready s \<and> fs \<noteq> [] \<and> fst (decisive fs) = reasonNotAccepted"
proof -
  obtain rt w' where run: "reconcileRoutes sample_reconciler routed_cluster (sample_world 1 []) =
     (Inr \<lparr>rts_requested = True, rts_ready = False, rts_reason = reasonNotAccepted, rts_message = rt,
           rts_conflict = False\<rparr>, w')" using route_request_witness by blast
  from routes_report_the_decisive_failure [OF _ run] obtain fs :: "(string \<times> string) list"
    where "fs \<noteq> []" "(reasonNotAccepted, rt) = decisive fs" by auto
  with run show ?thesis by (metis fst_conv routes_status.select_convs(2))
qed

text \<open>
  C24: The operator never touches a route that is not its own. It deletes a route only when the
  cluster is its controller, writes only the routes of targets the spec asks for, and makes no call at
  all when the Gateway API is not installed.
\<close>

theorem foreign_routes_untouched:
  assumes "k \<in> set (new_calls w (snd (reconcileRoutes r c w)))"
  shows "r_GatewayAPIEnabled r \<and>
    (case k of
       DeleteRoute rt \<Rightarrow> r_IsControlledBy r (rt_Meta rt) (cl_Meta c)
     | CreateOrUpdateRoute rt \<Rightarrow> \<exists>t \<in> set (routeTargets c). rg_Spec t \<noteq> None \<and> rt = rg_Route t
     | GetRoute kind ns n \<Rightarrow> ns = cl_Namespace c
     | _ \<Rightarrow> False)"
proof -
  have "route_call r c k" using routes_step.run_allowed [of k w "(r, c)"] assms by simp
  then show ?thesis by (cases k) auto
qed

theorem foreign_routes_untouched_witness:
  "\<exists>k \<in> set (new_calls (sample_world 1 []) (snd (reconcileRoutes sample_reconciler routed_cluster (sample_world 1 [])))).
     case k of CreateOrUpdateRoute rt \<Rightarrow> rt_Kind rt = GRPCRoute | _ \<Rightarrow> False"
proof -
  let ?k = "CreateOrUpdateRoute (new_route GRPCRoute ''demo-scheduler'' ''ml'')"
  have k: "?k \<in> set (new_calls (sample_world 1 []) (snd (reconcileRoutes sample_reconciler routed_cluster (sample_world 1 []))))"
    by (simp add: reconcileRoutes_def routed_targets applyRoute_def deleteOwnedRoute_def call_def
        sample_client_def sample_world_def sample_store_def route_mutation_def setRules_def new_route_def
        sample_owner_def get_from_def not_found_def IgnoreNotFound_def IsNotFound_def classifyAPIError_def
        routeAccepted_def notReady_def Let_def new_calls_def added_def)
  from foreign_routes_untouched [OF k] have "rt_Kind (new_route GRPCRoute ''demo-scheduler'' ''ml'') = GRPCRoute"
    by (simp add: new_route_def)
  with k show ?thesis by (intro bexI [of _ ?k]) simp_all
qed

text \<open>
  The documented behaviour of \<open>SetControllerReference\<close>: it adds an owner reference, which it does once,
  and leaves the rest of the metadata alone.
\<close>

definition owner_laws :: "'s reconciler \<Rightarrow> PolarsCluster \<Rightarrow> bool" where
  "owner_laws r c \<longleftrightarrow>
     (\<forall>m m'. r_SetControllerReference r (cl_Meta c) m = Inr m' \<longrightarrow>
        r_SetControllerReference r (cl_Meta c) m' = Inr m' \<and>
        (\<exists>refs. m' = m\<lparr>om_OwnerReferences := refs\<rparr>))"

lemma owner_lawsD:
  assumes "owner_laws r c" "r_SetControllerReference r (cl_Meta c) m = Inr m'"
  shows "om_Name m' = om_Name m" "om_Namespace m' = om_Namespace m" "om_Labels m' = om_Labels m"
    "om_Annotations m' = om_Annotations m" "r_SetControllerReference r (cl_Meta c) m' = Inr m'"
proof -
  from assms obtain refs where "m' = m\<lparr>om_OwnerReferences := refs\<rparr>" and again: "r_SetControllerReference r (cl_Meta c) m' = Inr m'"
    unfolding owner_laws_def by blast
  then show "om_Name m' = om_Name m" "om_Namespace m' = om_Namespace m" "om_Labels m' = om_Labels m"
    "om_Annotations m' = om_Annotations m" by simp_all
  show "r_SetControllerReference r (cl_Meta c) m' = Inr m'" by (rule again)
qed

lemma sample_owner_laws: "owner_laws sample_reconciler c"
proof -
  have "sample_owner (cl_Meta c) m' = Inr m' \<and> (\<exists>refs. m' = m\<lparr>om_OwnerReferences := refs\<rparr>)"
    if "sample_owner (cl_Meta c) m = Inr m'" for m m'
  proof (cases "om_OwnerReferences m")
    case Nil
    with that show ?thesis by (auto simp: sample_owner_def)
  next
    case (Cons x xs)
    with that have "m' = m" by (simp add: sample_owner_def split: if_splits)
    with that show ?thesis by (intro conjI exI [of _ "om_OwnerReferences m"]) simp_all
  qed
  then show ?thesis by (simp add: owner_laws_def)
qed

lemma route_mutation_again:
  assumes "owner_laws r c" "route_mutation r c spec port rt = Inr rt'"
  shows "route_mutation r c spec port rt' = Inr rt'"
proof -
  obtain m where own: "r_SetControllerReference r (cl_Meta c) ((rt_Meta rt)\<lparr>om_Labels := Map.empty ++ rs_Labels spec ++
      schedulerObjectLabels c, om_Annotations := rs_Annotations spec\<rparr>) = Inr m"
    and rt': "rt' = (setRules \<lparr>br_Group = [], br_Kind = ''Service'', br_Name = om_Name (rt_Meta rt),
        br_Port = port, br_Weight = 1\<rparr> (rt\<lparr>rt_ParentRefs := rs_ParentRefs spec,
          rt_Hostnames := rs_Hostnames spec\<rparr>))\<lparr>rt_Meta := m\<rparr>"
    using assms(2)
    by (cases "rt_Kind rt") (auto simp: route_mutation_def setRules_def Let_def split: sum.splits)
  from owner_lawsD [OF assms(1) own]
  have "m\<lparr>om_Labels := Map.empty ++ rs_Labels spec ++ schedulerObjectLabels c,
      om_Annotations := rs_Annotations spec\<rparr> = m" "om_Name m = om_Name (rt_Meta rt)"
    by simp_all
  with owner_lawsD(5) [OF assms(1) own] show ?thesis
    by (cases "rt_Kind rt") (simp_all add: route_mutation_def setRules_def rt')
qed

text \<open>
  C37: A written route leads to a Service the operator maintains. It is named after that Service, its
  only backend is the Service at one of its ports, it carries the parents and host names of the spec,
  the operator's labels win over the user's, and writing it a second time changes nothing.
\<close>

theorem route_leads_to_its_service:
  assumes "t \<in> set (routeTargets c)" "om_Name (rt_Meta rt) = om_Name (rt_Meta (rg_Route t))"
    and "route_mutation r c spec (rg_Port t) rt = Inr rt'" "owner_laws r c"
  shows "(\<exists>d \<in> set (desired_services c). om_Name (rt_Meta rt') = ds_Name d \<and>
       rg_Port t \<in> sp_Port ` set (ds_Ports d)) \<and>
    (\<exists>paths. rt_Rules rt' = [\<lparr>rr_PathPrefixes = paths, rr_BackendRefs =
       [\<lparr>br_Group = [], br_Kind = ''Service'', br_Name = om_Name (rt_Meta rt'), br_Port = rg_Port t,
         br_Weight = 1\<rparr>]\<rparr>]) \<and>
    (rt_ParentRefs rt', rt_Hostnames rt') = (rs_ParentRefs spec, rs_Hostnames spec) \<and>
    schedulerObjectLabels c \<subseteq>\<^sub>m om_Labels (rt_Meta rt') \<and>
    route_mutation r c spec (rg_Port t) rt' = Inr rt'"
proof -
  have laws: "om_Labels m' = om_Labels m \<and> om_Annotations m' = om_Annotations m"
    if "r_SetControllerReference r (cl_Meta c) m = Inr m'" for m m'
    using owner_lawsD [OF assms(4) that] by simp
  note mut = route_mutation_Inr [OF assms(3) laws]
  have name: "om_Name (rt_Meta rt') = om_Name (rt_Meta rt)"
    using assms(3) owner_lawsD(1) [OF assms(4)]
    by (auto simp: route_mutation_def setRules_def Let_def split: sum.splits route_kind.splits)
  with mut assms(2) routeTargets_backend [OF assms(1)] route_mutation_again [OF assms(4,3)]
  show ?thesis by (metis map_le_map_add)
qed

theorem route_leads_to_its_service_witness:
  "\<exists>rt'. route_mutation sample_reconciler routed_cluster sample_route schedulerPort
       (new_route GRPCRoute ''demo-scheduler'' ''ml'') = Inr rt' \<and>
     route_mutation sample_reconciler routed_cluster sample_route schedulerPort rt' = Inr rt' \<and>
     om_Name (rt_Meta rt') \<in> ds_Name ` set (desired_services routed_cluster)"
proof -
  let ?t = "hd (routeTargets routed_cluster)"
  have t: "?t \<in> set (routeTargets routed_cluster)" "rg_Port ?t = schedulerPort"
      "rg_Route ?t = new_route GRPCRoute ''demo-scheduler'' ''ml''"
    by (simp_all add: routed_targets)
  obtain rt' where mut: "route_mutation sample_reconciler routed_cluster sample_route (rg_Port ?t) (rg_Route ?t) = Inr rt'"
    by (simp add: t route_mutation_def setRules_def new_route_def sample_owner_def Let_def)
  from route_leads_to_its_service [OF t(1) refl mut sample_owner_laws] mut show ?thesis
    unfolding t(2,3) by blast
qed

section \<open>Service accounts\<close>

lemma account_created:
  assumes "reconcileServiceAccount r c k n spec w = (None, w')" "creates_account spec" "owner_laws r c"
  shows "\<exists>sa. CreateServiceAccount sa \<in> set (new_calls w w') \<and> om_Name (sa_Meta sa) = n \<and>
    om_Namespace (sa_Meta sa) = cl_Namespace c"
proof (cases "r_SetControllerReference r (cl_Meta c) (account_meta c k n)")
  case (Inl e)
  with assms show ?thesis by (simp add: reconcileServiceAccount_unowned)
next
  case (Inr m)
  with assms(1) reconcileServiceAccount_create [OF assms(2) Inr]
  have "w_calls w' = w_calls w @ [CreateServiceAccount \<lparr>sa_Meta = m\<rparr>]"
    by (auto simp: client_simps split: prod.splits)
  with owner_lawsD(1,2) [OF assms(3) Inr] show ?thesis
    by (intro exI [of _ "\<lparr>sa_Meta = m\<rparr>"]) (simp add: new_calls_def account_meta_def)
qed

text \<open>
  C38: A worker never runs under an account the operator was to create and did not. When the account
  step succeeds for a cluster whose workers ask for their own account, it has asked the API to create
  exactly the account the worker pods name, in their namespace (an account that exists already is
  good enough).
\<close>

theorem worker_account_is_created:
  assumes "reconcilePolarsClusterServiceAccounts r c w = (None, w')"
    and "creates_account (workerServiceAccountSpec c)" "owner_laws r c"
    and "BuildWorkerPodTemplate pl c = Inr p"
  shows "\<exists>sa. CreateServiceAccount sa \<in> set (new_calls w w') \<and>
    om_Name (sa_Meta sa) = ps_ServiceAccountName (pod_Spec p) \<and>
    om_Namespace (sa_Meta sa) = om_Namespace (pod_Meta p)"
proof -
  let ?n = "resolveServiceAccountName (workerServiceAccountSpec c) (workerServiceAccountName c)"
  obtain e1 w1 where
    s: "reconcileServiceAccount r c componentScheduler (resolveServiceAccountName (schedulerServiceAccountSpec c)
        (schedulerServiceAccountName c)) (schedulerServiceAccountSpec c) w = (e1, w1)" by (metis surj_pair)
  with assms(1) have t: "reconcileServiceAccount r c componentWorker ?n (workerServiceAccountSpec c) w1 = (None, w')"
    by (cases e1) (simp_all add: reconcilePolarsClusterServiceAccounts_def Let_def)
  have "new_calls w w' = new_calls w w1 @ new_calls w1 w'"
  proof (rule new_calls_trans)
    show "extends (account_call r c componentScheduler (resolveServiceAccountName
        (schedulerServiceAccountSpec c) (schedulerServiceAccountName c))) w w1"
      using account_step.run_extends [of "(r, c, componentScheduler, resolveServiceAccountName
        (schedulerServiceAccountSpec c) (schedulerServiceAccountName c), schedulerServiceAccountSpec c)" w]
      s by simp
    show "extends (account_call r c componentWorker ?n) w1 w'"
      using account_step.run_extends [of "(r, c, componentWorker, ?n, workerServiceAccountSpec c)" w1] t by simp
  qed
  with account_created [OF t assms(2,3)] worker_builder.build_account [OF assms(4)]
    worker_builder.build_namespace [OF assms(4)]
  show ?thesis by auto
qed

theorem worker_account_is_created_witness:
  "\<exists>sa. CreateServiceAccount sa \<in> set (new_calls run_read run_accounts) \<and> om_Namespace (sa_Meta sa) = ''ml''"
proof -
  obtain p where p: "BuildWorkerPodTemplate sample_pods (sample_cluster 0) = Inr p" using sample_built by blast
  then have ns: "om_Namespace (pod_Meta p) = ''ml''" by (simp add: worker_builder.build_namespace)
  have "creates_account (workerServiceAccountSpec (sample_cluster 0))" by (simp add: creates_account_def)
  from worker_account_is_created [OF run_step_accounts this sample_owner_laws p]
  show ?thesis unfolding ns by blast
qed

section \<open>Errors and messages\<close>

text \<open>
  C15: The reduction of the errors of parallel pieces. It agrees with a definition by two filters:
  with any transient error the result joins the transient ones and sets the spec errors aside, with
  spec errors alone it is one spec error under the reason of the first, and with none it is nil. So a
  user's mistake is reported exactly when every error was one, and otherwise the reconcile is retried.
\<close>

theorem error_reduction:
  "reducePodErrors errs =
     (let ts = filter (\<lambda>e. \<not> is_spec e) (present_errors errs);
          ss = filter is_spec (present_errors errs)
      in if ts \<noteq> [] then (ss, Some (JoinError ts))
         else (case ss of [] \<Rightarrow> ([], None)
               | e # _ \<Rightarrow> ([], Some (SpecError (fst (the (as_spec e))) (JoinError ss))))) \<and>
   (case snd (reducePodErrors errs) of
      None \<Rightarrow> present_errors errs = []
    | Some e \<Rightarrow> is_spec e = list_all is_spec (present_errors errs))"
proof
  show eq: "reducePodErrors errs =
     (let ts = filter (\<lambda>e. \<not> is_spec e) (present_errors errs);
          ss = filter is_spec (present_errors errs)
      in if ts \<noteq> [] then (ss, Some (JoinError ts))
         else (case ss of [] \<Rightarrow> ([], None)
               | e # _ \<Rightarrow> ([], Some (SpecError (fst (the (as_spec e))) (JoinError ss)))))"
    by (rule reducePodErrors_eq)
  show "case snd (reducePodErrors errs) of
      None \<Rightarrow> present_errors errs = []
    | Some e \<Rightarrow> is_spec e = list_all is_spec (present_errors errs)"
  proof (cases "\<forall>e \<in> set (present_errors errs). is_spec e")
    case True
    show ?thesis
    proof (cases "present_errors errs = []")
      case False
      with reduce_spec [OF False True] True show ?thesis by (auto simp: list_all_iff)
    qed (simp add: reducePodErrors_eq)
  next
    case False
    then obtain e where "e \<in> set (present_errors errs)" "\<not> is_spec e" by blast
    with reduce_transient [OF this] show ?thesis by (auto simp: list_all_iff)
  qed
qed

theorem error_reduction_witness:
  "snd (reducePodErrors [None, Some (SpecError ''A'' (PlainError ''x'')), Some (PlainError ''y'')])
     = Some (JoinError [PlainError ''y''])"
  using error_reduction [of "[None, Some (SpecError ''A'' (PlainError ''x'')), Some (PlainError ''y'')]"]
  by (simp add: is_spec_def)

definition ready_words :: "pod \<Rightarrow> string set" where
  "ready_words p =
     {m. m \<noteq> [] \<and> (\<exists>cond \<in> set (pst_Conditions (pod_Status p)). pc_Type cond = PodReady \<and>
        pc_Status cond \<noteq> ConditionTrue \<and>
        (m = pc_Message cond \<or> pc_Message cond = [] \<and> m = pc_Reason cond))}"

text \<open>
  A pod that is not ready always gets a reason, and the kubelet's own words come first: the
  message is never empty, and when a Ready condition that is not True carries a message or a reason,
  the text is taken from such a condition, whatever its containers report.
\<close>

lemma not_ready_message_source:
  "podNotReadyMessage p \<noteq> [] \<and> (ready_words p \<noteq> {} \<longrightarrow> podNotReadyMessage p \<in> ready_words p)"
proof (cases "condition_message (pst_Conditions (pod_Status p))")
  case None
  then have "ready_words p = {}"
    unfolding condition_message_None_iff ready_words_def by blast
  then show ?thesis by simp
next
  case (Some m)
  then have "podNotReadyMessage p = m" by (simp add: podNotReadyMessage_def)
  with condition_message_source [OF Some] condition_message_nonempty [OF Some] show ?thesis
    by (auto simp: ready_words_def)
qed

end
