(* ===== verification/Pool_Convergence.thy ===== *)
theory Pool_Convergence
  imports Step_Properties
begin

text \<open>
  The worker pool against an API server that deletes gracefully and whose lists lag behind. What counts
  is which pods the server still wants to run: the live ones, without a deletion timestamp, each with the
  template hash it carries. A deleted pod stays on the server, terminating, for as long as it takes, and
  a list shows the pods as they were some time ago. One reconcile whose list is up to date brings the
  live pods to the pool the spec describes; every later one whose list has caught up finds nothing to do.
\<close>

section \<open>The server\<close>

text \<open>
  \<open>live s\<close> maps the names of the live workers of a server state to their template hashes. What the
  reconciler relies on while nobody else creates or deletes workers: a list changes nothing, a pod that
  was created is live under a new name with the label it was sent with, and a pod that was deleted, or is not
  found, is not live any more. Whether it is gone or terminating is left open, as are the statuses of the
  pods and what a list shows.
\<close>

definition pod_server ::
  "'s api_client \<Rightarrow> string \<Rightarrow> str_map \<Rightarrow> ('s \<Rightarrow> string \<rightharpoonup> string) \<Rightarrow> bool" where
  "pod_server cl ns sel live \<longleftrightarrow>
     (\<forall>s. live (snd (ac_ListPods cl ns sel s)) = live s) \<and>
     (\<forall>t s q s'. selects sel t \<longrightarrow> om_Namespace (pod_Meta t) = ns \<longrightarrow> ac_CreatePod cl t s = (Inr q, s') \<longrightarrow>
        live s (om_Name (pod_Meta q)) = None \<and>
        live s' = (live s)(om_Name (pod_Meta q) \<mapsto> label_of t templateHashLabel)) \<and>
     (\<forall>p s err s'. om_Namespace (pod_Meta p) = ns \<longrightarrow> ac_DeletePod cl p s = (err, s') \<longrightarrow>
        IgnoreNotFound err = None \<longrightarrow> live s' = (live s)(om_Name (pod_Meta p) := None))"

text \<open>The server takes this pod when asked to create it, and every deletion.\<close>

definition pods_accepted :: "'s api_client \<Rightarrow> pod \<Rightarrow> bool" where
  "pods_accepted cl t \<longleftrightarrow>
     (\<forall>s. \<exists>q s'. ac_CreatePod cl t s = (Inr q, s')) \<and>
     (\<forall>p s. IgnoreNotFound (fst (ac_DeletePod cl p s)) = None)"

text \<open>The live pods in a list, and a list that is up to date.\<close>

definition shown :: "pod list \<Rightarrow> string \<rightharpoonup> string" where
  "shown ps = map_of (map (\<lambda>p. (om_Name (pod_Meta p), label_of p templateHashLabel)) (filter (\<lambda>p. \<not> terminating p) ps))"

definition up_to_date :: "string \<Rightarrow> pod list \<Rightarrow> (string \<rightharpoonup> string) \<Rightarrow> bool" where
  "up_to_date ns ps m \<longleftrightarrow>
     shown ps = m \<and> distinct (map (\<lambda>p. om_Name (pod_Meta p)) ps) \<and> (\<forall>p \<in> set ps. om_Namespace (pod_Meta p) = ns)"

abbreviation pod_names :: "pod list \<Rightarrow> string set" where
  "pod_names ps \<equiv> (\<lambda>p. om_Name (pod_Meta p)) ` set ps"

lemma pod_serverD:
  assumes "pod_server cl ns sel live"
  shows "live (snd (ac_ListPods cl ns sel s)) = live s"
    and "selects sel t \<Longrightarrow> om_Namespace (pod_Meta t) = ns \<Longrightarrow> ac_CreatePod cl t s = (Inr q, s') \<Longrightarrow>
      live s (om_Name (pod_Meta q)) = None \<and>
      live s' = (live s)(om_Name (pod_Meta q) \<mapsto> label_of t templateHashLabel)"
    and "om_Namespace (pod_Meta p) = ns \<Longrightarrow> IgnoreNotFound (fst (ac_DeletePod cl p s)) = None \<Longrightarrow>
      live (snd (ac_DeletePod cl p s)) = (live s)(om_Name (pod_Meta p) := None)"
  using assms unfolding pod_server_def by (blast, blast, metis prod.collapse)

section \<open>The loops on the live pods\<close>

lemma restrict_delete: "(m |` (- A))(x := None) = m |` (- insert x A)"
  by (auto simp: restrict_map_def fun_eq_iff)

text \<open>A deletion loop that succeeds took its pods out of the live ones.\<close>

lemma delete_stale_live:
  assumes "pod_server (r_Client r) ns sel live"
  shows "delete_stale r h ps active w = (Inr active', w') \<Longrightarrow> \<forall>p \<in> set ps. om_Namespace (pod_Meta p) = ns \<Longrightarrow>
    live (w_api w') = live (w_api w) |` (- pod_names (filter (stale h) ps))"
proof (induction ps arbitrary: active w)
  case (Cons p ps)
  show ?case
  proof (cases "stale h p")
    case True
    obtain err s' where d: "ac_DeletePod (r_Client r) p (w_api w) = (err, s')" by (metis surj_pair)
    let ?w = "w\<lparr>w_api := s', w_calls := w_calls w @ [DeletePod p]\<rparr>"
    let ?e = "Eventf EventTypeNormal ''WorkerPodRecreating'' actionDeletePod
      (''Deleted worker pod '' @ om_Name (pod_Meta p) @ '' for a template change'') ?w"
    from Cons.prems True d have ok: "IgnoreNotFound err = None" and rest: "delete_stale r h ps active ?e = (Inr active', w')"
      by (auto simp: stale_def call_def IgnoreNotFound_None_iff split: option.splits if_splits)
    have "live s' = (live (w_api w))(om_Name (pod_Meta p) := None)"
      using pod_serverD(3) [OF assms(1), of p "w_api w"] Cons.prems d ok by simp
    with Cons.IH [OF rest] Cons.prems(2) True show ?thesis
      by (simp add: client_simps) (simp add: restrict_map_def fun_eq_iff)
  next
    case False
    with Cons.prems Cons.IH show ?thesis by (auto simp: stale_def split: if_splits)
  qed
qed (simp add: restrict_map_def)

lemma delete_surplus_live:
  assumes "pod_server (r_Client r) ns sel live"
  shows "delete_surplus r n active w = (Inr active', w') \<Longrightarrow> \<forall>p \<in> set active. om_Namespace (pod_Meta p) = ns \<Longrightarrow>
    live (w_api w') = live (w_api w) |` (- pod_names (take n active))"
proof (induction n arbitrary: active w)
  case (Suc n)
  then obtain p rest where active: "active = p # rest" by (cases active) auto
  obtain err s' where d: "ac_DeletePod (r_Client r) p (w_api w) = (err, s')" by (metis surj_pair)
  let ?w = "w\<lparr>w_api := s', w_calls := w_calls w @ [DeletePod p]\<rparr>"
  let ?e = "Eventf EventTypeNormal ''WorkerPodDeleted'' actionDeletePod (''Deleted worker pod '' @ om_Name (pod_Meta p)) ?w"
  from Suc.prems(1) active d obtain v where v: "v \<in> {?w, ?e}" "delete_surplus r n rest v = (Inr active', w')"
    and ok: "IgnoreNotFound err = None"
    by (auto simp: call_def IgnoreNotFound_None_iff split: option.splits if_splits)
  have "live s' = (live (w_api w))(om_Name (pod_Meta p) := None)"
    using pod_serverD(3) [OF assms(1), of p "w_api w"] Suc.prems(2) active d ok by simp
  with Suc.IH [OF v(2)] Suc.prems(2) v(1) active show ?case
    by (auto simp: client_simps) (auto simp: restrict_map_def fun_eq_iff)
qed (simp add: restrict_map_def)

text \<open>The pieces of a creation only add errors; without any, each left a live pod under a new name.\<close>

lemma create_piece_errors:
  "length (snd (fst (create_piece r t i st))) = length (snd (fst st))"
  "snd (fst st) ! j \<noteq> None \<Longrightarrow> j < length (snd (fst st)) \<Longrightarrow> snd (fst (create_piece r t i st)) ! j \<noteq> None"
  by (cases "j = i"; auto simp: create_piece_def split: prod.splits sum.splits)+

lemma fold_create_errors:
  "length (snd (fst (fold (create_piece r t) order st))) = length (snd (fst st))"
  "snd (fst st) ! j \<noteq> None \<Longrightarrow> j < length (snd (fst st)) \<Longrightarrow>
     snd (fst (fold (create_piece r t) order st)) ! j \<noteq> None"
  by (induction order arbitrary: st) (simp_all add: create_piece_errors del: not_None_eq)

lemma fold_create_live:
  assumes "pod_server (r_Client r) ns sel live" "selects sel t"
    and "om_Namespace (pod_Meta t) = ns" "label_of t templateHashLabel = h"
  shows "\<forall>i < length (snd (fst st)). snd (fst (fold (create_piece r t) order st)) ! i = None \<Longrightarrow>
      set order \<subseteq> {..<length (snd (fst st))} \<Longrightarrow>
    \<exists>N. card N = length order \<and> finite N \<and> N \<inter> dom (live (w_api (snd st))) = {} \<and>
       live (w_api (snd (fold (create_piece r t) order st))) =
         live (w_api (snd st)) ++ (\<lambda>n. if n \<in> N then Some h else None)"
proof (induction order arbitrary: st)
  case Nil
  have "m ++ (\<lambda>n. if n \<in> {} then Some h else None) = m" for m :: "string \<rightharpoonup> string"
    by (simp add: map_add_def)
  then show ?case by (intro exI [of _ "{}"]) simp_all
next
  case (Cons i order)
  obtain created errs w where st: "st = ((created, errs), w)" by (metis surj_pair)
  let ?st = "create_piece r t i st"
  have "i < length (snd (fst ?st))" using Cons.prems(2) by (simp add: create_piece_errors)
  with Cons.prems fold_create_errors(2) [of ?st i r t order] have "snd (fst ?st) ! i = None"
    by (metis create_piece_errors(1) fold_simps(2))
  then obtain q s' where q: "ac_CreatePod (r_Client r) t (w_api w) = (Inr q, s')"
    using Cons.prems(2) by (auto simp: st create_piece_def call_def split: prod.splits sum.splits)
  let ?q = "om_Name (pod_Meta q)"
  have v: "live (w_api w) ?q = None" "live s' = (live (w_api w))(?q \<mapsto> h)"
    using pod_serverD(2) [OF assms(1,2,3) q] assms(4) by simp_all
  have s': "w_api (snd ?st) = s'" by (simp add: st create_piece_def call_def q(1))
  from Cons.IH [of ?st] Cons.prems obtain N where N: "card N = length order" "finite N"
      "N \<inter> dom (live s') = {}"
      "live (w_api (snd (fold (create_piece r t) (i # order) st))) = live s' ++ (\<lambda>n. if n \<in> N then Some h else None)"
    by (auto simp: create_piece_errors s')
  have "?q \<notin> N" using N(3) v(2) by auto
  moreover have "live s' ++ (\<lambda>n. if n \<in> N then Some h else None) =
      live (w_api w) ++ (\<lambda>n. if n \<in> insert ?q N then Some h else None)"
    using \<open>?q \<notin> N\<close> by (auto simp: v(2) map_add_def fun_eq_iff)
  moreover have "insert ?q N \<inter> dom (live (w_api w)) = {}" using N(3) v by auto
  ultimately show ?case
    unfolding st by (intro exI [of _ "insert ?q N"]) (use N st in simp_all)
qed

text \<open>On a server that takes the requests no loop fails.\<close>

lemma delete_stale_accepted:
  assumes "pods_accepted (r_Client r) t"
  shows "fst (delete_stale r h ps active w) \<noteq> Inl e"
proof (induction ps arbitrary: active w)
  case (Cons p ps)
  have "IgnoreNotFound (fst (ac_DeletePod (r_Client r) p (w_api w))) = None"
    using assms by (simp add: pods_accepted_def)
  with Cons show ?case
    by (auto simp: call_def IgnoreNotFound_None_iff split: option.splits prod.splits)
qed simp

lemma fold_create_accepted:
  assumes "pods_accepted (r_Client r) t"
  shows "snd (fst (fold (create_piece r t) order st)) = snd (fst st)"
proof (induction order arbitrary: st)
  case (Cons i order)
  obtain created errs w where st: "st = ((created, errs), w)" by (metis surj_pair)
  obtain q s' where "ac_CreatePod (r_Client r) t (w_api w) = (Inr q, s')"
    using assms unfolding pods_accepted_def by blast
  then have "snd (fst (create_piece r t i st)) = snd (fst st)"
    by (simp add: st create_piece_def call_def)
  with Cons show ?case by simp
qed simp

lemma scale_pool_accepted:
  assumes "pods_accepted (r_Client r) t" "0 \<le> wanted c"
  shows "fst (scale_pool r c t active w) \<noteq> Inl e"
proof (cases "int (length active) < wanted c")
  case True
  let ?n = "nat (wanted c - int (length active))"
  let ?st = "((replicate ?n None, replicate ?n None), w)"
  obtain created errs w1 where cp: "create_pods r t (r_Schedule r ?n) ?n w = ((created, errs), w1)"
    by (metis surj_pair)
  with fold_create_accepted [OF assms(1), of "r_Schedule r ?n" ?st] have "errs = replicate ?n None"
    by (simp add: create_pods_def)
  with True cp show ?thesis
    by (simp add: scale_pool_def wanted_def [symmetric] Let_def collect_created_eq
        reducePodErrors_eq present_errors_def)
next
  case False
  have "fst (delete_surplus r n active w) \<noteq> Inl e" if "n \<le> length active" for n
  proof
    assume "fst (delete_surplus r n active w) = Inl e"
    then obtain w' where "delete_surplus r n active w = (Inl e, w')" by (metis prod.collapse)
    from delete_surplus_Inl [OF this that] assms(1) show False
      by (force simp: pods_accepted_def IgnoreNotFound_None_iff split: option.splits)
  qed
  with False assms(2) show ?thesis by (simp add: scale_pool_def wanted_def Let_def)
qed

section \<open>One reconcile\<close>

lemma desired_worker_template:
  assumes "desired_worker r c = Inr (h, t)" "owner_laws r c"
  shows "selects (component_selector c componentWorker) t" "om_Namespace (pod_Meta t) = cl_Namespace c"
    "label_of t templateHashLabel = h"
proof -
  from assms(1) obtain b m where b: "BuildWorkerPodTemplate (r_Pods r) c = Inr b"
    and m: "r_SetControllerReference r (cl_Meta c) (pod_Meta (set_label templateHashLabel h b)) = Inr m"
    and t: "t = (set_label templateHashLabel h b)\<lparr>pod_Meta := m\<rparr>"
    by (auto simp: desired_worker_def split: sum.splits)
  have labels: "pod_labels t = pod_labels (set_label templateHashLabel h b)"
    using owner_lawsD(3) [OF assms(2) m] by (simp add: t)
  show "om_Namespace (pod_Meta t) = cl_Namespace c"
    using owner_lawsD(2) [OF assms(2) m] worker_builder.build_namespace [OF b] by (simp add: t)
  have "selects (component_selector c componentWorker) (set_label templateHashLabel h b)"
    using worker_builder.built_selected [OF b] by (simp add: selects_set_label)
  then show "selects (component_selector c componentWorker) t" by (simp add: selects_def labels)
  show "label_of t templateHashLabel = h" by (simp add: label_of_def labels)
qed

text \<open>A pool of live pods, all of template \<open>h\<close> and as many as wanted.\<close>

definition settled :: "string \<Rightarrow> int \<Rightarrow> (string \<rightharpoonup> string) \<Rightarrow> bool" where
  "settled h n m \<longleftrightarrow> ran m \<subseteq> {h} \<and> finite (dom m) \<and> int (card (dom m)) = n"

lemma shown_names: "distinct (map (\<lambda>p. om_Name (pod_Meta p)) ps) \<Longrightarrow> p \<in> set ps \<Longrightarrow> \<not> terminating p \<Longrightarrow>
    shown ps (om_Name (pod_Meta p)) = Some (label_of p templateHashLabel)"
  unfolding shown_def by (rule map_of_is_SomeI) (auto simp: comp_def distinct_map intro: inj_on_subset)

lemma shown_dom: "dom (shown ps) = pod_names (filter (\<lambda>p. \<not> terminating p) ps)"
  by (auto simp: shown_def dom_map_of_conv_image_fst image_image)

lemma card_pod_names:
  "distinct (map (\<lambda>p. om_Name (pod_Meta p)) ps) \<Longrightarrow> card (pod_names (filter P ps)) = length (filter P ps)"
  using card_image [of "\<lambda>p. om_Name (pod_Meta p)" "set (filter P ps)"] distinct_card [of "filter P ps"]
  by (auto simp: distinct_map intro: inj_on_subset)

text \<open>After the stale pods are deleted, the current ones of the list are the live ones.\<close>

lemma shown_current:
  assumes "up_to_date ns ps m"
  shows "m |` (- pod_names (filter (stale h) ps)) = (\<lambda>n. if n \<in> pod_names (filter (current h) ps) then Some h else None)"
proof
  fix n
  have d: "distinct (map (\<lambda>p. om_Name (pod_Meta p)) ps)" and m: "m = shown ps"
    using assms by (simp_all add: up_to_date_def)
  have same: "p = q" if "p \<in> set ps" "q \<in> set ps" "om_Name (pod_Meta p) = om_Name (pod_Meta q)" for p q
    using that d by (auto simp: distinct_map dest: inj_onD)
  show "(m |` (- pod_names (filter (stale h) ps))) n =
      (if n \<in> pod_names (filter (current h) ps) then Some h else None)"
  proof (cases "n \<in> pod_names (filter (\<lambda>p. \<not> terminating p) ps)")
    case True
    then obtain p where p: "p \<in> set ps" "\<not> terminating p" "n = om_Name (pod_Meta p)" by auto
    have "m n = Some (label_of p templateHashLabel)" using shown_names [OF d p(1,2)] by (simp add: m p(3))
    moreover have "n \<in> pod_names (filter (stale h) ps) \<longleftrightarrow> label_of p templateHashLabel \<noteq> h"
      "n \<in> pod_names (filter (current h) ps) \<longleftrightarrow> label_of p templateHashLabel = h"
      using p same by (auto simp: stale_def current_def)
    ultimately show ?thesis by simp
  next
    case False
    then have "m n = None" using shown_dom [of ps] by (auto simp: m)
    moreover have "n \<notin> pod_names (filter (current h) ps)" using False by (auto simp: current_def)
    ultimately show ?thesis by (simp add: restrict_map_def)
  qed
qed

lemma settled_on:
  "finite A \<Longrightarrow> settled h n (\<lambda>x. if x \<in> A then Some h else None) \<longleftrightarrow> int (card A) = n"
proof -
  have "dom (\<lambda>x. if x \<in> A then Some h else None) = A" by (auto split: if_splits)
  then show "finite A \<Longrightarrow> ?thesis" by (auto simp: settled_def ran_def)
qed

lemma scale_pool_live:
  assumes "pod_server (r_Client r) (cl_Namespace c) (component_selector c componentWorker) live"
    and "desired_worker r c = Inr (h, t)" "owner_laws r c" "\<And>n. schedule_complete (r_Schedule r) n"
    and "live (w_api w) = (\<lambda>n. if n \<in> pod_names active then Some h else None)"
    and "distinct (map (\<lambda>p. om_Name (pod_Meta p)) active)" "\<forall>p \<in> set active. om_Namespace (pod_Meta p) = cl_Namespace c"
    and "scale_pool r c t active w = (Inr final, w')"
  shows "settled h (wanted c) (live (w_api w'))"
proof (cases "int (length active) < wanted c")
  case True
  let ?n = "nat (wanted c - int (length active))"
  let ?st = "((replicate ?n None, replicate ?n None), w)"
  obtain created errs w1 where cp: "create_pods r t (r_Schedule r ?n) ?n w = ((created, errs), w1)"
    by (metis surj_pair)
  with assms(8) True have w': "w_api w' = w_api w1" and "snd (reducePodErrors errs) = None"
    by (auto simp: scale_pool_def wanted_def Let_def collect_created_eq split: prod.splits option.splits)
  then have "\<forall>i < length errs. errs ! i = None"
    by (simp add: reduce_none present_errors_Nil_iff)
  moreover have "length errs = ?n"
    using fold_create_errors(1) [of r t "r_Schedule r ?n" ?st] cp by (simp add: create_pods_def)
  moreover have "set (r_Schedule r ?n) = {..<?n}" using assms(4) [of ?n] by (simp add: schedule_complete_def)
  ultimately obtain N where N: "card N = length (r_Schedule r ?n)" "finite N" "N \<inter> dom (live (w_api w)) = {}"
      "live (w_api w1) = live (w_api w) ++ (\<lambda>n. if n \<in> N then Some h else None)"
    using fold_create_live [OF assms(1) desired_worker_template [OF assms(2,3)], of ?st "r_Schedule r ?n"] cp
    by (auto simp: create_pods_def)
  have eq: "live (w_api w1) = (\<lambda>n. if n \<in> pod_names active \<union> N then Some h else None)"
    by (auto simp: N(4) assms(5) map_add_def fun_eq_iff)
  have "card (pod_names active \<union> N) = length active + ?n"
  proof -
    have "pod_names active \<inter> N = {}" using N(3) by (auto simp: assms(5) dom_def)
    moreover have "card (pod_names active) = length active" using card_pod_names [OF assms(6), of "\<lambda>p. True"] by simp
    moreover have "card N = ?n" using N(1) schedule_complete_length [OF assms(4)] by simp
    ultimately show ?thesis using N(2) by (simp add: card_Un_disjoint)
  qed
  then show ?thesis unfolding w' eq using True N(2) by (subst settled_on) auto
next
  case False
  let ?n = "nat (int (length active) - wanted c)"
  from scale_pool_Inr_less [OF assms(8)] False
  have n: "0 \<le> wanted c" "int (length (drop ?n active)) = wanted c" by auto
  have live: "live (w_api w') = live (w_api w) |` (- pod_names (take ?n active))"
  proof (cases "?n = 0")
    case True
    with False assms(8) have "w' = w" by (simp add: scale_pool_def wanted_def Let_def split: if_splits)
    with True show ?thesis by (simp add: restrict_map_def)
  next
    case some: False
    with False assms(8) have "delete_surplus r ?n active w = (Inr final, w')"
      by (auto simp: scale_pool_def wanted_def Let_def split: if_splits)
    from delete_surplus_live [OF assms(1) this assms(7)] show ?thesis .
  qed
  have "pod_names active = pod_names (take ?n active) \<union> pod_names (drop ?n active)"
    unfolding image_Un [symmetric] set_append [symmetric] by simp
  moreover have "pod_names (take ?n active) \<inter> pod_names (drop ?n active) = {}"
    using assms(6) by (metis append_take_drop_id distinct_append map_append set_map)
  ultimately have eq: "live (w_api w') = (\<lambda>n. if n \<in> pod_names (drop ?n active) then Some h else None)"
    unfolding live assms(5) by (auto simp: restrict_map_def fun_eq_iff)
  have "card (pod_names (drop ?n active)) = length (drop ?n active)"
    using card_pod_names [of "drop ?n active" "\<lambda>p. True"] assms(6) by (simp add: drop_map [symmetric] distinct_drop)
  with n show ?thesis unfolding eq by (subst settled_on) auto
qed

lemma pool_reconciled:
  assumes "pod_server (r_Client r) (cl_Namespace c) (component_selector c componentWorker) live"
    and "desired_worker r c = Inr (h, t)" "owner_laws r c" "\<And>n. schedule_complete (r_Schedule r) n"
    and "list_workers r c w = (Inr ps, w1)" "up_to_date (cl_Namespace c) ps (live (w_api w))"
    and "reconcileWorkerPool r c w = (Inr x, w')"
  shows "settled h (wanted c) (live (w_api w'))"
proof -
  have w1: "live (w_api w1) = live (w_api w)"
    using assms(5) pod_serverD(1) [OF assms(1)] by (auto simp: list_workers_def client_simps)
  have ps: "distinct (map (\<lambda>p. om_Name (pod_Meta p)) ps)" "\<forall>p \<in> set ps. om_Namespace (pod_Meta p) = cl_Namespace c"
    using assms(6) by (simp_all add: up_to_date_def)
  from assms(7,5) obtain active w2 final where del: "delete_stale r h ps [] w1 = (Inr active, w2)"
      and sc: "scale_pool r c t active w2 = (Inr final, w')"
    by (auto simp: reconcileWorkerPool_eq [OF assms(2)] split: prod.splits sum.splits)
  from delete_stale_Inr [OF del] have active: "active = filter (current h) ps" by simp
  have "live (w_api w2) = (\<lambda>n. if n \<in> pod_names active then Some h else None)"
    unfolding active delete_stale_live [OF assms(1) del ps(2)] w1 by (rule shown_current [OF assms(6)])
  from scale_pool_live [OF assms(1-4) this _ _ sc] ps show ?thesis
    by (auto simp: active distinct_map_filter)
qed

lemma pool_step_accepted:
  assumes "pods_accepted (r_Client r) t" "desired_worker r c = Inr (h, t)" "0 \<le> wanted c"
    and "list_workers r c w = (Inr ps, w1)"
  shows "\<exists>x w'. reconcileWorkerPool r c w = (Inr x, w')"
proof -
  have "\<exists>active. fst (delete_stale r h ps [] w1) = Inr active"
    using delete_stale_accepted [OF assms(1)] by (metis old.sum.exhaust)
  then obtain active w2 where del: "delete_stale r h ps [] w1 = (Inr active, w2)" by (metis prod.collapse)
  have "\<exists>final. fst (scale_pool r c t active w2) = Inr final"
    using scale_pool_accepted [OF assms(1,3)] by (metis old.sum.exhaust)
  then obtain final w3 where "scale_pool r c t active w2 = (Inr final, w3)" by (metis prod.collapse)
  with assms(4) del show ?thesis by (simp add: reconcileWorkerPool_eq [OF assms(2)])
qed

text \<open>A list of a settled pool has no stale pod and as many current ones as wanted.\<close>

lemma settled_list:
  assumes "up_to_date ns ps m" "settled h n m"
  shows "filter (stale h) ps = []" "int (length (filter (current h) ps)) = n"
proof -
  have d: "distinct (map (\<lambda>p. om_Name (pod_Meta p)) ps)" and m: "m = shown ps"
    using assms(1) by (simp_all add: up_to_date_def)
  have hash: "label_of p templateHashLabel = h" if "p \<in> set ps" "\<not> terminating p" for p
  proof -
    have "label_of p templateHashLabel \<in> ran (shown ps)" using shown_names [OF d that] by (auto simp: ran_def)
    then show ?thesis using assms(2) by (auto simp: m settled_def)
  qed
  then show "filter (stale h) ps = []" by (auto simp: filter_empty_conv stale_def)
  have "filter (current h) ps = filter (\<lambda>p. \<not> terminating p) ps"
    using hash by (auto simp: current_def intro: filter_cong)
  then show "int (length (filter (current h) ps)) = n"
    using assms(2) card_pod_names [OF d, of "\<lambda>p. \<not> terminating p"] by (simp add: settled_def m shown_dom)
qed

text \<open>
  C2: The pool converges in one reconcile and then rests, on a server that deletes gracefully and lists
  late, while nobody else creates or deletes workers. A reconcile whose list is up to date and that reports no error leaves live, neither gone nor
  terminating, exactly the wanted number of pods, all of the current template. Any later reconcile whose
  list has caught up with that makes one call, the list, and reports the wanted number. On a server that
  takes the requests the first one reports no error. Nothing is assumed of when a deleted pod
  disappears, of the statuses of the pods, or of other lists.
\<close>

theorem pool_converges:
  assumes "pod_server (r_Client r) (cl_Namespace c) (component_selector c componentWorker) live"
    and "desired_worker r c = Inr (h, t)" "owner_laws r c" "0 \<le> wanted c"
    and "\<And>n. schedule_complete (r_Schedule r) n"
    and "list_workers r c w = (Inr ps, w1)" "up_to_date (cl_Namespace c) ps (live (w_api w))"
  shows "(pods_accepted (r_Client r) t \<longrightarrow> (\<exists>x w'. reconcileWorkerPool r c w = (Inr x, w'))) \<and>
    (\<forall>x w'. reconcileWorkerPool r c w = (Inr x, w') \<longrightarrow>
       settled h (wanted c) (live (w_api w')) \<and>
       (\<forall>v qs v1. list_workers r c v = (Inr qs, v1) \<longrightarrow> up_to_date (cl_Namespace c) qs (live (w_api w')) \<longrightarrow>
          (\<exists>st msg v'. reconcileWorkerPool r c v = (Inr (st, msg), v') \<and>
             new_calls v v' = [ListPods (cl_Namespace c) (component_selector c componentWorker)] \<and>
             wps_Replicas st = wp_Replicas (spec_WorkerPool (cl_Spec c)))))"
proof (intro conjI allI impI)
  note rec = pool_reconciled [OF assms(1-3,5-7)]
  show "\<exists>x w'. reconcileWorkerPool r c w = (Inr x, w')" if "pods_accepted (r_Client r) t"
    using pool_step_accepted [OF that assms(2,4,6)] by blast
  show "settled h (wanted c) (live (w_api w'))" if "reconcileWorkerPool r c w = (Inr x, w')" for x w'
    by (rule rec [OF that])
  fix x w' v qs v1
  assume run: "reconcileWorkerPool r c w = (Inr x, w')" and l: "list_workers r c v = (Inr qs, v1)"
    and u: "up_to_date (cl_Namespace c) qs (live (w_api w'))"
  obtain st msg where st: "pool_status c (filter (current h) qs) = (st, msg)" by (metis surj_pair)
  note step = settled_pool_step [OF assms(2) l settled_list [OF u rec [OF run]], unfolded st]
  from reconcileWorkerPool_replicas [OF step [THEN conjunct1] assms(4,5)] step
  show "\<exists>st msg v'. reconcileWorkerPool r c v = (Inr (st, msg), v') \<and>
      new_calls v v' = [ListPods (cl_Namespace c) (component_selector c componentWorker)] \<and>
      wps_Replicas st = wp_Replicas (spec_WorkerPool (cl_Spec c))" by blast
qed

section \<open>A server that deletes gracefully\<close>

text \<open>
  The pods it holds and the pods its cache shows. A list reads the cache, which catches up afterwards; a
  created pod gets a name of its own; a deleted one stays, terminating.
\<close>

record pod_store =
  g_pods :: "pod list"
  g_cache :: "pod list"

definition fresh_name :: "string \<Rightarrow> pod list \<Rightarrow> string" where
  "fresh_name pre ps = pre @ replicate (Suc (length (concat (map (\<lambda>p. om_Name (pod_Meta p)) ps)))) CHR ''x''"

definition graceful_create :: "pod \<Rightarrow> pod_store \<Rightarrow> pod result \<times> pod_store" where
  "graceful_create p s =
     (if om_Name (pod_Meta p) \<noteq> [] \<and> om_Name (pod_Meta p) \<in> pod_names (g_pods s)
      then (Inl already_exists, s)
      else let q = p\<lparr>pod_Meta := (pod_Meta p)\<lparr>om_DeletionTimestamp := None, om_Name :=
                     (if om_Name (pod_Meta p) = [] then fresh_name (om_GenerateName (pod_Meta p)) (g_pods s)
                      else om_Name (pod_Meta p))\<rparr>\<rparr>
           in (Inr q, s\<lparr>g_pods := g_pods s @ [q]\<rparr>))"

definition terminate_pod :: "pod \<Rightarrow> pod \<Rightarrow> pod" where
  "terminate_pod p q =
     (if om_Name (pod_Meta q) = om_Name (pod_Meta p) \<and> om_Namespace (pod_Meta q) = om_Namespace (pod_Meta p)
      then q\<lparr>pod_Meta := (pod_Meta q)\<lparr>om_DeletionTimestamp := Some 30\<rparr>\<rparr> else q)"

definition graceful_delete :: "pod \<Rightarrow> pod_store \<Rightarrow> go_error option \<times> pod_store" where
  "graceful_delete p s =
     (if om_Name (pod_Meta p) \<in> pod_names (g_pods s)
      then (None, s\<lparr>g_pods := map (terminate_pod p) (g_pods s)\<rparr>) else (Some not_found, s))"

definition graceful_client :: "pod_store api_client" where
  "graceful_client =
     \<lparr>ac_GetCluster = (\<lambda>ns n s. (Inl not_found, s)), ac_UpdateStatus = (\<lambda>c s. (Inr c, s)),
      ac_GetPod = (\<lambda>ns n s. (Inl not_found, s)),
      ac_ListPods = (\<lambda>ns sel s.
        (Inr (filter (\<lambda>p. om_Namespace (pod_Meta p) = ns \<and> pod_labels p clusterLabel = sel clusterLabel \<and>
                 pod_labels p componentLabel = sel componentLabel) (g_cache s)), s\<lparr>g_cache := g_pods s\<rparr>)),
      ac_CreatePod = graceful_create, ac_DeletePod = graceful_delete,
      ac_GetService = (\<lambda>ns n s. (Inl not_found, s)), ac_CreateService = (\<lambda>v s. (None, s)),
      ac_UpdateService = (\<lambda>v s. (None, s)), ac_CreateServiceAccount = (\<lambda>a s. (None, s)),
      ac_GetRoute = (\<lambda>kind ns n s. (Inl not_found, s)), ac_CreateOrUpdateRoute = (\<lambda>rt f s. ((rt, None), s)),
      ac_DeleteRoute = (\<lambda>rt s. (None, s))\<rparr>"

definition graceful_reconciler :: "pod_store reconciler" where
  "graceful_reconciler =
     \<lparr>r_Client = graceful_client, r_GatewayAPIEnabled = True, r_Pods = sample_pods,
      r_Conditions = sample_conditions, r_SetControllerReference = sample_owner,
      r_IsControlledBy = sample_controlled, r_Schedule = (\<lambda>n. rev [0..<n]),
      r_Interleaving = (\<lambda>n. [0, 1, 2, 0, 1, 2])\<rparr>"

abbreviation demo_worker :: "pod \<Rightarrow> bool" where
  "demo_worker p \<equiv> om_Namespace (pod_Meta p) = ''ml'' \<and> pod_labels p clusterLabel = Some ''demo'' \<and>
     pod_labels p componentLabel = Some componentWorker"

definition graceful_live :: "pod_store \<Rightarrow> string \<rightharpoonup> string" where
  "graceful_live s = shown (filter demo_worker (g_pods s))"

lemma graceful_client_simps [simp]:
  "ac_CreatePod graceful_client = graceful_create" "ac_DeletePod graceful_client = graceful_delete"
  "ac_ListPods graceful_client ''ml'' (component_selector (sample_cluster n) componentWorker) s =
     (Inr (filter demo_worker (g_cache s)), s\<lparr>g_cache := g_pods s\<rparr>)"
  by (simp_all add: graceful_client_def component_selector_def label_simps clusterLabel_def componentLabel_def)

lemma graceful_reconciler_simps [simp]:
  "r_Client graceful_reconciler = graceful_client" "r_Pods graceful_reconciler = sample_pods"
  "r_SetControllerReference graceful_reconciler = sample_owner" "r_Schedule graceful_reconciler n = rev [0..<n]"
  by (simp_all add: graceful_reconciler_def)

lemma fresh_name_new: "fresh_name pre ps \<notin> pod_names ps"
proof
  assume "fresh_name pre ps \<in> pod_names ps"
  then obtain p where p: "p \<in> set ps" "om_Name (pod_Meta p) = fresh_name pre ps" by auto
  from p(1) have "length (om_Name (pod_Meta p)) \<le> length (concat (map (\<lambda>p. om_Name (pod_Meta p)) ps))"
    by (induction ps) auto
  with p(2) show False by (simp add: fresh_name_def)
qed

lemma shown_terminate:
  "\<forall>q \<in> set ps. om_Namespace (pod_Meta q) = om_Namespace (pod_Meta p) \<Longrightarrow>
     shown (map (terminate_pod p) ps) = (shown ps)(om_Name (pod_Meta p) := None)"
  by (induction ps) (auto simp: shown_def terminate_pod_def terminating_def label_of_def fun_eq_iff)

lemma shown_append: "shown (ps @ qs) = shown qs ++ shown ps"
  by (simp add: shown_def)

lemma terminate_pod_worker: "filter demo_worker (map (terminate_pod p) ps) = map (terminate_pod p) (filter demo_worker ps)"
  by (induction ps) (auto simp: terminate_pod_def)

lemma graceful_createD:
  assumes "graceful_create t s = (Inr q, s')"
  shows "om_Name (pod_Meta q) \<notin> pod_names (g_pods s)" "g_pods s' = g_pods s @ [q]" "\<not> terminating q"
    "pod_labels q = pod_labels t" "om_Namespace (pod_Meta q) = om_Namespace (pod_Meta t)"
  using assms fresh_name_new [of "om_GenerateName (pod_Meta t)" "g_pods s"]
  by (auto simp: graceful_create_def Let_def terminating_def split: if_splits)

lemma graceful_pod_server:
  "pod_server graceful_client ''ml'' (component_selector (sample_cluster n) componentWorker) graceful_live"
  unfolding pod_server_def
proof (intro conjI allI impI, goal_cases)
  case (1 s)
  then show ?case by (simp add: graceful_live_def)
next
  case (2 t s q s')
  then have "om_Name (pod_Meta q) \<notin> pod_names (g_pods s)" by (simp add: graceful_createD)
  then show ?case using shown_dom [of "filter demo_worker (g_pods s)"] by (auto simp: graceful_live_def)
next
  case (3 t s q s')
  then have q: "om_Name (pod_Meta q) \<notin> pod_names (g_pods s)" "g_pods s' = g_pods s @ [q]"
    "demo_worker q" "\<not> terminating q" "label_of q templateHashLabel = label_of t templateHashLabel"
    using graceful_createD [of t s q s'] by (simp_all add: selects_component_iff label_of_def)
  then have "shown (filter demo_worker (g_pods s)) (om_Name (pod_Meta q)) = None"
    using shown_dom [of "filter demo_worker (g_pods s)"] by auto
  with q show ?case by (auto simp: graceful_live_def shown_append shown_def map_add_def fun_eq_iff split: option.splits)
next
  case (4 p s err s')
  have "shown (filter demo_worker (g_pods s')) = (shown (filter demo_worker (g_pods s)))(om_Name (pod_Meta p) := None)"
  proof (cases "om_Name (pod_Meta p) \<in> pod_names (g_pods s)")
    case True
    with 4 have "g_pods s' = map (terminate_pod p) (g_pods s)" by (auto simp: graceful_delete_def)
    then show ?thesis unfolding terminate_pod_worker by (simp add: terminate_pod_worker shown_terminate 4)
  next
    case False
    then have "om_Name (pod_Meta p) \<notin> dom (shown (filter demo_worker (g_pods s)))"
      by (auto simp: shown_dom)
    with 4 False show ?thesis by (auto simp: graceful_delete_def fun_upd_idem_iff domIff)
  qed
  then show ?case by (simp add: graceful_live_def)
qed

text \<open>What every pod request keeps, the step keeps.\<close>

lemma pool_keeps:
  assumes "\<And>ns sel s. P s \<Longrightarrow> P (snd (ac_ListPods (r_Client r) ns sel s))"
    and "\<And>p s. P s \<Longrightarrow> P (snd (ac_CreatePod (r_Client r) p s))"
    and "\<And>p s. P s \<Longrightarrow> P (snd (ac_DeletePod (r_Client r) p s))"
    and "P (w_api w)" "reconcileWorkerPool r c w = (x, w')"
  shows "P (w_api w')"
proof (cases "desired_worker r c")
  case (Inl e)
  with assms(4,5) show ?thesis by (simp add: reconcileWorkerPool_undesired)
next
  case (Inr d)
  obtain h t where d: "desired_worker r c = Inr (h, t)" using Inr by (cases d) auto
  have del: "P s'" if "P s" "ac_DeletePod (r_Client r) p s = (e, s')" for p s e s'
    using assms(3) [OF that(1), of p] that(2) by simp
  have cre: "P s'" if "P s" "ac_CreatePod (r_Client r) p s = (e, s')" for p s e s'
    using assms(2) [OF that(1), of p] that(2) by simp
  have list: "P (w_api v)" if "list_workers r c w = (y, v)" for y v
    using that assms(1) [OF assms(4)] by (auto simp: list_workers_def client_simps)
  have stale: "P (w_api v) \<Longrightarrow> P (w_api (snd (delete_stale r h ps active v)))" for ps active v
    by (induction ps arbitrary: active v)
      (auto simp: call_def client_simps split: prod.splits option.splits dest: del)
  have surplus: "P (w_api v) \<Longrightarrow> P (w_api (snd (delete_surplus r n active v)))" for n active v
  proof (induction n arbitrary: active v)
    case (Suc n)
    then show ?case
      by (cases active) (auto simp: call_def client_simps split: prod.splits option.splits dest: del)
  qed simp
  have create: "P (w_api (snd st)) \<Longrightarrow> P (w_api (snd (fold (create_piece r t) order st)))" for order st
    by (induction order arbitrary: st)
      (auto simp: create_piece_def call_def split: prod.splits sum.splits dest: cre)
  have scale: "P (w_api v) \<Longrightarrow> P (w_api (snd (scale_pool r c t active v)))" for active v
    using create [of "(_, v)"] surplus
    by (auto simp: scale_pool_def create_pods_def Let_def collect_created_eq split: prod.splits option.splits)
       (metis snd_conv)+
  obtain y w1 where l: "list_workers r c w = (y, w1)" by (metis surj_pair)
  with assms(5) scale stale [OF list [OF l]] list [OF l] show ?thesis
    by (auto simp: reconcileWorkerPool_eq [OF d] split: prod.splits sum.splits) (metis snd_conv)+
qed

definition graceful_world :: "pod list \<Rightarrow> pod_store world" where
  "graceful_world ps = \<lparr>w_api = \<lparr>g_pods = ps, g_cache = ps\<rparr>, w_calls = [], w_events = []\<rparr>"

definition caught_up :: "pod_store world \<Rightarrow> pod_store world" where
  "caught_up w = w\<lparr>w_api := (w_api w)\<lparr>g_cache := g_pods (w_api w)\<rparr>\<rparr>"

lemma graceful_list:
  "list_workers graceful_reconciler (sample_cluster n) w =
     (Inr (filter demo_worker (g_cache (w_api w))),
      w\<lparr>w_api := (w_api w)\<lparr>g_cache := g_pods (w_api w)\<rparr>,
        w_calls := w_calls w @ [ListPods ''ml'' (component_selector (sample_cluster n) componentWorker)]\<rparr>)"
  by (simp add: list_workers_def call_def)

definition well_named :: "pod_store \<Rightarrow> bool" where
  "well_named s = distinct (map (\<lambda>p. om_Name (pod_Meta p)) (g_pods s))"

lemma create_well_named: "well_named s \<Longrightarrow> well_named (snd (graceful_create p s))"
  using graceful_createD(1,2) [of p s "projr (fst (graceful_create p s))" "snd (graceful_create p s)"]
  by (cases "fst (graceful_create p s)")
    (auto simp: well_named_def graceful_create_def Let_def split: if_splits)

lemma delete_well_named: "well_named s \<Longrightarrow> well_named (snd (graceful_delete p s))"
proof -
  have "om_Name (pod_Meta (terminate_pod p q)) = om_Name (pod_Meta q)" for q by (simp add: terminate_pod_def)
  then show "well_named s \<Longrightarrow> ?thesis" by (simp add: well_named_def graceful_delete_def comp_def)
qed

lemma pool_well_named:
  assumes "well_named (w_api w)" "reconcileWorkerPool graceful_reconciler (sample_cluster n) w = (x, w')"
  shows "well_named (w_api w')"
  by (rule pool_keeps [where P = well_named, OF _ _ _ assms])
    (simp_all add: create_well_named delete_well_named, simp add: well_named_def graceful_client_def)

lemma graceful_up_to_date:
  "well_named s \<Longrightarrow> up_to_date ''ml'' (filter demo_worker (g_pods s)) (graceful_live s)"
  by (simp add: up_to_date_def graceful_live_def well_named_def distinct_map_filter)

definition gone_pod :: pod where "gone_pod = ready_pod ''b'' ''worker'' sample_hash"

lemma graceful_desired: "desired_worker graceful_reconciler c = desired_worker sample_reconciler c"
proof -
  have eqs: "r_Pods graceful_reconciler = r_Pods sample_reconciler"
    "r_SetControllerReference graceful_reconciler = r_SetControllerReference sample_reconciler" by simp_all
  show ?thesis unfolding desired_worker_def eqs ..
qed

lemma graceful_owner: "owner_laws graceful_reconciler c"
  using sample_owner_laws by (simp add: owner_laws_def)

theorem pool_converges_witness:
  "\<exists>st msg w' st' msg' w''. reconcileWorkerPool graceful_reconciler (sample_cluster 2)
       (graceful_world [ready_pod ''a'' ''worker'' ''old'', terminate_pod gone_pod gone_pod]) = (Inr (st, msg), w') \<and>
     settled sample_hash 2 (graceful_live (w_api w')) \<and>
     reconcileWorkerPool graceful_reconciler (sample_cluster 2) (caught_up w') = (Inr (st', msg'), w'') \<and>
     new_calls (caught_up w') w'' = [ListPods ''ml'' (component_selector (sample_cluster 2) componentWorker)] \<and>
     wps_Replicas st' = 2"
proof -
  let ?r = graceful_reconciler and ?c = "sample_cluster 2"
  let ?w = "graceful_world [ready_pod ''a'' ''worker'' ''old'', terminate_pod gone_pod gone_pod]"
  obtain t where d: "desired_worker ?r ?c = Inr (sample_hash, t)" and t: "om_Name (pod_Meta t) = []"
    unfolding graceful_desired by (simp add: sample_desired_worker sample_worker_def set_label_def)
  have a: "pods_accepted (r_Client ?r) t"
    using t by (simp add: pods_accepted_def graceful_create_def graceful_delete_def Let_def
        IgnoreNotFound_def not_found_def IsNotFound_def)
  have f: "pod_server (r_Client ?r) (cl_Namespace ?c) (component_selector ?c componentWorker) graceful_live"
    using graceful_pod_server by simp
  have n: "schedule_complete (r_Schedule ?r) n" for n by (auto simp: schedule_complete_def)
  have names: "well_named (w_api ?w)"
    by (simp add: well_named_def graceful_world_def gone_pod_def terminate_pod_def)
  have u: "up_to_date (cl_Namespace ?c) (filter demo_worker (g_cache (w_api ?w))) (graceful_live (w_api ?w))"
    using graceful_up_to_date [OF names] by (simp add: graceful_world_def)
  have wanted: "wanted ?c = 2" "0 \<le> wanted ?c" by simp_all
  note converge = pool_converges [OF f d graceful_owner wanted(2) n graceful_list u]
  from converge [THEN conjunct1] a obtain x w' where run: "reconcileWorkerPool ?r ?c ?w = (Inr x, w')" by blast
  note rests = converge [THEN conjunct2, rule_format, OF run]
  have "up_to_date (cl_Namespace ?c) (filter demo_worker (g_cache (w_api (caught_up w')))) (graceful_live (w_api w'))"
    using graceful_up_to_date [OF pool_well_named [OF names run]] by (simp add: caught_up_def)
  note again = rests [THEN conjunct2, rule_format, OF graceful_list this]
  have "cl_Namespace ?c = ''ml''" "wp_Replicas (spec_WorkerPool (cl_Spec ?c)) = 2" by simp_all
  then show ?thesis
    using run rests [THEN conjunct1] again unfolding wanted(1) by (metis surj_pair)
qed

end
