(* ===== verification/Steady_State.thy ===== *)
theory Steady_State
  imports Step_Properties
begin

text \<open>
  The operator at rest. \<open>steady\<close> describes a set of server states in which a cluster is as its spec
  wants it and which the calls made for such a cluster do not leave; a reconcile that starts there
  creates and deletes no pod and creates no Service, whatever else happens.
\<close>

fun harmless :: "api_call \<Rightarrow> bool" where
  "harmless (CreatePod p) = False"
| "harmless (DeletePod p) = False"
| "harmless (CreateService v) = False"
| "harmless _ = True"

text \<open>
  The answers: the scheduler pod exists and is of the current template (or terminating), no worker is
  stale and the current ones are as many as wanted, and every wanted Service exists.
\<close>

definition steady_answers :: "'s reconciler \<Rightarrow> PolarsCluster \<Rightarrow> ('s \<Rightarrow> bool) \<Rightarrow> 's \<Rightarrow> bool" where
  "steady_answers r c S s \<longleftrightarrow>
     (\<forall>a. S (snd (ac_CreateServiceAccount (r_Client r) a s))) \<and>
     (\<forall>p. desired_scheduler r c = Inr p \<longrightarrow>
        (\<exists>q s'. ac_GetPod (r_Client r) (cl_Namespace c) (schedulerPodName c) s = (Inr q, s') \<and> S s' \<and>
           \<not> stale (label_of p templateHashLabel) q)) \<and>
     (\<forall>d \<in> set (desired_services c). \<exists>e s'.
        ac_GetService (r_Client r) (cl_Namespace c) (ds_Name d) s = (Inr e, s') \<and> S s') \<and>
     (\<forall>v. S (snd (ac_UpdateService (r_Client r) v s))) \<and>
     (\<forall>h t. desired_worker r c = Inr (h, t) \<longrightarrow>
        (\<exists>ps s'. ac_ListPods (r_Client r) (cl_Namespace c) (component_selector c componentWorker) s = (Inr ps, s') \<and>
           filter (stale h) ps = [] \<and> int (length (filter (current h) ps)) = wanted c))"

text \<open>For the cluster with whatever status: a reconcile changes it on the way.\<close>

definition steady :: "'s reconciler \<Rightarrow> PolarsCluster \<Rightarrow> ('s \<Rightarrow> bool) \<Rightarrow> bool" where
  "steady r c S \<longleftrightarrow> (\<forall>c' s. same_cluster c c' \<longrightarrow> S s \<longrightarrow> steady_answers r c' S s)"

lemma steadyD:
  assumes "steady r c S" "same_cluster c c'" "S s"
  shows "S (snd (ac_CreateServiceAccount (r_Client r) a s))"
    and "desired_scheduler r c' = Inr p \<Longrightarrow>
      \<exists>q s'. ac_GetPod (r_Client r) (cl_Namespace c') (schedulerPodName c') s = (Inr q, s') \<and> S s' \<and>
         \<not> stale (label_of p templateHashLabel) q"
    and "d \<in> set (desired_services c') \<Longrightarrow>
      \<exists>e s'. ac_GetService (r_Client r) (cl_Namespace c') (ds_Name d) s = (Inr e, s') \<and> S s'"
    and "S (snd (ac_UpdateService (r_Client r) v s))"
    and "desired_worker r c' = Inr (h, t) \<Longrightarrow>
      \<exists>ps s'. ac_ListPods (r_Client r) (cl_Namespace c') (component_selector c' componentWorker) s = (Inr ps, s') \<and>
         filter (stale h) ps = [] \<and> int (length (filter (current h) ps)) = wanted c'"
  using assms unfolding steady_def steady_answers_def by blast+

section \<open>The steps\<close>

lemma accounts_steady:
  assumes "steady r c S" "same_cluster c c'" "S (w_api w)"
    and "reconcilePolarsClusterServiceAccounts r c' w = (e, w')"
  shows "extends harmless w w'" "S (w_api w')"
proof -
  have "harmless k" if "accounts_call r c' k" for k
    using that by (cases k) (auto simp: accounts_call_def)
  then show "extends harmless w w'"
    using accounts_step.run_within [of "(r, c')" harmless w] assms(4) by simp
  have one: "S (w_api (snd (reconcileServiceAccount r c' k n spec w)))" if "S (w_api w)" for k n spec w
    using steadyD(1) [OF assms(1,2) that]
    by (auto simp: reconcileServiceAccount_def Let_def client_simps that split: sum.splits prod.splits option.splits)
  let ?sn = "resolveServiceAccountName (schedulerServiceAccountSpec c') (schedulerServiceAccountName c')"
  obtain e1 w1 where w1: "reconcileServiceAccount r c' componentScheduler ?sn (schedulerServiceAccountSpec c') w = (e1, w1)"
    by (metis surj_pair)
  then have "S (w_api w1)" using one [OF assms(3)] by (metis snd_conv)
  then show "S (w_api w')"
    using assms(4) w1 one [of w1]
    by (cases e1) (simp_all add: reconcilePolarsClusterServiceAccounts_def Let_def, metis snd_conv)
qed

lemma scheduler_steady:
  assumes "steady r c S" "same_cluster c c'" "S (w_api w)" "reconcileScheduler r c' w = (x, w')"
  shows "extends harmless w w'" "S (w_api w')"
proof (atomize (full), cases "desired_scheduler r c'")
  case (Inl e)
  then show "extends harmless w w' \<and> S (w_api w')"
    using assms(3,4) by (simp add: reconcileScheduler_undesired)
next
  case (Inr p)
  obtain q s' where q: "ac_GetPod (r_Client r) (cl_Namespace c') (schedulerPodName c') (w_api w) = (Inr q, s')"
    "S s'" "\<not> stale (label_of p templateHashLabel) q"
    using steadyD(2) [OF assms(1-3) Inr] by blast
  obtain w1 where w1: "read_scheduler r c' w = (Inr q, w1)" "w_api w1 = s'"
    using q(1) by (simp add: read_scheduler_def call_def)
  moreover have "extends harmless w w1"
    using w1(1) unfolding read_scheduler_def by (rule extends_call_eq) (simp add: scheduler_read_def)
  ultimately show "extends harmless w w' \<and> S (w_api w')"
    using reconcileScheduler_kept [OF Inr w1(1) q(3)] assms(4) q(2) by simp
qed

lemma services_steady:
  assumes "steady r c S" "same_cluster c c'" "S (w_api w)" "reconcileServices r c' w = (e, w')"
  shows "extends harmless w w'" "S (w_api w')"
proof -
  let ?P = "\<lambda>(i :: nat) phase. \<forall>v. phase \<noteq> SvcCreate v"
  let ?R = "\<lambda>w1. extends harmless w w1 \<and> S (w_api w1)"
  have turn: "?P i (fst (services_turn r c' i phase w1)) \<and> ?R (snd (services_turn r c' i phase w1))"
    if "i < 3" "?P i phase" "?R w1" for i phase w1
  proof -
    note here = that
    show ?thesis
    proof (cases phase)
      case SvcStart
      let ?n = "ds_Name (desired_services c' ! i)"
      obtain v s' where g: "ac_GetService (r_Client r) (cl_Namespace c') ?n (w_api w1) = (Inr v, s')" "S s'"
        using steadyD(3) [OF assms(1,2)] here(1,3) by (metis length_desired_services nth_mem)
      define w2 where "w2 = w1\<lparr>w_api := s', w_calls := w_calls w1 @ [GetService (cl_Namespace c') ?n]\<rparr>"
      have y: "w_api w2 = s'"
        "call (GetService (cl_Namespace c') ?n) (ac_GetService (r_Client r) (cl_Namespace c') ?n) w1 = (Inr v, w2)"
        using g(1) by (simp_all add: w2_def call_def)
      moreover have "extends harmless w w2"
        by (rule extends_step [OF conjunct1 [OF here(3)] y(2)]) simp
      ultimately show ?thesis
        using SvcStart g(2) by (simp add: services_turn_def service_step_def)
    next
      case (SvcUpdate v)
      then show ?thesis
        using here(3) steadyD(4) [OF assms(1,2)]
        by (auto simp: services_turn_def service_step_def client_simps split: prod.splits elim!: extends_step)
    qed (use here in \<open>simp_all add: services_turn_def service_step_def\<close>)
  qed
  have "?R (snd (turns (services_turn r c') (r_Interleaving r 3) (replicate 3 SvcStart, w)))"
    using turns_invariant [where P = ?P and R = ?R and n = 3, OF turn] assms(3) by simp
  then show "extends harmless w w'" "S (w_api w')"
    using assms(4) by (auto simp: reconcileServices_def split: prod.splits)
qed

lemma pool_steady:
  assumes "steady r c S" "same_cluster c c'" "S (w_api w)" "reconcileWorkerPool r c' w = (x, w')"
  shows "extends harmless w w'"
proof (cases "desired_worker r c'")
  case (Inl e)
  then show ?thesis using assms(4) by (simp add: reconcileWorkerPool_undesired)
next
  case (Inr ht)
  obtain h t where Inr: "desired_worker r c' = Inr (h, t)" using Inr by (cases ht) simp
  obtain ps s' where ps:
    "ac_ListPods (r_Client r) (cl_Namespace c') (component_selector c' componentWorker) (w_api w) = (Inr ps, s')"
    "filter (stale h) ps = []" "int (length (filter (current h) ps)) = wanted c'"
    using steadyD(5) [OF assms(1-3) Inr] by blast
  obtain w1 where w1: "list_workers r c' w = (Inr ps, w1)"
    using ps(1) by (simp add: list_workers_def call_def)
  then have "extends harmless w w1"
    unfolding list_workers_def by (rule extends_call_eq) simp
  then show ?thesis
    using settled_pool_step [OF Inr w1 ps(2,3)] assms(4) by simp
qed

lemma routes_harmless: "reconcileRoutes r c w = (x, w') \<Longrightarrow> extends harmless w w'"
proof -
  assume "reconcileRoutes r c w = (x, w')"
  moreover have "harmless k" if "route_call r c k" for k using that by (cases k) auto
  ultimately show ?thesis using routes_step.run_within [of "(r, c)" harmless w] by simp
qed

section \<open>The reconcile\<close>

definition adds_harmless :: "'s world \<Rightarrow> 's world \<Rightarrow> bool" where
  "adds_harmless w w' \<longleftrightarrow> (\<exists>ks. w_calls w' = w_calls w @ ks \<and> list_all harmless ks)"

lemma adds_harmless_trans: "adds_harmless w w1 \<Longrightarrow> adds_harmless w1 w2 \<Longrightarrow> adds_harmless w w2"
  by (auto simp: adds_harmless_def)

lemma adds_harmless_extends: "extends harmless w w' \<Longrightarrow> adds_harmless w w'"
  by (auto simp: extends_def adds_harmless_def new_calls_def prefix_def)

lemma step_error_harmless: "step_error r c t err w = (x, w') \<Longrightarrow> adds_harmless w w'"
  using recordSpecError_write [of r c t _ w]
  by (fastforce simp: step_error_def adds_harmless_def split: option.splits)

lemma finish_reconcile_harmless: "finish_reconcile r c wr st msg pr wmsg routes w = (x, w') \<Longrightarrow> adds_harmless w w'"
  using finish_reconcile_write by (fastforce simp: adds_harmless_def)

lemma reconcile_tail_harmless:
  assumes "steady r c S" "same_cluster c d" "S (w_api w)" "reads_as r d d'"
    and "reconcile_tail r d' wr st msg w = (x, w')"
  shows "adds_harmless w w'"
proof -
  obtain ec wc where c: "reconcileServices r d w = (ec, wc)" by (metis surj_pair)
  obtain xd wd where d: "reconcileWorkerPool r d wc = (xd, wd)" by (metis surj_pair)
  note hc = adds_harmless_extends [OF services_steady(1) [OF assms(1-3) c]]
  note hd = adds_harmless_trans [OF hc adds_harmless_extends
      [OF pool_steady [OF assms(1,2) services_steady(2) [OF assms(1-3) c] d]]]
  note he = adds_harmless_trans [OF hd adds_harmless_extends [OF routes_harmless]]
  show ?thesis
    using assms(5) c d reads_asD [OF assms(4)]
    by (auto simp: reconcile_tail_def Let_def split: option.splits sum.splits prod.splits
        dest!: step_error_harmless finish_reconcile_harmless
        intro: adds_harmless_trans [OF hc] adds_harmless_trans [OF hd] adds_harmless_trans [OF he] he)
qed

lemma reconcile_body_harmless:
  assumes "steady r c S" "S (w_api w)" "reconcile_body r c w = (x, w')"
  shows "adds_harmless w w'"
proof -
  have same: "same_cluster c c" by simp
  obtain ea wa where a: "reconcilePolarsClusterServiceAccounts r c w = (ea, wa)" by (metis surj_pair)
  obtain xb wb where b: "reconcileScheduler r c wa = (xb, wb)" by (metis surj_pair)
  note sa = accounts_steady [OF assms(1) same assms(2) a]
  note sb = scheduler_steady [OF assms(1) same sa(2) b]
  note ha = adds_harmless_extends [OF sa(1)]
  note hb = adds_harmless_trans [OF ha adds_harmless_extends [OF sb(1)]]
  have tail: "adds_harmless w w'"
    if "reconcile_tail r (note_scheduler r st msg (scheduler_labelled (r_Pods r) c)) wr st msg wb = (x, w')"
    for st msg wr
    by (rule adds_harmless_trans [OF hb reconcile_tail_harmless
          [OF assms(1) _ sb(2) note_scheduler_reads_as that]]) simp
  show ?thesis
    using assms(3) a b
    by (auto simp: reconcile_body_def split: option.splits sum.splits dest!: step_error_harmless
        intro: adds_harmless_trans [OF ha] adds_harmless_trans [OF hb] tail)
qed

text \<open>
  C5: A cluster at rest is left alone. When the server is in a state in which the cluster's scheduler pod
  is there and of the current template, its workers are as many as wanted and none is stale, and its
  Services exist, and the calls made for such a cluster do not change that, a reconcile creates and
  deletes no pod and creates no Service, whatever the rest of its calls answer and however it ends.
\<close>

theorem reconcile_at_rest_is_harmless:
  assumes "read_cluster r ns name w = (Inr c, w1)" and "S (w_api w1)" and "steady r c S"
    and "Reconcile vl vv r ns name w = (res, w')"
  shows "list_all harmless (new_calls w w')"
proof -
  have "adds_harmless w1 w'"
    using assms(4) reconcile_body_harmless [OF assms(3,2)] recordSpecError_write
    unfolding Reconcile_version [OF assms(1)]
    by (fastforce simp: adds_harmless_def split: sum.splits)
  then show ?thesis
    using read_cluster_calls [OF assms(1)] by (auto simp: adds_harmless_def new_calls_def added_def)
qed

text \<open>The server after a first reconcile of the sample: its scheduler is current, its Services exist.\<close>

definition resting :: "store \<Rightarrow> bool" where
  "resting s \<longleftrightarrow>
     s_pods s = [ready_pod ''demo-scheduler'' ''scheduler'' sample_hash] \<and>
     (\<forall>n \<in> set [''demo-scheduler'', ''demo-scheduler-internal'', ''demo-observatory'']. s_services s n \<noteq> None)"

lemma sample_service_names:
  "ds_Name ` set (desired_services (sample_with n s)) =
     set [''demo-scheduler'', ''demo-scheduler-internal'', ''demo-observatory'']"
  unfolding list.set_map [symmetric] desired_services_names
  by (simp add: schedulerServiceName_def schedulerInternalServiceName_def observatoryServiceName_def)

lemma sample_steady: "steady sample_reconciler (sample_cluster 0) resting"
proof -
  let ?p = "ready_pod ''demo-scheduler'' ''scheduler'' sample_hash"
  have "steady_answers sample_reconciler (sample_with 0 st) resting s" if s: "resting s" for st s
    unfolding steady_answers_def
  proof (intro conjI allI impI ballI)
    show "resting (snd (ac_CreateServiceAccount (r_Client sample_reconciler) a s))" for a
      using s by (simp add: sample_client_def resting_def)
    show "resting (snd (ac_UpdateService (r_Client sample_reconciler) v s))" for v
      using s by (simp add: sample_client_def resting_def)
  next
    fix p assume "desired_scheduler sample_reconciler (sample_with 0 st) = Inr p"
    then have p: "label_of p templateHashLabel = sample_hash"
      by (auto simp: sample_desired_scheduler sample_scheduler_def)
    have "ac_GetPod (r_Client sample_reconciler) (cl_Namespace (sample_with 0 st))
        (schedulerPodName (sample_with 0 st)) s = (Inr ?p, s)"
      using s by (simp add: resting_def sample_client_def store_get_pod_def ready_pod_def schedulerPodName_def)
    moreover have "\<not> stale sample_hash ?p"
      by (simp add: stale_def label_of_def ready_pod_def templateHashLabel_def)
    ultimately show "\<exists>q s'. ac_GetPod (r_Client sample_reconciler) (cl_Namespace (sample_with 0 st))
        (schedulerPodName (sample_with 0 st)) s = (Inr q, s') \<and> resting s' \<and>
        \<not> stale (label_of p templateHashLabel) q"
      using s unfolding p by auto
  next
    fix d assume "d \<in> set (desired_services (sample_with 0 st))"
    then have "ds_Name d \<in> set [''demo-scheduler'', ''demo-scheduler-internal'', ''demo-observatory'']"
      unfolding sample_service_names [of 0 st, symmetric] by simp
    then obtain v where "s_services s (ds_Name d) = Some v"
      using s unfolding resting_def by fast
    then show "\<exists>e s'. ac_GetService (r_Client sample_reconciler) (cl_Namespace (sample_with 0 st)) (ds_Name d) s
        = (Inr e, s') \<and> resting s'"
      using s by (simp add: sample_client_def get_from_def)
  next
    fix h t assume "desired_worker sample_reconciler (sample_with 0 st) = Inr (h, t)"
    have "ac_ListPods (r_Client sample_reconciler) (cl_Namespace (sample_with 0 st))
        (component_selector (sample_with 0 st) componentWorker) s = (Inr [], s)"
      using s by (simp add: resting_def sample_client_def store_list_pods_def ready_pod_def
          component_selector_def componentLabel_def clusterLabel_def componentWorker_def)
    then show "\<exists>ps s'. ac_ListPods (r_Client sample_reconciler) (cl_Namespace (sample_with 0 st))
        (component_selector (sample_with 0 st) componentWorker) s = (Inr ps, s') \<and>
        filter (stale h) ps = [] \<and> int (length (filter (current h) ps)) = wanted (sample_with 0 st)"
      by (simp add: wanted_def)
  qed
  then show ?thesis
    unfolding steady_def using sample_same by metis
qed

definition resting_world :: "store world" where
  "resting_world =
     \<lparr>w_api = (sample_store 0 [ready_pod ''demo-scheduler'' ''scheduler'' sample_hash])
        \<lparr>s_services := (\<lambda>n. Some \<lparr>svc_Meta = zero_object_meta\<lparr>om_Name := n\<rparr>,
            svc_Spec = \<lparr>ss_Type = ''ClusterIP'', ss_ClusterIP = [], ss_Ports = [],
              ss_Selector = scheduler_selector (sample_cluster 0), ss_PublishNotReadyAddresses = True,
              ss_Other = []\<rparr>\<rparr>)\<rparr>,
      w_calls = [], w_events = []\<rparr>"

theorem reconcile_at_rest_is_harmless_witness:
  "list_all harmless (new_calls resting_world
     (snd (Reconcile sample_versions sample_limits sample_reconciler ''ml'' ''demo'' resting_world)))"
proof -
  obtain x w1 where r: "read_cluster sample_reconciler ''ml'' ''demo'' resting_world = (x, w1)" by (metis surj_pair)
  then have "x = Inr (sample_cluster 0)" "resting (w_api w1)"
    by (auto simp: read_cluster_def client_simps sample_client_def resting_world_def sample_store_def resting_def)
  with reconcile_at_rest_is_harmless [OF _ _ sample_steady prod.collapse [symmetric]] r show ?thesis
    by blast
qed

end
