(* ===== verification/Operator_Main.thy ===== *)
theory Operator_Main
  imports Step_Properties
begin

text \<open>
  \<open>cmd/main.go\<close> and \<open>SetupWithManager\<close>: the command-line options with their defaults, the options of the
  webhook and metrics servers, and the start of the operator up to the running manager. The flag
  package's parsing is the library's, so the functions start from the parsed options. The manager is
  the library's too: \<open>manager_lib\<close> holds the functions of it that \<open>main\<close> calls, each of which may change
  the manager or fail. Log output is left out.
\<close>

section \<open>Options\<close>

record options =
  metricsAddr :: string
  probeAddr :: string
  enableLeaderElection :: bool
  secureMetrics :: bool
  webhookCertPath :: string
  webhookCertName :: string
  webhookCertKey :: string
  metricsCertPath :: string
  metricsCertName :: string
  metricsCertKey :: string
  enableHTTP2 :: bool

definition default_options :: options where
  "default_options =
     \<lparr>metricsAddr = ''0'', probeAddr = '':8081'', enableLeaderElection = False, secureMetrics = True,
      webhookCertPath = [], webhookCertName = ''tls.crt'', webhookCertKey = ''tls.key'',
      metricsCertPath = [], metricsCertName = ''tls.crt'', metricsCertKey = ''tls.key'',
      enableHTTP2 = False\<rparr>"

text \<open>The part of a \<open>tls.Config\<close> the operator sets.\<close>

record tls_config =
  NextProtos :: "string list"

definition disableHTTP2 :: "tls_config \<Rightarrow> tls_config" where
  "disableHTTP2 c = c\<lparr>NextProtos := [''http/1.1'']\<rparr>"

definition tlsOpts :: "options \<Rightarrow> (tls_config \<Rightarrow> tls_config) list" where
  "tlsOpts opts = (if \<not> enableHTTP2 opts then [] @ [disableHTTP2] else [])"

record server_options =
  so_BindAddress :: string
  so_SecureServing :: bool
  so_TLSOpts :: "(tls_config \<Rightarrow> tls_config) list"
  so_FilterProvider :: "string option"
  so_CertDir :: string
  so_CertName :: string
  so_KeyName :: string

definition zero_server_options :: server_options where
  "zero_server_options =
     \<lparr>so_BindAddress = [], so_SecureServing = False, so_TLSOpts = [], so_FilterProvider = None,
      so_CertDir = [], so_CertName = [], so_KeyName = []\<rparr>"

definition webhookServerOptions :: "options \<Rightarrow> server_options" where
  "webhookServerOptions opts =
     (let o1 = zero_server_options\<lparr>so_TLSOpts := tlsOpts opts\<rparr> in
      if length (webhookCertPath opts) > 0
      then o1\<lparr>so_CertDir := webhookCertPath opts, so_CertName := webhookCertName opts,
              so_KeyName := webhookCertKey opts\<rparr>
      else o1)"

definition metricsServerOptions :: "options \<Rightarrow> server_options" where
  "metricsServerOptions opts =
     (let o1 = zero_server_options\<lparr>so_BindAddress := metricsAddr opts,
                 so_SecureServing := secureMetrics opts, so_TLSOpts := tlsOpts opts\<rparr>;
          o1 = (if secureMetrics opts
                then o1\<lparr>so_FilterProvider := Some ''WithAuthenticationAndAuthorization''\<rparr> else o1)
      in if length (metricsCertPath opts) > 0
         then o1\<lparr>so_CertDir := metricsCertPath opts, so_CertName := metricsCertName opts,
                 so_KeyName := metricsCertKey opts\<rparr>
         else o1)"

record manager_options =
  mo_Metrics :: server_options
  mo_WebhookServer :: server_options
  mo_HealthProbeBindAddress :: string
  mo_LeaderElection :: bool
  mo_LeaderElectionID :: string

definition managerOptions :: "options \<Rightarrow> manager_options" where
  "managerOptions opts =
     \<lparr>mo_Metrics = metricsServerOptions opts, mo_WebhookServer = webhookServerOptions opts,
      mo_HealthProbeBindAddress = probeAddr opts, mo_LeaderElection = enableLeaderElection opts,
      mo_LeaderElectionID = ''0fa7f801.pola.rs''\<rparr>"

section \<open>The controller's watches\<close>

datatype object_kind = KPolarsCluster | KPod | KService | KServiceAccount | KRoute route_kind

text \<open>What \<open>SetupWithManager\<close> hands to the controller builder.\<close>

record controller_setup =
  cs_For :: object_kind
  cs_Owns :: "object_kind list"
  cs_Named :: string

definition SetupWithManager :: "bool \<Rightarrow> controller_setup" where
  "SetupWithManager gatewayAPIEnabled =
     (let builder = \<lparr>cs_For = KPolarsCluster, cs_Owns = [KPod, KService, KServiceAccount], cs_Named = []\<rparr>;
          builder = (if gatewayAPIEnabled
                     then builder\<lparr>cs_Owns := cs_Owns builder @ [KRoute GRPCRoute, KRoute HTTPRoute]\<rparr>
                     else builder)
      in builder\<lparr>cs_Named := ''polarscluster''\<rparr>)"

section \<open>Starting the operator\<close>

record 'm manager_lib =
  ml_NewManager :: "manager_options \<Rightarrow> 'm result"
  ml_IsNoMatchError :: "go_error \<Rightarrow> bool"
  ml_RESTMapping :: "'m \<Rightarrow> string \<Rightarrow> go_error option"
  ml_Complete :: "controller_setup \<Rightarrow> 'm \<Rightarrow> go_error option \<times> 'm"
  ml_AddHealthzCheck :: "string \<Rightarrow> 'm \<Rightarrow> go_error option \<times> 'm"
  ml_AddReadyzCheck :: "string \<Rightarrow> 'm \<Rightarrow> go_error option \<times> 'm"
  ml_Start :: "'m \<Rightarrow> go_error option \<times> 'm"

text \<open>How \<open>main\<close> ends: \<open>os.Exit(1)\<close> after a logged failure, or by returning.\<close>

datatype 'm outcome = Exit1 string go_error | Returned 'm

definition operator_main :: "'m manager_lib \<Rightarrow> options \<Rightarrow> 'm outcome" where
  "operator_main ml opts =
     (case ml_NewManager ml (managerOptions opts) of
        Inl err \<Rightarrow> Exit1 ''Failed to start manager'' err
      | Inr mgr \<Rightarrow>
     (case GatewayAPIInstalled (ml_IsNoMatchError ml) (ml_RESTMapping ml mgr) of
        Inl err \<Rightarrow> Exit1 ''Failed to discover the Gateway API'' err
      | Inr gatewayAPIEnabled \<Rightarrow>
     (case ml_Complete ml (SetupWithManager gatewayAPIEnabled) mgr of
        (Some err, mgr) \<Rightarrow> Exit1 ''Failed to create controller'' err
      | (None, mgr) \<Rightarrow>
     (case ml_AddHealthzCheck ml ''healthz'' mgr of
        (Some err, mgr) \<Rightarrow> Exit1 ''Failed to set up health check'' err
      | (None, mgr) \<Rightarrow>
     (case ml_AddReadyzCheck ml ''readyz'' mgr of
        (Some err, mgr) \<Rightarrow> Exit1 ''Failed to set up ready check'' err
      | (None, mgr) \<Rightarrow>
     (case ml_Start ml mgr of
        (Some err, mgr) \<Rightarrow> Exit1 ''Failed to run manager'' err
      | (None, mgr) \<Rightarrow> Returned mgr))))))"

section \<open>What holds of the start\<close>

lemma kinds_installed_eq:
  "kinds_installed nm mapper kinds =
     (case find (\<lambda>k. mapper k \<noteq> None) kinds of
        None \<Rightarrow> Inr True
      | Some k \<Rightarrow> if nm (the (mapper k)) then Inr False else Inl (the (mapper k)))"
  by (induction kinds) (auto split: option.splits)

text \<open>
  No server of the operator speaks HTTP/2 unless it was asked to, and metrics served securely are
  never served to the anonymous. Whatever TLS configuration the metrics and the webhook server start
  from, their options leave HTTP/1.1 as the only protocol when the flag is off and the configuration as
  it was when it is on; the authentication filter is there exactly for secure serving; and the
  defaults are the safe ones.
\<close>

theorem servers_are_hardened:
  "NextProtos (fold (\<lambda>f. f) (so_TLSOpts (mo_Metrics (managerOptions opts))) cfg)
     = (if enableHTTP2 opts then NextProtos cfg else [''http/1.1'']) \<and>
   so_TLSOpts (mo_WebhookServer (managerOptions opts)) = so_TLSOpts (mo_Metrics (managerOptions opts)) \<and>
   (so_FilterProvider (mo_Metrics (managerOptions opts)) \<noteq> None)
     = so_SecureServing (mo_Metrics (managerOptions opts)) \<and>
   so_SecureServing (mo_Metrics (managerOptions opts)) = secureMetrics opts \<and>
   secureMetrics default_options \<and> \<not> enableHTTP2 default_options"
  by (simp add: managerOptions_def metricsServerOptions_def webhookServerOptions_def tlsOpts_def
        disableHTTP2_def zero_server_options_def default_options_def Let_def)

text \<open>
  C39: The operator runs only completely set up. \<open>main\<close> returns exactly when the manager was built, the
  discovery of the Gateway API gave an answer, the controller and both probes were added in this order
  and the manager ran to its end without an error; a missing route kind is an answer (off), any other
  discovery failure is not.
\<close>

theorem operator_starts_completely:
  "(operator_main ml opts = Returned mgr') =
   (\<exists>mgr gw m1 m2 m3. ml_NewManager ml (managerOptions opts) = Inr mgr \<and>
      (case find (\<lambda>k. ml_RESTMapping ml mgr k \<noteq> None) [''GRPCRoute'', ''HTTPRoute''] of
         None \<Rightarrow> gw = True
       | Some k \<Rightarrow> ml_IsNoMatchError ml (the (ml_RESTMapping ml mgr k)) \<and> gw = False) \<and>
      ml_Complete ml (SetupWithManager gw) mgr = (None, m1) \<and>
      ml_AddHealthzCheck ml ''healthz'' m1 = (None, m2) \<and> ml_AddReadyzCheck ml ''readyz'' m2 = (None, m3) \<and>
      ml_Start ml m3 = (None, mgr'))"
proof (cases "ml_NewManager ml (managerOptions opts)")
  case (Inl e)
  then show ?thesis by (simp add: operator_main_def)
next
  case (Inr mgr)
  have gw: "(GatewayAPIInstalled (ml_IsNoMatchError ml) (ml_RESTMapping ml mgr) = Inr gw) =
      (case find (\<lambda>k. ml_RESTMapping ml mgr k \<noteq> None) [''GRPCRoute'', ''HTTPRoute''] of
         None \<Rightarrow> gw = True
       | Some k \<Rightarrow> ml_IsNoMatchError ml (the (ml_RESTMapping ml mgr k)) \<and> gw = False)" for gw
    unfolding GatewayAPIInstalled_def kinds_installed_eq by (auto split: option.splits)
  have "(operator_main ml opts = Returned mgr') =
      (\<exists>gw m1 m2 m3. GatewayAPIInstalled (ml_IsNoMatchError ml) (ml_RESTMapping ml mgr) = Inr gw \<and>
        ml_Complete ml (SetupWithManager gw) mgr = (None, m1) \<and>
        ml_AddHealthzCheck ml ''healthz'' m1 = (None, m2) \<and> ml_AddReadyzCheck ml ''readyz'' m2 = (None, m3) \<and>
        ml_Start ml m3 = (None, mgr'))"
    by (auto simp: operator_main_def Inr split: sum.splits prod.splits option.splits)
  with Inr gw show ?thesis by simp
qed

section \<open>What the controller watches\<close>

fun written_kind :: "api_call \<Rightarrow> object_kind option" where
  "written_kind (CreatePod p) = Some KPod"
| "written_kind (CreateService s) = Some KService"
| "written_kind (UpdateService s) = Some KService"
| "written_kind (CreateServiceAccount a) = Some KServiceAccount"
| "written_kind (CreateOrUpdateRoute rt) = Some (KRoute (rt_Kind rt))"
| "written_kind (UpdateStatus c) = Some KPolarsCluster"
| "written_kind _ = None"

text \<open>
  C34: Whatever a reconcile writes, the controller is told about: every object it creates or updates is
  of a kind \<open>SetupWithManager\<close> watches for a controller with the same Gateway API flag, so a change of
  it by someone else starts a reconcile.
\<close>

theorem written_kinds_are_watched:
  assumes "Reconcile vl vv r ns name w = (res, w')" "k \<in> set (new_calls w w')" "written_kind k = Some kd"
  shows "kd \<in> set (cs_For (SetupWithManager (r_GatewayAPIEnabled r)) # cs_Owns (SetupWithManager (r_GatewayAPIEnabled r)))"
proof -
  from Reconcile_calls [OF assms(1)] obtain ks us where
    eq: "new_calls w w' = GetCluster ns name # ks @ us"
    and calls: "ks @ us \<noteq> [] \<longrightarrow> (\<exists>c w1. read_cluster r ns name w = (Inr c, w1) \<and>
        list_all (reconcile_call r c) ks \<and> list_all (status_write r c) us \<and> length us \<le> 1)" by blast
  have "k \<noteq> GetCluster ns name" using assms(3) by auto
  with eq assms(2) have k: "k \<in> set (ks @ us)" by simp
  then have "ks @ us \<noteq> []" by auto
  with calls k obtain c where "reconcile_call r c k \<or> status_write r c k" by (auto simp: list_all_iff)
  then have "(\<exists>rt. k = CreateOrUpdateRoute rt) \<longrightarrow> r_GatewayAPIEnabled r"
    by (auto simp: reconcile_call_def accounts_call_def status_write_def)
  moreover have "rt_Kind rt = GRPCRoute \<or> rt_Kind rt = HTTPRoute" for rt :: route
    by (cases "rt_Kind rt") simp_all
  ultimately show ?thesis
    using assms(3) by (cases k) (auto simp: SetupWithManager_def Let_def)
qed

theorem written_kinds_are_watched_witness:
  "KPolarsCluster \<in> set (cs_For (SetupWithManager True) # cs_Owns (SetupWithManager True))"
  using written_kinds_are_watched [OF sample_run sample_run_writes] by simp

end
