(* ===== verification/Operator_Run.thy ===== *)
theory Operator_Run
  imports Operator_Main
begin

text \<open>
  The operator over time. Reconciles follow one another for any clusters in any order, and between
  them the state of the API server changes at will: users edit specs, kubelets report, other
  controllers interfere. The histories are the reachable worlds of an inductive step relation, and
  what holds of every call of a reconcile holds of every call ever made.
\<close>

inductive operator_step ::
  "'v version_lib \<Rightarrow> 'v version_vars \<Rightarrow> 's reconciler \<Rightarrow> 's world \<Rightarrow> 's world \<Rightarrow> bool"
  for vl vv r where
  reconciled: "Reconcile vl vv r ns name w = (res, w') \<Longrightarrow> operator_step vl vv r w w'"
| changed: "operator_step vl vv r w (w\<lparr>w_api := s\<rparr>)"

inductive operator_history ::
  "'v version_lib \<Rightarrow> 'v version_vars \<Rightarrow> 's reconciler \<Rightarrow> 's world \<Rightarrow> bool"
  for vl vv r where
  started: "w_calls w = [] \<Longrightarrow> operator_history vl vv r w"
| continued: "operator_history vl vv r w \<Longrightarrow> operator_step vl vv r w w' \<Longrightarrow> operator_history vl vv r w'"

section \<open>Lawful calls\<close>

text \<open>
  What may be asked of the API server, whoever the cluster is. A status is written for the generation it
  was computed from, and is Ready only with all its parts; a created object is owned by a cluster;
  a terminating pod is not deleted again, and a route only by its controller.
\<close>

definition owned_meta :: "'s reconciler \<Rightarrow> object_meta \<Rightarrow> bool" where
  "owned_meta r m' \<longleftrightarrow> (\<exists>(c :: PolarsCluster) m. r_SetControllerReference r (cl_Meta c) m = Inr m')"

definition consistent_status :: "'s reconciler \<Rightarrow> PolarsCluster \<Rightarrow> bool" where
  "consistent_status r c \<longleftrightarrow>
     st_ObservedGeneration (cl_Status c) = cl_Generation c \<and>
     (cond_true r c conditionReady \<longrightarrow>
        cond_true r c conditionSchedulerReady \<and> cond_true r c conditionWorkerPoolReady \<and>
        (route_requested c \<longrightarrow> cond_true r c conditionRoutesReady))"

fun lawful_call :: "'s reconciler \<Rightarrow> api_call \<Rightarrow> bool" where
  "lawful_call r (UpdateStatus c) \<longleftrightarrow> consistent_status r c"
| "lawful_call r (CreatePod p) \<longleftrightarrow> owned_meta r (pod_Meta p)"
| "lawful_call r (CreateService s) \<longleftrightarrow> owned_meta r (svc_Meta s)"
| "lawful_call r (CreateServiceAccount a) \<longleftrightarrow> owned_meta r (sa_Meta a)"
| "lawful_call r (DeletePod p) \<longleftrightarrow> \<not> terminating p"
| "lawful_call r (DeleteRoute rt) \<longleftrightarrow> (\<exists>c :: PolarsCluster. r_IsControlledBy r (rt_Meta rt) (cl_Meta c))"
| "lawful_call r _ \<longleftrightarrow> True"

lemma owned_metaI: "r_SetControllerReference r (cl_Meta (c :: PolarsCluster)) m = Inr m' \<Longrightarrow> owned_meta r m'"
  by (auto simp: owned_meta_def)

lemma desired_worker_owned: "desired_worker r c = Inr (h, p) \<Longrightarrow> owned_meta r (pod_Meta p)"
  by (auto simp: desired_worker_def split: sum.splits intro: owned_metaI)

lemma step_calls_lawful:
  assumes "reconcile_call r c k"
  shows "lawful_call r k"
  using assms
  by (cases k)
     (auto simp: reconcile_call_def accounts_call_def stale_def Let_def
        intro: owned_metaI desired_worker_owned)

lemma status_writes_lawful:
  assumes "condition_laws (r_Conditions r)" "Reconcile vl vv r ns name w = (res, w')"
    and "UpdateStatus c' \<in> set (new_calls w w')" "status_write r c (UpdateStatus c')"
  shows "consistent_status r c'"
  using assms(4) written_status_consistent [OF assms(1-3)]
  by (auto simp: consistent_status_def status_write_def)

lemma reconcile_calls_lawful:
  assumes "condition_laws (r_Conditions r)" "Reconcile vl vv r ns name w = (res, w')"
    and "k \<in> set (new_calls w w')"
  shows "lawful_call r k"
proof -
  from Reconcile_calls [OF assms(2)] obtain ks us where
    eq: "new_calls w w' = GetCluster ns name # ks @ us"
    and calls: "ks @ us \<noteq> [] \<longrightarrow> (\<exists>c w1. read_cluster r ns name w = (Inr c, w1) \<and>
        list_all (reconcile_call r c) ks \<and> list_all (status_write r c) us \<and> length us \<le> 1)" by blast
  show ?thesis
  proof (cases "k = GetCluster ns name")
    case False
    with eq assms(3) have k: "k \<in> set (ks @ us)" by simp
    then have "ks @ us \<noteq> []" by auto
    with calls k obtain c where "reconcile_call r c k \<or> status_write r c k" by (auto simp: list_all_iff)
    then show ?thesis
    proof
      assume "status_write r c k"
      moreover from this obtain c' where "k = UpdateStatus c'" by (auto simp: status_write_def)
      ultimately show ?thesis using status_writes_lawful [OF assms(1,2)] assms(3) by auto
    qed (rule step_calls_lawful)
  qed simp
qed

text \<open>
  C7: In the whole life of the operator it makes no unlawful call. Whatever the order in which clusters
  are reconciled and however the API server's state changes between the reconciles, every status ever
  written is Ready only with all its parts and marks the generation it was computed from, every pod,
  Service and account ever created is owned by a cluster, no terminating pod is deleted and no route
  that its cluster does not control.
\<close>

theorem every_call_is_lawful:
  assumes "operator_history vl vv r w" "condition_laws (r_Conditions r)"
  shows "list_all (lawful_call r) (w_calls w)"
  using assms(1)
proof (induction rule: operator_history.induct)
  case (started w)
  then show ?case by simp
next
  case (continued w w')
  from continued.hyps(2) show ?case
  proof (cases rule: operator_step.cases)
    case (reconciled ns name res)
    from reconcile_calls_lawful [OF assms(2) reconciled] continued.IH show ?thesis
      unfolding Reconcile_log [OF reconciled] list_all_iff by auto
  next
    case (changed s)
    with continued.IH show ?thesis by simp
  qed
qed

theorem every_call_is_lawful_witness:
  "list_all (lawful_call sample_reconciler) (w_calls run_end) \<and> UpdateStatus run_written \<in> set (w_calls run_end)"
proof -
  have "operator_history sample_versions sample_limits sample_reconciler run_start"
    by (rule operator_history.started) (simp add: run_start_def)
  from operator_history.continued [OF this operator_step.reconciled [OF sample_run]]
  have "operator_history sample_versions sample_limits sample_reconciler run_end" .
  from every_call_is_lawful [OF this] show ?thesis
    using sample_run_writes by (simp add: sample_condition_laws Reconcile_log [OF sample_run])
qed

end
