(* ===== verification/Go_Memory.thy ===== *)
theory Go_Memory
  imports Operator_Prelude "HOL-Library.Monad_Syntax" "HOL-Library.AList" "HOL-Library.Multiset"
begin

text \<open>
  Memory as Go's pointers, slices and maps see it: a list of cells, an address being an index into
  it. Allocation appends a cell, so an address is fresh exactly when it is not below the old length.
  The section on copying has the statement forms of generated \<open>DeepCopyInto\<close> functions (a pointer,
  a slice, a map, an array of structs) and the law \<open>copies\<close> they satisfy: the copy reads as the same
  value, the old memory is left as it was, and everything the copy reaches is fresh.
\<close>

type_synonym addr = nat

text \<open>A computation on memory with cells \<open>'c\<close>; \<open>None\<close> is a bad memory access.\<close>

type_synonym ('c, 'a) cmd = "'c list \<Rightarrow> ('a \<times> 'c list) option"

section \<open>Cells and addresses\<close>

definition look :: "'c list \<Rightarrow> addr \<Rightarrow> 'c option" where
  "look m a = (if a < length m then Some (m ! a) else None)"

definition alloc :: "'c \<Rightarrow> 'c list \<Rightarrow> addr \<times> 'c list" where
  "alloc c m = (length m, m @ [c])"

definition store :: "addr \<Rightarrow> 'c \<Rightarrow> 'c list \<Rightarrow> 'c list option" where
  "store a c m = (if a < length m then Some (m[a := c]) else None)"

text \<open>How a value of a Go type lies in a cell.\<close>

record ('c, 'a) pointee =
  put :: "'a \<Rightarrow> 'c"
  got :: "'c \<Rightarrow> 'a option"

definition pointee_ok :: "('c, 'a) pointee \<Rightarrow> bool" where
  "pointee_ok k = (\<forall>x. got k (put k x) = Some x)"

definition deref :: "('c, 'a) pointee \<Rightarrow> 'c list \<Rightarrow> addr \<Rightarrow> 'a option" where
  "deref k m a = Option.bind (look m a) (got k)"

lemma got_put [simp]: "pointee_ok k \<Longrightarrow> got k (put k x) = Some x"
  by (simp add: pointee_ok_def)

lemma look_append [simp]: "a < length m \<Longrightarrow> look (m @ n) a = look m a"
  by (simp add: look_def nth_append)

lemma look_new [simp]: "look (m @ [c]) (length m) = Some c"
  by (simp add: look_def)

lemma look_update: "look (m[a := c]) b = (if a = b \<and> b < length m then Some c else look m b)"
  by (auto simp: look_def)

lemma deref_update [simp]: "pointee_ok k \<Longrightarrow> b < length m \<Longrightarrow> deref k (m[b := put k x]) b = Some x"
  by (simp add: deref_def look_update)

lemma deref_new [simp]: "pointee_ok k \<Longrightarrow> deref k (m @ [put k x]) (length m) = Some x"
  by (simp add: deref_def)

lemma deref_look: "look m a = look m' a \<Longrightarrow> deref k m a = deref k m' a"
  by (simp add: deref_def)

lemma deref_bound: "deref k m a = Some x \<Longrightarrow> a < length m"
  by (simp add: deref_def look_def split: if_splits)

text \<open>Two memories agree on a set of addresses.\<close>

definition agree :: "addr set \<Rightarrow> 'c list \<Rightarrow> 'c list \<Rightarrow> bool" where
  "agree A m m' = (\<forall>a \<in> A. look m a = look m' a)"

lemma agree_refl [simp]: "agree A m m"
  by (simp add: agree_def)

lemma agree_subset: "agree A m m' \<Longrightarrow> B \<subseteq> A \<Longrightarrow> agree B m m'"
  by (auto simp: agree_def)

lemma agree_Un [simp]: "agree (A \<union> B) m m' \<longleftrightarrow> agree A m m' \<and> agree B m m'"
  by (auto simp: agree_def)

lemma agree_prefix: "prefix m m' \<Longrightarrow> A \<subseteq> {..<length m} \<Longrightarrow> agree A m m'"
  by (auto simp: agree_def prefix_def)

lemma agree_update: "b \<notin> A \<Longrightarrow> agree A m (m[b := c])"
  by (auto simp: agree_def look_update)

lemma prefix_update_fresh: "prefix m m' \<Longrightarrow> length m \<le> b \<Longrightarrow> prefix m (m'[b := c])"
  by (auto simp: prefix_def list_update_append)

section \<open>The statements of a generated copy\<close>

text \<open>\<open>*out = *in\<close> for a type without references.\<close>

definition copy_flat :: "'a \<Rightarrow> ('c, 'a) cmd" where
  "copy_flat x m = Some (x, m)"

text \<open>
  \<open>if in.F != nil { *out = new(T); (*in).DeepCopyInto(*out) }\<close>. Every \<open>DeepCopyInto\<close> begins with
  \<open>*out = *in\<close>, so the new cell holds the source's value until the copy is complete.
\<close>

definition copy_ptr :: "('c, 'a) pointee \<Rightarrow> ('a \<Rightarrow> ('c, 'a) cmd) \<Rightarrow> addr option \<Rightarrow> ('c, addr option) cmd" where
  "copy_ptr k cp p m =
     (case p of
        None \<Rightarrow> Some (None, m)
      | Some a \<Rightarrow> do {
          x \<leftarrow> deref k m a;
          let (b, m) = alloc (put k x) m;
          (y, m) \<leftarrow> cp x m;
          m \<leftarrow> store b (put k y) m;
          Some (Some b, m)
        })"

text \<open>
  A slice is a window of a backing array; the copy has an array of its own, of the visible length.
\<close>

record go_slice =
  sl_Array :: addr
  sl_Offset :: nat
  sl_Len :: nat

definition elements :: "('c, 'a list) pointee \<Rightarrow> 'c list \<Rightarrow> go_slice \<Rightarrow> 'a list option" where
  "elements k m s = do {
     xs \<leftarrow> deref k m (sl_Array s);
     if sl_Offset s + sl_Len s \<le> length xs then Some (take (sl_Len s) (drop (sl_Offset s) xs)) else None
   }"

text \<open>\<open>for i := range *in { (*in)[i].DeepCopyInto(&(*out)[i]) }\<close>\<close>

fun copy_list :: "('a \<Rightarrow> ('c, 'a) cmd) \<Rightarrow> 'a list \<Rightarrow> ('c, 'a list) cmd" where
  "copy_list cp [] m = Some ([], m)"
| "copy_list cp (x # xs) m = do {
     (y, m) \<leftarrow> cp x m;
     (ys, m) \<leftarrow> copy_list cp xs m;
     Some (y # ys, m)
   }"

definition copy_slice ::
    "('c, 'a list) pointee \<Rightarrow> ('a \<Rightarrow> ('c, 'a) cmd) \<Rightarrow> go_slice option \<Rightarrow> ('c, go_slice option) cmd" where
  "copy_slice k cp s m =
     (case s of
        None \<Rightarrow> Some (None, m)
      | Some s \<Rightarrow> do {
          xs \<leftarrow> elements k m s;
          let (b, m) = alloc (put k xs) m;
          (ys, m) \<leftarrow> copy_list cp xs m;
          m \<leftarrow> store b (put k ys) m;
          Some (Some \<lparr>sl_Array = b, sl_Offset = 0, sl_Len = length ys\<rparr>, m)
        })"

text \<open>
  A map is a reference to its entries. Assigning to a key writes the cell; ranging over a map visits
  its entries in an order the language leaves open, so that order is a parameter \<open>ord\<close>.
\<close>

type_synonym entries = "(string \<times> string) list"

fun map_assign_all :: "('c, entries) pointee \<Rightarrow> addr \<Rightarrow> entries \<Rightarrow> 'c list \<Rightarrow> 'c list option" where
  "map_assign_all k b [] m = Some m"
| "map_assign_all k b ((key, val) # es) m = do {
     t \<leftarrow> deref k m b;
     m \<leftarrow> store b (put k (AList.update key val t)) m;
     map_assign_all k b es m
   }"

definition copy_map ::
    "('c, entries) pointee \<Rightarrow> (entries \<Rightarrow> entries) \<Rightarrow> addr option \<Rightarrow> ('c, addr option) cmd" where
  "copy_map k ord p m =
     (case p of
        None \<Rightarrow> Some (None, m)
      | Some a \<Rightarrow> do {
          es \<leftarrow> deref k m a;
          let (b, m) = alloc (put k []) m;
          m \<leftarrow> map_assign_all k b (ord es) m;
          Some (Some b, m)
        })"

lemma copy_map_nil: "copy_map k ord p m = Some (q, m') \<Longrightarrow> q = None \<longleftrightarrow> p = None"
  by (auto simp: copy_map_def bind_eq_Some_conv alloc_def split: option.splits)

text \<open>Fields of a struct are copied one after the other.\<close>

definition copy_pair :: "('a \<Rightarrow> ('c, 'a) cmd) \<Rightarrow> ('b \<Rightarrow> ('c, 'b) cmd) \<Rightarrow> 'a \<times> 'b \<Rightarrow> ('c, 'a \<times> 'b) cmd" where
  "copy_pair c1 c2 z m = do {
     (y1, m) \<leftarrow> c1 (fst z) m;
     (y2, m) \<leftarrow> c2 (snd z) m;
     Some ((y1, y2), m)
   }"

section \<open>What a reference reads as, and what it reaches\<close>

definition rd_flat :: "'c list \<Rightarrow> 'a \<Rightarrow> 'a option" where
  "rd_flat m x = Some x"

definition ft_flat :: "'c list \<Rightarrow> 'a \<Rightarrow> addr set" where
  "ft_flat m x = {}"

definition rd_ptr :: "('c, 'a) pointee \<Rightarrow> ('c list \<Rightarrow> 'a \<Rightarrow> 'v option) \<Rightarrow> 'c list \<Rightarrow> addr option \<Rightarrow> 'v option option" where
  "rd_ptr k rd m p =
     (case p of None \<Rightarrow> Some None | Some a \<Rightarrow> do { x \<leftarrow> deref k m a; v \<leftarrow> rd m x; Some (Some v) })"

definition ft_ptr :: "('c, 'a) pointee \<Rightarrow> ('c list \<Rightarrow> 'a \<Rightarrow> addr set) \<Rightarrow> 'c list \<Rightarrow> addr option \<Rightarrow> addr set" where
  "ft_ptr k ft m p =
     (case p of
        None \<Rightarrow> {}
      | Some a \<Rightarrow> insert a (case deref k m a of None \<Rightarrow> {} | Some x \<Rightarrow> ft m x))"

fun rd_list :: "('c list \<Rightarrow> 'a \<Rightarrow> 'v option) \<Rightarrow> 'c list \<Rightarrow> 'a list \<Rightarrow> 'v list option" where
  "rd_list rd m [] = Some []"
| "rd_list rd m (x # xs) = do { v \<leftarrow> rd m x; vs \<leftarrow> rd_list rd m xs; Some (v # vs) }"

fun ft_list :: "('c list \<Rightarrow> 'a \<Rightarrow> addr set) \<Rightarrow> 'c list \<Rightarrow> 'a list \<Rightarrow> addr set" where
  "ft_list ft m [] = {}"
| "ft_list ft m (x # xs) = ft m x \<union> ft_list ft m xs"

text \<open>A nil and an empty slice read as the empty list, a nil and an empty map as the empty map.\<close>

definition rd_slice ::
    "('c, 'a list) pointee \<Rightarrow> ('c list \<Rightarrow> 'a \<Rightarrow> 'v option) \<Rightarrow> 'c list \<Rightarrow> go_slice option \<Rightarrow> 'v list option" where
  "rd_slice k rd m s =
     (case s of None \<Rightarrow> Some [] | Some s \<Rightarrow> do { xs \<leftarrow> elements k m s; rd_list rd m xs })"

definition ft_slice ::
    "('c, 'a list) pointee \<Rightarrow> ('c list \<Rightarrow> 'a \<Rightarrow> addr set) \<Rightarrow> 'c list \<Rightarrow> go_slice option \<Rightarrow> addr set" where
  "ft_slice k ft m s =
     (case s of
        None \<Rightarrow> {}
      | Some s \<Rightarrow> insert (sl_Array s) (case elements k m s of None \<Rightarrow> {} | Some xs \<Rightarrow> ft_list ft m xs))"

definition rd_map :: "('c, entries) pointee \<Rightarrow> 'c list \<Rightarrow> addr option \<Rightarrow> str_map option" where
  "rd_map k m p =
     (case p of
        None \<Rightarrow> Some Map.empty
      | Some a \<Rightarrow> do { es \<leftarrow> deref k m a; if distinct (map fst es) then Some (map_of es) else None })"

definition ft_map :: "'c list \<Rightarrow> addr option \<Rightarrow> addr set" where
  "ft_map m p = set_option p"

definition rd_pair ::
    "('c list \<Rightarrow> 'a \<Rightarrow> 'v option) \<Rightarrow> ('c list \<Rightarrow> 'b \<Rightarrow> 'w option) \<Rightarrow> 'c list \<Rightarrow> 'a \<times> 'b \<Rightarrow> ('v \<times> 'w) option" where
  "rd_pair r1 r2 m z = do { v \<leftarrow> r1 m (fst z); w \<leftarrow> r2 m (snd z); Some (v, w) }"

definition ft_pair :: "('c list \<Rightarrow> 'a \<Rightarrow> addr set) \<Rightarrow> ('c list \<Rightarrow> 'b \<Rightarrow> addr set) \<Rightarrow> 'c list \<Rightarrow> 'a \<times> 'b \<Rightarrow> addr set" where
  "ft_pair f1 f2 m z = f1 m (fst z) \<union> f2 m (snd z)"

section \<open>The law of a deep copy\<close>

text \<open>
  \<open>readable\<close>: what a value reads as, and what it reaches, depends only on the cells it reaches, which
  all exist. \<open>copies\<close>: moreover a copy of a readable value succeeds, leaves the memory that was there
  as it was, reads as the same value and reaches fresh cells only.
\<close>

definition readable :: "('c list \<Rightarrow> 'a \<Rightarrow> 'v option) \<Rightarrow> ('c list \<Rightarrow> 'a \<Rightarrow> addr set) \<Rightarrow> bool" where
  "readable rd ft =
     ((\<forall>m m' x. agree (ft m x) m m' \<longrightarrow> rd m' x = rd m x \<and> ft m' x = ft m x) \<and>
      (\<forall>m x v. rd m x = Some v \<longrightarrow> ft m x \<subseteq> {..<length m}))"

definition copies ::
    "('c list \<Rightarrow> 'a \<Rightarrow> 'v option) \<Rightarrow> ('c list \<Rightarrow> 'a \<Rightarrow> addr set) \<Rightarrow> ('a \<Rightarrow> ('c, 'a) cmd) \<Rightarrow> bool" where
  "copies rd ft cp =
     (readable rd ft \<and>
      (\<forall>m x v. rd m x = Some v \<longrightarrow>
         (\<exists>y m'. cp x m = Some (y, m') \<and> prefix m m' \<and> rd m' y = Some v \<and>
                 ft m' y \<subseteq> {length m..<length m'})))"

lemma readableI:
  assumes "\<And>m m' x. agree (ft m x) m m' \<Longrightarrow> rd m' x = rd m x"
    and "\<And>m m' x. agree (ft m x) m m' \<Longrightarrow> ft m' x = ft m x"
    and "\<And>m x v. rd m x = Some v \<Longrightarrow> ft m x \<subseteq> {..<length m}"
  shows "readable rd ft"
  unfolding readable_def using assms by blast

lemma readable_agree:
  assumes "readable rd ft" "agree (ft m x) m m'"
  shows "rd m' x = rd m x" "ft m' x = ft m x"
  using assms unfolding readable_def by blast+

lemma readable_bound: "readable rd ft \<Longrightarrow> rd m x = Some v \<Longrightarrow> ft m x \<subseteq> {..<length m}"
  unfolding readable_def by blast

lemma readable_prefix:
  assumes "readable rd ft" "rd m x = Some v" "prefix m m'"
  shows "rd m' x = Some v" "ft m' x = ft m x"
  using readable_agree [OF assms(1) agree_prefix [OF assms(3) readable_bound [OF assms(1,2)]]] assms(2)
  by simp_all

lemma copiesI:
  assumes "readable rd ft"
    and "\<And>m x v. rd m x = Some v \<Longrightarrow>
      \<exists>y m'. cp x m = Some (y, m') \<and> prefix m m' \<and> rd m' y = Some v \<and> ft m' y \<subseteq> {length m..<length m'}"
  shows "copies rd ft cp"
  unfolding copies_def using assms by blast

lemma copies_readable: "copies rd ft cp \<Longrightarrow> readable rd ft"
  by (simp add: copies_def)

lemma copiesE:
  assumes "copies rd ft cp" "rd m x = Some v"
  obtains y m' where "cp x m = Some (y, m')" "prefix m m'" "rd m' y = Some v"
    "ft m' y \<subseteq> {length m..<length m'}"
  using assms unfolding copies_def by blast

end
