(* ===== verification/Copy_Laws.thy ===== *)
theory Copy_Laws
  imports Go_Memory
begin

text \<open>
  The statement forms of \<^theory_text>\<open>Go_Memory\<close> keep the law \<open>copies\<close>: pointers, slices, maps, pairs of
  fields, and the passage from a tuple of fields to a struct.
\<close>

section \<open>Values without references\<close>

lemma readable_flat: "readable rd_flat ft_flat"
  by (rule readableI) (simp_all add: rd_flat_def ft_flat_def)

lemma copies_assign: "(\<And>x m. cp x m = Some (x, m)) \<Longrightarrow> copies rd_flat ft_flat cp"
  by (rule copiesI [OF readable_flat]) (simp add: rd_flat_def ft_flat_def)

lemma copies_flat: "copies rd_flat ft_flat copy_flat"
  by (rule copies_assign) (simp add: copy_flat_def)

section \<open>Pointers\<close>

lemma readable_ptr:
  assumes "readable rd ft"
  shows "readable (rd_ptr k rd) (ft_ptr k ft)"
proof (rule readableI)
  fix m m' p assume ag: "agree (ft_ptr k ft m p) m m'"
  show "rd_ptr k rd m' p = rd_ptr k rd m p" "ft_ptr k ft m' p = ft_ptr k ft m p"
  proof (atomize (full), cases p)
    case (Some a)
    have d: "deref k m' a = deref k m a"
      using ag Some by (intro deref_look) (simp add: ft_ptr_def agree_def)
    show "rd_ptr k rd m' p = rd_ptr k rd m p \<and> ft_ptr k ft m' p = ft_ptr k ft m p"
    proof (cases "deref k m a")
      case (Some x)
      have "agree (ft m x) m m'"
        using ag Some \<open>p = Some a\<close> by (simp add: ft_ptr_def agree_def)
      then show ?thesis
        using Some d \<open>p = Some a\<close> readable_agree [OF assms] by (simp add: rd_ptr_def ft_ptr_def)
    qed (simp add: \<open>p = Some a\<close> d rd_ptr_def ft_ptr_def)
  qed (simp add: rd_ptr_def ft_ptr_def)
next
  fix m p v assume r: "rd_ptr k rd m p = Some v"
  show "ft_ptr k ft m p \<subseteq> {..<length m}"
  proof (cases p)
    case (Some a)
    then obtain x w where x: "deref k m a = Some x" "rd m x = Some w"
      using r by (auto simp: rd_ptr_def bind_eq_Some_conv)
    then show ?thesis
      using Some readable_bound [OF assms x(2)] deref_bound [OF x(1)] by (simp add: ft_ptr_def)
  qed (simp add: ft_ptr_def)
qed

text \<open>A new cell, a copy of its content made behind it, and the content put into the cell.\<close>

lemma fill_new_cell:
  assumes "copies rd ft cp" "pointee_ok k" "rd m x = Some v"
  obtains y m' where "cp x (m @ [put k x]) = Some (y, m')" "length m < length m'"
    "prefix m (m'[length m := put k y])" "rd (m'[length m := put k y]) y = Some v"
    "ft (m'[length m := put k y]) y \<subseteq> {Suc (length m)..<length m'}"
proof -
  have "rd (m @ [put k x]) x = Some v"
    using readable_prefix(1) [OF copies_readable [OF assms(1)] assms(3)] by simp
  then obtain y m' where c: "cp x (m @ [put k x]) = Some (y, m')" "prefix (m @ [put k x]) m'"
    "rd m' y = Some v" "ft m' y \<subseteq> {length (m @ [put k x])..<length m'}"
    by (rule copiesE [OF assms(1)])
  have "agree (ft m' y) m' (m'[length m := put k y])"
    by (rule agree_update) (use c(4) in auto)
  note r = readable_agree [OF copies_readable [OF assms(1)] this]
  have "prefix m m'" using c(2) by (auto simp: prefix_def)
  then show thesis
    using c prefix_length_le [OF c(2)] r by (intro that [OF c(1)] prefix_update_fresh) auto
qed

lemma copies_ptr:
  assumes "copies rd ft cp" "pointee_ok k"
  shows "copies (rd_ptr k rd) (ft_ptr k ft) (copy_ptr k cp)"
proof (rule copiesI [OF readable_ptr [OF copies_readable [OF assms(1)]]])
  fix m p v assume r: "rd_ptr k rd m p = Some v"
  show "\<exists>q m'. copy_ptr k cp p m = Some (q, m') \<and> prefix m m' \<and> rd_ptr k rd m' q = Some v \<and>
      ft_ptr k ft m' q \<subseteq> {length m..<length m'}"
  proof (cases p)
    case None
    then show ?thesis using r by (simp add: rd_ptr_def ft_ptr_def copy_ptr_def)
  next
    case (Some a)
    then obtain x w where x: "deref k m a = Some x" "rd m x = Some w" "v = Some w"
      using r by (auto simp: rd_ptr_def bind_eq_Some_conv)
    obtain y m' where f: "cp x (m @ [put k x]) = Some (y, m')" "length m < length m'"
      "prefix m (m'[length m := put k y])" "rd (m'[length m := put k y]) y = Some w"
      "ft (m'[length m := put k y]) y \<subseteq> {Suc (length m)..<length m'}"
      by (rule fill_new_cell [OF assms x(2)])
    show ?thesis
      using Some x f assms(2)
      by (auto simp: copy_ptr_def rd_ptr_def ft_ptr_def alloc_def store_def)
  qed
qed

section \<open>Slices\<close>

lemma readable_list:
  assumes "readable rd ft"
  shows "readable (rd_list rd) (ft_list ft)"
proof (rule readableI)
  fix m m' xs assume "agree (ft_list ft m xs) m m'"
  then show "rd_list rd m' xs = rd_list rd m xs" "ft_list ft m' xs = ft_list ft m xs"
    by (induction xs) (auto simp: readable_agree [OF assms])
next
  fix m xs v assume "rd_list rd m xs = Some v"
  then show "ft_list ft m xs \<subseteq> {..<length m}"
    by (induction xs arbitrary: v) (auto simp: bind_eq_Some_conv dest: readable_bound [OF assms])
qed

lemma copies_list:
  assumes "copies rd ft cp"
  shows "copies (rd_list rd) (ft_list ft) (copy_list cp)"
proof (rule copiesI [OF readable_list [OF copies_readable [OF assms]]])
  note rdb = copies_readable [OF assms]
  fix m xs vs assume "rd_list rd m xs = Some vs"
  then show "\<exists>ys m'. copy_list cp xs m = Some (ys, m') \<and> prefix m m' \<and> rd_list rd m' ys = Some vs \<and>
      ft_list ft m' ys \<subseteq> {length m..<length m'}"
  proof (induction xs arbitrary: m vs)
    case (Cons x xs)
    obtain v ws where r: "rd m x = Some v" "rd_list rd m xs = Some ws" "vs = v # ws"
      using Cons.prems by (auto simp: bind_eq_Some_conv)
    obtain y m1 where c: "cp x m = Some (y, m1)" "prefix m m1" "rd m1 y = Some v"
      "ft m1 y \<subseteq> {length m..<length m1}"
      by (rule copiesE [OF assms r(1)])
    have "rd_list rd m1 xs = Some ws"
      by (rule readable_prefix [OF readable_list [OF rdb] r(2) c(2)])
    then obtain ys m2 where d: "copy_list cp xs m1 = Some (ys, m2)" "prefix m1 m2"
      "rd_list rd m2 ys = Some ws" "ft_list ft m2 ys \<subseteq> {length m1..<length m2}"
      using Cons.IH by blast
    have "rd m2 y = Some v" "ft m2 y \<subseteq> {length m..<length m1}"
      using readable_prefix [OF rdb c(3) d(2)] c(4) by simp_all
    then show ?case
      using c d r prefix_order.trans [OF c(2) d(2)] prefix_length_le [OF c(2)] prefix_length_le [OF d(2)]
      by fastforce
  qed simp
qed

lemma elements_look: "look m (sl_Array s) = look m' (sl_Array s) \<Longrightarrow> elements k m s = elements k m' s"
  by (simp add: elements_def deref_look [of m _ m'])

lemma elements_whole:
  "deref k m a = Some xs \<Longrightarrow> elements k m \<lparr>sl_Array = a, sl_Offset = 0, sl_Len = length xs\<rparr> = Some xs"
  by (simp add: elements_def)

lemma readable_slice:
  assumes "readable rd ft"
  shows "readable (rd_slice k rd) (ft_slice k ft)"
proof (rule readableI)
  fix m m' p assume ag: "agree (ft_slice k ft m p) m m'"
  show "rd_slice k rd m' p = rd_slice k rd m p" "ft_slice k ft m' p = ft_slice k ft m p"
  proof (atomize (full), cases p)
    case (Some s)
    have d: "elements k m' s = elements k m s"
      using ag Some by (intro elements_look) (simp add: ft_slice_def agree_def)
    show "rd_slice k rd m' p = rd_slice k rd m p \<and> ft_slice k ft m' p = ft_slice k ft m p"
    proof (cases "elements k m s")
      case (Some xs)
      have "agree (ft_list ft m xs) m m'"
        using ag Some \<open>p = Some s\<close> by (simp add: ft_slice_def agree_def)
      then show ?thesis
        using Some d \<open>p = Some s\<close> readable_agree [OF readable_list [OF assms]]
        by (simp add: rd_slice_def ft_slice_def)
    qed (simp add: \<open>p = Some s\<close> d rd_slice_def ft_slice_def)
  qed (simp add: rd_slice_def ft_slice_def)
next
  fix m p v assume r: "rd_slice k rd m p = Some v"
  show "ft_slice k ft m p \<subseteq> {..<length m}"
  proof (cases p)
    case (Some s)
    then obtain xs where x: "elements k m s = Some xs" "rd_list rd m xs = Some v"
      using r by (auto simp: rd_slice_def bind_eq_Some_conv)
    moreover have "sl_Array s < length m"
      using x(1) by (auto simp: elements_def bind_eq_Some_conv dest: deref_bound)
    ultimately show ?thesis
      using Some readable_bound [OF readable_list [OF assms]] by (auto simp: ft_slice_def)
  qed (simp add: ft_slice_def)
qed

lemma copies_slice:
  assumes "copies rd ft cp" "pointee_ok k"
  shows "copies (rd_slice k rd) (ft_slice k ft) (copy_slice k cp)"
proof (rule copiesI [OF readable_slice [OF copies_readable [OF assms(1)]]])
  fix m p v assume r: "rd_slice k rd m p = Some v"
  show "\<exists>q m'. copy_slice k cp p m = Some (q, m') \<and> prefix m m' \<and> rd_slice k rd m' q = Some v \<and>
      ft_slice k ft m' q \<subseteq> {length m..<length m'}"
  proof (cases p)
    case None
    then show ?thesis using r by (simp add: rd_slice_def ft_slice_def copy_slice_def)
  next
    case (Some s)
    then obtain xs where x: "elements k m s = Some xs" "rd_list rd m xs = Some v"
      using r by (auto simp: rd_slice_def bind_eq_Some_conv)
    obtain ys m' where f: "copy_list cp xs (m @ [put k xs]) = Some (ys, m')" "length m < length m'"
      "prefix m (m'[length m := put k ys])" "rd_list rd (m'[length m := put k ys]) ys = Some v"
      "ft_list ft (m'[length m := put k ys]) ys \<subseteq> {Suc (length m)..<length m'}"
      by (rule fill_new_cell [OF copies_list [OF assms(1)] assms(2) x(2)])
    have "elements k (m'[length m := put k ys]) \<lparr>sl_Array = length m, sl_Offset = 0, sl_Len = length ys\<rparr> = Some ys"
      using f(2) assms(2) by (intro elements_whole) simp
    then show ?thesis
      using Some x f by (auto simp: copy_slice_def rd_slice_def ft_slice_def alloc_def store_def)
  qed
qed

section \<open>Maps\<close>

lemma readable_map: "readable (rd_map (k :: ('c, entries) pointee)) ft_map"
proof (rule readableI)
  fix m m' :: "'c list" and p assume "agree (ft_map m p) m m'"
  then show "rd_map k m' p = rd_map k m p"
    by (auto simp: rd_map_def ft_map_def agree_def deref_look [of m _ m'] split: option.split)
qed (auto simp: rd_map_def ft_map_def bind_eq_Some_conv dest: deref_bound split: option.splits)

text \<open>A run of assignments to a map rewrites its cell and nothing else.\<close>

lemma map_assign_all_cell:
  assumes "pointee_ok k" "deref k m b = Some t"
  shows "map_assign_all k b es m = Some (if es = [] then m else m[b := put k (foldl (\<lambda>t (key, val). AList.update key val t) t es)])"
  using assms(2)
proof (induction es arbitrary: m t)
  case (Cons e es)
  obtain key val where e: "e = (key, val)" by force
  note b = deref_bound [OF Cons.prems]
  have "deref k (m[b := put k (AList.update key val t)]) b = Some (AList.update key val t)"
    using assms(1) b by simp
  from Cons.IH [OF this] show ?case
    using Cons.prems b by (simp add: e store_def)
qed simp

lemma foldl_update_map_of:
  "map_of (foldl (\<lambda>t (key, val). AList.update key val t) t es) = map_of t ++ map_of (rev es)"
  by (induction es arbitrary: t) (auto simp: update_conv' fun_eq_iff map_add_def split: option.splits)

lemma foldl_update_distinct:
  "distinct (map fst t) \<Longrightarrow> distinct (map fst (foldl (\<lambda>t (key, val). AList.update key val t) t es))"
  by (induction es arbitrary: t) (auto simp: distinct_update)

lemma map_of_permuted:
  assumes "mset xs = mset ys" "distinct (map fst ys)"
  shows "map_of xs = map_of ys"
proof -
  have "distinct (map fst xs)"
    by (metis assms mset_eq_imp_distinct_iff mset_map)
  then show ?thesis
    using assms mset_eq_setD [OF assms(1)] by (intro map_of_eqI) (auto simp: image_iff split: prod.splits)
qed

lemma copies_map:
  assumes "pointee_ok k" "\<And>es. mset (ord es) = mset es"
  shows "copies (rd_map (k :: ('c, entries) pointee)) ft_map (copy_map k ord)"
proof (rule copiesI [OF readable_map])
  fix m p v assume r: "rd_map k m p = Some v"
  show "\<exists>q m'. copy_map k ord p m = Some (q, m') \<and> prefix m m' \<and> rd_map k m' q = Some v \<and>
      ft_map m' q \<subseteq> {length m..<length m'}"
  proof (cases p)
    case None
    then show ?thesis using r by (simp add: rd_map_def ft_map_def copy_map_def)
  next
    case (Some a)
    then obtain es where e: "deref k m a = Some es" "distinct (map fst es)" "v = map_of es"
      using r by (auto simp: rd_map_def bind_eq_Some_conv split: if_splits)
    let ?t = "foldl (\<lambda>t (key, val). AList.update key val t) [] (ord es)"
    have t: "map_of ?t = map_of es" "distinct (map fst ?t)"
      using map_of_permuted [of "rev (ord es)" es] foldl_update_distinct [of "[]" "ord es"] assms(2) e(2)
      by (simp_all add: foldl_update_map_of)
    have "map_assign_all k (length m) (ord es) (m @ [put k []]) = Some (m @ [put k ?t])"
      using map_assign_all_cell [OF assms(1) deref_new [OF assms(1)]] by simp
    then show ?thesis
      using Some e t assms(1) by (simp add: copy_map_def rd_map_def ft_map_def alloc_def)
  qed
qed

section \<open>Structs\<close>

lemma copies_pair:
  assumes "copies r1 f1 c1" "copies r2 f2 c2"
  shows "copies (rd_pair r1 r2) (ft_pair f1 f2) (copy_pair c1 c2)"
proof (rule copiesI)
  note rdb = copies_readable [OF assms(1)] copies_readable [OF assms(2)]
  show "readable (rd_pair r1 r2) (ft_pair f1 f2)"
    by (rule readableI)
      (auto simp: rd_pair_def ft_pair_def bind_eq_Some_conv readable_agree [OF rdb(1)]
        readable_agree [OF rdb(2)] dest: readable_bound [OF rdb(1)] readable_bound [OF rdb(2)])
  fix m z vw assume "rd_pair r1 r2 m z = Some vw"
  then obtain v w where r: "r1 m (fst z) = Some v" "r2 m (snd z) = Some w" "vw = (v, w)"
    by (auto simp: rd_pair_def bind_eq_Some_conv)
  obtain y1 m1 where c: "c1 (fst z) m = Some (y1, m1)" "prefix m m1" "r1 m1 y1 = Some v"
    "f1 m1 y1 \<subseteq> {length m..<length m1}"
    by (rule copiesE [OF assms(1) r(1)])
  obtain y2 m2 where d: "c2 (snd z) m1 = Some (y2, m2)" "prefix m1 m2" "r2 m2 y2 = Some w"
    "f2 m2 y2 \<subseteq> {length m1..<length m2}"
    by (rule copiesE [OF assms(2) readable_prefix(1) [OF rdb(2) r(2) c(2)]])
  have "r1 m2 y1 = Some v" "f1 m2 y1 \<subseteq> {length m..<length m1}"
    using readable_prefix [OF rdb(1) c(3) d(2)] c(4) by simp_all
  then show "\<exists>y m'. copy_pair c1 c2 z m = Some (y, m') \<and> prefix m m' \<and> rd_pair r1 r2 m' y = Some vw \<and>
      ft_pair f1 f2 m' y \<subseteq> {length m..<length m'}"
    using c d r prefix_order.trans [OF c(2) d(2)] prefix_length_le [OF c(2)] prefix_length_le [OF d(2)]
    by (fastforce simp: copy_pair_def rd_pair_def ft_pair_def)
qed

text \<open>
  A struct is read, and copied, through the tuple of its fields that hold references: \<open>view\<close> takes it
  out, \<open>upd\<close> puts it back, and \<open>mk\<close> builds the struct's value from the values of these fields.
\<close>

lemma copies_struct:
  assumes "copies rdT ftT cpT"
    and rd: "\<And>m x. rd m x = map_option (mk x) (rdT m (view x))"
    and ft: "\<And>m x. ft m x = ftT m (view x)"
    and cp: "\<And>x m. cp x m = map_option (\<lambda>(t, m). (upd x t, m)) (cpT (view x) m)"
    and view: "\<And>x t. view (upd x t) = t" and mk: "\<And>x t. mk (upd x t) = mk x"
  shows "copies rd ft cp"
proof (rule copiesI)
  note rdb = copies_readable [OF assms(1)]
  show "readable rd ft"
    by (rule readableI) (auto simp: rd ft readable_agree [OF rdb] dest: readable_bound [OF rdb])
  fix m x v assume "rd m x = Some v"
  then obtain w where w: "rdT m (view x) = Some w" "v = mk x w" by (auto simp: rd)
  show "\<exists>y m'. cp x m = Some (y, m') \<and> prefix m m' \<and> rd m' y = Some v \<and> ft m' y \<subseteq> {length m..<length m'}"
    by (rule copiesE [OF assms(1) w(1)]) (simp add: cp rd ft view mk w(2))
qed

text \<open>How the fields of a struct, read or copied one after the other, are put together.\<close>

lemmas struct_simps =
  rd_pair_def ft_pair_def copy_pair_def map_conv_bind_option bind_assoc comp_def split_def Let_def

end
