(* ===== verification/Cluster_Memory.thy ===== *)
theory Cluster_Memory
  imports Cluster_Types Copy_Laws
begin

text \<open>
  The structs of \<open>api/v1alpha1/polarscluster_types.go\<close> as they lie in memory: for each record of
  \<^theory_text>\<open>Cluster_Types\<close> with references, a record of the same fields in which a pointer is an address,
  a slice a window of an array and a map the address of its entries. A struct without references is
  its value. Structs of the Kubernetes libraries are values of a type \<open>'l\<close> the library supplies.
\<close>

section \<open>Structs with references\<close>

record type_meta =
  tm_Kind :: string
  tm_APIVersion :: string

record mAnonymousResultsABSSpec =
  marabs_EndpointURL :: string
  marabs_PresignDuration :: "addr option"
  marabs_Options :: "go_slice option"

record mAnonymousResultsGCSSpec =
  margcs_EndpointURL :: string
  margcs_PresignDuration :: "addr option"
  margcs_Options :: "go_slice option"

record mAnonymousResultsS3Spec =
  mars3_Endpoint :: string
  mars3_PresignDuration :: "addr option"
  mars3_Options :: "go_slice option"

record mAnonymousResultsSpec =
  mar_S3 :: "addr option"
  mar_ABS :: "addr option"
  mar_GCS :: "addr option"
  mar_SharedFilesystem :: "addr option"

record mCheckpointABSSpec =
  mckabs_EndpointURL :: string
  mckabs_Options :: "go_slice option"

record mCheckpointS3Spec =
  mcks3_Endpoint :: string
  mcks3_Options :: "go_slice option"

record mCheckpointGCSSpec =
  mckgcs_EndpointURL :: string
  mckgcs_Options :: "go_slice option"

record mCheckpointDataSpec =
  mcd_SharedFilesystem :: "addr option"
  mcd_S3 :: "addr option"
  mcd_ABS :: "addr option"
  mcd_GCS :: "addr option"

record mCheckpointSpec =
  mck_Period :: "addr option"
  mck_Data :: mCheckpointDataSpec

record mComposedRuntimeSpec =
  mcrt_Dist :: "addr option"
  mcrt_Runtime :: "addr option"
  mcrt_Requirements :: string
  mcrt_PolarsExtras :: string
  mcrt_ImageVolume :: "addr option"

record 'l mEphemeralVolumeClaimSpec =
  mevc_StorageClassName :: string
  mevc_Size :: 'l

record mServiceConfig =
  msc_Type :: "addr option"
  msc_Annotations :: "addr option"
  msc_PublishNotReadyAddresses :: "addr option"
  msc_ClusterIP :: string

record mRouteSpec =
  mrs_ParentRefs :: "go_slice option"
  mrs_Hostnames :: "go_slice option"
  mrs_Labels :: "addr option"
  mrs_Annotations :: "addr option"

record mExposedServiceConfig =
  mesc_ServiceConfig :: mServiceConfig
  mesc_Route :: "addr option"

record mExtrasSpec =
  mext_HDFS :: "addr option"
  mext_PyIceberg :: "addr option"

record mValueOrSource =
  mvos_Value :: string
  mvos_ValueFrom :: "addr option"

record mRegisterNodeSpec =
  mrns_PrivateAddress :: mValueOrSource
  mrns_PublicAddress :: "addr option"

record mLicenseCloudSpec =
  mlcl_SecretName :: string
  mlcl_RegisterNode :: "addr option"

record mLicenseOnPremSpec =
  mlop_ClientID :: mValueOrSource
  mlop_ClientSecret :: mValueOrSource
  mlop_WorkspaceID :: mValueOrSource
  mlop_LicenseData :: "addr option"

record mLicenseSpec =
  mlic_OnPrem :: "addr option"
  mlic_OnPremEnterprise :: "addr option"
  mlic_Cloud :: "addr option"

record mLineageTransportSpec =
  mlt_HTTP :: "addr option"

record mLineageSpec =
  mlin_Transport :: mLineageTransportSpec

record mObservatorySpec =
  mobs_MaxMetricsBytesTotal :: int64
  mobs_PersistentVolumeClaim :: "addr option"

record mTelemetrySpec =
  mtel_OTLPEndpoint :: mValueOrSource

record mRuntimeSpec =
  mrt_Composed :: mComposedRuntimeSpec

record mSchedulerServicesSpec =
  msss_Scheduler :: "addr option"
  msss_Internal :: "addr option"
  msss_Observatory :: "addr option"

record mSchedulerSpec =
  msch_Services :: "addr option"
  msch_PodTemplate :: "addr option"
  msch_ServiceAccount :: "addr option"

record mShuffleDataS3Spec =
  msds3_Endpoint :: string
  msds3_PresignDuration :: "addr option"
  msds3_Options :: "go_slice option"

record mShuffleDataABSSpec =
  msdabs_EndpointURL :: string
  msdabs_PresignDuration :: "addr option"
  msdabs_Options :: "go_slice option"

record mShuffleDataGCSSpec =
  msdgcs_EndpointURL :: string
  msdgcs_PresignDuration :: "addr option"
  msdgcs_Options :: "go_slice option"

record mShuffleDataSpec =
  msd_Local :: "addr option"
  msd_SharedFilesystem :: "addr option"
  msd_S3 :: "addr option"
  msd_ABS :: "addr option"
  msd_GCS :: "addr option"

record mTemporaryDataSpec =
  mtd_EphemeralVolumeClaim :: "addr option"

record mWorkerPoolDeclaration =
  mwp_PodTemplate :: "addr option"
  mwp_ServiceAccount :: "addr option"
  mwp_Replicas :: int32
  mwp_HeartBeatInterval :: "addr option"
  mwp_ShuffleData :: "addr option"
  mwp_TemporaryData :: "addr option"
  mwp_Extras :: mExtrasSpec

record mPolarsClusterSpec =
  mspec_Telemetry :: "addr option"
  mspec_LogLevel :: "addr option"
  mspec_ImagePullSecrets :: "go_slice option"
  mspec_ClusterID :: string
  mspec_AcceptEula :: bool
  mspec_Version :: string
  mspec_Runtime :: "addr option"
  mspec_License :: mLicenseSpec
  mspec_AllowLocalSinks :: bool
  mspec_AllowLocalScans :: bool
  mspec_AllowAnonymousUsers :: bool
  mspec_AnonymousResults :: "addr option"
  mspec_Checkpoint :: "addr option"
  mspec_Lineage :: "addr option"
  mspec_Observatory :: "addr option"
  mspec_HostMetrics :: "addr option"
  mspec_ClusterDomain :: string
  mspec_Scheduler :: "addr option"
  mspec_WorkerPool :: mWorkerPoolDeclaration

record mPolarsClusterStatus =
  mst_Conditions :: "go_slice option"
  mst_ObservedGeneration :: int64
  mst_Scheduler :: SchedulerStatus
  mst_WorkerPool :: WorkerPoolStatus

record 'l mPolarsCluster =
  mcl_TypeMeta :: type_meta
  mcl_ObjectMeta :: 'l
  mcl_Spec :: mPolarsClusterSpec
  mcl_Status :: mPolarsClusterStatus

record 'l mPolarsClusterList =
  mpl_TypeMeta :: type_meta
  mpl_ListMeta :: 'l
  mpl_Items :: "go_slice option"

text \<open>The value of a list of clusters; a cluster comes with its type meta.\<close>

record PolarsClusterList =
  pl_TypeMeta :: type_meta
  pl_ListMeta :: opaque
  pl_Items :: "(type_meta \<times> PolarsCluster) list"

section \<open>Cells\<close>

text \<open>A cell holds one variable: a struct, the backing array of a slice, or the entries of a map.\<close>

datatype prim_cell =
    StringCell string
  | BoolCell bool
  | DurationCell duration

datatype license_cell =
    ValueOrSourceCell mValueOrSource
  | PersistentVolumeClaimRefCell PersistentVolumeClaimRef
  | LicenseOnPremSpecCell mLicenseOnPremSpec
  | LicenseOnPremEnterpriseSpecCell LicenseOnPremEnterpriseSpec
  | RegisterNodeSpecCell mRegisterNodeSpec
  | LicenseCloudSpecCell mLicenseCloudSpec
  | LicenseSpecCell mLicenseSpec
  | TelemetrySpecCell mTelemetrySpec

datatype runtime_cell =
    ImageSpecCell ImageSpec
  | ImageVolumeSpecCell ImageVolumeSpec
  | ComposedRuntimeSpecCell mComposedRuntimeSpec
  | RuntimeSpecCell mRuntimeSpec
  | ObservatorySpecCell mObservatorySpec
  | HostMetricsSpecCell HostMetricsSpec

datatype results_cell =
    SharedFilesystemSpecCell SharedFilesystemSpec
  | LocalFilesystemSpecCell LocalFilesystemSpec
  | AnonymousResultsS3SpecCell mAnonymousResultsS3Spec
  | AnonymousResultsABSSpecCell mAnonymousResultsABSSpec
  | AnonymousResultsGCSSpecCell mAnonymousResultsGCSSpec
  | AnonymousResultsSpecCell mAnonymousResultsSpec

datatype shuffle_cell =
    ShuffleDataS3SpecCell mShuffleDataS3Spec
  | ShuffleDataABSSpecCell mShuffleDataABSSpec
  | ShuffleDataGCSSpecCell mShuffleDataGCSSpec
  | ShuffleDataSpecCell mShuffleDataSpec

datatype checkpoint_cell =
    CheckpointS3SpecCell mCheckpointS3Spec
  | CheckpointABSSpecCell mCheckpointABSSpec
  | CheckpointGCSSpecCell mCheckpointGCSSpec
  | CheckpointDataSpecCell mCheckpointDataSpec
  | CheckpointSpecCell mCheckpointSpec

datatype lineage_cell =
    LineageTransportHTTPSpecCell LineageTransportHTTPSpec
  | LineageTransportSpecCell mLineageTransportSpec
  | LineageSpecCell mLineageSpec

datatype scheduler_cell =
    ServiceAccountSpecCell ServiceAccountSpec
  | ServiceConfigCell mServiceConfig
  | RouteSpecCell mRouteSpec
  | ExposedServiceConfigCell mExposedServiceConfig
  | SchedulerServicesSpecCell mSchedulerServicesSpec
  | SchedulerSpecCell mSchedulerSpec

datatype 'l worker_cell =
    EphemeralVolumeClaimSpecCell "'l mEphemeralVolumeClaimSpec"
  | TemporaryDataSpecCell mTemporaryDataSpec
  | HDFSSpecCell HDFSSpec
  | PyIcebergSpecCell PyIcebergSpec
  | ExtrasSpecCell mExtrasSpec
  | WorkerPoolDeclarationCell mWorkerPoolDeclaration

datatype 'l cluster_cell =
    PolarsClusterSpecCell mPolarsClusterSpec
  | SchedulerStatusCell SchedulerStatus
  | WorkerPoolStatusCell WorkerPoolStatus
  | PolarsClusterStatusCell mPolarsClusterStatus
  | PolarsClusterCell "'l mPolarsCluster"
  | PolarsClusterListCell "'l mPolarsClusterList"

datatype 'l cell =
    LibraryCell 'l
  | LibraryArray "'l list"
  | StringArray "string list"
  | ClusterArray "'l mPolarsCluster list"
  | MapCell entries
  | InPrim prim_cell
  | InLicense license_cell
  | InRuntime runtime_cell
  | InResults results_cell
  | InShuffle shuffle_cell
  | InCheckpoint checkpoint_cell
  | InLineage lineage_cell
  | InScheduler scheduler_cell
  | InWorker "'l worker_cell"
  | InCluster "'l cluster_cell"

type_synonym 'l memory = "'l cell list"

definition at_library :: "('l cell, 'l) pointee" where
  "at_library = \<lparr>put = (\<lambda>x. LibraryCell x),
     got = (\<lambda>c. case c of LibraryCell x \<Rightarrow> Some x | _ \<Rightarrow> None)\<rparr>"

definition at_library_array :: "('l cell, 'l list) pointee" where
  "at_library_array = \<lparr>put = (\<lambda>x. LibraryArray x),
     got = (\<lambda>c. case c of LibraryArray x \<Rightarrow> Some x | _ \<Rightarrow> None)\<rparr>"

definition at_string_array :: "('l cell, string list) pointee" where
  "at_string_array = \<lparr>put = (\<lambda>x. StringArray x),
     got = (\<lambda>c. case c of StringArray x \<Rightarrow> Some x | _ \<Rightarrow> None)\<rparr>"

definition at_cluster_array :: "('l cell, 'l mPolarsCluster list) pointee" where
  "at_cluster_array = \<lparr>put = (\<lambda>x. ClusterArray x),
     got = (\<lambda>c. case c of ClusterArray x \<Rightarrow> Some x | _ \<Rightarrow> None)\<rparr>"

definition at_map :: "('l cell, entries) pointee" where
  "at_map = \<lparr>put = (\<lambda>x. MapCell x),
     got = (\<lambda>c. case c of MapCell x \<Rightarrow> Some x | _ \<Rightarrow> None)\<rparr>"

definition at_String :: "('l cell, string) pointee" where
  "at_String = \<lparr>put = (\<lambda>x. InPrim (StringCell x)),
     got = (\<lambda>c. case c of InPrim (StringCell x) \<Rightarrow> Some x | _ \<Rightarrow> None)\<rparr>"

definition at_Bool :: "('l cell, bool) pointee" where
  "at_Bool = \<lparr>put = (\<lambda>x. InPrim (BoolCell x)),
     got = (\<lambda>c. case c of InPrim (BoolCell x) \<Rightarrow> Some x | _ \<Rightarrow> None)\<rparr>"

definition at_Duration :: "('l cell, duration) pointee" where
  "at_Duration = \<lparr>put = (\<lambda>x. InPrim (DurationCell x)),
     got = (\<lambda>c. case c of InPrim (DurationCell x) \<Rightarrow> Some x | _ \<Rightarrow> None)\<rparr>"

definition at_ValueOrSource :: "('l cell, mValueOrSource) pointee" where
  "at_ValueOrSource = \<lparr>put = (\<lambda>x. InLicense (ValueOrSourceCell x)),
     got = (\<lambda>c. case c of InLicense (ValueOrSourceCell x) \<Rightarrow> Some x | _ \<Rightarrow> None)\<rparr>"

definition at_PersistentVolumeClaimRef :: "('l cell, PersistentVolumeClaimRef) pointee" where
  "at_PersistentVolumeClaimRef = \<lparr>put = (\<lambda>x. InLicense (PersistentVolumeClaimRefCell x)),
     got = (\<lambda>c. case c of InLicense (PersistentVolumeClaimRefCell x) \<Rightarrow> Some x | _ \<Rightarrow> None)\<rparr>"

definition at_LicenseOnPremSpec :: "('l cell, mLicenseOnPremSpec) pointee" where
  "at_LicenseOnPremSpec = \<lparr>put = (\<lambda>x. InLicense (LicenseOnPremSpecCell x)),
     got = (\<lambda>c. case c of InLicense (LicenseOnPremSpecCell x) \<Rightarrow> Some x | _ \<Rightarrow> None)\<rparr>"

definition at_LicenseOnPremEnterpriseSpec :: "('l cell, LicenseOnPremEnterpriseSpec) pointee" where
  "at_LicenseOnPremEnterpriseSpec = \<lparr>put = (\<lambda>x. InLicense (LicenseOnPremEnterpriseSpecCell x)),
     got = (\<lambda>c. case c of InLicense (LicenseOnPremEnterpriseSpecCell x) \<Rightarrow> Some x | _ \<Rightarrow> None)\<rparr>"

definition at_RegisterNodeSpec :: "('l cell, mRegisterNodeSpec) pointee" where
  "at_RegisterNodeSpec = \<lparr>put = (\<lambda>x. InLicense (RegisterNodeSpecCell x)),
     got = (\<lambda>c. case c of InLicense (RegisterNodeSpecCell x) \<Rightarrow> Some x | _ \<Rightarrow> None)\<rparr>"

definition at_LicenseCloudSpec :: "('l cell, mLicenseCloudSpec) pointee" where
  "at_LicenseCloudSpec = \<lparr>put = (\<lambda>x. InLicense (LicenseCloudSpecCell x)),
     got = (\<lambda>c. case c of InLicense (LicenseCloudSpecCell x) \<Rightarrow> Some x | _ \<Rightarrow> None)\<rparr>"

definition at_LicenseSpec :: "('l cell, mLicenseSpec) pointee" where
  "at_LicenseSpec = \<lparr>put = (\<lambda>x. InLicense (LicenseSpecCell x)),
     got = (\<lambda>c. case c of InLicense (LicenseSpecCell x) \<Rightarrow> Some x | _ \<Rightarrow> None)\<rparr>"

definition at_TelemetrySpec :: "('l cell, mTelemetrySpec) pointee" where
  "at_TelemetrySpec = \<lparr>put = (\<lambda>x. InLicense (TelemetrySpecCell x)),
     got = (\<lambda>c. case c of InLicense (TelemetrySpecCell x) \<Rightarrow> Some x | _ \<Rightarrow> None)\<rparr>"

definition at_ImageSpec :: "('l cell, ImageSpec) pointee" where
  "at_ImageSpec = \<lparr>put = (\<lambda>x. InRuntime (ImageSpecCell x)),
     got = (\<lambda>c. case c of InRuntime (ImageSpecCell x) \<Rightarrow> Some x | _ \<Rightarrow> None)\<rparr>"

definition at_ImageVolumeSpec :: "('l cell, ImageVolumeSpec) pointee" where
  "at_ImageVolumeSpec = \<lparr>put = (\<lambda>x. InRuntime (ImageVolumeSpecCell x)),
     got = (\<lambda>c. case c of InRuntime (ImageVolumeSpecCell x) \<Rightarrow> Some x | _ \<Rightarrow> None)\<rparr>"

definition at_ComposedRuntimeSpec :: "('l cell, mComposedRuntimeSpec) pointee" where
  "at_ComposedRuntimeSpec = \<lparr>put = (\<lambda>x. InRuntime (ComposedRuntimeSpecCell x)),
     got = (\<lambda>c. case c of InRuntime (ComposedRuntimeSpecCell x) \<Rightarrow> Some x | _ \<Rightarrow> None)\<rparr>"

definition at_RuntimeSpec :: "('l cell, mRuntimeSpec) pointee" where
  "at_RuntimeSpec = \<lparr>put = (\<lambda>x. InRuntime (RuntimeSpecCell x)),
     got = (\<lambda>c. case c of InRuntime (RuntimeSpecCell x) \<Rightarrow> Some x | _ \<Rightarrow> None)\<rparr>"

definition at_ObservatorySpec :: "('l cell, mObservatorySpec) pointee" where
  "at_ObservatorySpec = \<lparr>put = (\<lambda>x. InRuntime (ObservatorySpecCell x)),
     got = (\<lambda>c. case c of InRuntime (ObservatorySpecCell x) \<Rightarrow> Some x | _ \<Rightarrow> None)\<rparr>"

definition at_HostMetricsSpec :: "('l cell, HostMetricsSpec) pointee" where
  "at_HostMetricsSpec = \<lparr>put = (\<lambda>x. InRuntime (HostMetricsSpecCell x)),
     got = (\<lambda>c. case c of InRuntime (HostMetricsSpecCell x) \<Rightarrow> Some x | _ \<Rightarrow> None)\<rparr>"

definition at_SharedFilesystemSpec :: "('l cell, SharedFilesystemSpec) pointee" where
  "at_SharedFilesystemSpec = \<lparr>put = (\<lambda>x. InResults (SharedFilesystemSpecCell x)),
     got = (\<lambda>c. case c of InResults (SharedFilesystemSpecCell x) \<Rightarrow> Some x | _ \<Rightarrow> None)\<rparr>"

definition at_LocalFilesystemSpec :: "('l cell, LocalFilesystemSpec) pointee" where
  "at_LocalFilesystemSpec = \<lparr>put = (\<lambda>x. InResults (LocalFilesystemSpecCell x)),
     got = (\<lambda>c. case c of InResults (LocalFilesystemSpecCell x) \<Rightarrow> Some x | _ \<Rightarrow> None)\<rparr>"

definition at_AnonymousResultsS3Spec :: "('l cell, mAnonymousResultsS3Spec) pointee" where
  "at_AnonymousResultsS3Spec = \<lparr>put = (\<lambda>x. InResults (AnonymousResultsS3SpecCell x)),
     got = (\<lambda>c. case c of InResults (AnonymousResultsS3SpecCell x) \<Rightarrow> Some x | _ \<Rightarrow> None)\<rparr>"

definition at_AnonymousResultsABSSpec :: "('l cell, mAnonymousResultsABSSpec) pointee" where
  "at_AnonymousResultsABSSpec = \<lparr>put = (\<lambda>x. InResults (AnonymousResultsABSSpecCell x)),
     got = (\<lambda>c. case c of InResults (AnonymousResultsABSSpecCell x) \<Rightarrow> Some x | _ \<Rightarrow> None)\<rparr>"

definition at_AnonymousResultsGCSSpec :: "('l cell, mAnonymousResultsGCSSpec) pointee" where
  "at_AnonymousResultsGCSSpec = \<lparr>put = (\<lambda>x. InResults (AnonymousResultsGCSSpecCell x)),
     got = (\<lambda>c. case c of InResults (AnonymousResultsGCSSpecCell x) \<Rightarrow> Some x | _ \<Rightarrow> None)\<rparr>"

definition at_AnonymousResultsSpec :: "('l cell, mAnonymousResultsSpec) pointee" where
  "at_AnonymousResultsSpec = \<lparr>put = (\<lambda>x. InResults (AnonymousResultsSpecCell x)),
     got = (\<lambda>c. case c of InResults (AnonymousResultsSpecCell x) \<Rightarrow> Some x | _ \<Rightarrow> None)\<rparr>"

definition at_ShuffleDataS3Spec :: "('l cell, mShuffleDataS3Spec) pointee" where
  "at_ShuffleDataS3Spec = \<lparr>put = (\<lambda>x. InShuffle (ShuffleDataS3SpecCell x)),
     got = (\<lambda>c. case c of InShuffle (ShuffleDataS3SpecCell x) \<Rightarrow> Some x | _ \<Rightarrow> None)\<rparr>"

definition at_ShuffleDataABSSpec :: "('l cell, mShuffleDataABSSpec) pointee" where
  "at_ShuffleDataABSSpec = \<lparr>put = (\<lambda>x. InShuffle (ShuffleDataABSSpecCell x)),
     got = (\<lambda>c. case c of InShuffle (ShuffleDataABSSpecCell x) \<Rightarrow> Some x | _ \<Rightarrow> None)\<rparr>"

definition at_ShuffleDataGCSSpec :: "('l cell, mShuffleDataGCSSpec) pointee" where
  "at_ShuffleDataGCSSpec = \<lparr>put = (\<lambda>x. InShuffle (ShuffleDataGCSSpecCell x)),
     got = (\<lambda>c. case c of InShuffle (ShuffleDataGCSSpecCell x) \<Rightarrow> Some x | _ \<Rightarrow> None)\<rparr>"

definition at_ShuffleDataSpec :: "('l cell, mShuffleDataSpec) pointee" where
  "at_ShuffleDataSpec = \<lparr>put = (\<lambda>x. InShuffle (ShuffleDataSpecCell x)),
     got = (\<lambda>c. case c of InShuffle (ShuffleDataSpecCell x) \<Rightarrow> Some x | _ \<Rightarrow> None)\<rparr>"

definition at_CheckpointS3Spec :: "('l cell, mCheckpointS3Spec) pointee" where
  "at_CheckpointS3Spec = \<lparr>put = (\<lambda>x. InCheckpoint (CheckpointS3SpecCell x)),
     got = (\<lambda>c. case c of InCheckpoint (CheckpointS3SpecCell x) \<Rightarrow> Some x | _ \<Rightarrow> None)\<rparr>"

definition at_CheckpointABSSpec :: "('l cell, mCheckpointABSSpec) pointee" where
  "at_CheckpointABSSpec = \<lparr>put = (\<lambda>x. InCheckpoint (CheckpointABSSpecCell x)),
     got = (\<lambda>c. case c of InCheckpoint (CheckpointABSSpecCell x) \<Rightarrow> Some x | _ \<Rightarrow> None)\<rparr>"

definition at_CheckpointGCSSpec :: "('l cell, mCheckpointGCSSpec) pointee" where
  "at_CheckpointGCSSpec = \<lparr>put = (\<lambda>x. InCheckpoint (CheckpointGCSSpecCell x)),
     got = (\<lambda>c. case c of InCheckpoint (CheckpointGCSSpecCell x) \<Rightarrow> Some x | _ \<Rightarrow> None)\<rparr>"

definition at_CheckpointDataSpec :: "('l cell, mCheckpointDataSpec) pointee" where
  "at_CheckpointDataSpec = \<lparr>put = (\<lambda>x. InCheckpoint (CheckpointDataSpecCell x)),
     got = (\<lambda>c. case c of InCheckpoint (CheckpointDataSpecCell x) \<Rightarrow> Some x | _ \<Rightarrow> None)\<rparr>"

definition at_CheckpointSpec :: "('l cell, mCheckpointSpec) pointee" where
  "at_CheckpointSpec = \<lparr>put = (\<lambda>x. InCheckpoint (CheckpointSpecCell x)),
     got = (\<lambda>c. case c of InCheckpoint (CheckpointSpecCell x) \<Rightarrow> Some x | _ \<Rightarrow> None)\<rparr>"

definition at_LineageTransportHTTPSpec :: "('l cell, LineageTransportHTTPSpec) pointee" where
  "at_LineageTransportHTTPSpec = \<lparr>put = (\<lambda>x. InLineage (LineageTransportHTTPSpecCell x)),
     got = (\<lambda>c. case c of InLineage (LineageTransportHTTPSpecCell x) \<Rightarrow> Some x | _ \<Rightarrow> None)\<rparr>"

definition at_LineageTransportSpec :: "('l cell, mLineageTransportSpec) pointee" where
  "at_LineageTransportSpec = \<lparr>put = (\<lambda>x. InLineage (LineageTransportSpecCell x)),
     got = (\<lambda>c. case c of InLineage (LineageTransportSpecCell x) \<Rightarrow> Some x | _ \<Rightarrow> None)\<rparr>"

definition at_LineageSpec :: "('l cell, mLineageSpec) pointee" where
  "at_LineageSpec = \<lparr>put = (\<lambda>x. InLineage (LineageSpecCell x)),
     got = (\<lambda>c. case c of InLineage (LineageSpecCell x) \<Rightarrow> Some x | _ \<Rightarrow> None)\<rparr>"

definition at_ServiceAccountSpec :: "('l cell, ServiceAccountSpec) pointee" where
  "at_ServiceAccountSpec = \<lparr>put = (\<lambda>x. InScheduler (ServiceAccountSpecCell x)),
     got = (\<lambda>c. case c of InScheduler (ServiceAccountSpecCell x) \<Rightarrow> Some x | _ \<Rightarrow> None)\<rparr>"

definition at_ServiceConfig :: "('l cell, mServiceConfig) pointee" where
  "at_ServiceConfig = \<lparr>put = (\<lambda>x. InScheduler (ServiceConfigCell x)),
     got = (\<lambda>c. case c of InScheduler (ServiceConfigCell x) \<Rightarrow> Some x | _ \<Rightarrow> None)\<rparr>"

definition at_RouteSpec :: "('l cell, mRouteSpec) pointee" where
  "at_RouteSpec = \<lparr>put = (\<lambda>x. InScheduler (RouteSpecCell x)),
     got = (\<lambda>c. case c of InScheduler (RouteSpecCell x) \<Rightarrow> Some x | _ \<Rightarrow> None)\<rparr>"

definition at_ExposedServiceConfig :: "('l cell, mExposedServiceConfig) pointee" where
  "at_ExposedServiceConfig = \<lparr>put = (\<lambda>x. InScheduler (ExposedServiceConfigCell x)),
     got = (\<lambda>c. case c of InScheduler (ExposedServiceConfigCell x) \<Rightarrow> Some x | _ \<Rightarrow> None)\<rparr>"

definition at_SchedulerServicesSpec :: "('l cell, mSchedulerServicesSpec) pointee" where
  "at_SchedulerServicesSpec = \<lparr>put = (\<lambda>x. InScheduler (SchedulerServicesSpecCell x)),
     got = (\<lambda>c. case c of InScheduler (SchedulerServicesSpecCell x) \<Rightarrow> Some x | _ \<Rightarrow> None)\<rparr>"

definition at_SchedulerSpec :: "('l cell, mSchedulerSpec) pointee" where
  "at_SchedulerSpec = \<lparr>put = (\<lambda>x. InScheduler (SchedulerSpecCell x)),
     got = (\<lambda>c. case c of InScheduler (SchedulerSpecCell x) \<Rightarrow> Some x | _ \<Rightarrow> None)\<rparr>"

definition at_EphemeralVolumeClaimSpec :: "('l cell, 'l mEphemeralVolumeClaimSpec) pointee" where
  "at_EphemeralVolumeClaimSpec = \<lparr>put = (\<lambda>x. InWorker (EphemeralVolumeClaimSpecCell x)),
     got = (\<lambda>c. case c of InWorker (EphemeralVolumeClaimSpecCell x) \<Rightarrow> Some x | _ \<Rightarrow> None)\<rparr>"

definition at_TemporaryDataSpec :: "('l cell, mTemporaryDataSpec) pointee" where
  "at_TemporaryDataSpec = \<lparr>put = (\<lambda>x. InWorker (TemporaryDataSpecCell x)),
     got = (\<lambda>c. case c of InWorker (TemporaryDataSpecCell x) \<Rightarrow> Some x | _ \<Rightarrow> None)\<rparr>"

definition at_HDFSSpec :: "('l cell, HDFSSpec) pointee" where
  "at_HDFSSpec = \<lparr>put = (\<lambda>x. InWorker (HDFSSpecCell x)),
     got = (\<lambda>c. case c of InWorker (HDFSSpecCell x) \<Rightarrow> Some x | _ \<Rightarrow> None)\<rparr>"

definition at_PyIcebergSpec :: "('l cell, PyIcebergSpec) pointee" where
  "at_PyIcebergSpec = \<lparr>put = (\<lambda>x. InWorker (PyIcebergSpecCell x)),
     got = (\<lambda>c. case c of InWorker (PyIcebergSpecCell x) \<Rightarrow> Some x | _ \<Rightarrow> None)\<rparr>"

definition at_ExtrasSpec :: "('l cell, mExtrasSpec) pointee" where
  "at_ExtrasSpec = \<lparr>put = (\<lambda>x. InWorker (ExtrasSpecCell x)),
     got = (\<lambda>c. case c of InWorker (ExtrasSpecCell x) \<Rightarrow> Some x | _ \<Rightarrow> None)\<rparr>"

definition at_WorkerPoolDeclaration :: "('l cell, mWorkerPoolDeclaration) pointee" where
  "at_WorkerPoolDeclaration = \<lparr>put = (\<lambda>x. InWorker (WorkerPoolDeclarationCell x)),
     got = (\<lambda>c. case c of InWorker (WorkerPoolDeclarationCell x) \<Rightarrow> Some x | _ \<Rightarrow> None)\<rparr>"

definition at_PolarsClusterSpec :: "('l cell, mPolarsClusterSpec) pointee" where
  "at_PolarsClusterSpec = \<lparr>put = (\<lambda>x. InCluster (PolarsClusterSpecCell x)),
     got = (\<lambda>c. case c of InCluster (PolarsClusterSpecCell x) \<Rightarrow> Some x | _ \<Rightarrow> None)\<rparr>"

definition at_SchedulerStatus :: "('l cell, SchedulerStatus) pointee" where
  "at_SchedulerStatus = \<lparr>put = (\<lambda>x. InCluster (SchedulerStatusCell x)),
     got = (\<lambda>c. case c of InCluster (SchedulerStatusCell x) \<Rightarrow> Some x | _ \<Rightarrow> None)\<rparr>"

definition at_WorkerPoolStatus :: "('l cell, WorkerPoolStatus) pointee" where
  "at_WorkerPoolStatus = \<lparr>put = (\<lambda>x. InCluster (WorkerPoolStatusCell x)),
     got = (\<lambda>c. case c of InCluster (WorkerPoolStatusCell x) \<Rightarrow> Some x | _ \<Rightarrow> None)\<rparr>"

definition at_PolarsClusterStatus :: "('l cell, mPolarsClusterStatus) pointee" where
  "at_PolarsClusterStatus = \<lparr>put = (\<lambda>x. InCluster (PolarsClusterStatusCell x)),
     got = (\<lambda>c. case c of InCluster (PolarsClusterStatusCell x) \<Rightarrow> Some x | _ \<Rightarrow> None)\<rparr>"

definition at_PolarsCluster :: "('l cell, 'l mPolarsCluster) pointee" where
  "at_PolarsCluster = \<lparr>put = (\<lambda>x. InCluster (PolarsClusterCell x)),
     got = (\<lambda>c. case c of InCluster (PolarsClusterCell x) \<Rightarrow> Some x | _ \<Rightarrow> None)\<rparr>"

definition at_PolarsClusterList :: "('l cell, 'l mPolarsClusterList) pointee" where
  "at_PolarsClusterList = \<lparr>put = (\<lambda>x. InCluster (PolarsClusterListCell x)),
     got = (\<lambda>c. case c of InCluster (PolarsClusterListCell x) \<Rightarrow> Some x | _ \<Rightarrow> None)\<rparr>"

lemma at_library_ok [simp]: "pointee_ok at_library"
  by (simp add: pointee_ok_def at_library_def)

lemma at_library_array_ok [simp]: "pointee_ok at_library_array"
  by (simp add: pointee_ok_def at_library_array_def)

lemma at_string_array_ok [simp]: "pointee_ok at_string_array"
  by (simp add: pointee_ok_def at_string_array_def)

lemma at_cluster_array_ok [simp]: "pointee_ok at_cluster_array"
  by (simp add: pointee_ok_def at_cluster_array_def)

lemma at_map_ok [simp]: "pointee_ok at_map"
  by (simp add: pointee_ok_def at_map_def)

lemma at_String_ok [simp]: "pointee_ok at_String"
  by (simp add: pointee_ok_def at_String_def)

lemma at_Bool_ok [simp]: "pointee_ok at_Bool"
  by (simp add: pointee_ok_def at_Bool_def)

lemma at_Duration_ok [simp]: "pointee_ok at_Duration"
  by (simp add: pointee_ok_def at_Duration_def)

lemma at_ValueOrSource_ok [simp]: "pointee_ok at_ValueOrSource"
  by (simp add: pointee_ok_def at_ValueOrSource_def)

lemma at_PersistentVolumeClaimRef_ok [simp]: "pointee_ok at_PersistentVolumeClaimRef"
  by (simp add: pointee_ok_def at_PersistentVolumeClaimRef_def)

lemma at_LicenseOnPremSpec_ok [simp]: "pointee_ok at_LicenseOnPremSpec"
  by (simp add: pointee_ok_def at_LicenseOnPremSpec_def)

lemma at_LicenseOnPremEnterpriseSpec_ok [simp]: "pointee_ok at_LicenseOnPremEnterpriseSpec"
  by (simp add: pointee_ok_def at_LicenseOnPremEnterpriseSpec_def)

lemma at_RegisterNodeSpec_ok [simp]: "pointee_ok at_RegisterNodeSpec"
  by (simp add: pointee_ok_def at_RegisterNodeSpec_def)

lemma at_LicenseCloudSpec_ok [simp]: "pointee_ok at_LicenseCloudSpec"
  by (simp add: pointee_ok_def at_LicenseCloudSpec_def)

lemma at_LicenseSpec_ok [simp]: "pointee_ok at_LicenseSpec"
  by (simp add: pointee_ok_def at_LicenseSpec_def)

lemma at_TelemetrySpec_ok [simp]: "pointee_ok at_TelemetrySpec"
  by (simp add: pointee_ok_def at_TelemetrySpec_def)

lemma at_ImageSpec_ok [simp]: "pointee_ok at_ImageSpec"
  by (simp add: pointee_ok_def at_ImageSpec_def)

lemma at_ImageVolumeSpec_ok [simp]: "pointee_ok at_ImageVolumeSpec"
  by (simp add: pointee_ok_def at_ImageVolumeSpec_def)

lemma at_ComposedRuntimeSpec_ok [simp]: "pointee_ok at_ComposedRuntimeSpec"
  by (simp add: pointee_ok_def at_ComposedRuntimeSpec_def)

lemma at_RuntimeSpec_ok [simp]: "pointee_ok at_RuntimeSpec"
  by (simp add: pointee_ok_def at_RuntimeSpec_def)

lemma at_ObservatorySpec_ok [simp]: "pointee_ok at_ObservatorySpec"
  by (simp add: pointee_ok_def at_ObservatorySpec_def)

lemma at_HostMetricsSpec_ok [simp]: "pointee_ok at_HostMetricsSpec"
  by (simp add: pointee_ok_def at_HostMetricsSpec_def)

lemma at_SharedFilesystemSpec_ok [simp]: "pointee_ok at_SharedFilesystemSpec"
  by (simp add: pointee_ok_def at_SharedFilesystemSpec_def)

lemma at_LocalFilesystemSpec_ok [simp]: "pointee_ok at_LocalFilesystemSpec"
  by (simp add: pointee_ok_def at_LocalFilesystemSpec_def)

lemma at_AnonymousResultsS3Spec_ok [simp]: "pointee_ok at_AnonymousResultsS3Spec"
  by (simp add: pointee_ok_def at_AnonymousResultsS3Spec_def)

lemma at_AnonymousResultsABSSpec_ok [simp]: "pointee_ok at_AnonymousResultsABSSpec"
  by (simp add: pointee_ok_def at_AnonymousResultsABSSpec_def)

lemma at_AnonymousResultsGCSSpec_ok [simp]: "pointee_ok at_AnonymousResultsGCSSpec"
  by (simp add: pointee_ok_def at_AnonymousResultsGCSSpec_def)

lemma at_AnonymousResultsSpec_ok [simp]: "pointee_ok at_AnonymousResultsSpec"
  by (simp add: pointee_ok_def at_AnonymousResultsSpec_def)

lemma at_ShuffleDataS3Spec_ok [simp]: "pointee_ok at_ShuffleDataS3Spec"
  by (simp add: pointee_ok_def at_ShuffleDataS3Spec_def)

lemma at_ShuffleDataABSSpec_ok [simp]: "pointee_ok at_ShuffleDataABSSpec"
  by (simp add: pointee_ok_def at_ShuffleDataABSSpec_def)

lemma at_ShuffleDataGCSSpec_ok [simp]: "pointee_ok at_ShuffleDataGCSSpec"
  by (simp add: pointee_ok_def at_ShuffleDataGCSSpec_def)

lemma at_ShuffleDataSpec_ok [simp]: "pointee_ok at_ShuffleDataSpec"
  by (simp add: pointee_ok_def at_ShuffleDataSpec_def)

lemma at_CheckpointS3Spec_ok [simp]: "pointee_ok at_CheckpointS3Spec"
  by (simp add: pointee_ok_def at_CheckpointS3Spec_def)

lemma at_CheckpointABSSpec_ok [simp]: "pointee_ok at_CheckpointABSSpec"
  by (simp add: pointee_ok_def at_CheckpointABSSpec_def)

lemma at_CheckpointGCSSpec_ok [simp]: "pointee_ok at_CheckpointGCSSpec"
  by (simp add: pointee_ok_def at_CheckpointGCSSpec_def)

lemma at_CheckpointDataSpec_ok [simp]: "pointee_ok at_CheckpointDataSpec"
  by (simp add: pointee_ok_def at_CheckpointDataSpec_def)

lemma at_CheckpointSpec_ok [simp]: "pointee_ok at_CheckpointSpec"
  by (simp add: pointee_ok_def at_CheckpointSpec_def)

lemma at_LineageTransportHTTPSpec_ok [simp]: "pointee_ok at_LineageTransportHTTPSpec"
  by (simp add: pointee_ok_def at_LineageTransportHTTPSpec_def)

lemma at_LineageTransportSpec_ok [simp]: "pointee_ok at_LineageTransportSpec"
  by (simp add: pointee_ok_def at_LineageTransportSpec_def)

lemma at_LineageSpec_ok [simp]: "pointee_ok at_LineageSpec"
  by (simp add: pointee_ok_def at_LineageSpec_def)

lemma at_ServiceAccountSpec_ok [simp]: "pointee_ok at_ServiceAccountSpec"
  by (simp add: pointee_ok_def at_ServiceAccountSpec_def)

lemma at_ServiceConfig_ok [simp]: "pointee_ok at_ServiceConfig"
  by (simp add: pointee_ok_def at_ServiceConfig_def)

lemma at_RouteSpec_ok [simp]: "pointee_ok at_RouteSpec"
  by (simp add: pointee_ok_def at_RouteSpec_def)

lemma at_ExposedServiceConfig_ok [simp]: "pointee_ok at_ExposedServiceConfig"
  by (simp add: pointee_ok_def at_ExposedServiceConfig_def)

lemma at_SchedulerServicesSpec_ok [simp]: "pointee_ok at_SchedulerServicesSpec"
  by (simp add: pointee_ok_def at_SchedulerServicesSpec_def)

lemma at_SchedulerSpec_ok [simp]: "pointee_ok at_SchedulerSpec"
  by (simp add: pointee_ok_def at_SchedulerSpec_def)

lemma at_EphemeralVolumeClaimSpec_ok [simp]: "pointee_ok at_EphemeralVolumeClaimSpec"
  by (simp add: pointee_ok_def at_EphemeralVolumeClaimSpec_def)

lemma at_TemporaryDataSpec_ok [simp]: "pointee_ok at_TemporaryDataSpec"
  by (simp add: pointee_ok_def at_TemporaryDataSpec_def)

lemma at_HDFSSpec_ok [simp]: "pointee_ok at_HDFSSpec"
  by (simp add: pointee_ok_def at_HDFSSpec_def)

lemma at_PyIcebergSpec_ok [simp]: "pointee_ok at_PyIcebergSpec"
  by (simp add: pointee_ok_def at_PyIcebergSpec_def)

lemma at_ExtrasSpec_ok [simp]: "pointee_ok at_ExtrasSpec"
  by (simp add: pointee_ok_def at_ExtrasSpec_def)

lemma at_WorkerPoolDeclaration_ok [simp]: "pointee_ok at_WorkerPoolDeclaration"
  by (simp add: pointee_ok_def at_WorkerPoolDeclaration_def)

lemma at_PolarsClusterSpec_ok [simp]: "pointee_ok at_PolarsClusterSpec"
  by (simp add: pointee_ok_def at_PolarsClusterSpec_def)

lemma at_SchedulerStatus_ok [simp]: "pointee_ok at_SchedulerStatus"
  by (simp add: pointee_ok_def at_SchedulerStatus_def)

lemma at_WorkerPoolStatus_ok [simp]: "pointee_ok at_WorkerPoolStatus"
  by (simp add: pointee_ok_def at_WorkerPoolStatus_def)

lemma at_PolarsClusterStatus_ok [simp]: "pointee_ok at_PolarsClusterStatus"
  by (simp add: pointee_ok_def at_PolarsClusterStatus_def)

lemma at_PolarsCluster_ok [simp]: "pointee_ok at_PolarsCluster"
  by (simp add: pointee_ok_def at_PolarsCluster_def)

lemma at_PolarsClusterList_ok [simp]: "pointee_ok at_PolarsClusterList"
  by (simp add: pointee_ok_def at_PolarsClusterList_def)

end
