(* ===== verification/Deep_Copy.thy ===== *)
theory Deep_Copy
  imports Cluster_Memory
begin

text \<open>
  The functions of \<open>api/v1alpha1/zz_generated.deepcopy.go\<close>, statement by statement. A
  \<open>DeepCopyInto\<close> returns the struct it leaves in \<open>*out\<close>; the variable named \<open>in\<close> there is \<open>src\<close>
  here. The copy functions of the libraries' structs are the parameter \<open>library\<close>, with
  the order in which a map is ranged over and the \<open>Labels\<close> reference of a pod template;
  \<open>lib_laws\<close> is their documented behaviour.
\<close>

section \<open>Library structs\<close>

record ('l, 'v) lib_type =
  lt_read :: "'l memory \<Rightarrow> 'l \<Rightarrow> 'v option"
  lt_foot :: "'l memory \<Rightarrow> 'l \<Rightarrow> addr set"
  lt_copy :: "'l \<Rightarrow> ('l cell, 'l) cmd"

record 'l library =
  lib_EnvVar :: "('l, env_var) lib_type"
  lib_EnvVarSource :: "('l, env_var_source) lib_type"
  lib_PodTemplateSpec :: "('l, pod_template_spec) lib_type"
  lib_ParentReference :: "('l, opaque) lib_type"
  lib_Condition :: "('l, condition) lib_type"
  lib_ObjectMeta :: "('l, object_meta) lib_type"
  lib_ListMeta :: "('l, opaque) lib_type"
  lib_Quantity :: "('l, quantity) lib_type"
  lib_range :: "entries \<Rightarrow> entries"
  lib_labels :: "'l \<Rightarrow> addr option"

definition lib_copies :: "('l, 'v) lib_type \<Rightarrow> bool" where
  "lib_copies t = copies (lt_read t) (lt_foot t) (lt_copy t)"

definition lib_laws :: "'l library \<Rightarrow> bool" where
  "lib_laws L =
     (lib_copies (lib_EnvVar L) \<and>
      lib_copies (lib_EnvVarSource L) \<and>
      lib_copies (lib_PodTemplateSpec L) \<and>
      lib_copies (lib_ParentReference L) \<and>
      lib_copies (lib_Condition L) \<and>
      lib_copies (lib_ObjectMeta L) \<and>
      lib_copies (lib_ListMeta L) \<and>
      lib_copies (lib_Quantity L) \<and>
      (\<forall>es. mset (lib_range L es) = mset es) \<and>
      (\<forall>m x v. lt_read (lib_PodTemplateSpec L) m x = Some v \<longrightarrow>
         rd_map at_map m (lib_labels L x) = Some (om_Labels (pt_ObjectMeta v)) \<and>
         set_option (lib_labels L x) \<subseteq> lt_foot (lib_PodTemplateSpec L) m x))"

lemma lib_lawsD:
  assumes "lib_laws L"
  shows "copies (lt_read (lib_EnvVar L)) (lt_foot (lib_EnvVar L)) (lt_copy (lib_EnvVar L))"
    "copies (lt_read (lib_EnvVarSource L)) (lt_foot (lib_EnvVarSource L)) (lt_copy (lib_EnvVarSource L))"
    "copies (lt_read (lib_PodTemplateSpec L)) (lt_foot (lib_PodTemplateSpec L)) (lt_copy (lib_PodTemplateSpec L))"
    "copies (lt_read (lib_ParentReference L)) (lt_foot (lib_ParentReference L)) (lt_copy (lib_ParentReference L))"
    "copies (lt_read (lib_Condition L)) (lt_foot (lib_Condition L)) (lt_copy (lib_Condition L))"
    "copies (lt_read (lib_ObjectMeta L)) (lt_foot (lib_ObjectMeta L)) (lt_copy (lib_ObjectMeta L))"
    "copies (lt_read (lib_ListMeta L)) (lt_foot (lib_ListMeta L)) (lt_copy (lib_ListMeta L))"
    "copies (lt_read (lib_Quantity L)) (lt_foot (lib_Quantity L)) (lt_copy (lib_Quantity L))"
    "\<And>es. mset (lib_range L es) = mset es"
    "\<And>m x v. lt_read (lib_PodTemplateSpec L) m x = Some v \<Longrightarrow>
       rd_map at_map m (lib_labels L x) = Some (om_Labels (pt_ObjectMeta v))"
    "\<And>m x v. lt_read (lib_PodTemplateSpec L) m x = Some v \<Longrightarrow>
       set_option (lib_labels L x) \<subseteq> lt_foot (lib_PodTemplateSpec L) m x"
  using assms by (simp_all add: lib_laws_def lib_copies_def)

section \<open>Structs without references\<close>

definition HDFSSpec_DeepCopyInto ::
    "HDFSSpec \<Rightarrow> ('l cell, HDFSSpec) cmd" where
  "HDFSSpec_DeepCopyInto src m = Some (src, m)"

definition HostMetricsSpec_DeepCopyInto ::
    "HostMetricsSpec \<Rightarrow> ('l cell, HostMetricsSpec) cmd" where
  "HostMetricsSpec_DeepCopyInto src m = Some (src, m)"

definition ImageSpec_DeepCopyInto ::
    "ImageSpec \<Rightarrow> ('l cell, ImageSpec) cmd" where
  "ImageSpec_DeepCopyInto src m = Some (src, m)"

definition ImageVolumeSpec_DeepCopyInto ::
    "ImageVolumeSpec \<Rightarrow> ('l cell, ImageVolumeSpec) cmd" where
  "ImageVolumeSpec_DeepCopyInto src m = Some (src, m)"

definition LicenseOnPremEnterpriseSpec_DeepCopyInto ::
    "LicenseOnPremEnterpriseSpec \<Rightarrow> ('l cell, LicenseOnPremEnterpriseSpec) cmd" where
  "LicenseOnPremEnterpriseSpec_DeepCopyInto src m = Some (src, m)"

definition LineageTransportHTTPSpec_DeepCopyInto ::
    "LineageTransportHTTPSpec \<Rightarrow> ('l cell, LineageTransportHTTPSpec) cmd" where
  "LineageTransportHTTPSpec_DeepCopyInto src m = Some (src, m)"

definition LocalFilesystemSpec_DeepCopyInto ::
    "LocalFilesystemSpec \<Rightarrow> ('l cell, LocalFilesystemSpec) cmd" where
  "LocalFilesystemSpec_DeepCopyInto src m = Some (src, m)"

definition PersistentVolumeClaimRef_DeepCopyInto ::
    "PersistentVolumeClaimRef \<Rightarrow> ('l cell, PersistentVolumeClaimRef) cmd" where
  "PersistentVolumeClaimRef_DeepCopyInto src m = Some (src, m)"

definition PyIcebergSpec_DeepCopyInto ::
    "PyIcebergSpec \<Rightarrow> ('l cell, PyIcebergSpec) cmd" where
  "PyIcebergSpec_DeepCopyInto src m = Some (src, m)"

definition SchedulerStatus_DeepCopyInto ::
    "SchedulerStatus \<Rightarrow> ('l cell, SchedulerStatus) cmd" where
  "SchedulerStatus_DeepCopyInto src m = Some (src, m)"

definition ServiceAccountSpec_DeepCopyInto ::
    "ServiceAccountSpec \<Rightarrow> ('l cell, ServiceAccountSpec) cmd" where
  "ServiceAccountSpec_DeepCopyInto src m = Some (src, m)"

definition SharedFilesystemSpec_DeepCopyInto ::
    "SharedFilesystemSpec \<Rightarrow> ('l cell, SharedFilesystemSpec) cmd" where
  "SharedFilesystemSpec_DeepCopyInto src m = Some (src, m)"

definition WorkerPoolStatus_DeepCopyInto ::
    "WorkerPoolStatus \<Rightarrow> ('l cell, WorkerPoolStatus) cmd" where
  "WorkerPoolStatus_DeepCopyInto src m = Some (src, m)"

section \<open>Structs with references\<close>

definition AnonymousResultsABSSpec_DeepCopyInto ::
    "'l library \<Rightarrow> mAnonymousResultsABSSpec \<Rightarrow> ('l cell, mAnonymousResultsABSSpec) cmd" where
  "AnonymousResultsABSSpec_DeepCopyInto L src m = do {
     let out = src;
     (v, m) \<leftarrow> copy_ptr at_Duration copy_flat (marabs_PresignDuration src) m;
     let out = out\<lparr>marabs_PresignDuration := v\<rparr>;
     (v, m) \<leftarrow> copy_slice at_library_array (lt_copy (lib_EnvVar L)) (marabs_Options src) m;
     let out = out\<lparr>marabs_Options := v\<rparr>;
     Some (out, m)
   }"

definition AnonymousResultsGCSSpec_DeepCopyInto ::
    "'l library \<Rightarrow> mAnonymousResultsGCSSpec \<Rightarrow> ('l cell, mAnonymousResultsGCSSpec) cmd" where
  "AnonymousResultsGCSSpec_DeepCopyInto L src m = do {
     let out = src;
     (v, m) \<leftarrow> copy_ptr at_Duration copy_flat (margcs_PresignDuration src) m;
     let out = out\<lparr>margcs_PresignDuration := v\<rparr>;
     (v, m) \<leftarrow> copy_slice at_library_array (lt_copy (lib_EnvVar L)) (margcs_Options src) m;
     let out = out\<lparr>margcs_Options := v\<rparr>;
     Some (out, m)
   }"

definition AnonymousResultsS3Spec_DeepCopyInto ::
    "'l library \<Rightarrow> mAnonymousResultsS3Spec \<Rightarrow> ('l cell, mAnonymousResultsS3Spec) cmd" where
  "AnonymousResultsS3Spec_DeepCopyInto L src m = do {
     let out = src;
     (v, m) \<leftarrow> copy_ptr at_Duration copy_flat (mars3_PresignDuration src) m;
     let out = out\<lparr>mars3_PresignDuration := v\<rparr>;
     (v, m) \<leftarrow> copy_slice at_library_array (lt_copy (lib_EnvVar L)) (mars3_Options src) m;
     let out = out\<lparr>mars3_Options := v\<rparr>;
     Some (out, m)
   }"

definition AnonymousResultsSpec_DeepCopyInto ::
    "'l library \<Rightarrow> mAnonymousResultsSpec \<Rightarrow> ('l cell, mAnonymousResultsSpec) cmd" where
  "AnonymousResultsSpec_DeepCopyInto L src m = do {
     let out = src;
     (v, m) \<leftarrow> copy_ptr at_AnonymousResultsS3Spec
         (AnonymousResultsS3Spec_DeepCopyInto L) (mar_S3 src) m;
     let out = out\<lparr>mar_S3 := v\<rparr>;
     (v, m) \<leftarrow> copy_ptr at_AnonymousResultsABSSpec
         (AnonymousResultsABSSpec_DeepCopyInto L) (mar_ABS src) m;
     let out = out\<lparr>mar_ABS := v\<rparr>;
     (v, m) \<leftarrow> copy_ptr at_AnonymousResultsGCSSpec
         (AnonymousResultsGCSSpec_DeepCopyInto L) (mar_GCS src) m;
     let out = out\<lparr>mar_GCS := v\<rparr>;
     (v, m) \<leftarrow> copy_ptr at_SharedFilesystemSpec copy_flat (mar_SharedFilesystem src) m;
     let out = out\<lparr>mar_SharedFilesystem := v\<rparr>;
     Some (out, m)
   }"

definition CheckpointABSSpec_DeepCopyInto ::
    "'l library \<Rightarrow> mCheckpointABSSpec \<Rightarrow> ('l cell, mCheckpointABSSpec) cmd" where
  "CheckpointABSSpec_DeepCopyInto L src m = do {
     let out = src;
     (v, m) \<leftarrow> copy_slice at_library_array (lt_copy (lib_EnvVar L)) (mckabs_Options src) m;
     let out = out\<lparr>mckabs_Options := v\<rparr>;
     Some (out, m)
   }"

definition CheckpointS3Spec_DeepCopyInto ::
    "'l library \<Rightarrow> mCheckpointS3Spec \<Rightarrow> ('l cell, mCheckpointS3Spec) cmd" where
  "CheckpointS3Spec_DeepCopyInto L src m = do {
     let out = src;
     (v, m) \<leftarrow> copy_slice at_library_array (lt_copy (lib_EnvVar L)) (mcks3_Options src) m;
     let out = out\<lparr>mcks3_Options := v\<rparr>;
     Some (out, m)
   }"

definition CheckpointGCSSpec_DeepCopyInto ::
    "'l library \<Rightarrow> mCheckpointGCSSpec \<Rightarrow> ('l cell, mCheckpointGCSSpec) cmd" where
  "CheckpointGCSSpec_DeepCopyInto L src m = do {
     let out = src;
     (v, m) \<leftarrow> copy_slice at_library_array (lt_copy (lib_EnvVar L)) (mckgcs_Options src) m;
     let out = out\<lparr>mckgcs_Options := v\<rparr>;
     Some (out, m)
   }"

definition CheckpointDataSpec_DeepCopyInto ::
    "'l library \<Rightarrow> mCheckpointDataSpec \<Rightarrow> ('l cell, mCheckpointDataSpec) cmd" where
  "CheckpointDataSpec_DeepCopyInto L src m = do {
     let out = src;
     (v, m) \<leftarrow> copy_ptr at_SharedFilesystemSpec copy_flat (mcd_SharedFilesystem src) m;
     let out = out\<lparr>mcd_SharedFilesystem := v\<rparr>;
     (v, m) \<leftarrow> copy_ptr at_CheckpointS3Spec (CheckpointS3Spec_DeepCopyInto L) (mcd_S3 src) m;
     let out = out\<lparr>mcd_S3 := v\<rparr>;
     (v, m) \<leftarrow> copy_ptr at_CheckpointABSSpec (CheckpointABSSpec_DeepCopyInto L) (mcd_ABS src) m;
     let out = out\<lparr>mcd_ABS := v\<rparr>;
     (v, m) \<leftarrow> copy_ptr at_CheckpointGCSSpec (CheckpointGCSSpec_DeepCopyInto L) (mcd_GCS src) m;
     let out = out\<lparr>mcd_GCS := v\<rparr>;
     Some (out, m)
   }"

definition CheckpointSpec_DeepCopyInto ::
    "'l library \<Rightarrow> mCheckpointSpec \<Rightarrow> ('l cell, mCheckpointSpec) cmd" where
  "CheckpointSpec_DeepCopyInto L src m = do {
     let out = src;
     (v, m) \<leftarrow> copy_ptr at_Duration copy_flat (mck_Period src) m;
     let out = out\<lparr>mck_Period := v\<rparr>;
     (v, m) \<leftarrow> CheckpointDataSpec_DeepCopyInto L (mck_Data src) m;
     let out = out\<lparr>mck_Data := v\<rparr>;
     Some (out, m)
   }"

definition ComposedRuntimeSpec_DeepCopyInto ::
    "'l library \<Rightarrow> mComposedRuntimeSpec \<Rightarrow> ('l cell, mComposedRuntimeSpec) cmd" where
  "ComposedRuntimeSpec_DeepCopyInto L src m = do {
     let out = src;
     (v, m) \<leftarrow> copy_ptr at_ImageSpec copy_flat (mcrt_Dist src) m;
     let out = out\<lparr>mcrt_Dist := v\<rparr>;
     (v, m) \<leftarrow> copy_ptr at_ImageSpec copy_flat (mcrt_Runtime src) m;
     let out = out\<lparr>mcrt_Runtime := v\<rparr>;
     (v, m) \<leftarrow> copy_ptr at_ImageVolumeSpec copy_flat (mcrt_ImageVolume src) m;
     let out = out\<lparr>mcrt_ImageVolume := v\<rparr>;
     Some (out, m)
   }"

definition EphemeralVolumeClaimSpec_DeepCopyInto ::
    "'l library \<Rightarrow> 'l mEphemeralVolumeClaimSpec \<Rightarrow> ('l cell, 'l mEphemeralVolumeClaimSpec) cmd" where
  "EphemeralVolumeClaimSpec_DeepCopyInto L src m = do {
     let out = src;
     (v, m) \<leftarrow> lt_copy (lib_Quantity L) (mevc_Size src) m;
     let out = out\<lparr>mevc_Size := v\<rparr>;
     Some (out, m)
   }"

definition ServiceConfig_DeepCopyInto ::
    "'l library \<Rightarrow> mServiceConfig \<Rightarrow> ('l cell, mServiceConfig) cmd" where
  "ServiceConfig_DeepCopyInto L src m = do {
     let out = src;
     (v, m) \<leftarrow> copy_ptr at_String copy_flat (msc_Type src) m;
     let out = out\<lparr>msc_Type := v\<rparr>;
     (v, m) \<leftarrow> copy_map at_map (lib_range L) (msc_Annotations src) m;
     let out = out\<lparr>msc_Annotations := v\<rparr>;
     (v, m) \<leftarrow> copy_ptr at_Bool copy_flat (msc_PublishNotReadyAddresses src) m;
     let out = out\<lparr>msc_PublishNotReadyAddresses := v\<rparr>;
     Some (out, m)
   }"

definition RouteSpec_DeepCopyInto ::
    "'l library \<Rightarrow> mRouteSpec \<Rightarrow> ('l cell, mRouteSpec) cmd" where
  "RouteSpec_DeepCopyInto L src m = do {
     let out = src;
     (v, m) \<leftarrow> copy_slice at_library_array
         (lt_copy (lib_ParentReference L)) (mrs_ParentRefs src) m;
     let out = out\<lparr>mrs_ParentRefs := v\<rparr>;
     (v, m) \<leftarrow> copy_slice at_string_array copy_flat (mrs_Hostnames src) m;
     let out = out\<lparr>mrs_Hostnames := v\<rparr>;
     (v, m) \<leftarrow> copy_map at_map (lib_range L) (mrs_Labels src) m;
     let out = out\<lparr>mrs_Labels := v\<rparr>;
     (v, m) \<leftarrow> copy_map at_map (lib_range L) (mrs_Annotations src) m;
     let out = out\<lparr>mrs_Annotations := v\<rparr>;
     Some (out, m)
   }"

definition ExposedServiceConfig_DeepCopyInto ::
    "'l library \<Rightarrow> mExposedServiceConfig \<Rightarrow> ('l cell, mExposedServiceConfig) cmd" where
  "ExposedServiceConfig_DeepCopyInto L src m = do {
     let out = src;
     (v, m) \<leftarrow> ServiceConfig_DeepCopyInto L (mesc_ServiceConfig src) m;
     let out = out\<lparr>mesc_ServiceConfig := v\<rparr>;
     (v, m) \<leftarrow> copy_ptr at_RouteSpec (RouteSpec_DeepCopyInto L) (mesc_Route src) m;
     let out = out\<lparr>mesc_Route := v\<rparr>;
     Some (out, m)
   }"

definition ExtrasSpec_DeepCopyInto ::
    "'l library \<Rightarrow> mExtrasSpec \<Rightarrow> ('l cell, mExtrasSpec) cmd" where
  "ExtrasSpec_DeepCopyInto L src m = do {
     let out = src;
     (v, m) \<leftarrow> copy_ptr at_HDFSSpec copy_flat (mext_HDFS src) m;
     let out = out\<lparr>mext_HDFS := v\<rparr>;
     (v, m) \<leftarrow> copy_ptr at_PyIcebergSpec copy_flat (mext_PyIceberg src) m;
     let out = out\<lparr>mext_PyIceberg := v\<rparr>;
     Some (out, m)
   }"

definition ValueOrSource_DeepCopyInto ::
    "'l library \<Rightarrow> mValueOrSource \<Rightarrow> ('l cell, mValueOrSource) cmd" where
  "ValueOrSource_DeepCopyInto L src m = do {
     let out = src;
     (v, m) \<leftarrow> copy_ptr at_library (lt_copy (lib_EnvVarSource L)) (mvos_ValueFrom src) m;
     let out = out\<lparr>mvos_ValueFrom := v\<rparr>;
     Some (out, m)
   }"

definition RegisterNodeSpec_DeepCopyInto ::
    "'l library \<Rightarrow> mRegisterNodeSpec \<Rightarrow> ('l cell, mRegisterNodeSpec) cmd" where
  "RegisterNodeSpec_DeepCopyInto L src m = do {
     let out = src;
     (v, m) \<leftarrow> ValueOrSource_DeepCopyInto L (mrns_PrivateAddress src) m;
     let out = out\<lparr>mrns_PrivateAddress := v\<rparr>;
     (v, m) \<leftarrow> copy_ptr at_ValueOrSource
         (ValueOrSource_DeepCopyInto L) (mrns_PublicAddress src) m;
     let out = out\<lparr>mrns_PublicAddress := v\<rparr>;
     Some (out, m)
   }"

definition LicenseCloudSpec_DeepCopyInto ::
    "'l library \<Rightarrow> mLicenseCloudSpec \<Rightarrow> ('l cell, mLicenseCloudSpec) cmd" where
  "LicenseCloudSpec_DeepCopyInto L src m = do {
     let out = src;
     (v, m) \<leftarrow> copy_ptr at_RegisterNodeSpec
         (RegisterNodeSpec_DeepCopyInto L) (mlcl_RegisterNode src) m;
     let out = out\<lparr>mlcl_RegisterNode := v\<rparr>;
     Some (out, m)
   }"

definition LicenseOnPremSpec_DeepCopyInto ::
    "'l library \<Rightarrow> mLicenseOnPremSpec \<Rightarrow> ('l cell, mLicenseOnPremSpec) cmd" where
  "LicenseOnPremSpec_DeepCopyInto L src m = do {
     let out = src;
     (v, m) \<leftarrow> ValueOrSource_DeepCopyInto L (mlop_ClientID src) m;
     let out = out\<lparr>mlop_ClientID := v\<rparr>;
     (v, m) \<leftarrow> ValueOrSource_DeepCopyInto L (mlop_ClientSecret src) m;
     let out = out\<lparr>mlop_ClientSecret := v\<rparr>;
     (v, m) \<leftarrow> ValueOrSource_DeepCopyInto L (mlop_WorkspaceID src) m;
     let out = out\<lparr>mlop_WorkspaceID := v\<rparr>;
     (v, m) \<leftarrow> copy_ptr at_PersistentVolumeClaimRef copy_flat (mlop_LicenseData src) m;
     let out = out\<lparr>mlop_LicenseData := v\<rparr>;
     Some (out, m)
   }"

definition LicenseSpec_DeepCopyInto ::
    "'l library \<Rightarrow> mLicenseSpec \<Rightarrow> ('l cell, mLicenseSpec) cmd" where
  "LicenseSpec_DeepCopyInto L src m = do {
     let out = src;
     (v, m) \<leftarrow> copy_ptr at_LicenseOnPremSpec
         (LicenseOnPremSpec_DeepCopyInto L) (mlic_OnPrem src) m;
     let out = out\<lparr>mlic_OnPrem := v\<rparr>;
     (v, m) \<leftarrow> copy_ptr at_LicenseOnPremEnterpriseSpec copy_flat (mlic_OnPremEnterprise src) m;
     let out = out\<lparr>mlic_OnPremEnterprise := v\<rparr>;
     (v, m) \<leftarrow> copy_ptr at_LicenseCloudSpec (LicenseCloudSpec_DeepCopyInto L) (mlic_Cloud src) m;
     let out = out\<lparr>mlic_Cloud := v\<rparr>;
     Some (out, m)
   }"

definition LineageTransportSpec_DeepCopyInto ::
    "'l library \<Rightarrow> mLineageTransportSpec \<Rightarrow> ('l cell, mLineageTransportSpec) cmd" where
  "LineageTransportSpec_DeepCopyInto L src m = do {
     let out = src;
     (v, m) \<leftarrow> copy_ptr at_LineageTransportHTTPSpec copy_flat (mlt_HTTP src) m;
     let out = out\<lparr>mlt_HTTP := v\<rparr>;
     Some (out, m)
   }"

definition LineageSpec_DeepCopyInto ::
    "'l library \<Rightarrow> mLineageSpec \<Rightarrow> ('l cell, mLineageSpec) cmd" where
  "LineageSpec_DeepCopyInto L src m = do {
     let out = src;
     (v, m) \<leftarrow> LineageTransportSpec_DeepCopyInto L (mlin_Transport src) m;
     let out = out\<lparr>mlin_Transport := v\<rparr>;
     Some (out, m)
   }"

definition ObservatorySpec_DeepCopyInto ::
    "'l library \<Rightarrow> mObservatorySpec \<Rightarrow> ('l cell, mObservatorySpec) cmd" where
  "ObservatorySpec_DeepCopyInto L src m = do {
     let out = src;
     (v, m) \<leftarrow> copy_ptr at_PersistentVolumeClaimRef copy_flat (mobs_PersistentVolumeClaim src) m;
     let out = out\<lparr>mobs_PersistentVolumeClaim := v\<rparr>;
     Some (out, m)
   }"

definition TelemetrySpec_DeepCopyInto ::
    "'l library \<Rightarrow> mTelemetrySpec \<Rightarrow> ('l cell, mTelemetrySpec) cmd" where
  "TelemetrySpec_DeepCopyInto L src m = do {
     let out = src;
     (v, m) \<leftarrow> ValueOrSource_DeepCopyInto L (mtel_OTLPEndpoint src) m;
     let out = out\<lparr>mtel_OTLPEndpoint := v\<rparr>;
     Some (out, m)
   }"

definition RuntimeSpec_DeepCopyInto ::
    "'l library \<Rightarrow> mRuntimeSpec \<Rightarrow> ('l cell, mRuntimeSpec) cmd" where
  "RuntimeSpec_DeepCopyInto L src m = do {
     let out = src;
     (v, m) \<leftarrow> ComposedRuntimeSpec_DeepCopyInto L (mrt_Composed src) m;
     let out = out\<lparr>mrt_Composed := v\<rparr>;
     Some (out, m)
   }"

definition SchedulerServicesSpec_DeepCopyInto ::
    "'l library \<Rightarrow> mSchedulerServicesSpec \<Rightarrow> ('l cell, mSchedulerServicesSpec) cmd" where
  "SchedulerServicesSpec_DeepCopyInto L src m = do {
     let out = src;
     (v, m) \<leftarrow> copy_ptr at_ExposedServiceConfig
         (ExposedServiceConfig_DeepCopyInto L) (msss_Scheduler src) m;
     let out = out\<lparr>msss_Scheduler := v\<rparr>;
     (v, m) \<leftarrow> copy_ptr at_ServiceConfig (ServiceConfig_DeepCopyInto L) (msss_Internal src) m;
     let out = out\<lparr>msss_Internal := v\<rparr>;
     (v, m) \<leftarrow> copy_ptr at_ExposedServiceConfig
         (ExposedServiceConfig_DeepCopyInto L) (msss_Observatory src) m;
     let out = out\<lparr>msss_Observatory := v\<rparr>;
     Some (out, m)
   }"

definition SchedulerSpec_DeepCopyInto ::
    "'l library \<Rightarrow> mSchedulerSpec \<Rightarrow> ('l cell, mSchedulerSpec) cmd" where
  "SchedulerSpec_DeepCopyInto L src m = do {
     let out = src;
     (v, m) \<leftarrow> copy_ptr at_SchedulerServicesSpec
         (SchedulerServicesSpec_DeepCopyInto L) (msch_Services src) m;
     let out = out\<lparr>msch_Services := v\<rparr>;
     (v, m) \<leftarrow> copy_ptr at_library (lt_copy (lib_PodTemplateSpec L)) (msch_PodTemplate src) m;
     let out = out\<lparr>msch_PodTemplate := v\<rparr>;
     (v, m) \<leftarrow> copy_ptr at_ServiceAccountSpec copy_flat (msch_ServiceAccount src) m;
     let out = out\<lparr>msch_ServiceAccount := v\<rparr>;
     Some (out, m)
   }"

definition ShuffleDataS3Spec_DeepCopyInto ::
    "'l library \<Rightarrow> mShuffleDataS3Spec \<Rightarrow> ('l cell, mShuffleDataS3Spec) cmd" where
  "ShuffleDataS3Spec_DeepCopyInto L src m = do {
     let out = src;
     (v, m) \<leftarrow> copy_ptr at_Duration copy_flat (msds3_PresignDuration src) m;
     let out = out\<lparr>msds3_PresignDuration := v\<rparr>;
     (v, m) \<leftarrow> copy_slice at_library_array (lt_copy (lib_EnvVar L)) (msds3_Options src) m;
     let out = out\<lparr>msds3_Options := v\<rparr>;
     Some (out, m)
   }"

definition ShuffleDataABSSpec_DeepCopyInto ::
    "'l library \<Rightarrow> mShuffleDataABSSpec \<Rightarrow> ('l cell, mShuffleDataABSSpec) cmd" where
  "ShuffleDataABSSpec_DeepCopyInto L src m = do {
     let out = src;
     (v, m) \<leftarrow> copy_ptr at_Duration copy_flat (msdabs_PresignDuration src) m;
     let out = out\<lparr>msdabs_PresignDuration := v\<rparr>;
     (v, m) \<leftarrow> copy_slice at_library_array (lt_copy (lib_EnvVar L)) (msdabs_Options src) m;
     let out = out\<lparr>msdabs_Options := v\<rparr>;
     Some (out, m)
   }"

definition ShuffleDataGCSSpec_DeepCopyInto ::
    "'l library \<Rightarrow> mShuffleDataGCSSpec \<Rightarrow> ('l cell, mShuffleDataGCSSpec) cmd" where
  "ShuffleDataGCSSpec_DeepCopyInto L src m = do {
     let out = src;
     (v, m) \<leftarrow> copy_ptr at_Duration copy_flat (msdgcs_PresignDuration src) m;
     let out = out\<lparr>msdgcs_PresignDuration := v\<rparr>;
     (v, m) \<leftarrow> copy_slice at_library_array (lt_copy (lib_EnvVar L)) (msdgcs_Options src) m;
     let out = out\<lparr>msdgcs_Options := v\<rparr>;
     Some (out, m)
   }"

definition ShuffleDataSpec_DeepCopyInto ::
    "'l library \<Rightarrow> mShuffleDataSpec \<Rightarrow> ('l cell, mShuffleDataSpec) cmd" where
  "ShuffleDataSpec_DeepCopyInto L src m = do {
     let out = src;
     (v, m) \<leftarrow> copy_ptr at_LocalFilesystemSpec copy_flat (msd_Local src) m;
     let out = out\<lparr>msd_Local := v\<rparr>;
     (v, m) \<leftarrow> copy_ptr at_SharedFilesystemSpec copy_flat (msd_SharedFilesystem src) m;
     let out = out\<lparr>msd_SharedFilesystem := v\<rparr>;
     (v, m) \<leftarrow> copy_ptr at_ShuffleDataS3Spec (ShuffleDataS3Spec_DeepCopyInto L) (msd_S3 src) m;
     let out = out\<lparr>msd_S3 := v\<rparr>;
     (v, m) \<leftarrow> copy_ptr at_ShuffleDataABSSpec (ShuffleDataABSSpec_DeepCopyInto L) (msd_ABS src) m;
     let out = out\<lparr>msd_ABS := v\<rparr>;
     (v, m) \<leftarrow> copy_ptr at_ShuffleDataGCSSpec (ShuffleDataGCSSpec_DeepCopyInto L) (msd_GCS src) m;
     let out = out\<lparr>msd_GCS := v\<rparr>;
     Some (out, m)
   }"

definition TemporaryDataSpec_DeepCopyInto ::
    "'l library \<Rightarrow> mTemporaryDataSpec \<Rightarrow> ('l cell, mTemporaryDataSpec) cmd" where
  "TemporaryDataSpec_DeepCopyInto L src m = do {
     let out = src;
     (v, m) \<leftarrow> copy_ptr at_EphemeralVolumeClaimSpec
         (EphemeralVolumeClaimSpec_DeepCopyInto L) (mtd_EphemeralVolumeClaim src) m;
     let out = out\<lparr>mtd_EphemeralVolumeClaim := v\<rparr>;
     Some (out, m)
   }"

definition WorkerPoolDeclaration_DeepCopyInto ::
    "'l library \<Rightarrow> mWorkerPoolDeclaration \<Rightarrow> ('l cell, mWorkerPoolDeclaration) cmd" where
  "WorkerPoolDeclaration_DeepCopyInto L src m = do {
     let out = src;
     (v, m) \<leftarrow> copy_ptr at_library (lt_copy (lib_PodTemplateSpec L)) (mwp_PodTemplate src) m;
     let out = out\<lparr>mwp_PodTemplate := v\<rparr>;
     (v, m) \<leftarrow> copy_ptr at_ServiceAccountSpec copy_flat (mwp_ServiceAccount src) m;
     let out = out\<lparr>mwp_ServiceAccount := v\<rparr>;
     (v, m) \<leftarrow> copy_ptr at_Duration copy_flat (mwp_HeartBeatInterval src) m;
     let out = out\<lparr>mwp_HeartBeatInterval := v\<rparr>;
     (v, m) \<leftarrow> copy_ptr at_ShuffleDataSpec
         (ShuffleDataSpec_DeepCopyInto L) (mwp_ShuffleData src) m;
     let out = out\<lparr>mwp_ShuffleData := v\<rparr>;
     (v, m) \<leftarrow> copy_ptr at_TemporaryDataSpec
         (TemporaryDataSpec_DeepCopyInto L) (mwp_TemporaryData src) m;
     let out = out\<lparr>mwp_TemporaryData := v\<rparr>;
     (v, m) \<leftarrow> ExtrasSpec_DeepCopyInto L (mwp_Extras src) m;
     let out = out\<lparr>mwp_Extras := v\<rparr>;
     Some (out, m)
   }"

definition PolarsClusterSpec_DeepCopyInto ::
    "'l library \<Rightarrow> mPolarsClusterSpec \<Rightarrow> ('l cell, mPolarsClusterSpec) cmd" where
  "PolarsClusterSpec_DeepCopyInto L src m = do {
     let out = src;
     (v, m) \<leftarrow> copy_ptr at_TelemetrySpec (TelemetrySpec_DeepCopyInto L) (mspec_Telemetry src) m;
     let out = out\<lparr>mspec_Telemetry := v\<rparr>;
     (v, m) \<leftarrow> copy_ptr at_String copy_flat (mspec_LogLevel src) m;
     let out = out\<lparr>mspec_LogLevel := v\<rparr>;
     (v, m) \<leftarrow> copy_slice at_string_array copy_flat (mspec_ImagePullSecrets src) m;
     let out = out\<lparr>mspec_ImagePullSecrets := v\<rparr>;
     (v, m) \<leftarrow> copy_ptr at_RuntimeSpec (RuntimeSpec_DeepCopyInto L) (mspec_Runtime src) m;
     let out = out\<lparr>mspec_Runtime := v\<rparr>;
     (v, m) \<leftarrow> LicenseSpec_DeepCopyInto L (mspec_License src) m;
     let out = out\<lparr>mspec_License := v\<rparr>;
     (v, m) \<leftarrow> copy_ptr at_AnonymousResultsSpec
         (AnonymousResultsSpec_DeepCopyInto L) (mspec_AnonymousResults src) m;
     let out = out\<lparr>mspec_AnonymousResults := v\<rparr>;
     (v, m) \<leftarrow> copy_ptr at_CheckpointSpec
         (CheckpointSpec_DeepCopyInto L) (mspec_Checkpoint src) m;
     let out = out\<lparr>mspec_Checkpoint := v\<rparr>;
     (v, m) \<leftarrow> copy_ptr at_LineageSpec (LineageSpec_DeepCopyInto L) (mspec_Lineage src) m;
     let out = out\<lparr>mspec_Lineage := v\<rparr>;
     (v, m) \<leftarrow> copy_ptr at_ObservatorySpec
         (ObservatorySpec_DeepCopyInto L) (mspec_Observatory src) m;
     let out = out\<lparr>mspec_Observatory := v\<rparr>;
     (v, m) \<leftarrow> copy_ptr at_HostMetricsSpec copy_flat (mspec_HostMetrics src) m;
     let out = out\<lparr>mspec_HostMetrics := v\<rparr>;
     (v, m) \<leftarrow> copy_ptr at_SchedulerSpec (SchedulerSpec_DeepCopyInto L) (mspec_Scheduler src) m;
     let out = out\<lparr>mspec_Scheduler := v\<rparr>;
     (v, m) \<leftarrow> WorkerPoolDeclaration_DeepCopyInto L (mspec_WorkerPool src) m;
     let out = out\<lparr>mspec_WorkerPool := v\<rparr>;
     Some (out, m)
   }"

definition PolarsClusterStatus_DeepCopyInto ::
    "'l library \<Rightarrow> mPolarsClusterStatus \<Rightarrow> ('l cell, mPolarsClusterStatus) cmd" where
  "PolarsClusterStatus_DeepCopyInto L src m = do {
     let out = src;
     (v, m) \<leftarrow> copy_slice at_library_array (lt_copy (lib_Condition L)) (mst_Conditions src) m;
     let out = out\<lparr>mst_Conditions := v\<rparr>;
     let out = out\<lparr>mst_Scheduler := mst_Scheduler src\<rparr>;
     let out = out\<lparr>mst_WorkerPool := mst_WorkerPool src\<rparr>;
     Some (out, m)
   }"

definition PolarsCluster_DeepCopyInto ::
    "'l library \<Rightarrow> 'l mPolarsCluster \<Rightarrow> ('l cell, 'l mPolarsCluster) cmd" where
  "PolarsCluster_DeepCopyInto L src m = do {
     let out = src;
     let out = out\<lparr>mcl_TypeMeta := mcl_TypeMeta src\<rparr>;
     (v, m) \<leftarrow> lt_copy (lib_ObjectMeta L) (mcl_ObjectMeta src) m;
     let out = out\<lparr>mcl_ObjectMeta := v\<rparr>;
     (v, m) \<leftarrow> PolarsClusterSpec_DeepCopyInto L (mcl_Spec src) m;
     let out = out\<lparr>mcl_Spec := v\<rparr>;
     (v, m) \<leftarrow> PolarsClusterStatus_DeepCopyInto L (mcl_Status src) m;
     let out = out\<lparr>mcl_Status := v\<rparr>;
     Some (out, m)
   }"

definition PolarsClusterList_DeepCopyInto ::
    "'l library \<Rightarrow> 'l mPolarsClusterList \<Rightarrow> ('l cell, 'l mPolarsClusterList) cmd" where
  "PolarsClusterList_DeepCopyInto L src m = do {
     let out = src;
     let out = out\<lparr>mpl_TypeMeta := mpl_TypeMeta src\<rparr>;
     (v, m) \<leftarrow> lt_copy (lib_ListMeta L) (mpl_ListMeta src) m;
     let out = out\<lparr>mpl_ListMeta := v\<rparr>;
     (v, m) \<leftarrow> copy_slice at_cluster_array (PolarsCluster_DeepCopyInto L) (mpl_Items src) m;
     let out = out\<lparr>mpl_Items := v\<rparr>;
     Some (out, m)
   }"

section \<open>Copies behind a pointer\<close>

text \<open>
  \<open>DeepCopy\<close> on a nil receiver is nil; otherwise the copy is a new variable, filled by
  \<open>DeepCopyInto\<close>.
\<close>

definition AnonymousResultsABSSpec_DeepCopy :: "'l library \<Rightarrow> addr option \<Rightarrow> ('l cell, addr option) cmd" where
  "AnonymousResultsABSSpec_DeepCopy L = copy_ptr at_AnonymousResultsABSSpec (AnonymousResultsABSSpec_DeepCopyInto L)"

definition AnonymousResultsGCSSpec_DeepCopy :: "'l library \<Rightarrow> addr option \<Rightarrow> ('l cell, addr option) cmd" where
  "AnonymousResultsGCSSpec_DeepCopy L = copy_ptr at_AnonymousResultsGCSSpec (AnonymousResultsGCSSpec_DeepCopyInto L)"

definition AnonymousResultsS3Spec_DeepCopy :: "'l library \<Rightarrow> addr option \<Rightarrow> ('l cell, addr option) cmd" where
  "AnonymousResultsS3Spec_DeepCopy L = copy_ptr at_AnonymousResultsS3Spec (AnonymousResultsS3Spec_DeepCopyInto L)"

definition AnonymousResultsSpec_DeepCopy :: "'l library \<Rightarrow> addr option \<Rightarrow> ('l cell, addr option) cmd" where
  "AnonymousResultsSpec_DeepCopy L = copy_ptr at_AnonymousResultsSpec (AnonymousResultsSpec_DeepCopyInto L)"

definition CheckpointABSSpec_DeepCopy :: "'l library \<Rightarrow> addr option \<Rightarrow> ('l cell, addr option) cmd" where
  "CheckpointABSSpec_DeepCopy L = copy_ptr at_CheckpointABSSpec (CheckpointABSSpec_DeepCopyInto L)"

definition CheckpointDataSpec_DeepCopy :: "'l library \<Rightarrow> addr option \<Rightarrow> ('l cell, addr option) cmd" where
  "CheckpointDataSpec_DeepCopy L = copy_ptr at_CheckpointDataSpec (CheckpointDataSpec_DeepCopyInto L)"

definition CheckpointGCSSpec_DeepCopy :: "'l library \<Rightarrow> addr option \<Rightarrow> ('l cell, addr option) cmd" where
  "CheckpointGCSSpec_DeepCopy L = copy_ptr at_CheckpointGCSSpec (CheckpointGCSSpec_DeepCopyInto L)"

definition CheckpointS3Spec_DeepCopy :: "'l library \<Rightarrow> addr option \<Rightarrow> ('l cell, addr option) cmd" where
  "CheckpointS3Spec_DeepCopy L = copy_ptr at_CheckpointS3Spec (CheckpointS3Spec_DeepCopyInto L)"

definition CheckpointSpec_DeepCopy :: "'l library \<Rightarrow> addr option \<Rightarrow> ('l cell, addr option) cmd" where
  "CheckpointSpec_DeepCopy L = copy_ptr at_CheckpointSpec (CheckpointSpec_DeepCopyInto L)"

definition ComposedRuntimeSpec_DeepCopy :: "'l library \<Rightarrow> addr option \<Rightarrow> ('l cell, addr option) cmd" where
  "ComposedRuntimeSpec_DeepCopy L = copy_ptr at_ComposedRuntimeSpec (ComposedRuntimeSpec_DeepCopyInto L)"

definition EphemeralVolumeClaimSpec_DeepCopy :: "'l library \<Rightarrow> addr option \<Rightarrow> ('l cell, addr option) cmd" where
  "EphemeralVolumeClaimSpec_DeepCopy L = copy_ptr at_EphemeralVolumeClaimSpec (EphemeralVolumeClaimSpec_DeepCopyInto L)"

definition ExposedServiceConfig_DeepCopy :: "'l library \<Rightarrow> addr option \<Rightarrow> ('l cell, addr option) cmd" where
  "ExposedServiceConfig_DeepCopy L = copy_ptr at_ExposedServiceConfig (ExposedServiceConfig_DeepCopyInto L)"

definition ExtrasSpec_DeepCopy :: "'l library \<Rightarrow> addr option \<Rightarrow> ('l cell, addr option) cmd" where
  "ExtrasSpec_DeepCopy L = copy_ptr at_ExtrasSpec (ExtrasSpec_DeepCopyInto L)"

definition HDFSSpec_DeepCopy :: "addr option \<Rightarrow> ('l cell, addr option) cmd" where
  "HDFSSpec_DeepCopy = copy_ptr at_HDFSSpec HDFSSpec_DeepCopyInto"

definition HostMetricsSpec_DeepCopy :: "addr option \<Rightarrow> ('l cell, addr option) cmd" where
  "HostMetricsSpec_DeepCopy = copy_ptr at_HostMetricsSpec HostMetricsSpec_DeepCopyInto"

definition ImageSpec_DeepCopy :: "addr option \<Rightarrow> ('l cell, addr option) cmd" where
  "ImageSpec_DeepCopy = copy_ptr at_ImageSpec ImageSpec_DeepCopyInto"

definition ImageVolumeSpec_DeepCopy :: "addr option \<Rightarrow> ('l cell, addr option) cmd" where
  "ImageVolumeSpec_DeepCopy = copy_ptr at_ImageVolumeSpec ImageVolumeSpec_DeepCopyInto"

definition LicenseCloudSpec_DeepCopy :: "'l library \<Rightarrow> addr option \<Rightarrow> ('l cell, addr option) cmd" where
  "LicenseCloudSpec_DeepCopy L = copy_ptr at_LicenseCloudSpec (LicenseCloudSpec_DeepCopyInto L)"

definition LicenseOnPremEnterpriseSpec_DeepCopy :: "addr option \<Rightarrow> ('l cell, addr option) cmd" where
  "LicenseOnPremEnterpriseSpec_DeepCopy = copy_ptr at_LicenseOnPremEnterpriseSpec LicenseOnPremEnterpriseSpec_DeepCopyInto"

definition LicenseOnPremSpec_DeepCopy :: "'l library \<Rightarrow> addr option \<Rightarrow> ('l cell, addr option) cmd" where
  "LicenseOnPremSpec_DeepCopy L = copy_ptr at_LicenseOnPremSpec (LicenseOnPremSpec_DeepCopyInto L)"

definition LicenseSpec_DeepCopy :: "'l library \<Rightarrow> addr option \<Rightarrow> ('l cell, addr option) cmd" where
  "LicenseSpec_DeepCopy L = copy_ptr at_LicenseSpec (LicenseSpec_DeepCopyInto L)"

definition LineageSpec_DeepCopy :: "'l library \<Rightarrow> addr option \<Rightarrow> ('l cell, addr option) cmd" where
  "LineageSpec_DeepCopy L = copy_ptr at_LineageSpec (LineageSpec_DeepCopyInto L)"

definition LineageTransportHTTPSpec_DeepCopy :: "addr option \<Rightarrow> ('l cell, addr option) cmd" where
  "LineageTransportHTTPSpec_DeepCopy = copy_ptr at_LineageTransportHTTPSpec LineageTransportHTTPSpec_DeepCopyInto"

definition LineageTransportSpec_DeepCopy :: "'l library \<Rightarrow> addr option \<Rightarrow> ('l cell, addr option) cmd" where
  "LineageTransportSpec_DeepCopy L = copy_ptr at_LineageTransportSpec (LineageTransportSpec_DeepCopyInto L)"

definition LocalFilesystemSpec_DeepCopy :: "addr option \<Rightarrow> ('l cell, addr option) cmd" where
  "LocalFilesystemSpec_DeepCopy = copy_ptr at_LocalFilesystemSpec LocalFilesystemSpec_DeepCopyInto"

definition ObservatorySpec_DeepCopy :: "'l library \<Rightarrow> addr option \<Rightarrow> ('l cell, addr option) cmd" where
  "ObservatorySpec_DeepCopy L = copy_ptr at_ObservatorySpec (ObservatorySpec_DeepCopyInto L)"

definition PersistentVolumeClaimRef_DeepCopy :: "addr option \<Rightarrow> ('l cell, addr option) cmd" where
  "PersistentVolumeClaimRef_DeepCopy = copy_ptr at_PersistentVolumeClaimRef PersistentVolumeClaimRef_DeepCopyInto"

definition PolarsCluster_DeepCopy :: "'l library \<Rightarrow> addr option \<Rightarrow> ('l cell, addr option) cmd" where
  "PolarsCluster_DeepCopy L = copy_ptr at_PolarsCluster (PolarsCluster_DeepCopyInto L)"

definition PolarsClusterList_DeepCopy :: "'l library \<Rightarrow> addr option \<Rightarrow> ('l cell, addr option) cmd" where
  "PolarsClusterList_DeepCopy L = copy_ptr at_PolarsClusterList (PolarsClusterList_DeepCopyInto L)"

definition PolarsClusterSpec_DeepCopy :: "'l library \<Rightarrow> addr option \<Rightarrow> ('l cell, addr option) cmd" where
  "PolarsClusterSpec_DeepCopy L = copy_ptr at_PolarsClusterSpec (PolarsClusterSpec_DeepCopyInto L)"

definition PolarsClusterStatus_DeepCopy :: "'l library \<Rightarrow> addr option \<Rightarrow> ('l cell, addr option) cmd" where
  "PolarsClusterStatus_DeepCopy L = copy_ptr at_PolarsClusterStatus (PolarsClusterStatus_DeepCopyInto L)"

definition PyIcebergSpec_DeepCopy :: "addr option \<Rightarrow> ('l cell, addr option) cmd" where
  "PyIcebergSpec_DeepCopy = copy_ptr at_PyIcebergSpec PyIcebergSpec_DeepCopyInto"

definition RegisterNodeSpec_DeepCopy :: "'l library \<Rightarrow> addr option \<Rightarrow> ('l cell, addr option) cmd" where
  "RegisterNodeSpec_DeepCopy L = copy_ptr at_RegisterNodeSpec (RegisterNodeSpec_DeepCopyInto L)"

definition RouteSpec_DeepCopy :: "'l library \<Rightarrow> addr option \<Rightarrow> ('l cell, addr option) cmd" where
  "RouteSpec_DeepCopy L = copy_ptr at_RouteSpec (RouteSpec_DeepCopyInto L)"

definition RuntimeSpec_DeepCopy :: "'l library \<Rightarrow> addr option \<Rightarrow> ('l cell, addr option) cmd" where
  "RuntimeSpec_DeepCopy L = copy_ptr at_RuntimeSpec (RuntimeSpec_DeepCopyInto L)"

definition SchedulerServicesSpec_DeepCopy :: "'l library \<Rightarrow> addr option \<Rightarrow> ('l cell, addr option) cmd" where
  "SchedulerServicesSpec_DeepCopy L = copy_ptr at_SchedulerServicesSpec (SchedulerServicesSpec_DeepCopyInto L)"

definition SchedulerSpec_DeepCopy :: "'l library \<Rightarrow> addr option \<Rightarrow> ('l cell, addr option) cmd" where
  "SchedulerSpec_DeepCopy L = copy_ptr at_SchedulerSpec (SchedulerSpec_DeepCopyInto L)"

definition SchedulerStatus_DeepCopy :: "addr option \<Rightarrow> ('l cell, addr option) cmd" where
  "SchedulerStatus_DeepCopy = copy_ptr at_SchedulerStatus SchedulerStatus_DeepCopyInto"

definition ServiceAccountSpec_DeepCopy :: "addr option \<Rightarrow> ('l cell, addr option) cmd" where
  "ServiceAccountSpec_DeepCopy = copy_ptr at_ServiceAccountSpec ServiceAccountSpec_DeepCopyInto"

definition ServiceConfig_DeepCopy :: "'l library \<Rightarrow> addr option \<Rightarrow> ('l cell, addr option) cmd" where
  "ServiceConfig_DeepCopy L = copy_ptr at_ServiceConfig (ServiceConfig_DeepCopyInto L)"

definition SharedFilesystemSpec_DeepCopy :: "addr option \<Rightarrow> ('l cell, addr option) cmd" where
  "SharedFilesystemSpec_DeepCopy = copy_ptr at_SharedFilesystemSpec SharedFilesystemSpec_DeepCopyInto"

definition ShuffleDataABSSpec_DeepCopy :: "'l library \<Rightarrow> addr option \<Rightarrow> ('l cell, addr option) cmd" where
  "ShuffleDataABSSpec_DeepCopy L = copy_ptr at_ShuffleDataABSSpec (ShuffleDataABSSpec_DeepCopyInto L)"

definition ShuffleDataGCSSpec_DeepCopy :: "'l library \<Rightarrow> addr option \<Rightarrow> ('l cell, addr option) cmd" where
  "ShuffleDataGCSSpec_DeepCopy L = copy_ptr at_ShuffleDataGCSSpec (ShuffleDataGCSSpec_DeepCopyInto L)"

definition ShuffleDataS3Spec_DeepCopy :: "'l library \<Rightarrow> addr option \<Rightarrow> ('l cell, addr option) cmd" where
  "ShuffleDataS3Spec_DeepCopy L = copy_ptr at_ShuffleDataS3Spec (ShuffleDataS3Spec_DeepCopyInto L)"

definition ShuffleDataSpec_DeepCopy :: "'l library \<Rightarrow> addr option \<Rightarrow> ('l cell, addr option) cmd" where
  "ShuffleDataSpec_DeepCopy L = copy_ptr at_ShuffleDataSpec (ShuffleDataSpec_DeepCopyInto L)"

definition TelemetrySpec_DeepCopy :: "'l library \<Rightarrow> addr option \<Rightarrow> ('l cell, addr option) cmd" where
  "TelemetrySpec_DeepCopy L = copy_ptr at_TelemetrySpec (TelemetrySpec_DeepCopyInto L)"

definition TemporaryDataSpec_DeepCopy :: "'l library \<Rightarrow> addr option \<Rightarrow> ('l cell, addr option) cmd" where
  "TemporaryDataSpec_DeepCopy L = copy_ptr at_TemporaryDataSpec (TemporaryDataSpec_DeepCopyInto L)"

definition ValueOrSource_DeepCopy :: "'l library \<Rightarrow> addr option \<Rightarrow> ('l cell, addr option) cmd" where
  "ValueOrSource_DeepCopy L = copy_ptr at_ValueOrSource (ValueOrSource_DeepCopyInto L)"

definition WorkerPoolDeclaration_DeepCopy :: "'l library \<Rightarrow> addr option \<Rightarrow> ('l cell, addr option) cmd" where
  "WorkerPoolDeclaration_DeepCopy L = copy_ptr at_WorkerPoolDeclaration (WorkerPoolDeclaration_DeepCopyInto L)"

definition WorkerPoolStatus_DeepCopy :: "addr option \<Rightarrow> ('l cell, addr option) cmd" where
  "WorkerPoolStatus_DeepCopy = copy_ptr at_WorkerPoolStatus WorkerPoolStatus_DeepCopyInto"

text \<open>
  \<open>DeepCopyObject\<close> gives the copy as an interface value: the dynamic type with the pointer, or the
  nil interface.
\<close>

datatype runtime_object = PolarsClusterObject addr | PolarsClusterListObject addr

definition PolarsCluster_DeepCopyObject :: "'l library \<Rightarrow> addr option \<Rightarrow> ('l cell, runtime_object option) cmd" where
  "PolarsCluster_DeepCopyObject L p m = do {
     (c, m) \<leftarrow> PolarsCluster_DeepCopy L p m;
     (case c of Some b \<Rightarrow> Some (Some (PolarsClusterObject b), m) | None \<Rightarrow> Some (None, m))
   }"

definition PolarsClusterList_DeepCopyObject :: "'l library \<Rightarrow> addr option \<Rightarrow> ('l cell, runtime_object option) cmd" where
  "PolarsClusterList_DeepCopyObject L p m = do {
     (c, m) \<leftarrow> PolarsClusterList_DeepCopy L p m;
     (case c of Some b \<Rightarrow> Some (Some (PolarsClusterListObject b), m) | None \<Rightarrow> Some (None, m))
   }"

end
