(* ===== verification/Cluster_Reading.thy ===== *)
theory Cluster_Reading
  imports Deep_Copy
begin

text \<open>
  The abstraction of the structs in memory: \<open>rd_X\<close> is the value of \<^theory_text>\<open>Cluster_Types\<close> a struct \<open>X\<close>
  reads as, \<open>ft_X\<close> the set of addresses it reaches. These are the specification the copy functions
  are held against.
\<close>

definition rd_AnonymousResultsABSSpec :: "'l library \<Rightarrow> 'l memory \<Rightarrow> mAnonymousResultsABSSpec \<Rightarrow> AnonymousResultsABSSpec option" where
  "rd_AnonymousResultsABSSpec L m x = do {
     a \<leftarrow> rd_ptr at_Duration rd_flat m (marabs_PresignDuration x);
     b \<leftarrow> rd_slice at_library_array (lt_read (lib_EnvVar L)) m (marabs_Options x);
     Some (\<lparr>arabs_EndpointURL = marabs_EndpointURL x, arabs_PresignDuration = a,
        arabs_Options = b\<rparr>)
   }"

definition ft_AnonymousResultsABSSpec :: "'l library \<Rightarrow> 'l memory \<Rightarrow> mAnonymousResultsABSSpec \<Rightarrow> addr set" where
  "ft_AnonymousResultsABSSpec L m x =
     ft_ptr at_Duration ft_flat m (marabs_PresignDuration x) \<union>
     ft_slice at_library_array (lt_foot (lib_EnvVar L)) m (marabs_Options x)"

definition rd_AnonymousResultsGCSSpec :: "'l library \<Rightarrow> 'l memory \<Rightarrow> mAnonymousResultsGCSSpec \<Rightarrow> AnonymousResultsGCSSpec option" where
  "rd_AnonymousResultsGCSSpec L m x = do {
     a \<leftarrow> rd_ptr at_Duration rd_flat m (margcs_PresignDuration x);
     b \<leftarrow> rd_slice at_library_array (lt_read (lib_EnvVar L)) m (margcs_Options x);
     Some (\<lparr>argcs_EndpointURL = margcs_EndpointURL x, argcs_PresignDuration = a,
        argcs_Options = b\<rparr>)
   }"

definition ft_AnonymousResultsGCSSpec :: "'l library \<Rightarrow> 'l memory \<Rightarrow> mAnonymousResultsGCSSpec \<Rightarrow> addr set" where
  "ft_AnonymousResultsGCSSpec L m x =
     ft_ptr at_Duration ft_flat m (margcs_PresignDuration x) \<union>
     ft_slice at_library_array (lt_foot (lib_EnvVar L)) m (margcs_Options x)"

definition rd_AnonymousResultsS3Spec :: "'l library \<Rightarrow> 'l memory \<Rightarrow> mAnonymousResultsS3Spec \<Rightarrow> AnonymousResultsS3Spec option" where
  "rd_AnonymousResultsS3Spec L m x = do {
     a \<leftarrow> rd_ptr at_Duration rd_flat m (mars3_PresignDuration x);
     b \<leftarrow> rd_slice at_library_array (lt_read (lib_EnvVar L)) m (mars3_Options x);
     Some (\<lparr>ars3_Endpoint = mars3_Endpoint x, ars3_PresignDuration = a,
        ars3_Options = b\<rparr>)
   }"

definition ft_AnonymousResultsS3Spec :: "'l library \<Rightarrow> 'l memory \<Rightarrow> mAnonymousResultsS3Spec \<Rightarrow> addr set" where
  "ft_AnonymousResultsS3Spec L m x =
     ft_ptr at_Duration ft_flat m (mars3_PresignDuration x) \<union>
     ft_slice at_library_array (lt_foot (lib_EnvVar L)) m (mars3_Options x)"

definition rd_AnonymousResultsSpec :: "'l library \<Rightarrow> 'l memory \<Rightarrow> mAnonymousResultsSpec \<Rightarrow> AnonymousResultsSpec option" where
  "rd_AnonymousResultsSpec L m x = do {
     a \<leftarrow> rd_ptr at_AnonymousResultsS3Spec (rd_AnonymousResultsS3Spec L) m (mar_S3 x);
     b \<leftarrow> rd_ptr at_AnonymousResultsABSSpec (rd_AnonymousResultsABSSpec L) m (mar_ABS x);
     c \<leftarrow> rd_ptr at_AnonymousResultsGCSSpec (rd_AnonymousResultsGCSSpec L) m (mar_GCS x);
     d \<leftarrow> rd_ptr at_SharedFilesystemSpec rd_flat m (mar_SharedFilesystem x);
     Some (\<lparr>ar_S3 = a, ar_ABS = b, ar_GCS = c, ar_SharedFilesystem = d\<rparr>)
   }"

definition ft_AnonymousResultsSpec :: "'l library \<Rightarrow> 'l memory \<Rightarrow> mAnonymousResultsSpec \<Rightarrow> addr set" where
  "ft_AnonymousResultsSpec L m x =
     ft_ptr at_AnonymousResultsS3Spec (ft_AnonymousResultsS3Spec L) m (mar_S3 x) \<union>
     ft_ptr at_AnonymousResultsABSSpec (ft_AnonymousResultsABSSpec L) m (mar_ABS x) \<union>
     ft_ptr at_AnonymousResultsGCSSpec (ft_AnonymousResultsGCSSpec L) m (mar_GCS x) \<union>
     ft_ptr at_SharedFilesystemSpec ft_flat m (mar_SharedFilesystem x)"

definition rd_CheckpointABSSpec :: "'l library \<Rightarrow> 'l memory \<Rightarrow> mCheckpointABSSpec \<Rightarrow> CheckpointABSSpec option" where
  "rd_CheckpointABSSpec L m x = do {
     a \<leftarrow> rd_slice at_library_array (lt_read (lib_EnvVar L)) m (mckabs_Options x);
     Some (\<lparr>ckabs_EndpointURL = mckabs_EndpointURL x, ckabs_Options = a\<rparr>)
   }"

definition ft_CheckpointABSSpec :: "'l library \<Rightarrow> 'l memory \<Rightarrow> mCheckpointABSSpec \<Rightarrow> addr set" where
  "ft_CheckpointABSSpec L m x =
     ft_slice at_library_array (lt_foot (lib_EnvVar L)) m (mckabs_Options x)"

definition rd_CheckpointS3Spec :: "'l library \<Rightarrow> 'l memory \<Rightarrow> mCheckpointS3Spec \<Rightarrow> CheckpointS3Spec option" where
  "rd_CheckpointS3Spec L m x = do {
     a \<leftarrow> rd_slice at_library_array (lt_read (lib_EnvVar L)) m (mcks3_Options x);
     Some (\<lparr>cks3_Endpoint = mcks3_Endpoint x, cks3_Options = a\<rparr>)
   }"

definition ft_CheckpointS3Spec :: "'l library \<Rightarrow> 'l memory \<Rightarrow> mCheckpointS3Spec \<Rightarrow> addr set" where
  "ft_CheckpointS3Spec L m x =
     ft_slice at_library_array (lt_foot (lib_EnvVar L)) m (mcks3_Options x)"

definition rd_CheckpointGCSSpec :: "'l library \<Rightarrow> 'l memory \<Rightarrow> mCheckpointGCSSpec \<Rightarrow> CheckpointGCSSpec option" where
  "rd_CheckpointGCSSpec L m x = do {
     a \<leftarrow> rd_slice at_library_array (lt_read (lib_EnvVar L)) m (mckgcs_Options x);
     Some (\<lparr>ckgcs_EndpointURL = mckgcs_EndpointURL x, ckgcs_Options = a\<rparr>)
   }"

definition ft_CheckpointGCSSpec :: "'l library \<Rightarrow> 'l memory \<Rightarrow> mCheckpointGCSSpec \<Rightarrow> addr set" where
  "ft_CheckpointGCSSpec L m x =
     ft_slice at_library_array (lt_foot (lib_EnvVar L)) m (mckgcs_Options x)"

definition rd_CheckpointDataSpec :: "'l library \<Rightarrow> 'l memory \<Rightarrow> mCheckpointDataSpec \<Rightarrow> CheckpointDataSpec option" where
  "rd_CheckpointDataSpec L m x = do {
     a \<leftarrow> rd_ptr at_SharedFilesystemSpec rd_flat m (mcd_SharedFilesystem x);
     b \<leftarrow> rd_ptr at_CheckpointS3Spec (rd_CheckpointS3Spec L) m (mcd_S3 x);
     c \<leftarrow> rd_ptr at_CheckpointABSSpec (rd_CheckpointABSSpec L) m (mcd_ABS x);
     d \<leftarrow> rd_ptr at_CheckpointGCSSpec (rd_CheckpointGCSSpec L) m (mcd_GCS x);
     Some (\<lparr>cd_SharedFilesystem = a, cd_S3 = b, cd_ABS = c, cd_GCS = d\<rparr>)
   }"

definition ft_CheckpointDataSpec :: "'l library \<Rightarrow> 'l memory \<Rightarrow> mCheckpointDataSpec \<Rightarrow> addr set" where
  "ft_CheckpointDataSpec L m x =
     ft_ptr at_SharedFilesystemSpec ft_flat m (mcd_SharedFilesystem x) \<union>
     ft_ptr at_CheckpointS3Spec (ft_CheckpointS3Spec L) m (mcd_S3 x) \<union>
     ft_ptr at_CheckpointABSSpec (ft_CheckpointABSSpec L) m (mcd_ABS x) \<union>
     ft_ptr at_CheckpointGCSSpec (ft_CheckpointGCSSpec L) m (mcd_GCS x)"

definition rd_CheckpointSpec :: "'l library \<Rightarrow> 'l memory \<Rightarrow> mCheckpointSpec \<Rightarrow> CheckpointSpec option" where
  "rd_CheckpointSpec L m x = do {
     a \<leftarrow> rd_ptr at_Duration rd_flat m (mck_Period x);
     b \<leftarrow> rd_CheckpointDataSpec L m (mck_Data x);
     Some (\<lparr>ck_Period = a, ck_Data = b\<rparr>)
   }"

definition ft_CheckpointSpec :: "'l library \<Rightarrow> 'l memory \<Rightarrow> mCheckpointSpec \<Rightarrow> addr set" where
  "ft_CheckpointSpec L m x =
     ft_ptr at_Duration ft_flat m (mck_Period x) \<union>
     ft_CheckpointDataSpec L m (mck_Data x)"

definition rd_ComposedRuntimeSpec :: "'l library \<Rightarrow> 'l memory \<Rightarrow> mComposedRuntimeSpec \<Rightarrow> ComposedRuntimeSpec option" where
  "rd_ComposedRuntimeSpec L m x = do {
     a \<leftarrow> rd_ptr at_ImageSpec rd_flat m (mcrt_Dist x);
     b \<leftarrow> rd_ptr at_ImageSpec rd_flat m (mcrt_Runtime x);
     c \<leftarrow> rd_ptr at_ImageVolumeSpec rd_flat m (mcrt_ImageVolume x);
     Some (\<lparr>crt_Dist = a, crt_Runtime = b, crt_Requirements = mcrt_Requirements x,
        crt_PolarsExtras = mcrt_PolarsExtras x, crt_ImageVolume = c\<rparr>)
   }"

definition ft_ComposedRuntimeSpec :: "'l library \<Rightarrow> 'l memory \<Rightarrow> mComposedRuntimeSpec \<Rightarrow> addr set" where
  "ft_ComposedRuntimeSpec L m x =
     ft_ptr at_ImageSpec ft_flat m (mcrt_Dist x) \<union>
     ft_ptr at_ImageSpec ft_flat m (mcrt_Runtime x) \<union>
     ft_ptr at_ImageVolumeSpec ft_flat m (mcrt_ImageVolume x)"

definition rd_EphemeralVolumeClaimSpec :: "'l library \<Rightarrow> 'l memory \<Rightarrow> 'l mEphemeralVolumeClaimSpec \<Rightarrow> EphemeralVolumeClaimSpec option" where
  "rd_EphemeralVolumeClaimSpec L m x = do {
     a \<leftarrow> lt_read (lib_Quantity L) m (mevc_Size x);
     Some (\<lparr>evc_StorageClassName = mevc_StorageClassName x, evc_Size = a\<rparr>)
   }"

definition ft_EphemeralVolumeClaimSpec :: "'l library \<Rightarrow> 'l memory \<Rightarrow> 'l mEphemeralVolumeClaimSpec \<Rightarrow> addr set" where
  "ft_EphemeralVolumeClaimSpec L m x =
     lt_foot (lib_Quantity L) m (mevc_Size x)"

definition rd_ServiceConfig :: "'l library \<Rightarrow> 'l memory \<Rightarrow> mServiceConfig \<Rightarrow> ServiceConfig option" where
  "rd_ServiceConfig L m x = do {
     a \<leftarrow> rd_ptr at_String rd_flat m (msc_Type x);
     b \<leftarrow> rd_map at_map m (msc_Annotations x);
     c \<leftarrow> rd_ptr at_Bool rd_flat m (msc_PublishNotReadyAddresses x);
     Some (\<lparr>sc_Type = a, sc_Annotations = b, sc_PublishNotReadyAddresses = c,
        sc_ClusterIP = msc_ClusterIP x\<rparr>)
   }"

definition ft_ServiceConfig :: "'l library \<Rightarrow> 'l memory \<Rightarrow> mServiceConfig \<Rightarrow> addr set" where
  "ft_ServiceConfig L m x =
     ft_ptr at_String ft_flat m (msc_Type x) \<union>
     ft_map m (msc_Annotations x) \<union>
     ft_ptr at_Bool ft_flat m (msc_PublishNotReadyAddresses x)"

definition rd_RouteSpec :: "'l library \<Rightarrow> 'l memory \<Rightarrow> mRouteSpec \<Rightarrow> RouteSpec option" where
  "rd_RouteSpec L m x = do {
     a \<leftarrow> rd_slice at_library_array (lt_read (lib_ParentReference L)) m (mrs_ParentRefs x);
     b \<leftarrow> rd_slice at_string_array rd_flat m (mrs_Hostnames x);
     c \<leftarrow> rd_map at_map m (mrs_Labels x);
     d \<leftarrow> rd_map at_map m (mrs_Annotations x);
     Some (\<lparr>rs_ParentRefs = a, rs_Hostnames = b, rs_Labels = c, rs_Annotations = d\<rparr>)
   }"

definition ft_RouteSpec :: "'l library \<Rightarrow> 'l memory \<Rightarrow> mRouteSpec \<Rightarrow> addr set" where
  "ft_RouteSpec L m x =
     ft_slice at_library_array (lt_foot (lib_ParentReference L)) m (mrs_ParentRefs x) \<union>
     ft_slice at_string_array ft_flat m (mrs_Hostnames x) \<union>
     ft_map m (mrs_Labels x) \<union>
     ft_map m (mrs_Annotations x)"

definition rd_ExposedServiceConfig :: "'l library \<Rightarrow> 'l memory \<Rightarrow> mExposedServiceConfig \<Rightarrow> ExposedServiceConfig option" where
  "rd_ExposedServiceConfig L m x = do {
     a \<leftarrow> rd_ServiceConfig L m (mesc_ServiceConfig x);
     b \<leftarrow> rd_ptr at_RouteSpec (rd_RouteSpec L) m (mesc_Route x);
     Some (\<lparr>esc_ServiceConfig = a, esc_Route = b\<rparr>)
   }"

definition ft_ExposedServiceConfig :: "'l library \<Rightarrow> 'l memory \<Rightarrow> mExposedServiceConfig \<Rightarrow> addr set" where
  "ft_ExposedServiceConfig L m x =
     ft_ServiceConfig L m (mesc_ServiceConfig x) \<union>
     ft_ptr at_RouteSpec (ft_RouteSpec L) m (mesc_Route x)"

definition rd_ExtrasSpec :: "'l library \<Rightarrow> 'l memory \<Rightarrow> mExtrasSpec \<Rightarrow> ExtrasSpec option" where
  "rd_ExtrasSpec L m x = do {
     a \<leftarrow> rd_ptr at_HDFSSpec rd_flat m (mext_HDFS x);
     b \<leftarrow> rd_ptr at_PyIcebergSpec rd_flat m (mext_PyIceberg x);
     Some (\<lparr>ext_HDFS = a, ext_PyIceberg = b\<rparr>)
   }"

definition ft_ExtrasSpec :: "'l library \<Rightarrow> 'l memory \<Rightarrow> mExtrasSpec \<Rightarrow> addr set" where
  "ft_ExtrasSpec L m x =
     ft_ptr at_HDFSSpec ft_flat m (mext_HDFS x) \<union>
     ft_ptr at_PyIcebergSpec ft_flat m (mext_PyIceberg x)"

definition rd_ValueOrSource :: "'l library \<Rightarrow> 'l memory \<Rightarrow> mValueOrSource \<Rightarrow> ValueOrSource option" where
  "rd_ValueOrSource L m x = do {
     a \<leftarrow> rd_ptr at_library (lt_read (lib_EnvVarSource L)) m (mvos_ValueFrom x);
     Some (\<lparr>vos_Value = mvos_Value x, vos_ValueFrom = a\<rparr>)
   }"

definition ft_ValueOrSource :: "'l library \<Rightarrow> 'l memory \<Rightarrow> mValueOrSource \<Rightarrow> addr set" where
  "ft_ValueOrSource L m x =
     ft_ptr at_library (lt_foot (lib_EnvVarSource L)) m (mvos_ValueFrom x)"

definition rd_RegisterNodeSpec :: "'l library \<Rightarrow> 'l memory \<Rightarrow> mRegisterNodeSpec \<Rightarrow> RegisterNodeSpec option" where
  "rd_RegisterNodeSpec L m x = do {
     a \<leftarrow> rd_ValueOrSource L m (mrns_PrivateAddress x);
     b \<leftarrow> rd_ptr at_ValueOrSource (rd_ValueOrSource L) m (mrns_PublicAddress x);
     Some (\<lparr>rns_PrivateAddress = a, rns_PublicAddress = b\<rparr>)
   }"

definition ft_RegisterNodeSpec :: "'l library \<Rightarrow> 'l memory \<Rightarrow> mRegisterNodeSpec \<Rightarrow> addr set" where
  "ft_RegisterNodeSpec L m x =
     ft_ValueOrSource L m (mrns_PrivateAddress x) \<union>
     ft_ptr at_ValueOrSource (ft_ValueOrSource L) m (mrns_PublicAddress x)"

definition rd_LicenseCloudSpec :: "'l library \<Rightarrow> 'l memory \<Rightarrow> mLicenseCloudSpec \<Rightarrow> LicenseCloudSpec option" where
  "rd_LicenseCloudSpec L m x = do {
     a \<leftarrow> rd_ptr at_RegisterNodeSpec (rd_RegisterNodeSpec L) m (mlcl_RegisterNode x);
     Some (\<lparr>lcl_SecretName = mlcl_SecretName x, lcl_RegisterNode = a\<rparr>)
   }"

definition ft_LicenseCloudSpec :: "'l library \<Rightarrow> 'l memory \<Rightarrow> mLicenseCloudSpec \<Rightarrow> addr set" where
  "ft_LicenseCloudSpec L m x =
     ft_ptr at_RegisterNodeSpec (ft_RegisterNodeSpec L) m (mlcl_RegisterNode x)"

definition rd_LicenseOnPremSpec :: "'l library \<Rightarrow> 'l memory \<Rightarrow> mLicenseOnPremSpec \<Rightarrow> LicenseOnPremSpec option" where
  "rd_LicenseOnPremSpec L m x = do {
     a \<leftarrow> rd_ValueOrSource L m (mlop_ClientID x);
     b \<leftarrow> rd_ValueOrSource L m (mlop_ClientSecret x);
     c \<leftarrow> rd_ValueOrSource L m (mlop_WorkspaceID x);
     d \<leftarrow> rd_ptr at_PersistentVolumeClaimRef rd_flat m (mlop_LicenseData x);
     Some (\<lparr>lop_ClientID = a, lop_ClientSecret = b, lop_WorkspaceID = c,
        lop_LicenseData = d\<rparr>)
   }"

definition ft_LicenseOnPremSpec :: "'l library \<Rightarrow> 'l memory \<Rightarrow> mLicenseOnPremSpec \<Rightarrow> addr set" where
  "ft_LicenseOnPremSpec L m x =
     ft_ValueOrSource L m (mlop_ClientID x) \<union>
     ft_ValueOrSource L m (mlop_ClientSecret x) \<union>
     ft_ValueOrSource L m (mlop_WorkspaceID x) \<union>
     ft_ptr at_PersistentVolumeClaimRef ft_flat m (mlop_LicenseData x)"

definition rd_LicenseSpec :: "'l library \<Rightarrow> 'l memory \<Rightarrow> mLicenseSpec \<Rightarrow> LicenseSpec option" where
  "rd_LicenseSpec L m x = do {
     a \<leftarrow> rd_ptr at_LicenseOnPremSpec (rd_LicenseOnPremSpec L) m (mlic_OnPrem x);
     b \<leftarrow> rd_ptr at_LicenseOnPremEnterpriseSpec rd_flat m (mlic_OnPremEnterprise x);
     c \<leftarrow> rd_ptr at_LicenseCloudSpec (rd_LicenseCloudSpec L) m (mlic_Cloud x);
     Some (\<lparr>lic_OnPrem = a, lic_OnPremEnterprise = b, lic_Cloud = c\<rparr>)
   }"

definition ft_LicenseSpec :: "'l library \<Rightarrow> 'l memory \<Rightarrow> mLicenseSpec \<Rightarrow> addr set" where
  "ft_LicenseSpec L m x =
     ft_ptr at_LicenseOnPremSpec (ft_LicenseOnPremSpec L) m (mlic_OnPrem x) \<union>
     ft_ptr at_LicenseOnPremEnterpriseSpec ft_flat m (mlic_OnPremEnterprise x) \<union>
     ft_ptr at_LicenseCloudSpec (ft_LicenseCloudSpec L) m (mlic_Cloud x)"

definition rd_LineageTransportSpec :: "'l library \<Rightarrow> 'l memory \<Rightarrow> mLineageTransportSpec \<Rightarrow> LineageTransportSpec option" where
  "rd_LineageTransportSpec L m x = do {
     a \<leftarrow> rd_ptr at_LineageTransportHTTPSpec rd_flat m (mlt_HTTP x);
     Some (\<lparr>lt_HTTP = a\<rparr>)
   }"

definition ft_LineageTransportSpec :: "'l library \<Rightarrow> 'l memory \<Rightarrow> mLineageTransportSpec \<Rightarrow> addr set" where
  "ft_LineageTransportSpec L m x =
     ft_ptr at_LineageTransportHTTPSpec ft_flat m (mlt_HTTP x)"

definition rd_LineageSpec :: "'l library \<Rightarrow> 'l memory \<Rightarrow> mLineageSpec \<Rightarrow> LineageSpec option" where
  "rd_LineageSpec L m x = do {
     a \<leftarrow> rd_LineageTransportSpec L m (mlin_Transport x);
     Some (\<lparr>lin_Transport = a\<rparr>)
   }"

definition ft_LineageSpec :: "'l library \<Rightarrow> 'l memory \<Rightarrow> mLineageSpec \<Rightarrow> addr set" where
  "ft_LineageSpec L m x =
     ft_LineageTransportSpec L m (mlin_Transport x)"

definition rd_ObservatorySpec :: "'l library \<Rightarrow> 'l memory \<Rightarrow> mObservatorySpec \<Rightarrow> ObservatorySpec option" where
  "rd_ObservatorySpec L m x = do {
     a \<leftarrow> rd_ptr at_PersistentVolumeClaimRef rd_flat m (mobs_PersistentVolumeClaim x);
     Some (\<lparr>obs_MaxMetricsBytesTotal = mobs_MaxMetricsBytesTotal x,
        obs_PersistentVolumeClaim = a\<rparr>)
   }"

definition ft_ObservatorySpec :: "'l library \<Rightarrow> 'l memory \<Rightarrow> mObservatorySpec \<Rightarrow> addr set" where
  "ft_ObservatorySpec L m x =
     ft_ptr at_PersistentVolumeClaimRef ft_flat m (mobs_PersistentVolumeClaim x)"

definition rd_TelemetrySpec :: "'l library \<Rightarrow> 'l memory \<Rightarrow> mTelemetrySpec \<Rightarrow> TelemetrySpec option" where
  "rd_TelemetrySpec L m x = do {
     a \<leftarrow> rd_ValueOrSource L m (mtel_OTLPEndpoint x);
     Some (\<lparr>tel_OTLPEndpoint = a\<rparr>)
   }"

definition ft_TelemetrySpec :: "'l library \<Rightarrow> 'l memory \<Rightarrow> mTelemetrySpec \<Rightarrow> addr set" where
  "ft_TelemetrySpec L m x =
     ft_ValueOrSource L m (mtel_OTLPEndpoint x)"

definition rd_RuntimeSpec :: "'l library \<Rightarrow> 'l memory \<Rightarrow> mRuntimeSpec \<Rightarrow> RuntimeSpec option" where
  "rd_RuntimeSpec L m x = do {
     a \<leftarrow> rd_ComposedRuntimeSpec L m (mrt_Composed x);
     Some (\<lparr>rt_Composed = a\<rparr>)
   }"

definition ft_RuntimeSpec :: "'l library \<Rightarrow> 'l memory \<Rightarrow> mRuntimeSpec \<Rightarrow> addr set" where
  "ft_RuntimeSpec L m x =
     ft_ComposedRuntimeSpec L m (mrt_Composed x)"

definition rd_SchedulerServicesSpec :: "'l library \<Rightarrow> 'l memory \<Rightarrow> mSchedulerServicesSpec \<Rightarrow> SchedulerServicesSpec option" where
  "rd_SchedulerServicesSpec L m x = do {
     a \<leftarrow> rd_ptr at_ExposedServiceConfig (rd_ExposedServiceConfig L) m (msss_Scheduler x);
     b \<leftarrow> rd_ptr at_ServiceConfig (rd_ServiceConfig L) m (msss_Internal x);
     c \<leftarrow> rd_ptr at_ExposedServiceConfig (rd_ExposedServiceConfig L) m (msss_Observatory x);
     Some (\<lparr>sss_Scheduler = a, sss_Internal = b, sss_Observatory = c\<rparr>)
   }"

definition ft_SchedulerServicesSpec :: "'l library \<Rightarrow> 'l memory \<Rightarrow> mSchedulerServicesSpec \<Rightarrow> addr set" where
  "ft_SchedulerServicesSpec L m x =
     ft_ptr at_ExposedServiceConfig (ft_ExposedServiceConfig L) m (msss_Scheduler x) \<union>
     ft_ptr at_ServiceConfig (ft_ServiceConfig L) m (msss_Internal x) \<union>
     ft_ptr at_ExposedServiceConfig (ft_ExposedServiceConfig L) m (msss_Observatory x)"

definition rd_SchedulerSpec :: "'l library \<Rightarrow> 'l memory \<Rightarrow> mSchedulerSpec \<Rightarrow> SchedulerSpec option" where
  "rd_SchedulerSpec L m x = do {
     a \<leftarrow> rd_ptr at_SchedulerServicesSpec (rd_SchedulerServicesSpec L) m (msch_Services x);
     b \<leftarrow> rd_ptr at_library (lt_read (lib_PodTemplateSpec L)) m (msch_PodTemplate x);
     c \<leftarrow> rd_ptr at_ServiceAccountSpec rd_flat m (msch_ServiceAccount x);
     Some (\<lparr>sch_Services = a, sch_PodTemplate = b, sch_ServiceAccount = c\<rparr>)
   }"

definition ft_SchedulerSpec :: "'l library \<Rightarrow> 'l memory \<Rightarrow> mSchedulerSpec \<Rightarrow> addr set" where
  "ft_SchedulerSpec L m x =
     ft_ptr at_SchedulerServicesSpec (ft_SchedulerServicesSpec L) m (msch_Services x) \<union>
     ft_ptr at_library (lt_foot (lib_PodTemplateSpec L)) m (msch_PodTemplate x) \<union>
     ft_ptr at_ServiceAccountSpec ft_flat m (msch_ServiceAccount x)"

definition rd_ShuffleDataS3Spec :: "'l library \<Rightarrow> 'l memory \<Rightarrow> mShuffleDataS3Spec \<Rightarrow> ShuffleDataS3Spec option" where
  "rd_ShuffleDataS3Spec L m x = do {
     a \<leftarrow> rd_ptr at_Duration rd_flat m (msds3_PresignDuration x);
     b \<leftarrow> rd_slice at_library_array (lt_read (lib_EnvVar L)) m (msds3_Options x);
     Some (\<lparr>sds3_Endpoint = msds3_Endpoint x, sds3_PresignDuration = a,
        sds3_Options = b\<rparr>)
   }"

definition ft_ShuffleDataS3Spec :: "'l library \<Rightarrow> 'l memory \<Rightarrow> mShuffleDataS3Spec \<Rightarrow> addr set" where
  "ft_ShuffleDataS3Spec L m x =
     ft_ptr at_Duration ft_flat m (msds3_PresignDuration x) \<union>
     ft_slice at_library_array (lt_foot (lib_EnvVar L)) m (msds3_Options x)"

definition rd_ShuffleDataABSSpec :: "'l library \<Rightarrow> 'l memory \<Rightarrow> mShuffleDataABSSpec \<Rightarrow> ShuffleDataABSSpec option" where
  "rd_ShuffleDataABSSpec L m x = do {
     a \<leftarrow> rd_ptr at_Duration rd_flat m (msdabs_PresignDuration x);
     b \<leftarrow> rd_slice at_library_array (lt_read (lib_EnvVar L)) m (msdabs_Options x);
     Some (\<lparr>sdabs_EndpointURL = msdabs_EndpointURL x, sdabs_PresignDuration = a,
        sdabs_Options = b\<rparr>)
   }"

definition ft_ShuffleDataABSSpec :: "'l library \<Rightarrow> 'l memory \<Rightarrow> mShuffleDataABSSpec \<Rightarrow> addr set" where
  "ft_ShuffleDataABSSpec L m x =
     ft_ptr at_Duration ft_flat m (msdabs_PresignDuration x) \<union>
     ft_slice at_library_array (lt_foot (lib_EnvVar L)) m (msdabs_Options x)"

definition rd_ShuffleDataGCSSpec :: "'l library \<Rightarrow> 'l memory \<Rightarrow> mShuffleDataGCSSpec \<Rightarrow> ShuffleDataGCSSpec option" where
  "rd_ShuffleDataGCSSpec L m x = do {
     a \<leftarrow> rd_ptr at_Duration rd_flat m (msdgcs_PresignDuration x);
     b \<leftarrow> rd_slice at_library_array (lt_read (lib_EnvVar L)) m (msdgcs_Options x);
     Some (\<lparr>sdgcs_EndpointURL = msdgcs_EndpointURL x, sdgcs_PresignDuration = a,
        sdgcs_Options = b\<rparr>)
   }"

definition ft_ShuffleDataGCSSpec :: "'l library \<Rightarrow> 'l memory \<Rightarrow> mShuffleDataGCSSpec \<Rightarrow> addr set" where
  "ft_ShuffleDataGCSSpec L m x =
     ft_ptr at_Duration ft_flat m (msdgcs_PresignDuration x) \<union>
     ft_slice at_library_array (lt_foot (lib_EnvVar L)) m (msdgcs_Options x)"

definition rd_ShuffleDataSpec :: "'l library \<Rightarrow> 'l memory \<Rightarrow> mShuffleDataSpec \<Rightarrow> ShuffleDataSpec option" where
  "rd_ShuffleDataSpec L m x = do {
     a \<leftarrow> rd_ptr at_LocalFilesystemSpec rd_flat m (msd_Local x);
     b \<leftarrow> rd_ptr at_SharedFilesystemSpec rd_flat m (msd_SharedFilesystem x);
     c \<leftarrow> rd_ptr at_ShuffleDataS3Spec (rd_ShuffleDataS3Spec L) m (msd_S3 x);
     d \<leftarrow> rd_ptr at_ShuffleDataABSSpec (rd_ShuffleDataABSSpec L) m (msd_ABS x);
     e \<leftarrow> rd_ptr at_ShuffleDataGCSSpec (rd_ShuffleDataGCSSpec L) m (msd_GCS x);
     Some (\<lparr>sd_Local = a, sd_SharedFilesystem = b, sd_S3 = c, sd_ABS = d,
        sd_GCS = e\<rparr>)
   }"

definition ft_ShuffleDataSpec :: "'l library \<Rightarrow> 'l memory \<Rightarrow> mShuffleDataSpec \<Rightarrow> addr set" where
  "ft_ShuffleDataSpec L m x =
     ft_ptr at_LocalFilesystemSpec ft_flat m (msd_Local x) \<union>
     ft_ptr at_SharedFilesystemSpec ft_flat m (msd_SharedFilesystem x) \<union>
     ft_ptr at_ShuffleDataS3Spec (ft_ShuffleDataS3Spec L) m (msd_S3 x) \<union>
     ft_ptr at_ShuffleDataABSSpec (ft_ShuffleDataABSSpec L) m (msd_ABS x) \<union>
     ft_ptr at_ShuffleDataGCSSpec (ft_ShuffleDataGCSSpec L) m (msd_GCS x)"

definition rd_TemporaryDataSpec :: "'l library \<Rightarrow> 'l memory \<Rightarrow> mTemporaryDataSpec \<Rightarrow> TemporaryDataSpec option" where
  "rd_TemporaryDataSpec L m x = do {
     a \<leftarrow> rd_ptr at_EphemeralVolumeClaimSpec
         (rd_EphemeralVolumeClaimSpec L) m (mtd_EphemeralVolumeClaim x);
     Some (\<lparr>td_EphemeralVolumeClaim = a\<rparr>)
   }"

definition ft_TemporaryDataSpec :: "'l library \<Rightarrow> 'l memory \<Rightarrow> mTemporaryDataSpec \<Rightarrow> addr set" where
  "ft_TemporaryDataSpec L m x =
     ft_ptr at_EphemeralVolumeClaimSpec (ft_EphemeralVolumeClaimSpec L) m (mtd_EphemeralVolumeClaim x)"

definition rd_WorkerPoolDeclaration :: "'l library \<Rightarrow> 'l memory \<Rightarrow> mWorkerPoolDeclaration \<Rightarrow> WorkerPoolDeclaration option" where
  "rd_WorkerPoolDeclaration L m x = do {
     a \<leftarrow> rd_ptr at_library (lt_read (lib_PodTemplateSpec L)) m (mwp_PodTemplate x);
     b \<leftarrow> rd_ptr at_ServiceAccountSpec rd_flat m (mwp_ServiceAccount x);
     c \<leftarrow> rd_ptr at_Duration rd_flat m (mwp_HeartBeatInterval x);
     d \<leftarrow> rd_ptr at_ShuffleDataSpec (rd_ShuffleDataSpec L) m (mwp_ShuffleData x);
     e \<leftarrow> rd_ptr at_TemporaryDataSpec (rd_TemporaryDataSpec L) m (mwp_TemporaryData x);
     f \<leftarrow> rd_ExtrasSpec L m (mwp_Extras x);
     Some (\<lparr>wp_PodTemplate = a, wp_ServiceAccount = b, wp_Replicas = mwp_Replicas x,
        wp_HeartBeatInterval = c, wp_ShuffleData = d, wp_TemporaryData = e, wp_Extras = f\<rparr>)
   }"

definition ft_WorkerPoolDeclaration :: "'l library \<Rightarrow> 'l memory \<Rightarrow> mWorkerPoolDeclaration \<Rightarrow> addr set" where
  "ft_WorkerPoolDeclaration L m x =
     ft_ptr at_library (lt_foot (lib_PodTemplateSpec L)) m (mwp_PodTemplate x) \<union>
     ft_ptr at_ServiceAccountSpec ft_flat m (mwp_ServiceAccount x) \<union>
     ft_ptr at_Duration ft_flat m (mwp_HeartBeatInterval x) \<union>
     ft_ptr at_ShuffleDataSpec (ft_ShuffleDataSpec L) m (mwp_ShuffleData x) \<union>
     ft_ptr at_TemporaryDataSpec (ft_TemporaryDataSpec L) m (mwp_TemporaryData x) \<union>
     ft_ExtrasSpec L m (mwp_Extras x)"

definition rd_PolarsClusterSpec :: "'l library \<Rightarrow> 'l memory \<Rightarrow> mPolarsClusterSpec \<Rightarrow> PolarsClusterSpec option" where
  "rd_PolarsClusterSpec L m x = do {
     a \<leftarrow> rd_ptr at_TelemetrySpec (rd_TelemetrySpec L) m (mspec_Telemetry x);
     b \<leftarrow> rd_ptr at_String rd_flat m (mspec_LogLevel x);
     c \<leftarrow> rd_slice at_string_array rd_flat m (mspec_ImagePullSecrets x);
     d \<leftarrow> rd_ptr at_RuntimeSpec (rd_RuntimeSpec L) m (mspec_Runtime x);
     e \<leftarrow> rd_LicenseSpec L m (mspec_License x);
     f \<leftarrow> rd_ptr at_AnonymousResultsSpec (rd_AnonymousResultsSpec L) m (mspec_AnonymousResults x);
     g \<leftarrow> rd_ptr at_CheckpointSpec (rd_CheckpointSpec L) m (mspec_Checkpoint x);
     h \<leftarrow> rd_ptr at_LineageSpec (rd_LineageSpec L) m (mspec_Lineage x);
     i \<leftarrow> rd_ptr at_ObservatorySpec (rd_ObservatorySpec L) m (mspec_Observatory x);
     j \<leftarrow> rd_ptr at_HostMetricsSpec rd_flat m (mspec_HostMetrics x);
     k \<leftarrow> rd_ptr at_SchedulerSpec (rd_SchedulerSpec L) m (mspec_Scheduler x);
     l \<leftarrow> rd_WorkerPoolDeclaration L m (mspec_WorkerPool x);
     Some (\<lparr>spec_Telemetry = a, spec_LogLevel = b, spec_ImagePullSecrets = c,
        spec_ClusterID = mspec_ClusterID x, spec_AcceptEula = mspec_AcceptEula x,
        spec_Version = mspec_Version x, spec_Runtime = d, spec_License = e,
        spec_AllowLocalSinks = mspec_AllowLocalSinks x,
        spec_AllowLocalScans = mspec_AllowLocalScans x,
        spec_AllowAnonymousUsers = mspec_AllowAnonymousUsers x, spec_AnonymousResults = f,
        spec_Checkpoint = g, spec_Lineage = h, spec_Observatory = i, spec_HostMetrics = j,
        spec_ClusterDomain = mspec_ClusterDomain x, spec_Scheduler = k,
        spec_WorkerPool = l\<rparr>)
   }"

definition ft_PolarsClusterSpec :: "'l library \<Rightarrow> 'l memory \<Rightarrow> mPolarsClusterSpec \<Rightarrow> addr set" where
  "ft_PolarsClusterSpec L m x =
     ft_ptr at_TelemetrySpec (ft_TelemetrySpec L) m (mspec_Telemetry x) \<union>
     ft_ptr at_String ft_flat m (mspec_LogLevel x) \<union>
     ft_slice at_string_array ft_flat m (mspec_ImagePullSecrets x) \<union>
     ft_ptr at_RuntimeSpec (ft_RuntimeSpec L) m (mspec_Runtime x) \<union>
     ft_LicenseSpec L m (mspec_License x) \<union>
     ft_ptr at_AnonymousResultsSpec (ft_AnonymousResultsSpec L) m (mspec_AnonymousResults x) \<union>
     ft_ptr at_CheckpointSpec (ft_CheckpointSpec L) m (mspec_Checkpoint x) \<union>
     ft_ptr at_LineageSpec (ft_LineageSpec L) m (mspec_Lineage x) \<union>
     ft_ptr at_ObservatorySpec (ft_ObservatorySpec L) m (mspec_Observatory x) \<union>
     ft_ptr at_HostMetricsSpec ft_flat m (mspec_HostMetrics x) \<union>
     ft_ptr at_SchedulerSpec (ft_SchedulerSpec L) m (mspec_Scheduler x) \<union>
     ft_WorkerPoolDeclaration L m (mspec_WorkerPool x)"

definition rd_PolarsClusterStatus :: "'l library \<Rightarrow> 'l memory \<Rightarrow> mPolarsClusterStatus \<Rightarrow> PolarsClusterStatus option" where
  "rd_PolarsClusterStatus L m x = do {
     a \<leftarrow> rd_slice at_library_array (lt_read (lib_Condition L)) m (mst_Conditions x);
     Some (\<lparr>st_Conditions = a, st_ObservedGeneration = mst_ObservedGeneration x,
        st_Scheduler = mst_Scheduler x, st_WorkerPool = mst_WorkerPool x\<rparr>)
   }"

definition ft_PolarsClusterStatus :: "'l library \<Rightarrow> 'l memory \<Rightarrow> mPolarsClusterStatus \<Rightarrow> addr set" where
  "ft_PolarsClusterStatus L m x =
     ft_slice at_library_array (lt_foot (lib_Condition L)) m (mst_Conditions x)"

definition rd_PolarsCluster :: "'l library \<Rightarrow> 'l memory \<Rightarrow> 'l mPolarsCluster \<Rightarrow> (type_meta \<times> PolarsCluster) option" where
  "rd_PolarsCluster L m x = do {
     a \<leftarrow> lt_read (lib_ObjectMeta L) m (mcl_ObjectMeta x);
     b \<leftarrow> rd_PolarsClusterSpec L m (mcl_Spec x);
     c \<leftarrow> rd_PolarsClusterStatus L m (mcl_Status x);
     Some (mcl_TypeMeta x, \<lparr>cl_Meta = a, cl_Spec = b, cl_Status = c\<rparr>)
   }"

definition ft_PolarsCluster :: "'l library \<Rightarrow> 'l memory \<Rightarrow> 'l mPolarsCluster \<Rightarrow> addr set" where
  "ft_PolarsCluster L m x =
     lt_foot (lib_ObjectMeta L) m (mcl_ObjectMeta x) \<union>
     ft_PolarsClusterSpec L m (mcl_Spec x) \<union>
     ft_PolarsClusterStatus L m (mcl_Status x)"

definition rd_PolarsClusterList :: "'l library \<Rightarrow> 'l memory \<Rightarrow> 'l mPolarsClusterList \<Rightarrow> PolarsClusterList option" where
  "rd_PolarsClusterList L m x = do {
     a \<leftarrow> lt_read (lib_ListMeta L) m (mpl_ListMeta x);
     b \<leftarrow> rd_slice at_cluster_array (rd_PolarsCluster L) m (mpl_Items x);
     Some (\<lparr>pl_TypeMeta = mpl_TypeMeta x, pl_ListMeta = a, pl_Items = b\<rparr>)
   }"

definition ft_PolarsClusterList :: "'l library \<Rightarrow> 'l memory \<Rightarrow> 'l mPolarsClusterList \<Rightarrow> addr set" where
  "ft_PolarsClusterList L m x =
     lt_foot (lib_ListMeta L) m (mpl_ListMeta x) \<union>
     ft_slice at_cluster_array (ft_PolarsCluster L) m (mpl_Items x)"

end
