(* ===== verification/Deep_Copy_Laws.thy ===== *)
theory Deep_Copy_Laws
  imports Cluster_Reading
begin

text \<open>
  Every generated copy function satisfies the law \<open>copies\<close>, from the innermost structs outwards:
  \<open>copies_X\<close> is the law of \<open>X_DeepCopyInto\<close>, obtained from the laws of the fields of \<open>X\<close>.
\<close>

section \<open>Structs without references\<close>

lemma copies_HDFSSpec: "copies rd_flat ft_flat (HDFSSpec_DeepCopyInto
    :: HDFSSpec \<Rightarrow> ('l cell, HDFSSpec) cmd)"
  by (rule copies_assign) (simp add: HDFSSpec_DeepCopyInto_def)

lemma copies_HostMetricsSpec: "copies rd_flat ft_flat (HostMetricsSpec_DeepCopyInto
    :: HostMetricsSpec \<Rightarrow> ('l cell, HostMetricsSpec) cmd)"
  by (rule copies_assign) (simp add: HostMetricsSpec_DeepCopyInto_def)

lemma copies_ImageSpec: "copies rd_flat ft_flat (ImageSpec_DeepCopyInto
    :: ImageSpec \<Rightarrow> ('l cell, ImageSpec) cmd)"
  by (rule copies_assign) (simp add: ImageSpec_DeepCopyInto_def)

lemma copies_ImageVolumeSpec: "copies rd_flat ft_flat (ImageVolumeSpec_DeepCopyInto
    :: ImageVolumeSpec \<Rightarrow> ('l cell, ImageVolumeSpec) cmd)"
  by (rule copies_assign) (simp add: ImageVolumeSpec_DeepCopyInto_def)

lemma copies_LicenseOnPremEnterpriseSpec: "copies rd_flat ft_flat (LicenseOnPremEnterpriseSpec_DeepCopyInto
    :: LicenseOnPremEnterpriseSpec \<Rightarrow> ('l cell, LicenseOnPremEnterpriseSpec) cmd)"
  by (rule copies_assign) (simp add: LicenseOnPremEnterpriseSpec_DeepCopyInto_def)

lemma copies_LineageTransportHTTPSpec: "copies rd_flat ft_flat (LineageTransportHTTPSpec_DeepCopyInto
    :: LineageTransportHTTPSpec \<Rightarrow> ('l cell, LineageTransportHTTPSpec) cmd)"
  by (rule copies_assign) (simp add: LineageTransportHTTPSpec_DeepCopyInto_def)

lemma copies_LocalFilesystemSpec: "copies rd_flat ft_flat (LocalFilesystemSpec_DeepCopyInto
    :: LocalFilesystemSpec \<Rightarrow> ('l cell, LocalFilesystemSpec) cmd)"
  by (rule copies_assign) (simp add: LocalFilesystemSpec_DeepCopyInto_def)

lemma copies_PersistentVolumeClaimRef: "copies rd_flat ft_flat (PersistentVolumeClaimRef_DeepCopyInto
    :: PersistentVolumeClaimRef \<Rightarrow> ('l cell, PersistentVolumeClaimRef) cmd)"
  by (rule copies_assign) (simp add: PersistentVolumeClaimRef_DeepCopyInto_def)

lemma copies_PyIcebergSpec: "copies rd_flat ft_flat (PyIcebergSpec_DeepCopyInto
    :: PyIcebergSpec \<Rightarrow> ('l cell, PyIcebergSpec) cmd)"
  by (rule copies_assign) (simp add: PyIcebergSpec_DeepCopyInto_def)

lemma copies_SchedulerStatus: "copies rd_flat ft_flat (SchedulerStatus_DeepCopyInto
    :: SchedulerStatus \<Rightarrow> ('l cell, SchedulerStatus) cmd)"
  by (rule copies_assign) (simp add: SchedulerStatus_DeepCopyInto_def)

lemma copies_ServiceAccountSpec: "copies rd_flat ft_flat (ServiceAccountSpec_DeepCopyInto
    :: ServiceAccountSpec \<Rightarrow> ('l cell, ServiceAccountSpec) cmd)"
  by (rule copies_assign) (simp add: ServiceAccountSpec_DeepCopyInto_def)

lemma copies_SharedFilesystemSpec: "copies rd_flat ft_flat (SharedFilesystemSpec_DeepCopyInto
    :: SharedFilesystemSpec \<Rightarrow> ('l cell, SharedFilesystemSpec) cmd)"
  by (rule copies_assign) (simp add: SharedFilesystemSpec_DeepCopyInto_def)

lemma copies_WorkerPoolStatus: "copies rd_flat ft_flat (WorkerPoolStatus_DeepCopyInto
    :: WorkerPoolStatus \<Rightarrow> ('l cell, WorkerPoolStatus) cmd)"
  by (rule copies_assign) (simp add: WorkerPoolStatus_DeepCopyInto_def)

section \<open>Structs with references\<close>

lemma copies_AnonymousResultsABSSpec:
  assumes ok: "lib_laws L"
  shows "copies (rd_AnonymousResultsABSSpec L) (ft_AnonymousResultsABSSpec L) (AnonymousResultsABSSpec_DeepCopyInto L)"
  by (rule copies_struct [OF copies_pair [OF copies_ptr [OF copies_flat at_Duration_ok]
    copies_slice [OF lib_lawsD(1) [OF ok] at_library_array_ok]],
      where view = "\<lambda>x. (marabs_PresignDuration x, marabs_Options x)"
        and upd = "\<lambda>x (a, b). x\<lparr>marabs_PresignDuration := a,
            marabs_Options := b\<rparr>"
        and mk = "\<lambda>x (a, b). \<lparr>arabs_EndpointURL = marabs_EndpointURL x,
            arabs_PresignDuration = a, arabs_Options = b\<rparr>"])
    (auto simp: rd_AnonymousResultsABSSpec_def ft_AnonymousResultsABSSpec_def AnonymousResultsABSSpec_DeepCopyInto_def
      struct_simps)

lemma copies_AnonymousResultsGCSSpec:
  assumes ok: "lib_laws L"
  shows "copies (rd_AnonymousResultsGCSSpec L) (ft_AnonymousResultsGCSSpec L) (AnonymousResultsGCSSpec_DeepCopyInto L)"
  by (rule copies_struct [OF copies_pair [OF copies_ptr [OF copies_flat at_Duration_ok]
    copies_slice [OF lib_lawsD(1) [OF ok] at_library_array_ok]],
      where view = "\<lambda>x. (margcs_PresignDuration x, margcs_Options x)"
        and upd = "\<lambda>x (a, b). x\<lparr>margcs_PresignDuration := a,
            margcs_Options := b\<rparr>"
        and mk = "\<lambda>x (a, b). \<lparr>argcs_EndpointURL = margcs_EndpointURL x,
            argcs_PresignDuration = a, argcs_Options = b\<rparr>"])
    (auto simp: rd_AnonymousResultsGCSSpec_def ft_AnonymousResultsGCSSpec_def AnonymousResultsGCSSpec_DeepCopyInto_def
      struct_simps)

lemma copies_AnonymousResultsS3Spec:
  assumes ok: "lib_laws L"
  shows "copies (rd_AnonymousResultsS3Spec L) (ft_AnonymousResultsS3Spec L) (AnonymousResultsS3Spec_DeepCopyInto L)"
  by (rule copies_struct [OF copies_pair [OF copies_ptr [OF copies_flat at_Duration_ok]
    copies_slice [OF lib_lawsD(1) [OF ok] at_library_array_ok]],
      where view = "\<lambda>x. (mars3_PresignDuration x, mars3_Options x)"
        and upd = "\<lambda>x (a, b). x\<lparr>mars3_PresignDuration := a,
            mars3_Options := b\<rparr>"
        and mk = "\<lambda>x (a, b). \<lparr>ars3_Endpoint = mars3_Endpoint x,
            ars3_PresignDuration = a, ars3_Options = b\<rparr>"])
    (auto simp: rd_AnonymousResultsS3Spec_def ft_AnonymousResultsS3Spec_def AnonymousResultsS3Spec_DeepCopyInto_def
      struct_simps)

lemma copies_AnonymousResultsSpec:
  assumes ok: "lib_laws L"
  shows "copies (rd_AnonymousResultsSpec L) (ft_AnonymousResultsSpec L) (AnonymousResultsSpec_DeepCopyInto L)"
  by (rule copies_struct [OF copies_pair [OF copies_ptr [OF copies_AnonymousResultsS3Spec [OF ok] at_AnonymousResultsS3Spec_ok]
    copies_pair [OF copies_ptr [OF copies_AnonymousResultsABSSpec [OF ok] at_AnonymousResultsABSSpec_ok]
    copies_pair [OF copies_ptr [OF copies_AnonymousResultsGCSSpec [OF ok] at_AnonymousResultsGCSSpec_ok]
    copies_ptr [OF copies_flat at_SharedFilesystemSpec_ok]]]],
      where view = "\<lambda>x. (mar_S3 x, mar_ABS x, mar_GCS x, mar_SharedFilesystem x)"
        and upd = "\<lambda>x (a, b, c, d). x\<lparr>mar_S3 := a, mar_ABS := b, mar_GCS := c,
            mar_SharedFilesystem := d\<rparr>"
        and mk = "\<lambda>x (a, b, c, d). \<lparr>ar_S3 = a, ar_ABS = b, ar_GCS = c,
            ar_SharedFilesystem = d\<rparr>"])
    (auto simp: rd_AnonymousResultsSpec_def ft_AnonymousResultsSpec_def AnonymousResultsSpec_DeepCopyInto_def
      struct_simps)

lemma copies_CheckpointABSSpec:
  assumes ok: "lib_laws L"
  shows "copies (rd_CheckpointABSSpec L) (ft_CheckpointABSSpec L) (CheckpointABSSpec_DeepCopyInto L)"
  by (rule copies_struct [OF copies_slice [OF lib_lawsD(1) [OF ok] at_library_array_ok],
      where view = "\<lambda>x. mckabs_Options x"
        and upd = "\<lambda>x a. x\<lparr>mckabs_Options := a\<rparr>"
        and mk = "\<lambda>x a. \<lparr>ckabs_EndpointURL = mckabs_EndpointURL x,
            ckabs_Options = a\<rparr>"])
    (auto simp: rd_CheckpointABSSpec_def ft_CheckpointABSSpec_def CheckpointABSSpec_DeepCopyInto_def
      struct_simps)

lemma copies_CheckpointS3Spec:
  assumes ok: "lib_laws L"
  shows "copies (rd_CheckpointS3Spec L) (ft_CheckpointS3Spec L) (CheckpointS3Spec_DeepCopyInto L)"
  by (rule copies_struct [OF copies_slice [OF lib_lawsD(1) [OF ok] at_library_array_ok],
      where view = "\<lambda>x. mcks3_Options x"
        and upd = "\<lambda>x a. x\<lparr>mcks3_Options := a\<rparr>"
        and mk = "\<lambda>x a. \<lparr>cks3_Endpoint = mcks3_Endpoint x,
            cks3_Options = a\<rparr>"])
    (auto simp: rd_CheckpointS3Spec_def ft_CheckpointS3Spec_def CheckpointS3Spec_DeepCopyInto_def
      struct_simps)

lemma copies_CheckpointGCSSpec:
  assumes ok: "lib_laws L"
  shows "copies (rd_CheckpointGCSSpec L) (ft_CheckpointGCSSpec L) (CheckpointGCSSpec_DeepCopyInto L)"
  by (rule copies_struct [OF copies_slice [OF lib_lawsD(1) [OF ok] at_library_array_ok],
      where view = "\<lambda>x. mckgcs_Options x"
        and upd = "\<lambda>x a. x\<lparr>mckgcs_Options := a\<rparr>"
        and mk = "\<lambda>x a. \<lparr>ckgcs_EndpointURL = mckgcs_EndpointURL x,
            ckgcs_Options = a\<rparr>"])
    (auto simp: rd_CheckpointGCSSpec_def ft_CheckpointGCSSpec_def CheckpointGCSSpec_DeepCopyInto_def
      struct_simps)

lemma copies_CheckpointDataSpec:
  assumes ok: "lib_laws L"
  shows "copies (rd_CheckpointDataSpec L) (ft_CheckpointDataSpec L) (CheckpointDataSpec_DeepCopyInto L)"
  by (rule copies_struct [OF copies_pair [OF copies_ptr [OF copies_flat at_SharedFilesystemSpec_ok]
    copies_pair [OF copies_ptr [OF copies_CheckpointS3Spec [OF ok] at_CheckpointS3Spec_ok]
    copies_pair [OF copies_ptr [OF copies_CheckpointABSSpec [OF ok] at_CheckpointABSSpec_ok]
    copies_ptr [OF copies_CheckpointGCSSpec [OF ok] at_CheckpointGCSSpec_ok]]]],
      where view = "\<lambda>x. (mcd_SharedFilesystem x, mcd_S3 x, mcd_ABS x, mcd_GCS x)"
        and upd = "\<lambda>x (a, b, c, d). x\<lparr>mcd_SharedFilesystem := a, mcd_S3 := b,
            mcd_ABS := c, mcd_GCS := d\<rparr>"
        and mk = "\<lambda>x (a, b, c, d). \<lparr>cd_SharedFilesystem = a, cd_S3 = b, cd_ABS = c,
            cd_GCS = d\<rparr>"])
    (auto simp: rd_CheckpointDataSpec_def ft_CheckpointDataSpec_def CheckpointDataSpec_DeepCopyInto_def
      struct_simps)

lemma copies_CheckpointSpec:
  assumes ok: "lib_laws L"
  shows "copies (rd_CheckpointSpec L) (ft_CheckpointSpec L) (CheckpointSpec_DeepCopyInto L)"
  by (rule copies_struct [OF copies_pair [OF copies_ptr [OF copies_flat at_Duration_ok]
    copies_CheckpointDataSpec [OF ok]],
      where view = "\<lambda>x. (mck_Period x, mck_Data x)"
        and upd = "\<lambda>x (a, b). x\<lparr>mck_Period := a, mck_Data := b\<rparr>"
        and mk = "\<lambda>x (a, b). \<lparr>ck_Period = a, ck_Data = b\<rparr>"])
    (auto simp: rd_CheckpointSpec_def ft_CheckpointSpec_def CheckpointSpec_DeepCopyInto_def
      struct_simps)

lemma copies_ComposedRuntimeSpec:
  assumes ok: "lib_laws L"
  shows "copies (rd_ComposedRuntimeSpec L) (ft_ComposedRuntimeSpec L) (ComposedRuntimeSpec_DeepCopyInto L)"
  by (rule copies_struct [OF copies_pair [OF copies_ptr [OF copies_flat at_ImageSpec_ok]
    copies_pair [OF copies_ptr [OF copies_flat at_ImageSpec_ok]
    copies_ptr [OF copies_flat at_ImageVolumeSpec_ok]]],
      where view = "\<lambda>x. (mcrt_Dist x, mcrt_Runtime x, mcrt_ImageVolume x)"
        and upd = "\<lambda>x (a, b, c). x\<lparr>mcrt_Dist := a, mcrt_Runtime := b,
            mcrt_ImageVolume := c\<rparr>"
        and mk = "\<lambda>x (a, b, c). \<lparr>crt_Dist = a, crt_Runtime = b,
            crt_Requirements = mcrt_Requirements x, crt_PolarsExtras = mcrt_PolarsExtras x,
            crt_ImageVolume = c\<rparr>"])
    (auto simp: rd_ComposedRuntimeSpec_def ft_ComposedRuntimeSpec_def ComposedRuntimeSpec_DeepCopyInto_def
      struct_simps)

lemma copies_EphemeralVolumeClaimSpec:
  assumes ok: "lib_laws L"
  shows "copies (rd_EphemeralVolumeClaimSpec L) (ft_EphemeralVolumeClaimSpec L) (EphemeralVolumeClaimSpec_DeepCopyInto L)"
  by (rule copies_struct [OF lib_lawsD(8) [OF ok],
      where view = "\<lambda>x. mevc_Size x"
        and upd = "\<lambda>x a. x\<lparr>mevc_Size := a\<rparr>"
        and mk = "\<lambda>x a. \<lparr>evc_StorageClassName = mevc_StorageClassName x,
            evc_Size = a\<rparr>"])
    (auto simp: rd_EphemeralVolumeClaimSpec_def ft_EphemeralVolumeClaimSpec_def EphemeralVolumeClaimSpec_DeepCopyInto_def
      struct_simps)

lemma copies_ServiceConfig:
  assumes ok: "lib_laws L"
  shows "copies (rd_ServiceConfig L) (ft_ServiceConfig L) (ServiceConfig_DeepCopyInto L)"
  by (rule copies_struct [OF copies_pair [OF copies_ptr [OF copies_flat at_String_ok]
    copies_pair [OF copies_map [OF at_map_ok lib_lawsD(9) [OF ok]]
    copies_ptr [OF copies_flat at_Bool_ok]]],
      where view = "\<lambda>x. (msc_Type x, msc_Annotations x, msc_PublishNotReadyAddresses x)"
        and upd = "\<lambda>x (a, b, c). x\<lparr>msc_Type := a, msc_Annotations := b,
            msc_PublishNotReadyAddresses := c\<rparr>"
        and mk = "\<lambda>x (a, b, c). \<lparr>sc_Type = a, sc_Annotations = b,
            sc_PublishNotReadyAddresses = c, sc_ClusterIP = msc_ClusterIP x\<rparr>"])
    (auto simp: rd_ServiceConfig_def ft_ServiceConfig_def ServiceConfig_DeepCopyInto_def
      struct_simps)

lemma copies_RouteSpec:
  assumes ok: "lib_laws L"
  shows "copies (rd_RouteSpec L) (ft_RouteSpec L) (RouteSpec_DeepCopyInto L)"
  by (rule copies_struct [OF copies_pair [OF copies_slice [OF lib_lawsD(4) [OF ok] at_library_array_ok]
    copies_pair [OF copies_slice [OF copies_flat at_string_array_ok]
    copies_pair [OF copies_map [OF at_map_ok lib_lawsD(9) [OF ok]]
    copies_map [OF at_map_ok lib_lawsD(9) [OF ok]]]]],
      where view = "\<lambda>x. (mrs_ParentRefs x, mrs_Hostnames x, mrs_Labels x,
            mrs_Annotations x)"
        and upd = "\<lambda>x (a, b, c, d). x\<lparr>mrs_ParentRefs := a, mrs_Hostnames := b,
            mrs_Labels := c, mrs_Annotations := d\<rparr>"
        and mk = "\<lambda>x (a, b, c, d). \<lparr>rs_ParentRefs = a, rs_Hostnames = b,
            rs_Labels = c, rs_Annotations = d\<rparr>"])
    (auto simp: rd_RouteSpec_def ft_RouteSpec_def RouteSpec_DeepCopyInto_def
      struct_simps)

lemma copies_ExposedServiceConfig:
  assumes ok: "lib_laws L"
  shows "copies (rd_ExposedServiceConfig L) (ft_ExposedServiceConfig L) (ExposedServiceConfig_DeepCopyInto L)"
  by (rule copies_struct [OF copies_pair [OF copies_ServiceConfig [OF ok]
    copies_ptr [OF copies_RouteSpec [OF ok] at_RouteSpec_ok]],
      where view = "\<lambda>x. (mesc_ServiceConfig x, mesc_Route x)"
        and upd = "\<lambda>x (a, b). x\<lparr>mesc_ServiceConfig := a, mesc_Route := b\<rparr>"
        and mk = "\<lambda>x (a, b). \<lparr>esc_ServiceConfig = a, esc_Route = b\<rparr>"])
    (auto simp: rd_ExposedServiceConfig_def ft_ExposedServiceConfig_def ExposedServiceConfig_DeepCopyInto_def
      struct_simps)

lemma copies_ExtrasSpec:
  assumes ok: "lib_laws L"
  shows "copies (rd_ExtrasSpec L) (ft_ExtrasSpec L) (ExtrasSpec_DeepCopyInto L)"
  by (rule copies_struct [OF copies_pair [OF copies_ptr [OF copies_flat at_HDFSSpec_ok]
    copies_ptr [OF copies_flat at_PyIcebergSpec_ok]],
      where view = "\<lambda>x. (mext_HDFS x, mext_PyIceberg x)"
        and upd = "\<lambda>x (a, b). x\<lparr>mext_HDFS := a, mext_PyIceberg := b\<rparr>"
        and mk = "\<lambda>x (a, b). \<lparr>ext_HDFS = a, ext_PyIceberg = b\<rparr>"])
    (auto simp: rd_ExtrasSpec_def ft_ExtrasSpec_def ExtrasSpec_DeepCopyInto_def
      struct_simps)

lemma copies_ValueOrSource:
  assumes ok: "lib_laws L"
  shows "copies (rd_ValueOrSource L) (ft_ValueOrSource L) (ValueOrSource_DeepCopyInto L)"
  by (rule copies_struct [OF copies_ptr [OF lib_lawsD(2) [OF ok] at_library_ok],
      where view = "\<lambda>x. mvos_ValueFrom x"
        and upd = "\<lambda>x a. x\<lparr>mvos_ValueFrom := a\<rparr>"
        and mk = "\<lambda>x a. \<lparr>vos_Value = mvos_Value x, vos_ValueFrom = a\<rparr>"])
    (auto simp: rd_ValueOrSource_def ft_ValueOrSource_def ValueOrSource_DeepCopyInto_def
      struct_simps)

lemma copies_RegisterNodeSpec:
  assumes ok: "lib_laws L"
  shows "copies (rd_RegisterNodeSpec L) (ft_RegisterNodeSpec L) (RegisterNodeSpec_DeepCopyInto L)"
  by (rule copies_struct [OF copies_pair [OF copies_ValueOrSource [OF ok]
    copies_ptr [OF copies_ValueOrSource [OF ok] at_ValueOrSource_ok]],
      where view = "\<lambda>x. (mrns_PrivateAddress x, mrns_PublicAddress x)"
        and upd = "\<lambda>x (a, b). x\<lparr>mrns_PrivateAddress := a,
            mrns_PublicAddress := b\<rparr>"
        and mk = "\<lambda>x (a, b). \<lparr>rns_PrivateAddress = a,
            rns_PublicAddress = b\<rparr>"])
    (auto simp: rd_RegisterNodeSpec_def ft_RegisterNodeSpec_def RegisterNodeSpec_DeepCopyInto_def
      struct_simps)

lemma copies_LicenseCloudSpec:
  assumes ok: "lib_laws L"
  shows "copies (rd_LicenseCloudSpec L) (ft_LicenseCloudSpec L) (LicenseCloudSpec_DeepCopyInto L)"
  by (rule copies_struct [OF copies_ptr [OF copies_RegisterNodeSpec [OF ok] at_RegisterNodeSpec_ok],
      where view = "\<lambda>x. mlcl_RegisterNode x"
        and upd = "\<lambda>x a. x\<lparr>mlcl_RegisterNode := a\<rparr>"
        and mk = "\<lambda>x a. \<lparr>lcl_SecretName = mlcl_SecretName x,
            lcl_RegisterNode = a\<rparr>"])
    (auto simp: rd_LicenseCloudSpec_def ft_LicenseCloudSpec_def LicenseCloudSpec_DeepCopyInto_def
      struct_simps)

lemma copies_LicenseOnPremSpec:
  assumes ok: "lib_laws L"
  shows "copies (rd_LicenseOnPremSpec L) (ft_LicenseOnPremSpec L) (LicenseOnPremSpec_DeepCopyInto L)"
  by (rule copies_struct [OF copies_pair [OF copies_ValueOrSource [OF ok]
    copies_pair [OF copies_ValueOrSource [OF ok]
    copies_pair [OF copies_ValueOrSource [OF ok]
    copies_ptr [OF copies_flat at_PersistentVolumeClaimRef_ok]]]],
      where view = "\<lambda>x. (mlop_ClientID x, mlop_ClientSecret x, mlop_WorkspaceID x,
            mlop_LicenseData x)"
        and upd = "\<lambda>x (a, b, c, d). x\<lparr>mlop_ClientID := a, mlop_ClientSecret := b,
            mlop_WorkspaceID := c, mlop_LicenseData := d\<rparr>"
        and mk = "\<lambda>x (a, b, c, d). \<lparr>lop_ClientID = a, lop_ClientSecret = b,
            lop_WorkspaceID = c, lop_LicenseData = d\<rparr>"])
    (auto simp: rd_LicenseOnPremSpec_def ft_LicenseOnPremSpec_def LicenseOnPremSpec_DeepCopyInto_def
      struct_simps)

lemma copies_LicenseSpec:
  assumes ok: "lib_laws L"
  shows "copies (rd_LicenseSpec L) (ft_LicenseSpec L) (LicenseSpec_DeepCopyInto L)"
  by (rule copies_struct [OF copies_pair [OF copies_ptr [OF copies_LicenseOnPremSpec [OF ok] at_LicenseOnPremSpec_ok]
    copies_pair [OF copies_ptr [OF copies_flat at_LicenseOnPremEnterpriseSpec_ok]
    copies_ptr [OF copies_LicenseCloudSpec [OF ok] at_LicenseCloudSpec_ok]]],
      where view = "\<lambda>x. (mlic_OnPrem x, mlic_OnPremEnterprise x, mlic_Cloud x)"
        and upd = "\<lambda>x (a, b, c). x\<lparr>mlic_OnPrem := a, mlic_OnPremEnterprise := b,
            mlic_Cloud := c\<rparr>"
        and mk = "\<lambda>x (a, b, c). \<lparr>lic_OnPrem = a, lic_OnPremEnterprise = b,
            lic_Cloud = c\<rparr>"])
    (auto simp: rd_LicenseSpec_def ft_LicenseSpec_def LicenseSpec_DeepCopyInto_def
      struct_simps)

lemma copies_LineageTransportSpec:
  assumes ok: "lib_laws L"
  shows "copies (rd_LineageTransportSpec L) (ft_LineageTransportSpec L) (LineageTransportSpec_DeepCopyInto L)"
  by (rule copies_struct [OF copies_ptr [OF copies_flat at_LineageTransportHTTPSpec_ok],
      where view = "\<lambda>x. mlt_HTTP x"
        and upd = "\<lambda>x a. x\<lparr>mlt_HTTP := a\<rparr>"
        and mk = "\<lambda>x a. \<lparr>lt_HTTP = a\<rparr>"])
    (auto simp: rd_LineageTransportSpec_def ft_LineageTransportSpec_def LineageTransportSpec_DeepCopyInto_def
      struct_simps)

lemma copies_LineageSpec:
  assumes ok: "lib_laws L"
  shows "copies (rd_LineageSpec L) (ft_LineageSpec L) (LineageSpec_DeepCopyInto L)"
  by (rule copies_struct [OF copies_LineageTransportSpec [OF ok],
      where view = "\<lambda>x. mlin_Transport x"
        and upd = "\<lambda>x a. x\<lparr>mlin_Transport := a\<rparr>"
        and mk = "\<lambda>x a. \<lparr>lin_Transport = a\<rparr>"])
    (auto simp: rd_LineageSpec_def ft_LineageSpec_def LineageSpec_DeepCopyInto_def
      struct_simps)

lemma copies_ObservatorySpec:
  assumes ok: "lib_laws L"
  shows "copies (rd_ObservatorySpec L) (ft_ObservatorySpec L) (ObservatorySpec_DeepCopyInto L)"
  by (rule copies_struct [OF copies_ptr [OF copies_flat at_PersistentVolumeClaimRef_ok],
      where view = "\<lambda>x. mobs_PersistentVolumeClaim x"
        and upd = "\<lambda>x a. x\<lparr>mobs_PersistentVolumeClaim := a\<rparr>"
        and mk = "\<lambda>x a. \<lparr>obs_MaxMetricsBytesTotal = mobs_MaxMetricsBytesTotal x,
            obs_PersistentVolumeClaim = a\<rparr>"])
    (auto simp: rd_ObservatorySpec_def ft_ObservatorySpec_def ObservatorySpec_DeepCopyInto_def
      struct_simps)

lemma copies_TelemetrySpec:
  assumes ok: "lib_laws L"
  shows "copies (rd_TelemetrySpec L) (ft_TelemetrySpec L) (TelemetrySpec_DeepCopyInto L)"
  by (rule copies_struct [OF copies_ValueOrSource [OF ok],
      where view = "\<lambda>x. mtel_OTLPEndpoint x"
        and upd = "\<lambda>x a. x\<lparr>mtel_OTLPEndpoint := a\<rparr>"
        and mk = "\<lambda>x a. \<lparr>tel_OTLPEndpoint = a\<rparr>"])
    (auto simp: rd_TelemetrySpec_def ft_TelemetrySpec_def TelemetrySpec_DeepCopyInto_def
      struct_simps)

lemma copies_RuntimeSpec:
  assumes ok: "lib_laws L"
  shows "copies (rd_RuntimeSpec L) (ft_RuntimeSpec L) (RuntimeSpec_DeepCopyInto L)"
  by (rule copies_struct [OF copies_ComposedRuntimeSpec [OF ok],
      where view = "\<lambda>x. mrt_Composed x"
        and upd = "\<lambda>x a. x\<lparr>mrt_Composed := a\<rparr>"
        and mk = "\<lambda>x a. \<lparr>rt_Composed = a\<rparr>"])
    (auto simp: rd_RuntimeSpec_def ft_RuntimeSpec_def RuntimeSpec_DeepCopyInto_def
      struct_simps)

lemma copies_SchedulerServicesSpec:
  assumes ok: "lib_laws L"
  shows "copies (rd_SchedulerServicesSpec L) (ft_SchedulerServicesSpec L) (SchedulerServicesSpec_DeepCopyInto L)"
  by (rule copies_struct [OF copies_pair [OF copies_ptr [OF copies_ExposedServiceConfig [OF ok] at_ExposedServiceConfig_ok]
    copies_pair [OF copies_ptr [OF copies_ServiceConfig [OF ok] at_ServiceConfig_ok]
    copies_ptr [OF copies_ExposedServiceConfig [OF ok] at_ExposedServiceConfig_ok]]],
      where view = "\<lambda>x. (msss_Scheduler x, msss_Internal x, msss_Observatory x)"
        and upd = "\<lambda>x (a, b, c). x\<lparr>msss_Scheduler := a, msss_Internal := b,
            msss_Observatory := c\<rparr>"
        and mk = "\<lambda>x (a, b, c). \<lparr>sss_Scheduler = a, sss_Internal = b,
            sss_Observatory = c\<rparr>"])
    (auto simp: rd_SchedulerServicesSpec_def ft_SchedulerServicesSpec_def SchedulerServicesSpec_DeepCopyInto_def
      struct_simps)

lemma copies_SchedulerSpec:
  assumes ok: "lib_laws L"
  shows "copies (rd_SchedulerSpec L) (ft_SchedulerSpec L) (SchedulerSpec_DeepCopyInto L)"
  by (rule copies_struct [OF copies_pair [OF copies_ptr [OF copies_SchedulerServicesSpec [OF ok] at_SchedulerServicesSpec_ok]
    copies_pair [OF copies_ptr [OF lib_lawsD(3) [OF ok] at_library_ok]
    copies_ptr [OF copies_flat at_ServiceAccountSpec_ok]]],
      where view = "\<lambda>x. (msch_Services x, msch_PodTemplate x, msch_ServiceAccount x)"
        and upd = "\<lambda>x (a, b, c). x\<lparr>msch_Services := a, msch_PodTemplate := b,
            msch_ServiceAccount := c\<rparr>"
        and mk = "\<lambda>x (a, b, c). \<lparr>sch_Services = a, sch_PodTemplate = b,
            sch_ServiceAccount = c\<rparr>"])
    (auto simp: rd_SchedulerSpec_def ft_SchedulerSpec_def SchedulerSpec_DeepCopyInto_def
      struct_simps)

lemma copies_ShuffleDataS3Spec:
  assumes ok: "lib_laws L"
  shows "copies (rd_ShuffleDataS3Spec L) (ft_ShuffleDataS3Spec L) (ShuffleDataS3Spec_DeepCopyInto L)"
  by (rule copies_struct [OF copies_pair [OF copies_ptr [OF copies_flat at_Duration_ok]
    copies_slice [OF lib_lawsD(1) [OF ok] at_library_array_ok]],
      where view = "\<lambda>x. (msds3_PresignDuration x, msds3_Options x)"
        and upd = "\<lambda>x (a, b). x\<lparr>msds3_PresignDuration := a,
            msds3_Options := b\<rparr>"
        and mk = "\<lambda>x (a, b). \<lparr>sds3_Endpoint = msds3_Endpoint x,
            sds3_PresignDuration = a, sds3_Options = b\<rparr>"])
    (auto simp: rd_ShuffleDataS3Spec_def ft_ShuffleDataS3Spec_def ShuffleDataS3Spec_DeepCopyInto_def
      struct_simps)

lemma copies_ShuffleDataABSSpec:
  assumes ok: "lib_laws L"
  shows "copies (rd_ShuffleDataABSSpec L) (ft_ShuffleDataABSSpec L) (ShuffleDataABSSpec_DeepCopyInto L)"
  by (rule copies_struct [OF copies_pair [OF copies_ptr [OF copies_flat at_Duration_ok]
    copies_slice [OF lib_lawsD(1) [OF ok] at_library_array_ok]],
      where view = "\<lambda>x. (msdabs_PresignDuration x, msdabs_Options x)"
        and upd = "\<lambda>x (a, b). x\<lparr>msdabs_PresignDuration := a,
            msdabs_Options := b\<rparr>"
        and mk = "\<lambda>x (a, b). \<lparr>sdabs_EndpointURL = msdabs_EndpointURL x,
            sdabs_PresignDuration = a, sdabs_Options = b\<rparr>"])
    (auto simp: rd_ShuffleDataABSSpec_def ft_ShuffleDataABSSpec_def ShuffleDataABSSpec_DeepCopyInto_def
      struct_simps)

lemma copies_ShuffleDataGCSSpec:
  assumes ok: "lib_laws L"
  shows "copies (rd_ShuffleDataGCSSpec L) (ft_ShuffleDataGCSSpec L) (ShuffleDataGCSSpec_DeepCopyInto L)"
  by (rule copies_struct [OF copies_pair [OF copies_ptr [OF copies_flat at_Duration_ok]
    copies_slice [OF lib_lawsD(1) [OF ok] at_library_array_ok]],
      where view = "\<lambda>x. (msdgcs_PresignDuration x, msdgcs_Options x)"
        and upd = "\<lambda>x (a, b). x\<lparr>msdgcs_PresignDuration := a,
            msdgcs_Options := b\<rparr>"
        and mk = "\<lambda>x (a, b). \<lparr>sdgcs_EndpointURL = msdgcs_EndpointURL x,
            sdgcs_PresignDuration = a, sdgcs_Options = b\<rparr>"])
    (auto simp: rd_ShuffleDataGCSSpec_def ft_ShuffleDataGCSSpec_def ShuffleDataGCSSpec_DeepCopyInto_def
      struct_simps)

lemma copies_ShuffleDataSpec:
  assumes ok: "lib_laws L"
  shows "copies (rd_ShuffleDataSpec L) (ft_ShuffleDataSpec L) (ShuffleDataSpec_DeepCopyInto L)"
  by (rule copies_struct [OF copies_pair [OF copies_ptr [OF copies_flat at_LocalFilesystemSpec_ok]
    copies_pair [OF copies_ptr [OF copies_flat at_SharedFilesystemSpec_ok]
    copies_pair [OF copies_ptr [OF copies_ShuffleDataS3Spec [OF ok] at_ShuffleDataS3Spec_ok]
    copies_pair [OF copies_ptr [OF copies_ShuffleDataABSSpec [OF ok] at_ShuffleDataABSSpec_ok]
    copies_ptr [OF copies_ShuffleDataGCSSpec [OF ok] at_ShuffleDataGCSSpec_ok]]]]],
      where view = "\<lambda>x. (msd_Local x, msd_SharedFilesystem x, msd_S3 x, msd_ABS x,
            msd_GCS x)"
        and upd = "\<lambda>x (a, b, c, d, e). x\<lparr>msd_Local := a, msd_SharedFilesystem := b,
            msd_S3 := c, msd_ABS := d, msd_GCS := e\<rparr>"
        and mk = "\<lambda>x (a, b, c, d, e). \<lparr>sd_Local = a, sd_SharedFilesystem = b,
            sd_S3 = c, sd_ABS = d, sd_GCS = e\<rparr>"])
    (auto simp: rd_ShuffleDataSpec_def ft_ShuffleDataSpec_def ShuffleDataSpec_DeepCopyInto_def
      struct_simps)

lemma copies_TemporaryDataSpec:
  assumes ok: "lib_laws L"
  shows "copies (rd_TemporaryDataSpec L) (ft_TemporaryDataSpec L) (TemporaryDataSpec_DeepCopyInto L)"
  by (rule copies_struct [OF copies_ptr [OF copies_EphemeralVolumeClaimSpec [OF ok] at_EphemeralVolumeClaimSpec_ok],
      where view = "\<lambda>x. mtd_EphemeralVolumeClaim x"
        and upd = "\<lambda>x a. x\<lparr>mtd_EphemeralVolumeClaim := a\<rparr>"
        and mk = "\<lambda>x a. \<lparr>td_EphemeralVolumeClaim = a\<rparr>"])
    (auto simp: rd_TemporaryDataSpec_def ft_TemporaryDataSpec_def TemporaryDataSpec_DeepCopyInto_def
      struct_simps)

lemma copies_WorkerPoolDeclaration:
  assumes ok: "lib_laws L"
  shows "copies (rd_WorkerPoolDeclaration L) (ft_WorkerPoolDeclaration L) (WorkerPoolDeclaration_DeepCopyInto L)"
  by (rule copies_struct [OF copies_pair [OF copies_ptr [OF lib_lawsD(3) [OF ok] at_library_ok]
    copies_pair [OF copies_ptr [OF copies_flat at_ServiceAccountSpec_ok]
    copies_pair [OF copies_ptr [OF copies_flat at_Duration_ok]
    copies_pair [OF copies_ptr [OF copies_ShuffleDataSpec [OF ok] at_ShuffleDataSpec_ok]
    copies_pair [OF copies_ptr [OF copies_TemporaryDataSpec [OF ok] at_TemporaryDataSpec_ok]
    copies_ExtrasSpec [OF ok]]]]]],
      where view = "\<lambda>x. (mwp_PodTemplate x, mwp_ServiceAccount x, mwp_HeartBeatInterval x,
            mwp_ShuffleData x, mwp_TemporaryData x, mwp_Extras x)"
        and upd = "\<lambda>x (a, b, c, d, e, f). x\<lparr>mwp_PodTemplate := a,
            mwp_ServiceAccount := b, mwp_HeartBeatInterval := c, mwp_ShuffleData := d,
            mwp_TemporaryData := e, mwp_Extras := f\<rparr>"
        and mk = "\<lambda>x (a, b, c, d, e, f). \<lparr>wp_PodTemplate = a,
            wp_ServiceAccount = b, wp_Replicas = mwp_Replicas x, wp_HeartBeatInterval = c,
            wp_ShuffleData = d, wp_TemporaryData = e, wp_Extras = f\<rparr>"])
    (auto simp: rd_WorkerPoolDeclaration_def ft_WorkerPoolDeclaration_def WorkerPoolDeclaration_DeepCopyInto_def
      struct_simps)

lemma copies_PolarsClusterSpec:
  assumes ok: "lib_laws L"
  shows "copies (rd_PolarsClusterSpec L) (ft_PolarsClusterSpec L) (PolarsClusterSpec_DeepCopyInto L)"
  by (rule copies_struct [OF copies_pair [OF copies_ptr [OF copies_TelemetrySpec [OF ok] at_TelemetrySpec_ok]
    copies_pair [OF copies_ptr [OF copies_flat at_String_ok]
    copies_pair [OF copies_slice [OF copies_flat at_string_array_ok]
    copies_pair [OF copies_ptr [OF copies_RuntimeSpec [OF ok] at_RuntimeSpec_ok]
    copies_pair [OF copies_LicenseSpec [OF ok]
    copies_pair [OF copies_ptr [OF copies_AnonymousResultsSpec [OF ok] at_AnonymousResultsSpec_ok]
    copies_pair [OF copies_ptr [OF copies_CheckpointSpec [OF ok] at_CheckpointSpec_ok]
    copies_pair [OF copies_ptr [OF copies_LineageSpec [OF ok] at_LineageSpec_ok]
    copies_pair [OF copies_ptr [OF copies_ObservatorySpec [OF ok] at_ObservatorySpec_ok]
    copies_pair [OF copies_ptr [OF copies_flat at_HostMetricsSpec_ok]
    copies_pair [OF copies_ptr [OF copies_SchedulerSpec [OF ok] at_SchedulerSpec_ok]
    copies_WorkerPoolDeclaration [OF ok]]]]]]]]]]]],
      where view = "\<lambda>x. (mspec_Telemetry x, mspec_LogLevel x, mspec_ImagePullSecrets x,
            mspec_Runtime x, mspec_License x, mspec_AnonymousResults x, mspec_Checkpoint x,
            mspec_Lineage x, mspec_Observatory x, mspec_HostMetrics x, mspec_Scheduler x,
            mspec_WorkerPool x)"
        and upd = "\<lambda>x (a, b, c, d, e, f, g, h, i, j, k, l). x\<lparr>mspec_Telemetry := a,
            mspec_LogLevel := b, mspec_ImagePullSecrets := c, mspec_Runtime := d,
            mspec_License := e, mspec_AnonymousResults := f, mspec_Checkpoint := g,
            mspec_Lineage := h, mspec_Observatory := i, mspec_HostMetrics := j,
            mspec_Scheduler := k, mspec_WorkerPool := l\<rparr>"
        and mk = "\<lambda>x (a, b, c, d, e, f, g, h, i, j, k, l). \<lparr>spec_Telemetry = a,
            spec_LogLevel = b, spec_ImagePullSecrets = c, spec_ClusterID = mspec_ClusterID x,
            spec_AcceptEula = mspec_AcceptEula x, spec_Version = mspec_Version x,
            spec_Runtime = d, spec_License = e, spec_AllowLocalSinks = mspec_AllowLocalSinks x,
            spec_AllowLocalScans = mspec_AllowLocalScans x,
            spec_AllowAnonymousUsers = mspec_AllowAnonymousUsers x, spec_AnonymousResults = f,
            spec_Checkpoint = g, spec_Lineage = h, spec_Observatory = i, spec_HostMetrics = j,
            spec_ClusterDomain = mspec_ClusterDomain x, spec_Scheduler = k,
            spec_WorkerPool = l\<rparr>"])
    (auto simp: rd_PolarsClusterSpec_def ft_PolarsClusterSpec_def PolarsClusterSpec_DeepCopyInto_def
      struct_simps)

lemma copies_PolarsClusterStatus:
  assumes ok: "lib_laws L"
  shows "copies (rd_PolarsClusterStatus L) (ft_PolarsClusterStatus L) (PolarsClusterStatus_DeepCopyInto L)"
  by (rule copies_struct [OF copies_slice [OF lib_lawsD(5) [OF ok] at_library_array_ok],
      where view = "\<lambda>x. mst_Conditions x"
        and upd = "\<lambda>x a. x\<lparr>mst_Conditions := a\<rparr>"
        and mk = "\<lambda>x a. \<lparr>st_Conditions = a,
            st_ObservedGeneration = mst_ObservedGeneration x, st_Scheduler = mst_Scheduler x,
            st_WorkerPool = mst_WorkerPool x\<rparr>"])
    (auto simp: rd_PolarsClusterStatus_def ft_PolarsClusterStatus_def PolarsClusterStatus_DeepCopyInto_def
      struct_simps)

lemma copies_PolarsCluster:
  assumes ok: "lib_laws L"
  shows "copies (rd_PolarsCluster L) (ft_PolarsCluster L) (PolarsCluster_DeepCopyInto L)"
  by (rule copies_struct [OF copies_pair [OF lib_lawsD(6) [OF ok]
    copies_pair [OF copies_PolarsClusterSpec [OF ok]
    copies_PolarsClusterStatus [OF ok]]],
      where view = "\<lambda>x. (mcl_ObjectMeta x, mcl_Spec x, mcl_Status x)"
        and upd = "\<lambda>x (a, b, c). x\<lparr>mcl_ObjectMeta := a, mcl_Spec := b,
            mcl_Status := c\<rparr>"
        and mk = "\<lambda>x (a, b, c). (mcl_TypeMeta x, \<lparr>cl_Meta = a, cl_Spec = b,
            cl_Status = c\<rparr>)"])
    (auto simp: rd_PolarsCluster_def ft_PolarsCluster_def PolarsCluster_DeepCopyInto_def
      struct_simps)

lemma copies_PolarsClusterList:
  assumes ok: "lib_laws L"
  shows "copies (rd_PolarsClusterList L) (ft_PolarsClusterList L) (PolarsClusterList_DeepCopyInto L)"
  by (rule copies_struct [OF copies_pair [OF lib_lawsD(7) [OF ok]
    copies_slice [OF copies_PolarsCluster [OF ok] at_cluster_array_ok]],
      where view = "\<lambda>x. (mpl_ListMeta x, mpl_Items x)"
        and upd = "\<lambda>x (a, b). x\<lparr>mpl_ListMeta := a, mpl_Items := b\<rparr>"
        and mk = "\<lambda>x (a, b). \<lparr>pl_TypeMeta = mpl_TypeMeta x, pl_ListMeta = a,
            pl_Items = b\<rparr>"])
    (auto simp: rd_PolarsClusterList_def ft_PolarsClusterList_def PolarsClusterList_DeepCopyInto_def
      struct_simps)

section \<open>Copies behind a pointer\<close>

text \<open>The law of every \<open>DeepCopy\<close>, with or without references in the struct.\<close>

lemmas DeepCopy_defs =
  AnonymousResultsABSSpec_DeepCopy_def AnonymousResultsGCSSpec_DeepCopy_def AnonymousResultsS3Spec_DeepCopy_def
  AnonymousResultsSpec_DeepCopy_def CheckpointABSSpec_DeepCopy_def CheckpointDataSpec_DeepCopy_def
  CheckpointGCSSpec_DeepCopy_def CheckpointS3Spec_DeepCopy_def CheckpointSpec_DeepCopy_def
  ComposedRuntimeSpec_DeepCopy_def EphemeralVolumeClaimSpec_DeepCopy_def ExposedServiceConfig_DeepCopy_def
  ExtrasSpec_DeepCopy_def HDFSSpec_DeepCopy_def HostMetricsSpec_DeepCopy_def
  ImageSpec_DeepCopy_def ImageVolumeSpec_DeepCopy_def LicenseCloudSpec_DeepCopy_def
  LicenseOnPremEnterpriseSpec_DeepCopy_def LicenseOnPremSpec_DeepCopy_def LicenseSpec_DeepCopy_def
  LineageSpec_DeepCopy_def LineageTransportHTTPSpec_DeepCopy_def LineageTransportSpec_DeepCopy_def
  LocalFilesystemSpec_DeepCopy_def ObservatorySpec_DeepCopy_def PersistentVolumeClaimRef_DeepCopy_def
  PolarsCluster_DeepCopy_def PolarsClusterList_DeepCopy_def PolarsClusterSpec_DeepCopy_def
  PolarsClusterStatus_DeepCopy_def PyIcebergSpec_DeepCopy_def RegisterNodeSpec_DeepCopy_def
  RouteSpec_DeepCopy_def RuntimeSpec_DeepCopy_def SchedulerServicesSpec_DeepCopy_def
  SchedulerSpec_DeepCopy_def SchedulerStatus_DeepCopy_def ServiceAccountSpec_DeepCopy_def
  ServiceConfig_DeepCopy_def SharedFilesystemSpec_DeepCopy_def ShuffleDataABSSpec_DeepCopy_def
  ShuffleDataGCSSpec_DeepCopy_def ShuffleDataS3Spec_DeepCopy_def ShuffleDataSpec_DeepCopy_def
  TelemetrySpec_DeepCopy_def TemporaryDataSpec_DeepCopy_def ValueOrSource_DeepCopy_def
  WorkerPoolDeclaration_DeepCopy_def WorkerPoolStatus_DeepCopy_def

lemmas copies_flat_structs =
  copies_HDFSSpec copies_HostMetricsSpec copies_ImageSpec copies_ImageVolumeSpec
  copies_LicenseOnPremEnterpriseSpec copies_LineageTransportHTTPSpec copies_LocalFilesystemSpec copies_PersistentVolumeClaimRef
  copies_PyIcebergSpec copies_SchedulerStatus copies_ServiceAccountSpec copies_SharedFilesystemSpec
  copies_WorkerPoolStatus

lemmas copies_structs =
  copies_AnonymousResultsABSSpec copies_AnonymousResultsGCSSpec copies_AnonymousResultsS3Spec
  copies_AnonymousResultsSpec copies_CheckpointABSSpec copies_CheckpointS3Spec
  copies_CheckpointGCSSpec copies_CheckpointDataSpec copies_CheckpointSpec
  copies_ComposedRuntimeSpec copies_EphemeralVolumeClaimSpec copies_ServiceConfig
  copies_RouteSpec copies_ExposedServiceConfig copies_ExtrasSpec
  copies_ValueOrSource copies_RegisterNodeSpec copies_LicenseCloudSpec
  copies_LicenseOnPremSpec copies_LicenseSpec copies_LineageTransportSpec
  copies_LineageSpec copies_ObservatorySpec copies_TelemetrySpec
  copies_RuntimeSpec copies_SchedulerServicesSpec copies_SchedulerSpec
  copies_ShuffleDataS3Spec copies_ShuffleDataABSSpec copies_ShuffleDataGCSSpec
  copies_ShuffleDataSpec copies_TemporaryDataSpec copies_WorkerPoolDeclaration
  copies_PolarsClusterSpec copies_PolarsClusterStatus copies_PolarsCluster
  copies_PolarsClusterList

end
