(* ===== verification/Runtime_Objects.thy ===== *)
theory Runtime_Objects
  imports Deep_Copy_Laws
begin

text \<open>
  The objects the API machinery copies, behind pointers: what an object at an address reads as, which
  cells it is made of, and, for any type whose \<open>DeepCopyInto\<close> keeps the law \<open>copies\<close>, what a copy of it
  guarantees. Both object types of the API, the cluster and the list of clusters, are instances.
\<close>

section \<open>Objects in memory\<close>

type_synonym ('l, 'a, 'v) reader = "'l library \<Rightarrow> 'l memory \<Rightarrow> 'a \<Rightarrow> 'v option"
type_synonym ('l, 'a) reach = "'l library \<Rightarrow> 'l memory \<Rightarrow> 'a \<Rightarrow> addr set"

definition object_at :: "('l cell, 'a) pointee \<Rightarrow> ('l, 'a, 'v) reader \<Rightarrow> 'l library \<Rightarrow> 'l memory \<Rightarrow> addr \<Rightarrow> 'v option"
  where "object_at k rd L m a = do { x \<leftarrow> deref k m a; rd L m x }"

definition object_cells :: "('l cell, 'a) pointee \<Rightarrow> ('l, 'a) reach \<Rightarrow> 'l library \<Rightarrow> 'l memory \<Rightarrow> addr \<Rightarrow> addr set"
  where "object_cells k ft L m a = ft_ptr k (ft L) m (Some a)"

text \<open>No cell of \<open>m\<close> outside \<open>A\<close> is changed; new ones may appear.\<close>

definition writes_within :: "addr set \<Rightarrow> 'c list \<Rightarrow> 'c list \<Rightarrow> bool" where
  "writes_within A m m' = agree ({..<length m} - A) m m'"

section \<open>The contract of an object type\<close>

locale api_object =
  fixes k :: "('l cell, 'a) pointee"
    and rd :: "('l, 'a, 'v) reader"
    and ft :: "('l, 'a) reach"
    and into :: "'l library \<Rightarrow> 'a \<Rightarrow> ('l cell, 'a) cmd"
  assumes pointee: "pointee_ok k"
    and into_copies: "lib_laws L \<Longrightarrow> copies (rd L) (ft L) (into L)"
begin

lemma rd_ptr_object: "rd_ptr k (rd L) m (Some a) = Some (Some v) \<longleftrightarrow> object_at k rd L m a = Some v"
  by (auto simp: rd_ptr_def object_at_def bind_eq_Some_conv)

lemma ptr_copies: "lib_laws L \<Longrightarrow> copies (rd_ptr k (rd L)) (ft_ptr k (ft L)) (copy_ptr k (into L))"
  by (rule copies_ptr [OF into_copies pointee])

lemma object_agree:
  assumes "lib_laws L" "object_at k rd L m a = Some v" "agree (object_cells k ft L m a) m m'"
  shows "object_at k rd L m' a = Some v" "object_cells k ft L m' a = object_cells k ft L m a"
proof -
  note r = readable_agree [OF copies_readable [OF ptr_copies [OF assms(1)]], of m "Some a" m']
  show "object_at k rd L m' a = Some v"
    using r(1) assms(2,3) unfolding rd_ptr_object [symmetric] object_cells_def by simp
  show "object_cells k ft L m' a = object_cells k ft L m a"
    using r(2) assms(3) by (simp add: object_cells_def)
qed

lemma object_bound: "lib_laws L \<Longrightarrow> object_at k rd L m a = Some v \<Longrightarrow> object_cells k ft L m a \<subseteq> {..<length m}"
  unfolding object_cells_def rd_ptr_object [symmetric]
  by (rule readable_bound [OF copies_readable [OF ptr_copies]])

lemma object_copy:
  assumes "lib_laws L" "object_at k rd L m a = Some v"
  obtains b m' where "copy_ptr k (into L) (Some a) m = Some (Some b, m')"
    "prefix m m'" "object_at k rd L m' a = Some v" "object_at k rd L m' b = Some v"
    "object_cells k ft L m' a \<subseteq> {..<length m}" "object_cells k ft L m' b \<subseteq> {length m..<length m'}"
proof -
  obtain q m' where c: "copy_ptr k (into L) (Some a) m = Some (q, m')"
    "prefix m m'" "rd_ptr k (rd L) m' q = Some (Some v)"
    "ft_ptr k (ft L) m' q \<subseteq> {length m..<length m'}"
    by (rule copiesE [OF ptr_copies [OF assms(1)] iffD2 [OF rd_ptr_object assms(2)]])
  then obtain b where b: "q = Some b" by (cases q) (auto simp: rd_ptr_def)
  note bound = object_bound [OF assms]
  note old = object_agree [OF assms agree_prefix [OF c(2) bound]]
  show thesis
    using c b old bound by (intro that) (simp_all add: rd_ptr_object object_cells_def)
qed

text \<open>The two do not interfere.\<close>

lemma copy_isolated:
  assumes "lib_laws L" "object_at k rd L m a = Some v" "copy_ptr k (into L) (Some a) m = Some (Some b, m')"
  shows "writes_within (object_cells k ft L m' b) m' n \<Longrightarrow> object_at k rd L n a = Some v"
    and "writes_within (object_cells k ft L m' a) m' n \<Longrightarrow> object_at k rd L n b = Some v"
proof -
  have c: "prefix m m'" "object_at k rd L m' a = Some v" "object_at k rd L m' b = Some v"
    "object_cells k ft L m' a \<subseteq> {..<length m}" "object_cells k ft L m' b \<subseteq> {length m..<length m'}"
    using object_copy [OF assms(1,2)] assms(3) by (metis option.inject prod.inject)+
  have "object_cells k ft L m' a \<subseteq> {..<length m'} - object_cells k ft L m' b"
    "object_cells k ft L m' b \<subseteq> {..<length m'} - object_cells k ft L m' a"
    using c(4,5) prefix_length_le [OF c(1)] by fastforce+
  then show "writes_within (object_cells k ft L m' b) m' n \<Longrightarrow> object_at k rd L n a = Some v"
    "writes_within (object_cells k ft L m' a) m' n \<Longrightarrow> object_at k rd L n b = Some v"
    using object_agree(1) [OF assms(1)] c(2,3) unfolding writes_within_def by (blast intro: agree_subset)+
qed

end

section \<open>Clusters and lists of clusters\<close>

interpretation cluster: api_object at_PolarsCluster rd_PolarsCluster ft_PolarsCluster PolarsCluster_DeepCopyInto
  by unfold_locales (simp_all add: copies_PolarsCluster)

interpretation cluster_list: api_object at_PolarsClusterList rd_PolarsClusterList ft_PolarsClusterList
    PolarsClusterList_DeepCopyInto
  by unfold_locales (simp_all add: copies_PolarsClusterList)

abbreviation cluster_at :: "'l library \<Rightarrow> 'l memory \<Rightarrow> addr \<Rightarrow> (type_meta \<times> PolarsCluster) option" where
  "cluster_at \<equiv> object_at at_PolarsCluster rd_PolarsCluster"

abbreviation cluster_cells :: "'l library \<Rightarrow> 'l memory \<Rightarrow> addr \<Rightarrow> addr set" where
  "cluster_cells \<equiv> object_cells at_PolarsCluster ft_PolarsCluster"

abbreviation list_at :: "'l library \<Rightarrow> 'l memory \<Rightarrow> addr \<Rightarrow> PolarsClusterList option" where
  "list_at \<equiv> object_at at_PolarsClusterList rd_PolarsClusterList"

abbreviation list_cells :: "'l library \<Rightarrow> 'l memory \<Rightarrow> addr \<Rightarrow> addr set" where
  "list_cells \<equiv> object_cells at_PolarsClusterList ft_PolarsClusterList"

lemma DeepCopyObject_iff:
  "PolarsCluster_DeepCopyObject L (Some a) m = Some (Some (PolarsClusterObject b), m') \<longleftrightarrow>
     copy_ptr at_PolarsCluster (PolarsCluster_DeepCopyInto L) (Some a) m = Some (Some b, m')"
  "PolarsClusterList_DeepCopyObject L (Some a) m = Some (Some (PolarsClusterListObject b), m') \<longleftrightarrow>
     copy_ptr at_PolarsClusterList (PolarsClusterList_DeepCopyInto L) (Some a) m = Some (Some b, m')"
  by (auto simp: PolarsCluster_DeepCopyObject_def PolarsCluster_DeepCopy_def bind_eq_Some_conv
      PolarsClusterList_DeepCopyObject_def PolarsClusterList_DeepCopy_def split: option.splits)

end
