(* ===== verification/Label_Sharing.thy ===== *)
theory Label_Sharing
  imports Runtime_Objects Template_Labels
begin

text \<open>
  A pod template is built from the user's, whose \<open>ObjectMeta\<close> is taken over with its \<open>Labels\<close>
  reference: labelling the pod writes into the label map of the cluster object the reconcile works
  on. Here the labelling of \<open>pod_common.go\<close> and \<open>polarscluster_controller.go\<close> is the sequence of map
  writes it is in memory. It computes the labels of the other theories, and since the cluster object
  is a deep copy of the one in the informer's cache, the cached one keeps its value.
\<close>

section \<open>Labelling in memory\<close>

lemma got_map_iff: "got at_map c = Some t \<longleftrightarrow> c = put at_map t"
  by (cases c) (auto simp: at_map_def)

lemma not_a_map [simp]:
  "got at_PolarsCluster (put at_map t) = None" "got at_SchedulerSpec (put at_map t) = None"
  "got at_library (put at_map t) = None"
  by (simp_all add: at_map_def at_PolarsCluster_def at_SchedulerSpec_def at_library_def)

text \<open>The entries \<open>standardLabels\<close> puts into its new map, in the order of the literal.\<close>

definition standard_entries :: "PolarsCluster \<Rightarrow> string \<Rightarrow> entries" where
  "standard_entries c component =
     [(''app.kubernetes.io/name'', appName),
      (''app.kubernetes.io/instance'', cl_Name c),
      (''app.kubernetes.io/component'', component),
      (''app.kubernetes.io/managed-by'', ''polars-operator'')] @
     (if distTag c \<noteq> [] then [(''app.kubernetes.io/version'', distTag c)] else [])"

text \<open>\<open>applyPodLabels\<close> on a pod whose \<open>Labels\<close> is \<open>p\<close>; the new value of \<open>Labels\<close> is returned.\<close>

definition apply_pod_labels ::
    "'l library \<Rightarrow> PolarsCluster \<Rightarrow> string \<Rightarrow> addr option \<Rightarrow> ('l cell, addr) cmd" where
  "apply_pod_labels L c component p m = do {
     let (q, m) = (case p of None \<Rightarrow> alloc (put at_map []) m | Some a \<Rightarrow> (a, m));
     m \<leftarrow> map_assign_all at_map q [(clusterLabel, cl_Name c)] m;
     m \<leftarrow> map_assign_all at_map q [(componentLabel, component)] m;
     m \<leftarrow> map_assign_all at_map q (lib_range L (standard_entries c component)) m;
     Some (q, m)
   }"

text \<open>The template's labels with the hash the reconcile stamps on them.\<close>

definition label_pod ::
    "'l library \<Rightarrow> PolarsCluster \<Rightarrow> string \<Rightarrow> string \<Rightarrow> addr option \<Rightarrow> ('l cell, addr) cmd" where
  "label_pod L c component hash p m = do {
     (q, m) \<leftarrow> apply_pod_labels L c component p m;
     m \<leftarrow> map_assign_all at_map q [(templateHashLabel, hash)] m;
     Some (q, m)
   }"

text \<open>
  The \<open>Labels\<close> reference of the pod built for the cluster object at \<open>b\<close>: that of the user's
  template, nil without one.
\<close>

definition template_labels :: "'l library \<Rightarrow> 'l memory \<Rightarrow> addr option \<Rightarrow> addr option option" where
  "template_labels L m t =
     (case t of None \<Rightarrow> Some None | Some t \<Rightarrow> do { x \<leftarrow> deref at_library m t; Some (lib_labels L x) })"

definition worker_labels :: "'l library \<Rightarrow> 'l memory \<Rightarrow> addr \<Rightarrow> addr option option" where
  "worker_labels L m b = do {
     x \<leftarrow> deref at_PolarsCluster m b;
     template_labels L m (mwp_PodTemplate (mspec_WorkerPool (mcl_Spec x)))
   }"

definition scheduler_labels :: "'l library \<Rightarrow> 'l memory \<Rightarrow> addr \<Rightarrow> addr option option" where
  "scheduler_labels L m b = do {
     x \<leftarrow> deref at_PolarsCluster m b;
     case mspec_Scheduler (mcl_Spec x) of
       None \<Rightarrow> Some None
     | Some s \<Rightarrow> do {
         y \<leftarrow> deref at_SchedulerSpec m s;
         template_labels L m (msch_PodTemplate y)
       }
   }"

section \<open>The labels computed\<close>

lemma standard_entries_map: "map_of (standard_entries c k) = standardLabels c k"
  by (auto simp: standard_entries_def standardLabels_def Let_def fun_eq_iff)

lemma standard_entries_distinct: "distinct (map fst (standard_entries c k))"
  by (simp add: standard_entries_def)

lemma range_standard_entries:
  assumes "lib_laws L"
  shows "map_of (rev (lib_range L (standard_entries c k))) = standardLabels c k"
  using map_of_permuted [of "rev (lib_range L (standard_entries c k))" "standard_entries c k"]
    standard_entries_distinct lib_lawsD(9) [OF assms] by (simp add: standard_entries_map)

text \<open>All the writes of a labelling, gathered.\<close>

definition label_entries :: "'l library \<Rightarrow> PolarsCluster \<Rightarrow> string \<Rightarrow> string \<Rightarrow> entries" where
  "label_entries L c component hash =
     [(clusterLabel, cl_Name c)] @ [(componentLabel, component)] @
     lib_range L (standard_entries c component) @ [(templateHashLabel, hash)]"

lemma label_entries_nonempty [simp]: "label_entries L c component hash \<noteq> []"
  by (simp add: label_entries_def)

lemma map_assign_all_append:
  "map_assign_all k b (es @ es') m = Option.bind (map_assign_all k b es m) (map_assign_all k b es')"
  by (induction k b es m rule: map_assign_all.induct) (auto split: bind_splits)

lemma label_pod_entries:
  "label_pod L c component hash p m =
     (let (q, m) = (case p of None \<Rightarrow> alloc (put at_map []) m | Some a \<Rightarrow> (a, m)) in
      map_option (Pair q) (map_assign_all at_map q (label_entries L c component hash) m))"
  by (simp add: label_pod_def apply_pod_labels_def label_entries_def map_assign_all_append
      map_conv_bind_option comp_def split_def Let_def del: map_assign_all.simps append.simps)

text \<open>Labelling succeeds exactly on a nil reference or one to a map, and writes that map only.\<close>

lemma label_pod_cells:
  assumes "label_pod L c component hash p m = Some (q, m')"
  shows "p = None \<Longrightarrow> q = length m \<and> prefix m m'"
    and "p = Some a \<Longrightarrow> q = a \<and> (\<exists>t t'. look m a = Some (put at_map t) \<and> m' = m[a := put at_map t'])"
proof -
  show "q = length m \<and> prefix m m'" if "p = None"
    using assms that
    by (auto simp: label_pod_entries alloc_def map_assign_all_cell [OF at_map_ok deref_new [OF at_map_ok]])
  show "q = a \<and> (\<exists>t t'. look m a = Some (put at_map t) \<and> m' = m[a := put at_map t'])" if "p = Some a"
  proof -
    from assms that obtain t where t: "deref at_map m a = Some t"
      by (auto simp: label_pod_entries label_entries_def bind_eq_Some_conv)
    moreover have "look m a = Some (put at_map t)"
      using t by (auto simp: deref_def bind_eq_Some_conv got_map_iff)
    ultimately show ?thesis
      using assms that map_assign_all_cell [OF at_map_ok t] by (auto simp: label_pod_entries)
  qed
qed

lemma label_pod_read:
  assumes "lib_laws L" "rd_map at_map m p = Some l"
  obtains q m' where "label_pod L c component hash p m = Some (q, m')"
    "rd_map at_map m' (Some q) = Some
       ((l(clusterLabel \<mapsto> cl_Name c, componentLabel \<mapsto> component) ++ standardLabels c component)
          (templateHashLabel \<mapsto> hash))"
proof -
  define q m1 where "q = (case p of None \<Rightarrow> length m | Some a \<Rightarrow> a)"
    and "m1 = (case p of None \<Rightarrow> m @ [put at_map []] | Some a \<Rightarrow> m)"
  define t where "t = (case p of None \<Rightarrow> [] | Some a \<Rightarrow> the (deref at_map m a))"
  let ?es = "label_entries L c component hash"
  let ?t = "foldl (\<lambda>t (key, val). AList.update key val t) t ?es"
  have t: "deref at_map m1 q = Some t" "map_of t = l" "distinct (map fst t)"
    using assms(2) unfolding t_def q_def m1_def
    by (auto simp: rd_map_def bind_eq_Some_conv split: option.splits if_splits)
  have "map_assign_all at_map q ?es m1 = Some (m1[q := put at_map ?t])"
    using map_assign_all_cell [OF at_map_ok t(1), of ?es] by simp
  then have run: "label_pod L c component hash p m = Some (q, m1[q := put at_map ?t])"
    by (simp add: label_pod_entries q_def m1_def alloc_def split: option.splits)
  have "map_of ?t = (l(clusterLabel \<mapsto> cl_Name c, componentLabel \<mapsto> component) ++
      standardLabels c component)(templateHashLabel \<mapsto> hash)"
    unfolding foldl_update_map_of t(2)
    by (auto simp: label_entries_def range_standard_entries [OF assms(1)] fun_eq_iff map_add_def
        split: option.splits)
  moreover have "distinct (map fst ?t)" by (rule foldl_update_distinct [OF t(3)])
  ultimately show thesis
    using run deref_bound [OF t(1)] by (intro that [OF run]) (simp add: rd_map_def)
qed

section \<open>The writes of a reconcile\<close>

text \<open>
  What a reconcile does to memory through the cluster object at \<open>b\<close>: it labels worker and scheduler
  pods, for whatever values of the cluster and the hash, and allocates.
\<close>

inductive label_writes :: "'l library \<Rightarrow> addr \<Rightarrow> 'l memory \<Rightarrow> 'l memory \<Rightarrow> bool" for L b m where
  no_write: "label_writes L b m m"
| worker_pod: "label_writes L b m m1 \<Longrightarrow> worker_labels L m1 b = Some p \<Longrightarrow>
    label_pod L c componentWorker hash p m1 = Some (q, m2) \<Longrightarrow> label_writes L b m m2"
| scheduler_pod: "label_writes L b m m1 \<Longrightarrow> scheduler_labels L m1 b = Some p \<Longrightarrow>
    label_pod L c componentScheduler hash p m1 = Some (q, m2) \<Longrightarrow> label_writes L b m m2"
| allocation: "label_writes L b m m1 \<Longrightarrow> label_writes L b m (m1 @ [x])"

text \<open>
  \<open>keeps n m m'\<close>: the cells below \<open>n\<close> are unchanged, and every cell that was not a map still is what
  it was, so no reference but those in maps has moved.
\<close>

definition keeps :: "nat \<Rightarrow> 'l memory \<Rightarrow> 'l memory \<Rightarrow> bool" where
  "keeps n m m' =
     (\<forall>i c. look m i = Some c \<longrightarrow>
        look m' i = Some c \<or> n \<le> i \<and> got at_map c \<noteq> None \<and> (\<exists>t. look m' i = Some (put at_map t)))"

lemma keeps_refl: "keeps n m m"
  by (simp add: keeps_def)

lemma keeps_trans: "keeps n m m1 \<Longrightarrow> keeps n m1 m2 \<Longrightarrow> keeps n m m2"
  unfolding keeps_def by (metis at_map_ok got_put option.distinct(1))

lemma keeps_append: "keeps n m (m @ k)"
  by (auto simp: keeps_def look_def nth_append)

lemma keeps_label_pod:
  assumes "label_pod L c component hash p m = Some (q, m')" "\<forall>a \<in> set_option p. n \<le> a"
  shows "keeps n m m'"
proof (cases p)
  case None
  then show ?thesis
    using label_pod_cells(1) [OF assms(1)] by (auto simp: prefix_def keeps_append)
next
  case (Some a)
  then obtain t t' where "look m a = Some (put at_map t)" "m' = m[a := put at_map t']"
    using label_pod_cells(2) [OF assms(1)] by blast
  then show ?thesis
    using assms(2) Some by (auto simp: keeps_def look_update)
qed

lemma keeps_agree: "keeps n m m' \<Longrightarrow> n \<le> length m \<Longrightarrow> agree {..<n} m m'"
  by (auto simp: keeps_def agree_def look_def [of m]) (metis leD less_le_trans)

lemma keeps_deref:
  assumes "keeps n m m'" "deref k m a = Some x" "\<And>t. got k (put at_map t) = None"
  shows "deref k m' a = Some x"
proof -
  from assms(2) obtain c where c: "look m a = Some c" "got k c = Some x"
    by (auto simp: deref_def bind_eq_Some_conv)
  then have "got at_map c = None"
    using assms(3) by (cases "got at_map c") (auto simp: got_map_iff)
  then have "look m' a = Some c"
    using assms(1) c(1) unfolding keeps_def by metis
  then show ?thesis using c(2) by (simp add: deref_def)
qed

lemma keeps_template_labels:
  "keeps n m m' \<Longrightarrow> template_labels L m t = Some p \<Longrightarrow> template_labels L m' t = Some p"
  using keeps_deref [of n m m' at_library]
  by (auto simp: template_labels_def bind_eq_Some_conv split: option.splits)

lemma keeps_worker_labels:
  assumes "keeps n m m'" "worker_labels L m b = Some p"
  shows "worker_labels L m' b = Some p"
proof -
  from assms(2) obtain x where x: "deref at_PolarsCluster m b = Some x"
    "template_labels L m (mwp_PodTemplate (mspec_WorkerPool (mcl_Spec x))) = Some p"
    by (auto simp: worker_labels_def bind_eq_Some_conv)
  then show ?thesis
    using keeps_deref [OF assms(1) x(1)] keeps_template_labels [OF assms(1) x(2)]
    by (simp add: worker_labels_def)
qed

lemma keeps_scheduler_labels:
  assumes "keeps n m m'" "scheduler_labels L m b = Some p"
  shows "scheduler_labels L m' b = Some p"
proof -
  from assms(2) obtain x where x: "deref at_PolarsCluster m b = Some x"
    by (auto simp: scheduler_labels_def bind_eq_Some_conv)
  note x' = keeps_deref [OF assms(1) x]
  show ?thesis
  proof (cases "mspec_Scheduler (mcl_Spec x)")
    case (Some s)
    then obtain y where y: "deref at_SchedulerSpec m s = Some y"
      "template_labels L m (msch_PodTemplate y) = Some p"
      using assms(2) x by (auto simp: scheduler_labels_def bind_eq_Some_conv)
    then show ?thesis
      using Some x' keeps_deref [OF assms(1) y(1)] keeps_template_labels [OF assms(1) y(2)]
      by (simp add: scheduler_labels_def)
  qed (use assms(2) x x' in \<open>simp add: scheduler_labels_def\<close>)
qed

text \<open>
  The label references of a readable cluster object are among its cells, and read as its labels; a
  template reads as one with labels when its reference is not nil.
\<close>

definition nil_labels :: "'l library \<Rightarrow> bool" where
  "nil_labels L \<longleftrightarrow>
     (\<forall>m x v. lt_read (lib_PodTemplateSpec L) m x = Some v \<longrightarrow> pt_HasLabels v = (lib_labels L x \<noteq> None))"

lemma template_labels_read:
  assumes "lib_laws L" "rd_ptr at_library (lt_read (lib_PodTemplateSpec L)) m t = Some v"
  obtains p where "template_labels L m t = Some p"
    "rd_map at_map m p = Some (om_Labels (pt_ObjectMeta (case v of None \<Rightarrow> zero_pod_template_spec | Some v \<Rightarrow> v)))"
    "set_option p \<subseteq> ft_ptr at_library (lt_foot (lib_PodTemplateSpec L)) m t"
    "nil_labels L \<longrightarrow> pt_HasLabels (case v of None \<Rightarrow> zero_pod_template_spec | Some v \<Rightarrow> v) = (p \<noteq> None)"
proof (cases t)
  case None
  then show thesis
    using assms(2) by (intro that [of None])
      (auto simp: template_labels_def rd_ptr_def rd_map_def zero_pod_template_spec_def zero_object_meta_def)
next
  case (Some a)
  then obtain x w where x: "deref at_library m a = Some x" "lt_read (lib_PodTemplateSpec L) m x = Some w" "v = Some w"
    using assms(2) by (auto simp: rd_ptr_def bind_eq_Some_conv)
  show thesis
    using lib_lawsD(10,11) [OF assms(1) x(2)] Some x
    by (intro that [of "lib_labels L x"]) (auto simp: template_labels_def ft_ptr_def nil_labels_def)
qed

lemma worker_labels_read:
  assumes "lib_laws L" "cluster_at L m b = Some (tm, c)"
  obtains p where "worker_labels L m b = Some p"
    "rd_map at_map m p = Some (om_Labels (pt_ObjectMeta (workerPodTemplateBase c)))"
    "set_option p \<subseteq> cluster_cells L m b"
    "nil_labels L \<longrightarrow> pt_HasLabels (workerPodTemplateBase c) = (p \<noteq> None)"
proof -
  obtain x where x: "deref at_PolarsCluster m b = Some x" "rd_PolarsCluster L m x = Some (tm, c)"
    using assms(2) by (auto simp: object_at_def bind_eq_Some_conv)
  let ?t = "mwp_PodTemplate (mspec_WorkerPool (mcl_Spec x))"
  have t: "rd_ptr at_library (lt_read (lib_PodTemplateSpec L)) m ?t = Some (wp_PodTemplate (spec_WorkerPool (cl_Spec c)))"
    using x(2) by (auto simp: rd_PolarsCluster_def rd_PolarsClusterSpec_def rd_WorkerPoolDeclaration_def
        bind_eq_Some_conv)
  obtain p where p: "template_labels L m ?t = Some p"
    "rd_map at_map m p = Some (om_Labels (pt_ObjectMeta (workerPodTemplateBase c)))"
    "set_option p \<subseteq> ft_ptr at_library (lt_foot (lib_PodTemplateSpec L)) m ?t"
    "nil_labels L \<longrightarrow> pt_HasLabels (workerPodTemplateBase c) = (p \<noteq> None)"
    by (rule template_labels_read [OF assms(1) t]) (simp add: workerPodTemplateBase_def option.case_eq_if)
  have "ft_ptr at_library (lt_foot (lib_PodTemplateSpec L)) m ?t \<subseteq> cluster_cells L m b"
    using x(1) by (auto simp: object_cells_def ft_ptr_def [of at_PolarsCluster] ft_PolarsCluster_def
        ft_PolarsClusterSpec_def ft_WorkerPoolDeclaration_def)
  then show thesis
    using x(1) p by (intro that [of p]) (auto simp: worker_labels_def)
qed

lemma scheduler_labels_read:
  assumes "lib_laws L" "cluster_at L m b = Some (tm, c)"
  obtains p where "scheduler_labels L m b = Some p"
    "rd_map at_map m p = Some (om_Labels (pt_ObjectMeta (schedulerPodTemplateBase c)))"
    "set_option p \<subseteq> cluster_cells L m b"
    "nil_labels L \<longrightarrow> pt_HasLabels (schedulerPodTemplateBase c) = (p \<noteq> None)"
proof -
  obtain x where x: "deref at_PolarsCluster m b = Some x" "rd_PolarsCluster L m x = Some (tm, c)"
    using assms(2) by (auto simp: object_at_def bind_eq_Some_conv)
  let ?s = "mspec_Scheduler (mcl_Spec x)"
  have s: "rd_ptr at_SchedulerSpec (rd_SchedulerSpec L) m ?s = Some (spec_Scheduler (cl_Spec c))"
    using x(2) by (auto simp: rd_PolarsCluster_def rd_PolarsClusterSpec_def bind_eq_Some_conv)
  have cells: "ft_ptr at_SchedulerSpec (ft_SchedulerSpec L) m ?s \<subseteq> cluster_cells L m b"
    using x(1) by (auto simp: object_cells_def ft_ptr_def [of at_PolarsCluster] ft_PolarsCluster_def
        ft_PolarsClusterSpec_def)
  show thesis
  proof (cases ?s)
    case None
    then show thesis
      using x(1) s by (intro that [of None]) (auto simp: scheduler_labels_def rd_map_def rd_ptr_def
          schedulerPodTemplateBase_def zero_pod_template_spec_def zero_object_meta_def)
  next
    case (Some a)
    then obtain y w where y: "deref at_SchedulerSpec m a = Some y" "rd_SchedulerSpec L m y = Some w"
      "spec_Scheduler (cl_Spec c) = Some w"
      using s by (cases "spec_Scheduler (cl_Spec c)") (auto simp: rd_ptr_def bind_eq_Some_conv)
    let ?t = "msch_PodTemplate y"
    have t: "rd_ptr at_library (lt_read (lib_PodTemplateSpec L)) m ?t = Some (sch_PodTemplate w)"
      using y(2) by (auto simp: rd_SchedulerSpec_def bind_eq_Some_conv)
    obtain p where p: "template_labels L m ?t = Some p"
      "rd_map at_map m p = Some (om_Labels (pt_ObjectMeta (schedulerPodTemplateBase c)))"
      "set_option p \<subseteq> ft_ptr at_library (lt_foot (lib_PodTemplateSpec L)) m ?t"
      "nil_labels L \<longrightarrow> pt_HasLabels (schedulerPodTemplateBase c) = (p \<noteq> None)"
      by (rule template_labels_read [OF assms(1) t])
        (simp add: schedulerPodTemplateBase_def y(3) option.case_eq_if)
    have "ft_ptr at_library (lt_foot (lib_PodTemplateSpec L)) m ?t \<subseteq> ft_ptr at_SchedulerSpec (ft_SchedulerSpec L) m ?s"
      using Some y(1) by (auto simp: ft_ptr_def [of at_SchedulerSpec] ft_SchedulerSpec_def)
    then show thesis
      using x(1) y(1) Some p cells by (intro that [of p]) (auto simp: scheduler_labels_def)
  qed
qed

text \<open>As long as the label references lie above \<open>n\<close>, nothing below \<open>n\<close> is ever written.\<close>

lemma label_writes_keep:
  assumes "label_writes L b m m'"
    and "worker_labels L m b = Some p" "\<forall>a \<in> set_option p. n \<le> a"
    and "scheduler_labels L m b = Some s" "\<forall>a \<in> set_option s. n \<le> a"
  shows "keeps n m m'"
  using assms(1)
proof (induction rule: label_writes.induct)
  case (worker_pod m1 p' c hash q m2)
  then have "p' = p" using keeps_worker_labels [OF worker_pod.IH assms(2)] by simp
  then show ?case using keeps_trans [OF worker_pod.IH keeps_label_pod] worker_pod assms(3) by blast
next
  case (scheduler_pod m1 s' c hash q m2)
  then have "s' = s" using keeps_scheduler_labels [OF scheduler_pod.IH assms(4)] by simp
  then show ?case using keeps_trans [OF scheduler_pod.IH keeps_label_pod] scheduler_pod assms(5) by blast
next
  case (allocation m1 x)
  then show ?case using keeps_trans keeps_append by blast
qed (rule keeps_refl)

end
