(* ===== verification/Copy_Properties.thy ===== *)
theory Copy_Properties
  imports Label_Sharing Sample_Cluster
begin

text \<open>
  Properties of the generated deep copies and of their use: the copy of a cluster is deep, the copy
  and the original do not interfere, and the label writes of a reconcile stay in its copy. First a
  library and a cluster in memory for the witnesses.
\<close>

section \<open>A sample library\<close>

datatype sample_object =
    EnvVarObject env_var
  | EnvVarSourceObject env_var_source
  | PodTemplateObject object_meta "addr option" pod_spec
  | ParentReferenceObject opaque
  | ConditionObject condition
  | ObjectMetaObject object_meta
  | ListMetaObject opaque
  | QuantityObject quantity

definition plain :: "(sample_object \<Rightarrow> 'v option) \<Rightarrow> (sample_object, 'v) lib_type" where
  "plain f = \<lparr>lt_read = (\<lambda>m. f), lt_foot = (\<lambda>m x. {}), lt_copy = (\<lambda>x m. Some (x, m))\<rparr>"

text \<open>A pod template holds its labels in a map.\<close>

definition sample_templates :: "(sample_object, pod_template_spec) lib_type" where
  "sample_templates =
     \<lparr>lt_read = (\<lambda>m x. case x of
          PodTemplateObject om p ps \<Rightarrow>
            map_option (\<lambda>l. \<lparr>pt_ObjectMeta = om\<lparr>om_Labels := l\<rparr>, pt_Spec = ps, pt_HasLabels = (p \<noteq> None)\<rparr>) (rd_map at_map m p)
        | _ \<Rightarrow> None),
      lt_foot = (\<lambda>m x. case x of PodTemplateObject om p ps \<Rightarrow> ft_map m p | _ \<Rightarrow> {}),
      lt_copy = (\<lambda>x m. case x of
          PodTemplateObject om p ps \<Rightarrow>
            map_option (\<lambda>(q, m). (PodTemplateObject om q ps, m)) (copy_map at_map rev p m)
        | _ \<Rightarrow> Some (x, m))\<rparr>"

definition sample_library :: "sample_object library" where
  "sample_library =
     \<lparr>lib_EnvVar = plain (\<lambda>x. case x of EnvVarObject v \<Rightarrow> Some v | _ \<Rightarrow> None),
      lib_EnvVarSource = plain (\<lambda>x. case x of EnvVarSourceObject v \<Rightarrow> Some v | _ \<Rightarrow> None),
      lib_PodTemplateSpec = sample_templates,
      lib_ParentReference = plain (\<lambda>x. case x of ParentReferenceObject v \<Rightarrow> Some v | _ \<Rightarrow> None),
      lib_Condition = plain (\<lambda>x. case x of ConditionObject v \<Rightarrow> Some v | _ \<Rightarrow> None),
      lib_ObjectMeta = plain (\<lambda>x. case x of ObjectMetaObject v \<Rightarrow> Some v | _ \<Rightarrow> None),
      lib_ListMeta = plain (\<lambda>x. case x of ListMetaObject v \<Rightarrow> Some v | _ \<Rightarrow> None),
      lib_Quantity = plain (\<lambda>x. case x of QuantityObject v \<Rightarrow> Some v | _ \<Rightarrow> None),
      lib_range = rev,
      lib_labels = (\<lambda>x. case x of PodTemplateObject om p ps \<Rightarrow> p | _ \<Rightarrow> None)\<rparr>"

lemma lib_copies_plain: "lib_copies (plain f)"
  unfolding lib_copies_def plain_def by (rule copiesI) (auto intro: readableI)

lemma lib_copies_sample_templates: "lib_copies sample_templates"
proof -
  have maps: "copies (rd_map at_map) ft_map (copy_map at_map rev)"
    by (rule copies_map) simp_all
  note readable = copies_readable [OF maps]
  show ?thesis
    unfolding lib_copies_def
  proof (rule copiesI)
    show "readable (lt_read sample_templates) (lt_foot sample_templates)"
      by (rule readableI)
        (auto simp: sample_templates_def readable_agree [OF readable] dest: readable_bound [OF readable]
          split: sample_object.splits)
    fix m x v assume "lt_read sample_templates m x = Some v"
    then obtain om p ps l where x: "x = PodTemplateObject om p ps" "rd_map at_map m p = Some l"
      "v = \<lparr>pt_ObjectMeta = om\<lparr>om_Labels := l\<rparr>, pt_Spec = ps, pt_HasLabels = (p \<noteq> None)\<rparr>"
      by (auto simp: sample_templates_def split: sample_object.splits)
    obtain q m' where q: "copy_map at_map rev p m = Some (q, m')" "prefix m m'" "rd_map at_map m' q = Some l"
      "ft_map m' q \<subseteq> {length m..<length m'}"
      by (rule copiesE [OF maps x(2)])
    then show "\<exists>y m'. lt_copy sample_templates x m = Some (y, m') \<and> prefix m m' \<and>
        lt_read sample_templates m' y = Some v \<and> lt_foot sample_templates m' y \<subseteq> {length m..<length m'}"
      by (intro exI [of _ "PodTemplateObject om q ps"] exI [of _ m'])
        (use copy_map_nil [OF q(1)] in \<open>simp add: sample_templates_def x del: not_None_eq\<close>)
  qed
qed

lemma sample_library_laws: "lib_laws sample_library"
  by (auto simp: lib_laws_def sample_library_def lib_copies_plain lib_copies_sample_templates)
    (auto simp: sample_templates_def ft_map_def split: sample_object.splits)

lemma sample_library_nil: "nil_labels sample_library"
  by (auto simp: nil_labels_def sample_library_def sample_templates_def split: sample_object.splits)

section \<open>A cluster in memory\<close>

definition sample_template :: pod_template_spec where
  "sample_template =
     \<lparr>pt_ObjectMeta = zero_object_meta\<lparr>om_Labels := [''team'' \<mapsto> ''ml'']\<rparr>, pt_Spec = zero_pod_spec, pt_HasLabels = True\<rparr>"

text \<open>The sample cluster with two workers made from this template.\<close>

definition labelled_cluster :: PolarsCluster where
  "labelled_cluster =
     (sample_cluster 2)\<lparr>cl_Spec := (sample_spec 2)\<lparr>spec_WorkerPool :=
        (sample_workers 2)\<lparr>wp_PodTemplate := Some sample_template, wp_ServiceAccount := None\<rparr>\<rparr>\<rparr>"

definition sample_type :: type_meta where
  "sample_type = \<lparr>tm_Kind = ''PolarsCluster'', tm_APIVersion = ''compute.pola.rs/v1alpha1''\<rparr>"

definition sample_struct :: "sample_object mPolarsCluster" where
  "sample_struct =
     \<lparr>mcl_TypeMeta = sample_type,
      mcl_ObjectMeta = ObjectMetaObject (cl_Meta labelled_cluster),
      mcl_Spec =
        \<lparr>mspec_Telemetry = None, mspec_LogLevel = None, mspec_ImagePullSecrets = None, mspec_ClusterID = [],
         mspec_AcceptEula = True, mspec_Version = ''0.8.0'', mspec_Runtime = Some 2,
         mspec_License = \<lparr>mlic_OnPrem = None, mlic_OnPremEnterprise = Some 3, mlic_Cloud = None\<rparr>,
         mspec_AllowLocalSinks = False, mspec_AllowLocalScans = False, mspec_AllowAnonymousUsers = False,
         mspec_AnonymousResults = None, mspec_Checkpoint = None, mspec_Lineage = None,
         mspec_Observatory = None, mspec_HostMetrics = None, mspec_ClusterDomain = [],
         mspec_Scheduler = None,
         mspec_WorkerPool =
           \<lparr>mwp_PodTemplate = Some 1, mwp_ServiceAccount = None, mwp_Replicas = 2,
            mwp_HeartBeatInterval = None, mwp_ShuffleData = None, mwp_TemporaryData = None,
            mwp_Extras = \<lparr>mext_HDFS = None, mext_PyIceberg = None\<rparr>\<rparr>\<rparr>,
      mcl_Status =
        \<lparr>mst_Conditions = None, mst_ObservedGeneration = 0, mst_Scheduler = \<lparr>sst_Ready = False\<rparr>,
         mst_WorkerPool = \<lparr>wps_Replicas = 0, wps_ReadyReplicas = 0, wps_Selector = []\<rparr>\<rparr>\<rparr>"

definition sample_memory :: "sample_object memory" where
  "sample_memory =
     [put at_map [(''team'', ''ml'')],
      put at_library (PodTemplateObject zero_object_meta (Some 0) zero_pod_spec),
      put at_RuntimeSpec \<lparr>mrt_Composed = \<lparr>mcrt_Dist = None, mcrt_Runtime = None, mcrt_Requirements = [],
         mcrt_PolarsExtras = [], mcrt_ImageVolume = None\<rparr>\<rparr>,
      put at_LicenseOnPremEnterpriseSpec \<lparr>loe_SecretName = ''license'', loe_SecretProperty = ''key''\<rparr>,
      put at_PolarsCluster sample_struct]"

lemma sample_cluster_at: "cluster_at sample_library sample_memory 4 = Some (sample_type, labelled_cluster)"
  by (simp add: object_at_def sample_memory_def deref_def look_def sample_struct_def
      rd_PolarsCluster_def rd_PolarsClusterSpec_def rd_PolarsClusterStatus_def rd_WorkerPoolDeclaration_def
      rd_ExtrasSpec_def rd_LicenseSpec_def rd_RuntimeSpec_def rd_ComposedRuntimeSpec_def rd_ptr_def
      rd_slice_def rd_map_def rd_flat_def sample_library_def sample_templates_def plain_def
      labelled_cluster_def sample_defs sample_template_def)

lemma sample_copy:
  obtains b m where
    "PolarsCluster_DeepCopyObject sample_library (Some 4) sample_memory = Some (Some (PolarsClusterObject b), m)"
    "cluster_at sample_library m b = Some (sample_type, labelled_cluster)"
  using cluster.object_copy [OF sample_library_laws sample_cluster_at] by (metis DeepCopyObject_iff(1))

section \<open>Deep copies\<close>

text \<open>
  C16: Every generated \<open>DeepCopy\<close>, of all fifty structs of the API, is a deep copy: on a value that
  reads as \<open>v\<close> it succeeds, changes no cell that was there, and returns a pointer that reads as \<open>v\<close>
  and reaches new cells only; on nil it returns nil. The hypothesis is the same for the copy
  functions of the Kubernetes libraries, on which the generated ones rely.
\<close>

theorem every_copy_is_deep:
  assumes "lib_laws L"
  shows "copies (rd_ptr at_AnonymousResultsABSSpec (rd_AnonymousResultsABSSpec L)) (ft_ptr at_AnonymousResultsABSSpec (ft_AnonymousResultsABSSpec L)) (AnonymousResultsABSSpec_DeepCopy L) \<and>
     copies (rd_ptr at_AnonymousResultsGCSSpec (rd_AnonymousResultsGCSSpec L)) (ft_ptr at_AnonymousResultsGCSSpec (ft_AnonymousResultsGCSSpec L)) (AnonymousResultsGCSSpec_DeepCopy L) \<and>
     copies (rd_ptr at_AnonymousResultsS3Spec (rd_AnonymousResultsS3Spec L)) (ft_ptr at_AnonymousResultsS3Spec (ft_AnonymousResultsS3Spec L)) (AnonymousResultsS3Spec_DeepCopy L) \<and>
     copies (rd_ptr at_AnonymousResultsSpec (rd_AnonymousResultsSpec L)) (ft_ptr at_AnonymousResultsSpec (ft_AnonymousResultsSpec L)) (AnonymousResultsSpec_DeepCopy L) \<and>
     copies (rd_ptr at_CheckpointABSSpec (rd_CheckpointABSSpec L)) (ft_ptr at_CheckpointABSSpec (ft_CheckpointABSSpec L)) (CheckpointABSSpec_DeepCopy L) \<and>
     copies (rd_ptr at_CheckpointDataSpec (rd_CheckpointDataSpec L)) (ft_ptr at_CheckpointDataSpec (ft_CheckpointDataSpec L)) (CheckpointDataSpec_DeepCopy L) \<and>
     copies (rd_ptr at_CheckpointGCSSpec (rd_CheckpointGCSSpec L)) (ft_ptr at_CheckpointGCSSpec (ft_CheckpointGCSSpec L)) (CheckpointGCSSpec_DeepCopy L) \<and>
     copies (rd_ptr at_CheckpointS3Spec (rd_CheckpointS3Spec L)) (ft_ptr at_CheckpointS3Spec (ft_CheckpointS3Spec L)) (CheckpointS3Spec_DeepCopy L) \<and>
     copies (rd_ptr at_CheckpointSpec (rd_CheckpointSpec L)) (ft_ptr at_CheckpointSpec (ft_CheckpointSpec L)) (CheckpointSpec_DeepCopy L) \<and>
     copies (rd_ptr at_ComposedRuntimeSpec (rd_ComposedRuntimeSpec L)) (ft_ptr at_ComposedRuntimeSpec (ft_ComposedRuntimeSpec L)) (ComposedRuntimeSpec_DeepCopy L) \<and>
     copies (rd_ptr at_EphemeralVolumeClaimSpec (rd_EphemeralVolumeClaimSpec L)) (ft_ptr at_EphemeralVolumeClaimSpec (ft_EphemeralVolumeClaimSpec L)) (EphemeralVolumeClaimSpec_DeepCopy L) \<and>
     copies (rd_ptr at_ExposedServiceConfig (rd_ExposedServiceConfig L)) (ft_ptr at_ExposedServiceConfig (ft_ExposedServiceConfig L)) (ExposedServiceConfig_DeepCopy L) \<and>
     copies (rd_ptr at_ExtrasSpec (rd_ExtrasSpec L)) (ft_ptr at_ExtrasSpec (ft_ExtrasSpec L)) (ExtrasSpec_DeepCopy L) \<and>
     copies (rd_ptr at_HDFSSpec rd_flat) (ft_ptr at_HDFSSpec ft_flat) HDFSSpec_DeepCopy \<and>
     copies (rd_ptr at_HostMetricsSpec rd_flat) (ft_ptr at_HostMetricsSpec ft_flat) HostMetricsSpec_DeepCopy \<and>
     copies (rd_ptr at_ImageSpec rd_flat) (ft_ptr at_ImageSpec ft_flat) ImageSpec_DeepCopy \<and>
     copies (rd_ptr at_ImageVolumeSpec rd_flat) (ft_ptr at_ImageVolumeSpec ft_flat) ImageVolumeSpec_DeepCopy \<and>
     copies (rd_ptr at_LicenseCloudSpec (rd_LicenseCloudSpec L)) (ft_ptr at_LicenseCloudSpec (ft_LicenseCloudSpec L)) (LicenseCloudSpec_DeepCopy L) \<and>
     copies (rd_ptr at_LicenseOnPremEnterpriseSpec rd_flat) (ft_ptr at_LicenseOnPremEnterpriseSpec ft_flat) LicenseOnPremEnterpriseSpec_DeepCopy \<and>
     copies (rd_ptr at_LicenseOnPremSpec (rd_LicenseOnPremSpec L)) (ft_ptr at_LicenseOnPremSpec (ft_LicenseOnPremSpec L)) (LicenseOnPremSpec_DeepCopy L) \<and>
     copies (rd_ptr at_LicenseSpec (rd_LicenseSpec L)) (ft_ptr at_LicenseSpec (ft_LicenseSpec L)) (LicenseSpec_DeepCopy L) \<and>
     copies (rd_ptr at_LineageSpec (rd_LineageSpec L)) (ft_ptr at_LineageSpec (ft_LineageSpec L)) (LineageSpec_DeepCopy L) \<and>
     copies (rd_ptr at_LineageTransportHTTPSpec rd_flat) (ft_ptr at_LineageTransportHTTPSpec ft_flat) LineageTransportHTTPSpec_DeepCopy \<and>
     copies (rd_ptr at_LineageTransportSpec (rd_LineageTransportSpec L)) (ft_ptr at_LineageTransportSpec (ft_LineageTransportSpec L)) (LineageTransportSpec_DeepCopy L) \<and>
     copies (rd_ptr at_LocalFilesystemSpec rd_flat) (ft_ptr at_LocalFilesystemSpec ft_flat) LocalFilesystemSpec_DeepCopy \<and>
     copies (rd_ptr at_ObservatorySpec (rd_ObservatorySpec L)) (ft_ptr at_ObservatorySpec (ft_ObservatorySpec L)) (ObservatorySpec_DeepCopy L) \<and>
     copies (rd_ptr at_PersistentVolumeClaimRef rd_flat) (ft_ptr at_PersistentVolumeClaimRef ft_flat) PersistentVolumeClaimRef_DeepCopy \<and>
     copies (rd_ptr at_PolarsCluster (rd_PolarsCluster L)) (ft_ptr at_PolarsCluster (ft_PolarsCluster L)) (PolarsCluster_DeepCopy L) \<and>
     copies (rd_ptr at_PolarsClusterList (rd_PolarsClusterList L)) (ft_ptr at_PolarsClusterList (ft_PolarsClusterList L)) (PolarsClusterList_DeepCopy L) \<and>
     copies (rd_ptr at_PolarsClusterSpec (rd_PolarsClusterSpec L)) (ft_ptr at_PolarsClusterSpec (ft_PolarsClusterSpec L)) (PolarsClusterSpec_DeepCopy L) \<and>
     copies (rd_ptr at_PolarsClusterStatus (rd_PolarsClusterStatus L)) (ft_ptr at_PolarsClusterStatus (ft_PolarsClusterStatus L)) (PolarsClusterStatus_DeepCopy L) \<and>
     copies (rd_ptr at_PyIcebergSpec rd_flat) (ft_ptr at_PyIcebergSpec ft_flat) PyIcebergSpec_DeepCopy \<and>
     copies (rd_ptr at_RegisterNodeSpec (rd_RegisterNodeSpec L)) (ft_ptr at_RegisterNodeSpec (ft_RegisterNodeSpec L)) (RegisterNodeSpec_DeepCopy L) \<and>
     copies (rd_ptr at_RouteSpec (rd_RouteSpec L)) (ft_ptr at_RouteSpec (ft_RouteSpec L)) (RouteSpec_DeepCopy L) \<and>
     copies (rd_ptr at_RuntimeSpec (rd_RuntimeSpec L)) (ft_ptr at_RuntimeSpec (ft_RuntimeSpec L)) (RuntimeSpec_DeepCopy L) \<and>
     copies (rd_ptr at_SchedulerServicesSpec (rd_SchedulerServicesSpec L)) (ft_ptr at_SchedulerServicesSpec (ft_SchedulerServicesSpec L)) (SchedulerServicesSpec_DeepCopy L) \<and>
     copies (rd_ptr at_SchedulerSpec (rd_SchedulerSpec L)) (ft_ptr at_SchedulerSpec (ft_SchedulerSpec L)) (SchedulerSpec_DeepCopy L) \<and>
     copies (rd_ptr at_SchedulerStatus rd_flat) (ft_ptr at_SchedulerStatus ft_flat) SchedulerStatus_DeepCopy \<and>
     copies (rd_ptr at_ServiceAccountSpec rd_flat) (ft_ptr at_ServiceAccountSpec ft_flat) ServiceAccountSpec_DeepCopy \<and>
     copies (rd_ptr at_ServiceConfig (rd_ServiceConfig L)) (ft_ptr at_ServiceConfig (ft_ServiceConfig L)) (ServiceConfig_DeepCopy L) \<and>
     copies (rd_ptr at_SharedFilesystemSpec rd_flat) (ft_ptr at_SharedFilesystemSpec ft_flat) SharedFilesystemSpec_DeepCopy \<and>
     copies (rd_ptr at_ShuffleDataABSSpec (rd_ShuffleDataABSSpec L)) (ft_ptr at_ShuffleDataABSSpec (ft_ShuffleDataABSSpec L)) (ShuffleDataABSSpec_DeepCopy L) \<and>
     copies (rd_ptr at_ShuffleDataGCSSpec (rd_ShuffleDataGCSSpec L)) (ft_ptr at_ShuffleDataGCSSpec (ft_ShuffleDataGCSSpec L)) (ShuffleDataGCSSpec_DeepCopy L) \<and>
     copies (rd_ptr at_ShuffleDataS3Spec (rd_ShuffleDataS3Spec L)) (ft_ptr at_ShuffleDataS3Spec (ft_ShuffleDataS3Spec L)) (ShuffleDataS3Spec_DeepCopy L) \<and>
     copies (rd_ptr at_ShuffleDataSpec (rd_ShuffleDataSpec L)) (ft_ptr at_ShuffleDataSpec (ft_ShuffleDataSpec L)) (ShuffleDataSpec_DeepCopy L) \<and>
     copies (rd_ptr at_TelemetrySpec (rd_TelemetrySpec L)) (ft_ptr at_TelemetrySpec (ft_TelemetrySpec L)) (TelemetrySpec_DeepCopy L) \<and>
     copies (rd_ptr at_TemporaryDataSpec (rd_TemporaryDataSpec L)) (ft_ptr at_TemporaryDataSpec (ft_TemporaryDataSpec L)) (TemporaryDataSpec_DeepCopy L) \<and>
     copies (rd_ptr at_ValueOrSource (rd_ValueOrSource L)) (ft_ptr at_ValueOrSource (ft_ValueOrSource L)) (ValueOrSource_DeepCopy L) \<and>
     copies (rd_ptr at_WorkerPoolDeclaration (rd_WorkerPoolDeclaration L)) (ft_ptr at_WorkerPoolDeclaration (ft_WorkerPoolDeclaration L)) (WorkerPoolDeclaration_DeepCopy L) \<and>
     copies (rd_ptr at_WorkerPoolStatus rd_flat) (ft_ptr at_WorkerPoolStatus ft_flat) WorkerPoolStatus_DeepCopy"
  by (intro conjI)
    (simp_all add: DeepCopy_defs copies_ptr copies_flat_structs copies_structs [OF assms])

theorem every_copy_is_deep_witness:
  "\<exists>q m. LicenseSpec_DeepCopy sample_library (Some 0)
      [put at_LicenseSpec \<lparr>mlic_OnPrem = None, mlic_OnPremEnterprise = Some 1, mlic_Cloud = None\<rparr>,
       put at_LicenseOnPremEnterpriseSpec \<lparr>loe_SecretName = ''license'', loe_SecretProperty = ''key''\<rparr>]
      = Some (q, m) \<and>
    rd_ptr at_LicenseSpec (rd_LicenseSpec sample_library) m q = Some (Some sample_license)"
proof -
  let ?m = "[put at_LicenseSpec \<lparr>mlic_OnPrem = None, mlic_OnPremEnterprise = Some 1, mlic_Cloud = None\<rparr>,
    put at_LicenseOnPremEnterpriseSpec \<lparr>loe_SecretName = ''license'', loe_SecretProperty = ''key''\<rparr>]"
  have c: "copies (rd_ptr at_LicenseSpec (rd_LicenseSpec sample_library))
      (ft_ptr at_LicenseSpec (ft_LicenseSpec sample_library)) (LicenseSpec_DeepCopy sample_library)"
    using every_copy_is_deep [OF sample_library_laws] by blast
  have "rd_ptr at_LicenseSpec (rd_LicenseSpec sample_library) ?m (Some 0) = Some (Some sample_license)"
    by (simp add: rd_ptr_def deref_def look_def rd_LicenseSpec_def rd_flat_def sample_license_def)
  then show ?thesis by (rule copiesE [OF c]) blast
qed

text \<open>
  C3: The copies \<open>DeepCopyObject\<close> hands out, of a cluster and of a list of clusters, read as the
  object they were made from, type meta included, as does the original after it; the memory that
  was there is unchanged, and no cell of the copy is a cell of the original.
\<close>

theorem object_copies_are_deep:
  assumes "lib_laws L"
  shows "(\<forall>v. cluster_at L m a = Some v \<longrightarrow>
       (\<exists>b m'. PolarsCluster_DeepCopyObject L (Some a) m = Some (Some (PolarsClusterObject b), m') \<and>
          prefix m m' \<and> cluster_at L m' b = Some v \<and> cluster_at L m' a = Some v \<and>
          cluster_cells L m' b \<inter> cluster_cells L m' a = {})) \<and>
     (\<forall>v. list_at L m a = Some v \<longrightarrow>
       (\<exists>b m'. PolarsClusterList_DeepCopyObject L (Some a) m = Some (Some (PolarsClusterListObject b), m') \<and>
          prefix m m' \<and> list_at L m' b = Some v \<and> list_at L m' a = Some v \<and>
          list_cells L m' b \<inter> list_cells L m' a = {}))"
proof (intro conjI allI impI)
  fix v assume "cluster_at L m a = Some v"
  then show "\<exists>b m'. PolarsCluster_DeepCopyObject L (Some a) m = Some (Some (PolarsClusterObject b), m') \<and>
      prefix m m' \<and> cluster_at L m' b = Some v \<and> cluster_at L m' a = Some v \<and>
      cluster_cells L m' b \<inter> cluster_cells L m' a = {}"
    unfolding DeepCopyObject_iff by (rule cluster.object_copy [OF assms]) fastforce
next
  fix v assume "list_at L m a = Some v"
  then show "\<exists>b m'. PolarsClusterList_DeepCopyObject L (Some a) m = Some (Some (PolarsClusterListObject b), m') \<and>
      prefix m m' \<and> list_at L m' b = Some v \<and> list_at L m' a = Some v \<and>
      list_cells L m' b \<inter> list_cells L m' a = {}"
    unfolding DeepCopyObject_iff by (rule cluster_list.object_copy [OF assms]) fastforce
qed

theorem object_copies_are_deep_witness:
  "\<exists>b m'. PolarsCluster_DeepCopyObject sample_library (Some 4) sample_memory =
       Some (Some (PolarsClusterObject b), m') \<and> prefix sample_memory m' \<and>
     cluster_at sample_library m' b = Some (sample_type, labelled_cluster)"
  using object_copies_are_deep [OF sample_library_laws] sample_cluster_at by blast

text \<open>
  C17: A cluster and its copy do not interfere: whatever is written into the cells of the one, and
  whatever is allocated, the other reads as before. The same holds of a list of clusters.
\<close>

theorem copies_do_not_interfere:
  assumes "lib_laws L"
  shows "(cluster_at L m a = Some v \<and>
       PolarsCluster_DeepCopyObject L (Some a) m = Some (Some (PolarsClusterObject b), m') \<longrightarrow>
       (writes_within (cluster_cells L m' b) m' n \<longrightarrow> cluster_at L n a = Some v) \<and>
       (writes_within (cluster_cells L m' a) m' n \<longrightarrow> cluster_at L n b = Some v)) \<and>
     (list_at L m a = Some w \<and>
       PolarsClusterList_DeepCopyObject L (Some a) m = Some (Some (PolarsClusterListObject b), m') \<longrightarrow>
       (writes_within (list_cells L m' b) m' n \<longrightarrow> list_at L n a = Some w) \<and>
       (writes_within (list_cells L m' a) m' n \<longrightarrow> list_at L n b = Some w))"
  unfolding DeepCopyObject_iff
  by (intro conjI impI; elim conjE;
      erule (2) cluster.copy_isolated [OF assms] cluster_list.copy_isolated [OF assms])

theorem copies_do_not_interfere_witness:
  "\<exists>b m'. PolarsCluster_DeepCopyObject sample_library (Some 4) sample_memory =
       Some (Some (PolarsClusterObject b), m') \<and>
     cluster_at sample_library (m'[b := put at_PolarsCluster sample_struct]) 4 = Some (sample_type, labelled_cluster)"
proof (rule sample_copy)
  fix b m
  assume c: "PolarsCluster_DeepCopyObject sample_library (Some 4) sample_memory =
      Some (Some (PolarsClusterObject b), m)"
  have "writes_within (cluster_cells sample_library m b) m (m[b := put at_PolarsCluster sample_struct])"
    by (auto simp: writes_within_def agree_def look_update object_cells_def ft_ptr_def)
  then show ?thesis
    using c copies_do_not_interfere [OF sample_library_laws] sample_cluster_at by blast
qed

section \<open>Labels\<close>

lemma label_pod_built:
  assumes "lib_laws L" "rd_map at_map m r = Some (pod_labels p)"
  shows "\<exists>q m'. label_pod L c k hash r m = Some (q, m') \<and> r \<in> {None, Some q} \<and>
      rd_map at_map m' (Some q) = Some ((pod_labels (applyPodLabels p c k))(templateHashLabel \<mapsto> hash))"
proof (rule label_pod_read [OF assms, of c k hash])
  fix q m' assume l: "label_pod L c k hash r m = Some (q, m')"
  then have "r \<in> {None, Some q}" using label_pod_cells(2) [OF l] by (cases r) auto
  moreover assume "rd_map at_map m' (Some q) = Some
    (((pod_labels p)(clusterLabel \<mapsto> cl_Name c, componentLabel \<mapsto> k) ++ standardLabels c k)
      (templateHashLabel \<mapsto> hash))"
  ultimately show ?thesis using l by (auto simp: applyPodLabels_def)
qed

text \<open>
  C18: The pods a reconcile labels through the map writes of memory carry exactly the labels of the
  value-based build: the user's template labels, overwritten by the operator's, with the template
  hash. Where the user's template has a label map, it is that map that is written.
\<close>

theorem labels_written_are_the_labels_built:
  assumes "lib_laws L" and "cluster_at L m b = Some (tm, c)"
  shows "(\<forall>p. BuildWorkerPodTemplate pl c = Inr p \<longrightarrow>
       (\<exists>r q m'. worker_labels L m b = Some r \<and>
          label_pod L c componentWorker hash r m = Some (q, m') \<and> r \<in> {None, Some q} \<and>
          rd_map at_map m' (Some q) = Some (pod_labels (set_label templateHashLabel hash p)))) \<and>
     (\<forall>p. BuildSchedulerPodTemplate pl c = Inr p \<longrightarrow>
       (\<exists>r q m'. scheduler_labels L m b = Some r \<and>
          label_pod L c componentScheduler hash r m = Some (q, m') \<and> r \<in> {None, Some q} \<and>
          rd_map at_map m' (Some q) = Some (pod_labels (set_label templateHashLabel hash p))))"
proof -
  note labels = label_pod_built [OF assms(1)]
  obtain rw where w: "worker_labels L m b = Some rw"
    "rd_map at_map m rw = Some (om_Labels (pt_ObjectMeta (workerPodTemplateBase c)))"
    by (rule worker_labels_read [OF assms])
  obtain rs where s: "scheduler_labels L m b = Some rs"
    "rd_map at_map m rs = Some (om_Labels (pt_ObjectMeta (schedulerPodTemplateBase c)))"
    by (rule scheduler_labels_read [OF assms])
  show ?thesis
    using w(1) s(1) labels w(2) s(2)
    by (auto elim!: BuildWorker_Inr BuildScheduler_Inr)
qed

lemma sample_worker_labels: "worker_labels sample_library sample_memory 4 = Some (Some 0)"
  by (simp add: worker_labels_def template_labels_def sample_memory_def deref_def look_def
      sample_struct_def sample_library_def)

lemma labelled_cluster_built: "\<exists>p. BuildWorkerPodTemplate sample_pods labelled_cluster = Inr p"
  by (simp add: BuildWorker_buildable sample_merge labelled_cluster_def worker_buildable_def sample_defs)

theorem labels_written_are_the_labels_built_witness:
  "\<exists>p q m. BuildWorkerPodTemplate sample_pods labelled_cluster = Inr p \<and>
     label_pod sample_library labelled_cluster componentWorker ''00c0ffee'' (Some 0) sample_memory = Some (q, m) \<and>
     rd_map at_map m (Some q) = Some (pod_labels (set_label templateHashLabel ''00c0ffee'' p))"
proof -
  obtain p where "BuildWorkerPodTemplate sample_pods labelled_cluster = Inr p"
    using labelled_cluster_built by blast
  then show ?thesis
    using labels_written_are_the_labels_built [OF sample_library_laws sample_cluster_at, of sample_pods "''00c0ffee''"]
      sample_worker_labels by auto
qed

lemma labelled_template_base:
  assumes "BuildWorkerPodTemplate pl c = Inr p" "podTemplateHash pl (pod_Spec p) = Inr hash"
  shows "om_Labels (pt_ObjectMeta (workerPodTemplateBase (workers_labelled pl c))) =
    (if pt_HasLabels (workerPodTemplateBase c) then (pod_labels p)(templateHashLabel \<mapsto> hash)
     else om_Labels (pt_ObjectMeta (workerPodTemplateBase c)))"
  using assms by (simp add: workers_labelled_def write_worker_labels_def workerPodTemplateBase_def
      set_template_labels_def set_label_def zero_pod_template_spec_def split: option.split)

lemma labelled_scheduler_base:
  assumes "BuildSchedulerPodTemplate pl c = Inr p" "podTemplateHash pl (pod_Spec p) = Inr hash"
  shows "om_Labels (pt_ObjectMeta (schedulerPodTemplateBase (scheduler_labelled pl c))) =
    (if pt_HasLabels (schedulerPodTemplateBase c) then (pod_labels p)(templateHashLabel \<mapsto> hash)
     else om_Labels (pt_ObjectMeta (schedulerPodTemplateBase c)))"
  using assms by (simp add: scheduler_labelled_def write_scheduler_labels_def schedulerPodTemplateBase_def
      set_template_labels_def set_label_def zero_pod_template_spec_def split: option.split)

text \<open>The label map after a labelling, whether the reference was nil or not.\<close>

lemma label_pod_spec:
  assumes "lib_laws L" "rd_map at_map m r = Some (pod_labels p0)" "label_pod L c k hash r m = Some (q, m')"
  shows "rd_map at_map m' r = Some (if r \<noteq> None then (pod_labels (applyPodLabels p0 c k))(templateHashLabel \<mapsto> hash)
    else pod_labels p0)"
  using label_pod_built [OF assms(1,2), of c k hash] assms(2,3)
  by (cases r) (auto simp: rd_map_def)

text \<open>
  C22: What labelling a pod does to the spec of the cluster object. In memory, after the pod's labels have
  been written, the label map of the user's template in the cluster object reads as the labels of the
  value-based model: the pod's, with the hash, when the template has a label map, and none as before when
  it has not. This holds for workers and scheduler alike. The hypothesis \<open>nil_labels\<close> says what the
  flag of a template read from memory means.
\<close>

theorem labelling_shows_in_the_spec:
  assumes "lib_laws L" and "nil_labels L" and "cluster_at L m b = Some (tm, c)"
  shows "(\<forall>p hash r q m'. BuildWorkerPodTemplate pl c = Inr p \<longrightarrow> podTemplateHash pl (pod_Spec p) = Inr hash \<longrightarrow>
       worker_labels L m b = Some r \<longrightarrow> label_pod L c componentWorker hash r m = Some (q, m') \<longrightarrow>
       (\<exists>r'. worker_labels L m' b = Some r' \<and>
          rd_map at_map m' r' = Some (om_Labels (pt_ObjectMeta (workerPodTemplateBase (workers_labelled pl c)))))) \<and>
     (\<forall>p hash r q m'. BuildSchedulerPodTemplate pl c = Inr p \<longrightarrow> podTemplateHash pl (pod_Spec p) = Inr hash \<longrightarrow>
       scheduler_labels L m b = Some r \<longrightarrow> label_pod L c componentScheduler hash r m = Some (q, m') \<longrightarrow>
       (\<exists>r'. scheduler_labels L m' b = Some r' \<and>
          rd_map at_map m' r' = Some (om_Labels (pt_ObjectMeta (schedulerPodTemplateBase (scheduler_labelled pl c))))))"
proof (intro conjI allI impI)
  fix p hash r q m'
  assume b: "BuildWorkerPodTemplate pl c = Inr p" "podTemplateHash pl (pod_Spec p) = Inr hash"
    and r: "worker_labels L m b = Some r" and l: "label_pod L c componentWorker hash r m = Some (q, m')"
  have read: "rd_map at_map m r = Some (om_Labels (pt_ObjectMeta (workerPodTemplateBase c)))"
    "pt_HasLabels (workerPodTemplateBase c) = (r \<noteq> None)"
    by (rule worker_labels_read [OF assms(1,3)]; use r assms(2) in simp)+
  have "worker_labels L m' b = Some r"
    by (rule keeps_worker_labels [OF keeps_label_pod [OF l, of 0] r]) simp
  moreover obtain merged where m: "pod_labels p = pod_labels (applyPodLabels
      \<lparr>pod_Meta = pt_ObjectMeta (workerPodTemplateBase c), pod_Spec = merged, pod_Status = zero_pod_status\<rparr>
      c componentWorker)"
    by (rule BuildWorker_Inr [OF b(1)])
  then have "rd_map at_map m' r = Some (om_Labels (pt_ObjectMeta (workerPodTemplateBase (workers_labelled pl c))))"
    using label_pod_spec [OF assms(1) _ l, of
        "\<lparr>pod_Meta = pt_ObjectMeta (workerPodTemplateBase c), pod_Spec = merged, pod_Status = zero_pod_status\<rparr>"] read
    by (simp add: labelled_template_base [OF b] m)
  ultimately show "\<exists>r'. worker_labels L m' b = Some r' \<and>
      rd_map at_map m' r' = Some (om_Labels (pt_ObjectMeta (workerPodTemplateBase (workers_labelled pl c))))"
    by blast
next
  fix p hash r q m'
  assume b: "BuildSchedulerPodTemplate pl c = Inr p" "podTemplateHash pl (pod_Spec p) = Inr hash"
    and r: "scheduler_labels L m b = Some r" and l: "label_pod L c componentScheduler hash r m = Some (q, m')"
  have read: "rd_map at_map m r = Some (om_Labels (pt_ObjectMeta (schedulerPodTemplateBase c)))"
    "pt_HasLabels (schedulerPodTemplateBase c) = (r \<noteq> None)"
    by (rule scheduler_labels_read [OF assms(1,3)]; use r assms(2) in simp)+
  have "scheduler_labels L m' b = Some r"
    by (rule keeps_scheduler_labels [OF keeps_label_pod [OF l, of 0] r]) simp
  moreover obtain merged where m: "pod_labels p = pod_labels (applyPodLabels
      \<lparr>pod_Meta = pt_ObjectMeta (schedulerPodTemplateBase c), pod_Spec = merged, pod_Status = zero_pod_status\<rparr>
      c componentScheduler)"
    by (rule BuildScheduler_Inr [OF b(1)])
  then have "rd_map at_map m' r = Some (om_Labels (pt_ObjectMeta (schedulerPodTemplateBase (scheduler_labelled pl c))))"
    using label_pod_spec [OF assms(1) _ l, of
        "\<lparr>pod_Meta = pt_ObjectMeta (schedulerPodTemplateBase c), pod_Spec = merged, pod_Status = zero_pod_status\<rparr>"] read
    by (simp add: labelled_scheduler_base [OF b] m)
  ultimately show "\<exists>r'. scheduler_labels L m' b = Some r' \<and>
      rd_map at_map m' r' = Some (om_Labels (pt_ObjectMeta (schedulerPodTemplateBase (scheduler_labelled pl c))))"
    by blast
qed

theorem labelling_shows_in_the_spec_witness:
  "\<exists>q m r. label_pod sample_library labelled_cluster componentWorker sample_hash (Some 0) sample_memory = Some (q, m) \<and>
     worker_labels sample_library m 4 = Some r \<and>
     rd_map at_map m r = Some (om_Labels (pt_ObjectMeta (workerPodTemplateBase
       (workers_labelled sample_pods labelled_cluster)))) \<and>
     workers_labelled sample_pods labelled_cluster \<noteq> labelled_cluster"
proof -
  obtain p where p: "BuildWorkerPodTemplate sample_pods labelled_cluster = Inr p"
    using labelled_cluster_built by blast
  obtain q m where l: "label_pod sample_library labelled_cluster componentWorker sample_hash (Some 0) sample_memory = Some (q, m)"
    by (rule label_pod_read [OF sample_library_laws, of sample_memory "Some 0"])
      (auto simp: rd_map_def sample_memory_def deref_def look_def)
  have "om_Labels (pt_ObjectMeta (workerPodTemplateBase (workers_labelled sample_pods labelled_cluster)))
      templateHashLabel = Some sample_hash"
    "om_Labels (pt_ObjectMeta (workerPodTemplateBase labelled_cluster)) templateHashLabel = None"
    by (simp_all add: labelled_template_base [OF p sample_hash_eq])
      (simp_all add: workerPodTemplateBase_def labelled_cluster_def sample_template_def templateHashLabel_def)
  then have "workers_labelled sample_pods labelled_cluster \<noteq> labelled_cluster" by auto
  with labelling_shows_in_the_spec [OF sample_library_laws sample_library_nil sample_cluster_at, of sample_pods]
    p sample_hash_eq sample_worker_labels l
  show ?thesis by blast
qed

text \<open>
  C4: The label writes of a reconcile stay in its copy of the cluster: after any sequence of
  labellings of worker and scheduler pods built from the copy, the object it was copied from, the
  one in the informer's cache, reads as before, although each labelling writes the label map of the
  user's template.
\<close>

theorem label_writes_stay_in_the_copy:
  assumes "lib_laws L" and "cluster_at L m a = Some v"
    and "PolarsCluster_DeepCopyObject L (Some a) m = Some (Some (PolarsClusterObject b), m')"
    and "label_writes L b m' n"
  shows "cluster_at L n a = Some v"
proof -
  have c: "prefix m m'" "cluster_at L m' a = Some v" "cluster_at L m' b = Some (fst v, snd v)"
    "cluster_cells L m' a \<subseteq> {..<length m}" "cluster_cells L m' b \<subseteq> {length m..<length m'}"
    using cluster.object_copy [OF assms(1,2)] assms(3)
    unfolding DeepCopyObject_iff prod.collapse by (metis option.inject prod.inject)+
  obtain p where p: "worker_labels L m' b = Some p" "set_option p \<subseteq> cluster_cells L m' b"
    by (rule worker_labels_read [OF assms(1) c(3)])
  obtain s where s: "scheduler_labels L m' b = Some s" "set_option s \<subseteq> cluster_cells L m' b"
    by (rule scheduler_labels_read [OF assms(1) c(3)])
  have "keeps (length m) m' n"
    by (rule label_writes_keep [OF assms(4) p(1) _ s(1)]) (use p(2) s(2) c(5) in fastforce)+
  then have "agree {..<length m} m' n"
    using prefix_length_le [OF c(1)] by (simp add: keeps_agree)
  then show ?thesis
    using cluster.object_agree(1) [OF assms(1) c(2)] c(4) by (blast intro: agree_subset)
qed

text \<open>Labelling a pod built from the original itself shows in the original.\<close>

lemma labelling_the_original_shows:
  obtains q n where
    "label_pod sample_library labelled_cluster componentWorker ''00c0ffee'' (Some 0) sample_memory = Some (q, n)"
    "cluster_at sample_library n 4 \<noteq> Some (sample_type, labelled_cluster)"
proof -
  have "rd_map at_map sample_memory (Some 0) = Some [''team'' \<mapsto> ''ml'']"
    by (simp add: rd_map_def sample_memory_def deref_def look_def)
  then obtain q n where l: "label_pod sample_library labelled_cluster componentWorker ''00c0ffee'' (Some 0) sample_memory = Some (q, n)"
    "rd_map at_map n (Some q) = Some
       (([''team'' \<mapsto> ''ml''](clusterLabel \<mapsto> cl_Name labelled_cluster, componentLabel \<mapsto> componentWorker)
          ++ standardLabels labelled_cluster componentWorker)(templateHashLabel \<mapsto> ''00c0ffee''))"
    by (rule label_pod_read [OF sample_library_laws])
  have q: "q = 0" using label_pod_cells(2) [OF l(1)] by simp
  have labels: "worker_labels sample_library n 4 = Some (Some 0)"
    by (rule keeps_worker_labels [OF keeps_label_pod [OF l(1), of 0] sample_worker_labels]) simp
  have "cluster_at sample_library n 4 \<noteq> Some (sample_type, labelled_cluster)"
  proof
    assume "cluster_at sample_library n 4 = Some (sample_type, labelled_cluster)"
    then obtain p where "worker_labels sample_library n 4 = Some p"
      "rd_map at_map n p = Some (om_Labels (pt_ObjectMeta (workerPodTemplateBase labelled_cluster)))"
      by (rule worker_labels_read [OF sample_library_laws])
    then show False
      using l(2) q labels
      by (auto simp: workerPodTemplateBase_def labelled_cluster_def sample_template_def templateHashLabel_def
          dest: fun_cong [of _ _ templateHashLabel])
  qed
  then show thesis using that [OF l(1)] by blast
qed

text \<open>In the sample the labelling happens, and done to the original itself it would show.\<close>

theorem label_writes_stay_in_the_copy_witness:
  "(\<exists>b m n q. PolarsCluster_DeepCopyObject sample_library (Some 4) sample_memory =
        Some (Some (PolarsClusterObject b), m) \<and>
      (\<exists>r. worker_labels sample_library m b = Some r \<and>
         label_pod sample_library labelled_cluster componentWorker ''00c0ffee'' r m = Some (q, n)) \<and>
      cluster_at sample_library n 4 = Some (sample_type, labelled_cluster)) \<and>
   (\<exists>q n. label_pod sample_library labelled_cluster componentWorker ''00c0ffee'' (Some 0) sample_memory = Some (q, n) \<and>
      cluster_at sample_library n 4 \<noteq> Some (sample_type, labelled_cluster))"
proof (intro conjI)
  show "\<exists>b m n q. PolarsCluster_DeepCopyObject sample_library (Some 4) sample_memory =
        Some (Some (PolarsClusterObject b), m) \<and>
      (\<exists>r. worker_labels sample_library m b = Some r \<and>
         label_pod sample_library labelled_cluster componentWorker ''00c0ffee'' r m = Some (q, n)) \<and>
      cluster_at sample_library n 4 = Some (sample_type, labelled_cluster)"
  proof (rule sample_copy)
    fix b m
    assume c: "PolarsCluster_DeepCopyObject sample_library (Some 4) sample_memory =
        Some (Some (PolarsClusterObject b), m)"
      "cluster_at sample_library m b = Some (sample_type, labelled_cluster)"
    obtain r where r: "worker_labels sample_library m b = Some r"
      "rd_map at_map m r = Some (om_Labels (pt_ObjectMeta (workerPodTemplateBase labelled_cluster)))"
      by (rule worker_labels_read [OF sample_library_laws c(2)])
    obtain q n where l: "label_pod sample_library labelled_cluster componentWorker ''00c0ffee'' r m = Some (q, n)"
      by (rule label_pod_read [OF sample_library_laws r(2)])
    have "label_writes sample_library b m n"
      by (rule label_writes.worker_pod [OF label_writes.no_write r(1) l])
    then show ?thesis
      using label_writes_stay_in_the_copy [OF sample_library_laws sample_cluster_at c(1)] c(1) r(1) l by blast
  qed
  show "\<exists>q n. label_pod sample_library labelled_cluster componentWorker ''00c0ffee'' (Some 0) sample_memory = Some (q, n) \<and>
      cluster_at sample_library n 4 \<noteq> Some (sample_type, labelled_cluster)"
    by (rule labelling_the_original_shows) blast
qed

end
