(* ===== verification/Go_Text.thy ===== *)
theory Go_Text
  imports Operator_Prelude
begin

text \<open>
  The functions of Go's \<open>strings\<close>, \<open>bufio\<close> and \<open>path/filepath\<close> packages that the end-to-end helpers
  use, on strings as byte lists.
\<close>

abbreviation nl :: char where "nl \<equiv> CHR 0x0A"
abbreviation cr :: char where "cr \<equiv> CHR 0x0D"

section \<open>strings\<close>

text \<open>\<open>strings.Index\<close>, with \<open>None\<close> for -1.\<close>

fun str_index :: "string \<Rightarrow> string \<Rightarrow> nat option" where
  "str_index [] t = (if t = [] then Some 0 else None)"
| "str_index (c # s) t = (if prefix t (c # s) then Some 0 else map_option Suc (str_index s t))"

definition str_contains :: "string \<Rightarrow> string \<Rightarrow> bool" where
  "str_contains s t = (str_index s t \<noteq> None)"

definition TrimPrefix :: "string \<Rightarrow> string \<Rightarrow> string" where
  "TrimPrefix s p = (if prefix p s then drop (length p) s else s)"

text \<open>\<open>strings.ReplaceAll\<close> for a non-empty \<open>old\<close>.\<close>

function ReplaceAll :: "string \<Rightarrow> string \<Rightarrow> string \<Rightarrow> string" where
  "ReplaceAll old new s =
     (if s = [] then []
      else if old \<noteq> [] \<and> prefix old s then new @ ReplaceAll old new (drop (length old) s)
      else hd s # ReplaceAll old new (tl s))"
  by pat_completeness auto
termination by (relation "measure (\<lambda>(old, new, s). length s)") auto

declare ReplaceAll.simps [simp del]

text \<open>\<open>strings.Join\<close>.\<close>

fun str_join :: "string \<Rightarrow> string list \<Rightarrow> string" where
  "str_join sep [] = []"
| "str_join sep [x] = x"
| "str_join sep (x # y # xs) = x @ sep @ str_join sep (y # xs)"

text \<open>\<open>strings.SplitSeq\<close> at a single byte: one more element than there are separators.\<close>

fun split_at :: "char \<Rightarrow> string \<Rightarrow> string list" where
  "split_at c [] = [[]]"
| "split_at c (x # s) =
     (if x = c then [] # split_at c s
      else case split_at c s of [] \<Rightarrow> [[x]] | l # ls \<Rightarrow> (x # l) # ls)"

text \<open>\<open>strings.TrimSpace\<close> on the spaces of ASCII.\<close>

definition is_space :: "char \<Rightarrow> bool" where
  "is_space c = (c \<in> {CHR 0x20, CHR 0x09, nl, CHR 0x0B, CHR 0x0C, cr})"

definition TrimSpace :: "string \<Rightarrow> string" where
  "TrimSpace s = rev (dropWhile is_space (rev (dropWhile is_space s)))"

section \<open>bufio\<close>

text \<open>
  The tokens of a \<open>bufio.Scanner\<close> with \<open>ScanLines\<close>: lines without their newline and without one
  carriage return before it; the scanner stops for good at a line its buffer of 64 KB cannot hold.
\<close>

definition MaxScanTokenSize :: nat where "MaxScanTokenSize = 64 * 1024"

definition dropCR :: "string \<Rightarrow> string" where
  "dropCR s = (if s \<noteq> [] \<and> last s = cr then butlast s else s)"

function scan_lines :: "string \<Rightarrow> string list" where
  "scan_lines s =
     (if s = [] then []
      else let line = takeWhile (\<lambda>c. c \<noteq> nl) s; rest = drop (length line) s in
        if MaxScanTokenSize \<le> length line then [] else dropCR line # scan_lines (tl rest))"
  by pat_completeness auto
termination
  by (relation "measure length") (auto simp: less_Suc_eq_le diff_le_self neq_Nil_conv)

declare scan_lines.simps [simp del]

section \<open>path/filepath\<close>

text \<open>\<open>filepath.Clean\<close>: the components that remain, last one first.\<close>

fun clean_parts :: "bool \<Rightarrow> string list \<Rightarrow> string list \<Rightarrow> string list" where
  "clean_parts rooted [] out = out"
| "clean_parts rooted (p # ps) out =
     (if p = [] \<or> p = ''.'' then clean_parts rooted ps out
      else if p = ''..'' then
        (case out of
           q # qs \<Rightarrow> if q = ''..'' then clean_parts rooted ps (p # out) else clean_parts rooted ps qs
         | [] \<Rightarrow> clean_parts rooted ps (if rooted then [] else [p]))
      else clean_parts rooted ps (p # out))"

definition path_clean :: "string \<Rightarrow> string" where
  "path_clean s =
     (let rooted = prefix ''/'' s;
          parts = rev (clean_parts rooted (split_at (CHR 0x2F) s) [])
      in if rooted then CHR 0x2F # str_join ''/'' parts
         else if parts = [] then ''.'' else str_join ''/'' parts)"

definition path_join :: "string list \<Rightarrow> string" where
  "path_join elems =
     (case dropWhile (\<lambda>e. e = []) elems of
        [] \<Rightarrow> []
      | es \<Rightarrow> path_clean (str_join ''/'' es))"

section \<open>Substrings\<close>

lemma str_index_iff: "str_index s t \<noteq> None \<longleftrightarrow> (\<exists>a b. s = a @ t @ b)"
proof (induction s)
  case (Cons c s)
  have "(\<exists>a b. c # s = a @ t @ b) \<longleftrightarrow> prefix t (c # s) \<or> (\<exists>a b. s = a @ t @ b)"
    by (auto simp: prefix_def Cons_eq_append_conv)
  then show ?case using Cons.IH by auto
qed auto

lemma str_contains_iff: "str_contains s t \<longleftrightarrow> sublist t s"
  using str_index_iff [of s t] by (simp add: str_contains_def sublist_def)

lemma str_index_Some: "str_index s t = Some i \<Longrightarrow> s = take i s @ t @ drop (i + length t) s"
proof (induction s arbitrary: i)
  case (Cons c s)
  then show ?case by (auto simp: prefix_def split: if_splits)
qed (simp split: if_splits)

section \<open>Lines\<close>

lemma split_at_nonempty [simp]: "split_at c s \<noteq> []"
  by (induction s) (auto split: list.splits)

lemma split_at_parts: "l \<in> set (split_at c s) \<Longrightarrow> c \<notin> set l"
  by (induction s arbitrary: l) (auto split: list.splits if_splits)

lemma split_at_append: "c \<notin> set a \<Longrightarrow> split_at c (a @ s) = (a @ hd (split_at c s)) # tl (split_at c s)"
  by (induction a) (auto split: list.splits)

text \<open>A text without the separator lies in the whole exactly when it lies in one of the parts.\<close>

lemma sublist_split_at:
  assumes "t \<noteq> []" "c \<notin> set t"
  shows "(\<exists>l \<in> set (split_at c s). sublist t l) \<longleftrightarrow> sublist t s"
proof (induction "length s" arbitrary: s rule: less_induct)
  case less
  show ?case
  proof (cases "c \<in> set s")
    case False
    then show ?thesis using split_at_append [OF False, of "[]"] by simp
  next
    case True
    then obtain a r where s: "s = a @ c # r" "c \<notin> set a"
      by (metis split_list_first)
    have "sublist t s \<longleftrightarrow> sublist t a \<or> sublist t r"
    proof
      assume "sublist t s"
      then obtain x y where xy: "a @ c # r = x @ t @ y" by (auto simp: s sublist_def)
      then consider us where "a = x @ us" "us @ c # r = t @ y" | us where "a @ us = x" "c # r = us @ t @ y"
        by (auto simp: append_eq_append_conv2)
      then show "sublist t a \<or> sublist t r"
      proof cases
        case (1 us)
        then obtain vs where "us = t @ vs"
          using assms(2) by (auto simp: append_eq_append_conv2 append_eq_Cons_conv Cons_eq_append_conv)
        then show ?thesis using 1 by (auto simp: sublist_def)
      next
        case (2 us)
        then show ?thesis using assms by (cases us) (auto simp: sublist_def append_eq_Cons_conv Cons_eq_append_conv)
      qed
    next
      have "sublist a (a @ c # r)" "sublist r ((a @ [c]) @ r)" by (rule sublist_append_rightI sublist_append_leftI)+
      moreover assume "sublist t a \<or> sublist t r"
      ultimately show "sublist t s" unfolding s by (auto intro: sublist_order.order.trans)
    qed
    moreover have "split_at c s = a # split_at c r"
      using s split_at_append [of c a "c # r"] by simp
    ultimately show ?thesis using less [of r] s by simp
  qed
qed

text \<open>Lines the scanner takes whole, and its behaviour on a text made of them.\<close>

definition plain_line :: "string \<Rightarrow> bool" where
  "plain_line l = (nl \<notin> set l \<and> length l < MaxScanTokenSize \<and> (l = [] \<or> last l \<noteq> cr))"

lemma dropCR_plain: "plain_line l \<Longrightarrow> dropCR l = l"
  by (auto simp: plain_line_def dropCR_def)

lemma scan_lines_Nil [simp]: "scan_lines [] = []"
  by (simp add: scan_lines.simps)

lemma takeWhile_line:
  "nl \<notin> set l \<Longrightarrow> takeWhile (\<lambda>c. c \<noteq> nl) l = l"
  "nl \<notin> set l \<Longrightarrow> takeWhile (\<lambda>c. c \<noteq> nl) (l @ nl # s) = l"
  by (induction l) auto

lemma scan_lines_last: "plain_line l \<Longrightarrow> l \<noteq> [] \<Longrightarrow> scan_lines l = [l]"
  by (subst scan_lines.simps) (simp add: takeWhile_line dropCR_plain plain_line_def)

lemma scan_lines_line: "plain_line l \<Longrightarrow> scan_lines (l @ nl # s) = l # scan_lines s"
  by (subst scan_lines.simps) (simp add: takeWhile_line dropCR_plain plain_line_def)

lemma scan_lines_too_long:
  assumes "nl \<notin> set l" "MaxScanTokenSize \<le> length l"
  shows "scan_lines (l @ nl # s) = []" "scan_lines l = []"
  using assms by (subst scan_lines.simps, simp add: takeWhile_line)+

lemma scan_lines_join:
  assumes "ls \<noteq> []" "\<forall>l \<in> set ls. plain_line l" "last ls \<noteq> []"
  shows "scan_lines (str_join [nl] ls) = ls"
  using assms
proof (induction ls rule: induct_list012)
  case (3 x y zs)
  then show ?case using scan_lines_line [of x "str_join [nl] (y # zs)"] by simp
qed (simp_all add: scan_lines_last)

end
