(* ===== verification/Test_Utils.thy ===== *)
theory Test_Utils
  imports Go_Text Go_Stdlib Operator_Errors
begin

text \<open>
  The helpers of the end-to-end tests, \<open>test/utils/utils.go\<close>. The processes they start, the working
  directory, the environment and the files are the parameter \<open>os\<close> over a state of the machine; the
  commands run and the lines written to \<open>GinkgoWriter\<close> are recorded.
\<close>

record exec_cmd =
  cmd_Args :: "string list"
  cmd_Dir :: string
  cmd_Env :: "string list"

text \<open>\<open>exec.Command\<close>\<close>

definition Command :: "string \<Rightarrow> string list \<Rightarrow> exec_cmd" where
  "Command name args = \<lparr>cmd_Args = name # args, cmd_Dir = [], cmd_Env = []\<rparr>"

record 's os =
  os_Getwd :: "'s \<Rightarrow> string \<times> go_error option"
  os_Chdir :: "string \<Rightarrow> 's \<Rightarrow> go_error option \<times> 's"
  os_Environ :: "'s \<Rightarrow> string list"
  os_LookupEnv :: "'s \<Rightarrow> string \<Rightarrow> string option"
  os_CombinedOutput :: "exec_cmd \<Rightarrow> 's \<Rightarrow> (string \<times> go_error option) \<times> 's"
  os_Output :: "exec_cmd \<Rightarrow> 's \<Rightarrow> (string \<times> go_error option) \<times> 's"
  os_ReadFile :: "string \<Rightarrow> 's \<Rightarrow> string result"
  os_WriteFile :: "string \<Rightarrow> string \<Rightarrow> 's \<Rightarrow> go_error option \<times> 's"

record 's machine =
  mc_State :: 's
  mc_Ran :: "exec_cmd list"
  mc_Log :: "string list"

definition log_line :: "string \<Rightarrow> 's machine \<Rightarrow> 's machine" where
  "log_line l w = w\<lparr>mc_Log := mc_Log w @ [l]\<rparr>"

definition certmanagerVersion :: string where "certmanagerVersion = ''v1.20.2''"

definition certmanagerURL :: string where
  "certmanagerURL = ''https://github.com/cert-manager/cert-manager/releases/download/'' @
     certmanagerVersion @ ''/cert-manager.yaml''"

definition defaultKindBinary :: string where "defaultKindBinary = ''kind''"
definition defaultKindCluster :: string where "defaultKindCluster = ''kind''"

definition warnError :: "go_error \<Rightarrow> 's machine \<Rightarrow> 's machine" where
  "warnError err w = log_line (''warning: '' @ error_text err @ [nl]) w"

section \<open>Running commands\<close>

definition GetProjectDir :: "'s os \<Rightarrow> 's machine \<Rightarrow> string \<times> go_error option" where
  "GetProjectDir os w =
     (case os_Getwd os (mc_State w) of
        (wd, Some err) \<Rightarrow> (wd, Some (WrapError ''failed to get current working directory: '' err))
      | (wd, None) \<Rightarrow> (ReplaceAll ''/test/e2e'' [] wd, None))"

definition Run :: "'s os \<Rightarrow> exec_cmd \<Rightarrow> 's machine \<Rightarrow> (string \<times> go_error option) \<times> 's machine" where
  "Run os cmd w =
     (let dir = fst (GetProjectDir os w);
          cmd = cmd\<lparr>cmd_Dir := dir\<rparr>;
          (e, s) = os_Chdir os (cmd_Dir cmd) (mc_State w);
          w = w\<lparr>mc_State := s\<rparr>;
          w = (case e of None \<Rightarrow> w | Some err \<Rightarrow> log_line (''chdir dir: '' @ quote (error_text err) @ [nl]) w);
          cmd = cmd\<lparr>cmd_Env := os_Environ os (mc_State w) @ [''GO111MODULE=on'']\<rparr>;
          command = str_join '' '' (cmd_Args cmd);
          w = log_line (''running: '' @ quote command @ [nl]) w;
          ((output, err), s) = os_CombinedOutput os cmd (mc_State w);
          w = w\<lparr>mc_State := s, mc_Ran := mc_Ran w @ [cmd]\<rparr>
      in case err of
           Some err \<Rightarrow>
             ((output, Some (WrapError (quote command @ '' failed with error '' @ quote output @ '': '') err)), w)
         | None \<Rightarrow> ((output, None), w))"

definition run_or_warn :: "'s os \<Rightarrow> exec_cmd \<Rightarrow> 's machine \<Rightarrow> 's machine" where
  "run_or_warn os cmd w =
     (case Run os cmd w of ((_, Some err), w) \<Rightarrow> warnError err w | ((_, None), w) \<Rightarrow> w)"

definition kubeSystemLeases :: "string list" where
  "kubeSystemLeases = [''cert-manager-cainjector-leader-election'', ''cert-manager-controller'']"

definition UninstallCertManager :: "'s os \<Rightarrow> 's machine \<Rightarrow> 's machine" where
  "UninstallCertManager os w =
     (let w = run_or_warn os (Command ''kubectl'' [''delete'', ''-f'', certmanagerURL]) w
      in foldl (\<lambda>w lease. run_or_warn os
           (Command ''kubectl'' [''delete'', ''lease'', lease, ''-n'', ''kube-system'', ''--ignore-not-found'',
              ''--force'', ''--grace-period=0'']) w) w kubeSystemLeases)"

definition wait_for_webhook :: exec_cmd where
  "wait_for_webhook =
     Command ''kubectl'' [''wait'', ''deployment.apps/cert-manager-webhook'', ''--for'', ''condition=Available'',
       ''--namespace'', ''cert-manager'', ''--timeout'', ''5m'']"

definition InstallCertManager :: "'s os \<Rightarrow> 's machine \<Rightarrow> go_error option \<times> 's machine" where
  "InstallCertManager os w =
     (case Run os (Command ''kubectl'' [''apply'', ''-f'', certmanagerURL]) w of
        ((_, Some err), w) \<Rightarrow> (Some err, w)
      | ((_, None), w) \<Rightarrow>
          (let ((_, err), w) = Run os wait_for_webhook w in (err, w)))"

section \<open>Reading their output\<close>

definition GetNonEmptyLines :: "string \<Rightarrow> string list" where
  "GetNonEmptyLines output = filter (\<lambda>element. element \<noteq> []) (split_at nl output)"

definition certManagerCRDs :: "string list" where
  "certManagerCRDs =
     [''certificates.cert-manager.io'', ''issuers.cert-manager.io'', ''clusterissuers.cert-manager.io'',
      ''certificaterequests.cert-manager.io'', ''orders.acme.cert-manager.io'',
      ''challenges.acme.cert-manager.io'']"

definition IsCertManagerCRDsInstalled :: "'s os \<Rightarrow> 's machine \<Rightarrow> bool \<times> 's machine" where
  "IsCertManagerCRDsInstalled os w =
     (case Run os (Command ''kubectl'' [''get'', ''crds'']) w of
        ((_, Some err), w) \<Rightarrow> (False, w)
      | ((output, None), w) \<Rightarrow>
          (let crdList = GetNonEmptyLines output
           in (list_ex (\<lambda>crd. list_ex (\<lambda>line. str_contains line crd) crdList) certManagerCRDs, w)))"

definition LoadImageToKindClusterWithName :: "'s os \<Rightarrow> string \<Rightarrow> 's machine \<Rightarrow> go_error option \<times> 's machine" where
  "LoadImageToKindClusterWithName os name w =
     (let cluster = (case os_LookupEnv os (mc_State w) ''KIND_CLUSTER'' of
                       Some v \<Rightarrow> v | None \<Rightarrow> defaultKindCluster);
          kindOptions = [''load'', ''docker-image'', name, ''--name'', cluster];
          kindBinary = (case os_LookupEnv os (mc_State w) ''KIND'' of
                          Some v \<Rightarrow> v | None \<Rightarrow> defaultKindBinary);
          ((_, err), w) = Run os (Command kindBinary kindOptions) w
      in (err, w))"

definition GatewayAPICRDDir :: "'s os \<Rightarrow> 's machine \<Rightarrow> (string \<times> go_error option) \<times> 's machine" where
  "GatewayAPICRDDir os w =
     (let cmd = Command ''go'' [''list'', ''-m'', ''-f'', ''{{.Dir}}'', ''sigs.k8s.io/gateway-api''];
          ((out, err), s) = os_Output os cmd (mc_State w);
          w = w\<lparr>mc_State := s, mc_Ran := mc_Ran w @ [cmd]\<rparr>
      in case err of
           Some err \<Rightarrow>
             (([], Some (WrapError ''failed to locate the sigs.k8s.io/gateway-api module: '' err)), w)
         | None \<Rightarrow> ((path_join [TrimSpace out, ''config'', ''crd'', ''standard''], None), w))"

section \<open>Editing files\<close>

text \<open>
  The loop over the target's lines: each without its prefix, a newline between two of them.
\<close>

definition uncommented :: "string \<Rightarrow> string list \<Rightarrow> string" where
  "uncommented pre ls = str_join [nl] (map (\<lambda>l. TrimPrefix l pre) ls)"

definition UncommentCode :: "'s os \<Rightarrow> string \<Rightarrow> string \<Rightarrow> string \<Rightarrow> 's machine \<Rightarrow> go_error option \<times> 's machine" where
  "UncommentCode os filename target pre w =
     (case os_ReadFile os filename (mc_State w) of
        Inl err \<Rightarrow> (Some (WrapError (''failed to read file '' @ quote filename @ '': '') err), w)
      | Inr content \<Rightarrow>
     (case str_index content target of
        None \<Rightarrow>
          (Some (PlainError (''unable to find the code '' @ quote target @ '' to be uncommented'')), w)
      | Some idx \<Rightarrow>
     (let ls = scan_lines target
      in if ls = [] then (None, w)
         else
           (let out = take idx content @ uncommented pre ls @ drop (idx + length target) content;
                (e, s) = os_WriteFile os filename out (mc_State w);
                w = w\<lparr>mc_State := s\<rparr>
            in case e of
                 Some err \<Rightarrow> (Some (WrapError (''failed to write file '' @ quote filename @ '': '') err), w)
               | None \<Rightarrow> (None, w)))))"

section \<open>Editing: commenting undone\<close>

lemma TrimPrefix_append [simp]: "TrimPrefix (p @ s) p = s"
  by (simp add: TrimPrefix_def)

lemma uncommented_commented: "uncommented pre (map ((@) pre) ls) = str_join [nl] ls"
  by (simp add: uncommented_def comp_def)

text \<open>What \<open>UncommentCode\<close> does once the target is found and has a first line.\<close>

lemma UncommentCode_found:
  assumes "os_ReadFile os filename (mc_State w) = Inr content" "str_index content target = Some (length a)"
    "content = a @ target @ b" "scan_lines target \<noteq> []"
  shows "UncommentCode os filename target pre w =
     (let (e, s) = os_WriteFile os filename (a @ uncommented pre (scan_lines target) @ b) (mc_State w)
      in (map_option (WrapError (''failed to write file '' @ quote filename @ '': '')) e, w\<lparr>mc_State := s\<rparr>))"
  using assms(1,2,4) by (auto simp: UncommentCode_def assms(3) Let_def split: prod.split option.split)

text \<open>
  C40: Uncommenting undoes commenting: when the target is lines each commented with the prefix, the
  file is rewritten with these lines bare and everything around them unchanged, and the outcome is
  that of the write. The lines are ones a scanner takes whole: below 64 KB, without a carriage return at
  their end, the last one not empty.
\<close>

theorem uncommenting_undoes_commenting:
  assumes "target = str_join [nl] (map ((@) pre) ls)" and "ls \<noteq> []"
    and "\<forall>l \<in> set ls. plain_line (pre @ l)" and "pre @ last ls \<noteq> []"
    and "os_ReadFile os filename (mc_State w) = Inr (a @ target @ b)"
    and "str_index (a @ target @ b) target = Some (length a)"
  shows "UncommentCode os filename target pre w =
     (let (e, s) = os_WriteFile os filename (a @ str_join [nl] ls @ b) (mc_State w)
      in (map_option (WrapError (''failed to write file '' @ quote filename @ '': '')) e, w\<lparr>mc_State := s\<rparr>))"
proof -
  have "scan_lines target = map ((@) pre) ls"
    unfolding assms(1) using assms(2-4) by (intro scan_lines_join) (auto simp: last_map)
  then show ?thesis
    using UncommentCode_found [OF assms(5,6) refl, of pre] assms(2) by (simp add: uncommented_commented)
qed

text \<open>A machine with one file for the witness.\<close>

definition one_file :: "string os" where
  "one_file =
     \<lparr>os_Getwd = (\<lambda>s. (''/project/test/e2e'', None)), os_Chdir = (\<lambda>d s. (None, s)), os_Environ = (\<lambda>s. []),
      os_LookupEnv = (\<lambda>s k. None), os_CombinedOutput = (\<lambda>c s. (([], None), s)),
      os_Output = (\<lambda>c s. (([], None), s)), os_ReadFile = (\<lambda>f s. Inr s), os_WriteFile = (\<lambda>f c s. (None, c))\<rparr>"

theorem uncommenting_undoes_commenting_witness:
  "UncommentCode one_file ''kustomization.yaml'' (''#- a'' @ [nl] @ ''#- b'') ''#''
       \<lparr>mc_State = ''x:'' @ [nl] @ ''#- a'' @ [nl] @ ''#- b'' @ [nl] @ ''y'', mc_Ran = [], mc_Log = []\<rparr> =
     (None, \<lparr>mc_State = ''x:'' @ [nl] @ ''- a'' @ [nl] @ ''- b'' @ [nl] @ ''y'', mc_Ran = [], mc_Log = []\<rparr>)"
  using uncommenting_undoes_commenting [of "''#- a'' @ [nl] @ ''#- b''" "''#''" "[''- a'', ''- b'']" one_file
      "''kustomization.yaml''"
      "\<lparr>mc_State = ''x:'' @ [nl] @ ''#- a'' @ [nl] @ ''#- b'' @ [nl] @ ''y'', mc_Ran = [], mc_Log = []\<rparr>"
      "''x:'' @ [nl]" "[nl] @ ''y''"]
  by (simp add: plain_line_def one_file_def MaxScanTokenSize_def)

text \<open>
  A line the scanner cannot hold ends the copying: the rest of the target is dropped from the file,
  and no error is returned.
\<close>

lemma UncommentCode_overlong:
  assumes "target = l @ nl # long @ rest" "plain_line l" "nl \<notin> set long" "MaxScanTokenSize \<le> length long"
    and "rest = [] \<or> hd rest = nl"
    and "os_ReadFile os filename (mc_State w) = Inr (a @ target @ b)"
    and "str_index (a @ target @ b) target = Some (length a)"
    and "os_WriteFile os filename (a @ TrimPrefix l pre @ b) (mc_State w) = (None, s)"
  shows "UncommentCode os filename target pre w = (None, w\<lparr>mc_State := s\<rparr>)"
proof -
  have "scan_lines (long @ rest) = []"
    using assms(3-5) scan_lines_too_long by (cases rest) auto
  then have "scan_lines target = [l]"
    using assms(1) scan_lines_line [OF assms(2), of "long @ rest"] by simp
  then show ?thesis
    using UncommentCode_found [OF assms(6,7) refl, of pre] assms(8) by (simp add: uncommented_def)
qed

section \<open>The cert-manager helpers\<close>

lemma Run_ran: "map cmd_Args (mc_Ran (snd (Run os cmd w))) = map cmd_Args (mc_Ran w) @ [cmd_Args cmd]"
  by (auto simp: Run_def Let_def log_line_def split: prod.split option.split)

lemma run_or_warn_ran: "map cmd_Args (mc_Ran (run_or_warn os cmd w)) = map cmd_Args (mc_Ran w) @ [cmd_Args cmd]"
proof -
  obtain out e w' where "Run os cmd w = ((out, e), w')" by (metis surj_pair)
  then show ?thesis
    using Run_ran [of os cmd w] by (auto simp: run_or_warn_def warnError_def log_line_def split: option.split)
qed

text \<open>
  Cleaning up after cert-manager runs all of its three commands, in order, whatever fails on the
  way; installing it runs the second command exactly when the first succeeded, and reports the first
  failure.
\<close>

theorem cert_manager_commands:
  "map cmd_Args (mc_Ran (UninstallCertManager os w)) = map cmd_Args (mc_Ran w) @
     [[''kubectl'', ''delete'', ''-f'', certmanagerURL],
      [''kubectl'', ''delete'', ''lease'', ''cert-manager-cainjector-leader-election'', ''-n'', ''kube-system'',
       ''--ignore-not-found'', ''--force'', ''--grace-period=0''],
      [''kubectl'', ''delete'', ''lease'', ''cert-manager-controller'', ''-n'', ''kube-system'',
       ''--ignore-not-found'', ''--force'', ''--grace-period=0'']] \<and>
   (let applied = Run os (Command ''kubectl'' [''apply'', ''-f'', certmanagerURL]) w;
        waited = Run os wait_for_webhook (snd applied);
        installed = InstallCertManager os w
    in map cmd_Args (mc_Ran (snd installed)) = map cmd_Args (mc_Ran w) @
         [''kubectl'', ''apply'', ''-f'', certmanagerURL] #
         (if snd (fst applied) = None then [cmd_Args wait_for_webhook] else []) \<and>
       fst installed = (if snd (fst applied) = None then snd (fst waited) else snd (fst applied)))"
proof (intro conjI)
  show "map cmd_Args (mc_Ran (UninstallCertManager os w)) = map cmd_Args (mc_Ran w) @
     [[''kubectl'', ''delete'', ''-f'', certmanagerURL],
      [''kubectl'', ''delete'', ''lease'', ''cert-manager-cainjector-leader-election'', ''-n'', ''kube-system'',
       ''--ignore-not-found'', ''--force'', ''--grace-period=0''],
      [''kubectl'', ''delete'', ''lease'', ''cert-manager-controller'', ''-n'', ''kube-system'',
       ''--ignore-not-found'', ''--force'', ''--grace-period=0'']]"
    by (simp add: UninstallCertManager_def kubeSystemLeases_def run_or_warn_ran Command_def)
next
  let ?apply = "Command ''kubectl'' [''apply'', ''-f'', certmanagerURL]"
  obtain out e w1 where a: "Run os ?apply w = ((out, e), w1)" by (metis surj_pair)
  obtain out' e' w2 where b: "Run os wait_for_webhook w1 = ((out', e'), w2)" by (metis surj_pair)
  show "let applied = Run os ?apply w; waited = Run os wait_for_webhook (snd applied);
        installed = InstallCertManager os w
    in map cmd_Args (mc_Ran (snd installed)) = map cmd_Args (mc_Ran w) @
         [''kubectl'', ''apply'', ''-f'', certmanagerURL] #
         (if snd (fst applied) = None then [cmd_Args wait_for_webhook] else []) \<and>
       fst installed = (if snd (fst applied) = None then snd (fst waited) else snd (fst applied))"
    using Run_ran [of os ?apply w] Run_ran [of os wait_for_webhook w1] a b
    by (cases e) (simp_all add: InstallCertManager_def Command_def)
qed

text \<open>
  The check for cert-manager answers yes exactly when \<open>kubectl get crds\<close> succeeds and the name of
  one of the six definitions occurs in its output; that it looks line by line makes no difference.
\<close>

theorem crds_installed_iff_listed:
  "fst (IsCertManagerCRDsInstalled os w) \<longleftrightarrow>
     (\<exists>out w'. Run os (Command ''kubectl'' [''get'', ''crds'']) w = ((out, None), w') \<and>
        (\<exists>crd \<in> set certManagerCRDs. sublist crd out))"
proof -
  have name: "crd \<noteq> [] \<and> nl \<notin> set crd" if "crd \<in> set certManagerCRDs" for crd
    using that by (auto simp: certManagerCRDs_def)
  have lines: "list_ex (\<lambda>line. str_contains line crd) (GetNonEmptyLines out) \<longleftrightarrow> sublist crd out"
    if "crd \<in> set certManagerCRDs" for crd out
    using sublist_split_at [of crd nl out] name [OF that]
    by (auto simp: list_ex_iff GetNonEmptyLines_def str_contains_iff)
  obtain out e w' where run: "Run os (Command ''kubectl'' [''get'', ''crds'']) w = ((out, e), w')"
    by (metis surj_pair)
  show ?thesis
    using lines by (cases e) (auto simp: IsCertManagerCRDsInstalled_def run list_ex_iff [of _ certManagerCRDs])
qed

end
