(* ===== verification/Api_Registration.thy ===== *)
theory Api_Registration
  imports Operator_Errors
begin

text \<open>
  Registration of the API types: \<open>api/v1alpha1/groupversion_info.go\<close>, the \<open>init\<close> function of
  \<open>polarscluster_types.go\<close> and that of \<open>cmd/main.go\<close>. The scheme and the registration functions of
  the libraries are parameters. \<open>SchemeBuilder\<close> is a package variable, and \<open>AddToScheme\<close> the method
  value bound to its address: it sees the function that \<open>init\<close> registers after it was bound.
\<close>

record group_version =
  gv_Group :: string
  gv_Version :: string

definition SchemeGroupVersion :: group_version where
  "SchemeGroupVersion = \<lparr>gv_Group = ''compute.pola.rs'', gv_Version = ''v1alpha1''\<rparr>"

definition GroupVersion :: group_version where
  "GroupVersion = SchemeGroupVersion"

record 's scheme_lib =
  sl_AddToGroupVersion :: "group_version \<Rightarrow> 's \<Rightarrow> 's"
  sl_AddKnownTypes :: "group_version \<Rightarrow> string list \<Rightarrow> 's \<Rightarrow> 's"
  sl_clientgo :: "'s \<Rightarrow> 's result"
  sl_gateway :: "'s \<Rightarrow> 's result"

type_synonym 's scheme_builder = "('s \<Rightarrow> 's result) list"

text \<open>The variable as its initialiser leaves it, and after the \<open>init\<close> function.\<close>

definition SchemeBuilder :: "'s scheme_lib \<Rightarrow> 's scheme_builder" where
  "SchemeBuilder sl = [\<lambda>scheme. Inr (sl_AddToGroupVersion sl SchemeGroupVersion scheme)]"

definition api_init :: "'s scheme_lib \<Rightarrow> 's scheme_builder \<Rightarrow> 's scheme_builder" where
  "api_init sl sb =
     sb @ [\<lambda>s. Inr (sl_AddKnownTypes sl SchemeGroupVersion [''PolarsCluster'', ''PolarsClusterList''] s)]"

text \<open>The functions of the builder in order, up to the first error.\<close>

fun AddToScheme :: "'s scheme_builder \<Rightarrow> 's \<Rightarrow> 's result" where
  "AddToScheme [] s = Inr s"
| "AddToScheme (f # sb) s = (case f s of Inl err \<Rightarrow> Inl err | Inr s \<Rightarrow> AddToScheme sb s)"

text \<open>The \<open>init\<close> function of \<open>main\<close>; \<open>utilruntime.Must\<close> panics on an error.\<close>

definition Must :: "'s result \<Rightarrow> 's result" where
  "Must r = (case r of Inl err \<Rightarrow> Inl (PanicError (error_text err)) | Inr s \<Rightarrow> Inr s)"

definition main_init :: "'s scheme_lib \<Rightarrow> 's \<Rightarrow> 's result" where
  "main_init sl scheme =
     (case Must (sl_clientgo sl scheme) of
        Inl e \<Rightarrow> Inl e
      | Inr scheme \<Rightarrow>
     (case Must (AddToScheme (api_init sl (SchemeBuilder sl)) scheme) of
        Inl e \<Rightarrow> Inl e
      | Inr scheme \<Rightarrow> Must (sl_gateway sl scheme)))"

section \<open>What is registered\<close>

lemma AddToScheme_api:
  "AddToScheme (api_init sl (SchemeBuilder sl)) s =
     Inr (sl_AddKnownTypes sl SchemeGroupVersion [''PolarsCluster'', ''PolarsClusterList'']
       (sl_AddToGroupVersion sl SchemeGroupVersion s))"
  by (simp add: api_init_def SchemeBuilder_def)

text \<open>The operator's own registration never fails: \<open>init\<close> panics exactly when a library's does.\<close>

lemma main_init_panics_iff:
  "isl (main_init sl s) \<longleftrightarrow>
     (case sl_clientgo sl s of
        Inl e \<Rightarrow> True
      | Inr s' \<Rightarrow> isl (sl_gateway sl (sl_AddKnownTypes sl SchemeGroupVersion
          [''PolarsCluster'', ''PolarsClusterList''] (sl_AddToGroupVersion sl SchemeGroupVersion s'))))"
  by (auto simp: main_init_def Must_def AddToScheme_api split: sum.splits)

lemma main_init_error: "main_init sl s = Inl e \<Longrightarrow> \<exists>m. e = PanicError m"
  by (auto simp: main_init_def Must_def AddToScheme_api split: sum.splits)

end
