(* ===== verification/Spec2Isabelle.thy ===== *)
theory Spec2Isabelle
  imports Pod_Properties Pool_Convergence Steady_State Operator_Run Copy_Properties Test_Utils Api_Registration
begin

text \<open>
  This library models the Polars Kubernetes operator: a controller that watches \<open>PolarsCluster\<close> objects
  and keeps, for each of them, one scheduler pod, a pool of worker pods, three Services, two Gateway
  API routes and up to two service accounts. All of the operator's own code under \<open>src/internal/controller\<close>,
  the types of \<open>src/api/v1alpha1\<close> with their generated copy functions, \<open>src/cmd/main.go\<close> and the
  end-to-end helpers of \<open>src/test/utils\<close> are modelled; a definition carries the name of the Go function,
  type or constant it translates (with an \<open>m\<close> in front for a struct as it lies in memory).

  \<^bold>\<open>The program.\<close> \<open>main\<close> assembles server options and a manager, asks whether the Gateway API is
  installed, registers the controller with the kinds it watches and starts. For every change the
  manager calls \<open>Reconcile\<close> with the name of a cluster. A reconcile reads the cluster, checks its
  version, and runs five steps in order: service accounts, scheduler pod, Services (three in parallel),
  worker pool (creations in parallel), routes. Every step returns a status or an error. A
  \<open>specError\<close>, which only a change of the spec can cure, is written to the status conditions; any other
  error is returned and retried by the work queue. At the end the conditions and the status are
  written once and a change of readiness is announced by an event. The pods are built by merging the
  user's template with a pod spec computed from the cluster's settings, whose hash is stamped on the
  pod as a label and decides, on later reconciles, whether the pod is of the current template.
  The labels of a pod are the label map of the user's template where it has one, so building a pod changes
  the spec of the cluster object, and with it what the status update sends.

  \<^bold>\<open>State.\<close> Go values are HOL values: structs are records, pointers that may be nil are options,
  \<open>int32\<close> is a 32-bit word read with \<open>sint\<close>, strings are lists of characters, maps are partial functions.
  Errors are the trees of \<open>Operator_Errors.go_error\<close>, and a run-time panic is one of its values, so that no
  index out of range or nil dereference is hidden. The API server is not code of the repository: its
  operations are the record \<open>Api_Client.api_client\<close> over an abstract server state, and a \<open>world\<close> holds that
  state together with the calls made and the events recorded so far, oldest first. Each step takes a
  world and returns a result and a world. Aliasing matters in two places, which have explicit memories.
  In the environment builder all builders of one root append to one slice, which is a cell of a heap.
  The cluster object a reconcile works on is a deep copy of the one in the informer's cache, and labelling a
  pod writes into the label map of the user's template in that copy: \<open>Go_Memory\<close> to \<open>Label_Sharing\<close> model the
  copy and these writes on a memory of cells, to which pointers, slices and maps refer; \<open>Template_Labels\<close> gives
  the effect of the writes on the value a \<open>Reconcile\<close> goes on with, and \<open>labelling_shows_in_the_spec\<close> relates the two.

  \<^bold>\<open>Theories.\<close> In the order of imports:
  \<^item> \<open>Operator_Prelude\<close>: collections of simplification rules and lemmas on lists, maps and prefixes.
  \<^item> \<open>Go_Stdlib\<close>: what the code uses of Go: decimal and duration texts, quoting, the FNV-1a hash.
  \<^item> \<open>Core_Types\<close>, \<open>Cluster_Types\<close>: the Kubernetes objects as far as the code reads or writes them, and the
    custom resource of \<open>polarscluster_types.go\<close>.
  \<^item> \<open>Operator_Errors\<close>: \<open>errors.go\<close>, with \<open>errors.As\<close> as a search of the error tree.
  \<^item> \<open>Env_Builder\<close>: \<open>env_builder.go\<close>; a locale says that a writer only appends, below its own prefix.
  \<^item> \<open>Pod_Common\<close>, \<open>Pod_Parts\<close>, \<open>Composed_Runtime\<close>: \<open>pod_common.go\<close>: settings, the version gate, labels,
    object names, licenses, probes and the composed runtime; locales for volume providers and names.
  \<^item> \<open>Pod_Template\<close>: \<open>podspec_merge.go\<close> and the template hash; the locale \<open>pod_builder\<close> is the contract both
    templates keep.
  \<^item> \<open>Service_Accounts\<close>, \<open>Reconcile_Accounts\<close>: \<open>serviceaccount.go\<close>.
  \<^item> \<open>Scheduler_Pod\<close>, \<open>Worker_Pod\<close>: \<open>scheduler_pod.go\<close> and \<open>worker_pod.go\<close>.
  \<^item> \<open>Api_Client\<close>: the API as the reconcilers see it, and the locale \<open>api_handler\<close>: a step only appends calls,
    each of a kind it is allowed to make. Every step of the reconciler interprets it.
  \<^item> \<open>Pod_Readiness\<close>, \<open>Scheduler_Reconcile\<close>, \<open>Worker_Pool\<close>, \<open>Services\<close>, \<open>Routes\<close>, \<open>Reconcile\<close>:
    \<open>polarscluster_controller.go\<close> and \<open>routes.go\<close>. Each step is given as written, then as a case
    distinction on the answers of the API (the lemmas ending in \<open>_eq\<close>), then its allowed calls.
  \<^item> \<open>Template_Labels\<close>: the cluster object after its pods were labelled, and that no later step reads these labels.
  \<^item> \<open>Interleaving\<close>: pieces of work that run concurrently, cut at their calls.
  \<^item> \<open>Operator_Main\<close>: \<open>cmd/main.go\<close> and \<open>SetupWithManager\<close>.
  \<^item> \<open>Operator_Run\<close>: the operator over time, an inductive step relation of reconciles and changes from outside.
  \<^item> \<open>Api_Registration\<close>: \<open>groupversion_info.go\<close> and the \<open>init\<close> functions.
  \<^item> \<open>Go_Memory\<close>, \<open>Copy_Laws\<close>: cells, addresses, slices and maps; the statement forms of a generated copy
    and the law \<open>copies\<close> they keep.
  \<^item> \<open>Cluster_Memory\<close>, \<open>Deep_Copy\<close>: the structs as they lie in memory, and the functions of
    \<open>zz_generated.deepcopy.go\<close>.
  \<^item> \<open>Cluster_Reading\<close>, \<open>Deep_Copy_Laws\<close>, \<open>Runtime_Objects\<close>: what a struct in memory reads as and which cells it
    reaches, the law of every copy function, and the locale \<open>api_object\<close>: what a copy of an API object guarantees.
  \<^item> \<open>Label_Sharing\<close>: the labelling of pods as writes to maps in memory.
  \<^item> \<open>Go_Text\<close>, \<open>Test_Utils\<close>: the string, scanner and path functions used by \<open>test/utils/utils.go\<close>, and that file.
  \<^item> \<open>Sample_Cluster\<close>: a concrete cluster, libraries and an in-memory server, so that the properties can
    be applied to runs of the model. It models no code of the repository.
  \<^item> \<open>Pod_Properties\<close>, \<open>Step_Properties\<close>, \<open>Pool_Convergence\<close>, \<open>Steady_State\<close>, \<open>Copy_Properties\<close> and this
    theory: the properties.

  \<^bold>\<open>What is shown.\<close> Here, over a whole \<open>Reconcile\<close>: the order of its calls and the single status write;
  that a status is Ready only, and always, when every part is; what may be deleted; which errors are
  returned and which recorded; which part of the spec a status update may carry changed; when it asks to be
  called again. In \<open>Step_Properties\<close>: the exact calls
  of the scheduler, pool and Services steps, the last under every interleaving, that
  Services, routes, workers and accounts refer to each other consistently. In \<open>Pool_Convergence\<close>: against
  a server that deletes gracefully and lists late, one
  reconcile brings the live pods to the spec and a later one, whose list has caught up, leaves them alone. In \<open>Steady_State\<close>: a reconcile of a
  cluster that is as its spec wants it creates and deletes no pod and creates no Service. In \<open>Operator_Run\<close>: over every
  history of reconciles and outside changes, no call that was ever made is unlawful. In \<open>Pod_Properties\<close>: the computed
  environments against reference lists, well-formed volumes, distinct variables, labels, the version
  gate and the hash. In \<open>Copy_Properties\<close>: all fifty copy functions are deep, copies and originals do not
  interfere, the labels written in memory are those of the value-based build, and they never reach the
  cached cluster. In \<open>Test_Utils\<close>: uncommenting undoes commenting, and the line-wise search for CRDs is exact.

  \<^bold>\<open>Parameters.\<close> Code that is not in the repository is an argument of the definitions: the API server,
  semantic versions (\<open>version_lib\<close>), JSON encoding, strategic merge and quantity printing (\<open>pod_lib\<close>),
  the condition helpers (\<open>cond_lib\<close>), \<open>SetControllerReference\<close>, \<open>IsControlledBy\<close>, \<open>CreateOrUpdate\<close>, the manager,
  the structs of the Kubernetes libraries in memory with their copy functions and the order in which Go ranges
  over a map (\<open>library\<close>), the scheme (\<open>scheme_lib\<close>), the machine the test helpers run on (\<open>os\<close>).
  Where a property needs their documented behaviour, it is a named hypothesis: \<open>condition_laws\<close>,
  \<open>owner_laws\<close>, \<open>names_kept\<close>, \<open>pod_server\<close>, \<open>api_errors_plain\<close>, \<open>lib_laws\<close>, \<open>nil_labels\<close>; each is met by a concrete
  instance. \<open>up_to_date\<close> and \<open>pods_accepted\<close> are conditions on one list and on one server, not assumed in general.

  \<^bold>\<open>Concurrency and bounds.\<close> \<open>workqueue.ParallelizeUntil\<close> runs its pieces in an order of its own. For the
  creations, which make one call each, \<open>r_Schedule n\<close> is the order of the pieces that ran; a cancelled
  context leaves some out, so a complete schedule is a hypothesis where one is needed
  (\<open>schedule_complete\<close>). For the Services, which make two calls each, \<open>r_Interleaving n\<close> says whose turn it
  is, call by call; two turns per piece finish it (\<open>interleaving_ok\<close>). No other bound is used: every
  function of the model is total, its loops being recursions over lists of the code.

  \<^bold>\<open>Not modelled.\<close> Import lists; log output of the operator; the parsing of command-line flags and the set-up of
  the logger (library calls); the scheme, a parameter of \<open>Api_Registration\<close>. The object pointer the API client
  fills in is the value it returns. The deep copies are made on memory, the reconciler works on the values
  read from it; \<open>Label_Sharing\<close> relates the two for the labelling of pods, and \<open>copies_do_not_interfere\<close>
  covers writes of any kind through the copy. Between \<open>make\<close> or \<open>new\<close> and the first assignment a fresh cell holds the source's value
  instead of zeros, which no code reads. Capacities of slices are not modelled, nor is sharing between the tail of
  one slice and another: a copy allocates an array of the visible length, and the owner reference set on a pod is
  not written into spare capacity of the template's slice. What the client decodes of the server's answer into
  the pod passed to \<open>Create\<close> is its result, and is not written back through the pod's label map. The test helpers
  keep no file modes.
\<close>

section \<open>A whole reconcile\<close>

text \<open>
  C1: The cluster is only ever reported Ready when all its parts are. In every status a reconcile
  writes, a true Ready condition comes with a true SchedulerReady, a true WorkerPoolReady and, when the
  spec asks for routes, a true RoutesReady condition, whichever way the reconcile went. The hypothesis
  is the documented behaviour of the condition helpers.
\<close>

theorem reported_ready_means_all_ready:
  assumes "condition_laws (r_Conditions r)"
    and "Reconcile vl vv r ns name w = (res, w')" and "UpdateStatus c' \<in> set (new_calls w w')"
    and "cond_true r c' conditionReady"
  shows "cond_true r c' conditionSchedulerReady \<and> cond_true r c' conditionWorkerPoolReady \<and>
     (route_requested c' \<longrightarrow> cond_true r c' conditionRoutesReady)"
  by (rule written_status_consistent [OF assms])

theorem reported_ready_means_all_ready_witness:
  "cond_true sample_reconciler run_written conditionReady \<and>
   cond_true sample_reconciler run_written conditionSchedulerReady \<and>
   cond_true sample_reconciler run_written conditionWorkerPoolReady"
proof -
  have laws: "condition_laws (r_Conditions sample_reconciler)" by (simp add: sample_condition_laws)
  have ready: "cond_true sample_reconciler run_written conditionReady"
    using finished_cluster_conditions(1) [OF laws] by (simp add: run_written_def run_status_def)
  from reported_ready_means_all_ready [OF laws sample_run sample_run_writes ready] ready show ?thesis by simp
qed

text \<open>
  C8: A reconcile reads its cluster first, then makes only calls its steps are allowed to make for that
  cluster, and writes the status at most once, as its very last call. What it writes is the cluster it
  read, with its generation marked as observed and its metadata unchanged. Its spec is the one read too,
  but for the labels of the pods built by then, which \<open>applyPodLabels\<close> and the stamping of the hash put
  into the label map of the user's pod template where it has one.
\<close>

theorem reconcile_call_order:
  assumes "Reconcile vl vv r ns name w = (res, w')"
  shows "\<exists>ks us. new_calls w w' = GetCluster ns name # ks @ us \<and>
     (ks @ us \<noteq> [] \<longrightarrow> (\<exists>c w1. read_cluster r ns name w = (Inr c, w1) \<and>
        list_all (reconcile_call r c) ks \<and> list_all (status_write r c) us \<and> length us \<le> 1))"
  by (rule Reconcile_calls [OF assms])

theorem reconcile_call_order_witness:
  "\<exists>ks us. new_calls run_start run_end = GetCluster ''ml'' ''demo'' # ks @ us \<and> length us \<le> 1"
proof -
  from reconcile_call_order [OF sample_run] obtain ks us where
    eq: "new_calls run_start run_end = GetCluster ''ml'' ''demo'' # ks @ us"
    and us: "ks @ us \<noteq> [] \<longrightarrow> (\<exists>c w1. read_cluster sample_reconciler ''ml'' ''demo'' run_start = (Inr c, w1) \<and>
        list_all (reconcile_call sample_reconciler c) ks \<and> list_all (status_write sample_reconciler c) us \<and> length us \<le> 1)"
    by blast
  from us have "length us \<le> 1" by (cases "ks @ us = []") auto
  with eq show ?thesis by blast
qed

text \<open>
  C21: The status update carries the spec the user wrote, but for labels of the operator's own. In every
  cluster object a reconcile writes, all of the spec outside the label maps of the two pod templates is
  the spec that was read, and in these maps every label keeps its value whose key is not one of the
  cluster, component, template-hash and \<open>app.kubernetes.io\<close> keys the operator stamps on pods.
\<close>

theorem written_spec_is_the_users:
  assumes "Reconcile vl vv r ns name w = (res, w')" and "UpdateStatus c' \<in> set (new_calls w w')"
  shows "\<exists>c w1. read_cluster r ns name w = (Inr c, w1) \<and>
    cl_Spec (without_template_labels c') = cl_Spec (without_template_labels c) \<and>
    (\<forall>k. k \<notin> operator_keys c componentScheduler \<longrightarrow> scheduler_template_label c' k = scheduler_template_label c k) \<and>
    (\<forall>k. k \<notin> operator_keys c componentWorker \<longrightarrow> worker_template_label c' k = worker_template_label c k)"
proof -
  from Reconcile_calls [OF assms(1)] assms(2) obtain c w1 ks us where c: "read_cluster r ns name w = (Inr c, w1)"
      "list_all (reconcile_call r c) ks" "list_all (status_write r c) us" "UpdateStatus c' \<in> set (ks @ us)"
    by auto
  then have "status_write r c (UpdateStatus c')"
    using no_status_in_steps [of r c c'] by (auto simp: list_all_iff)
  then have "cl_Meta c' = cl_Meta c" "cl_Spec c' \<in> written_specs (r_Pods r) c" by (auto simp: status_write_def)
  from c(1) written_specs_user [OF this(2,1)] show ?thesis by blast
qed

text \<open>A scheduler template with a label map, and a server that refuses the pod: the label map is written.\<close>

definition tagged_cluster :: PolarsCluster where
  "tagged_cluster =
     (sample_cluster 0)\<lparr>cl_Spec := (sample_spec 0)\<lparr>
        spec_Scheduler := Some \<lparr>sch_Services = None, sch_PodTemplate = Some sample_template, sch_ServiceAccount = None\<rparr>,
        spec_WorkerPool := (sample_workers 0)\<lparr>wp_ServiceAccount := None\<rparr>\<rparr>\<rparr>"

definition refusing :: "store reconciler" where
  "refusing = sample_reconciler\<lparr>r_Client := sample_client
     \<lparr>ac_CreatePod := \<lambda>p s. (Inl (StatusError Invalid ''no''), s)\<rparr>\<rparr>"

definition tagged_start :: "store world" where
  "tagged_start = \<lparr>w_api = (sample_store 0 [])\<lparr>s_cluster := Some tagged_cluster\<rparr>, w_calls = [], w_events = []\<rparr>"

lemma refusing_simps [simp]:
  "r_Pods refusing = sample_pods" "r_SetControllerReference refusing = sample_owner"
  "ac_CreatePod (r_Client refusing) p s = (Inl (StatusError Invalid ''no''), s)"
  "ac_GetPod (r_Client refusing) = store_get_pod"
  by (simp_all add: refusing_def sample_client_def)

lemma tagged_simps [simp]:
  "cl_Meta tagged_cluster = cl_Meta (sample_cluster 0)"
  "schedulerPodTemplateBase tagged_cluster = sample_template"
  "schedulerServiceAccountSpec tagged_cluster = None" "workerServiceAccountSpec tagged_cluster = None"
  by (simp_all add: tagged_cluster_def sample_with_def schedulerPodTemplateBase_def schedulerServiceAccountSpec_def
        workerServiceAccountSpec_def)

lemma tagged_pod:
  obtains p m where "desired_scheduler refusing tagged_cluster = Inr p"
    "sample_owner (cl_Meta tagged_cluster) (pod_Meta p) = Inr m"
    "scheduler_template_label (scheduler_labelled sample_pods tagged_cluster) clusterLabel = Some ''demo''"
proof -
  have b: "scheduler_buildable tagged_cluster"
    by (simp add: scheduler_buildable_def tagged_cluster_def sample_spec_def)
  obtain p where p: "BuildSchedulerPodTemplate sample_pods tagged_cluster = Inr p"
      "om_OwnerReferences (pod_Meta p) = []"
    by (simp add: BuildScheduler_buildable [OF b] sample_merge applyPodLabels_def sample_template_def)
  let ?p = "set_label templateHashLabel sample_hash p"
  have "pod_labels p clusterLabel = Some ''demo''"
    using scheduler_builder.built_selected [OF p(1)] by (simp add: selects_component_iff)
  then have "scheduler_template_label (scheduler_labelled sample_pods tagged_cluster) clusterLabel = Some ''demo''"
    by (simp add: scheduler_template_label_def labelled_scheduler_base [OF p(1) sample_hash_eq] sample_template_def
        clusterLabel_def templateHashLabel_def)
  moreover have "desired_scheduler refusing tagged_cluster = Inr ?p"
    by (simp add: desired_scheduler_def p(1) sample_hash_eq)
  moreover have "\<exists>m. sample_owner (cl_Meta tagged_cluster) (pod_Meta ?p) = Inr m"
    using p(2) by (simp add: sample_owner_def set_label_def)
  ultimately show ?thesis using that by blast
qed

lemma tagged_run:
  obtains res w' c' where
    "Reconcile sample_versions sample_limits refusing ''ml'' ''demo'' tagged_start = (res, w')"
    "UpdateStatus c' \<in> set (new_calls tagged_start w')" "cl_Spec c' = cl_Spec (scheduler_labelled sample_pods tagged_cluster)"
proof -
  obtain p m where p: "desired_scheduler refusing tagged_cluster = Inr p"
      "sample_owner (cl_Meta tagged_cluster) (pod_Meta p) = Inr m"
    by (rule tagged_pod)
  let ?w1 = "tagged_start\<lparr>w_calls := [GetCluster ''ml'' ''demo'']\<rparr>"
  have read: "call (GetCluster ''ml'' ''demo'') (ac_GetCluster (r_Client refusing) ''ml'' ''demo'') tagged_start
      = (Inr tagged_cluster, ?w1)"
    by (simp add: call_def refusing_def sample_client_def tagged_start_def)
  have version: "clusterVersion sample_versions sample_limits tagged_cluster = Inr (Some ''0.8.0'')"
    by (simp add: clusterVersion_def tagged_cluster_def sample_versions_def sample_limits_def sample_defs LatestVersion_def)
  have accounts: "reconcilePolarsClusterServiceAccounts refusing tagged_cluster ?w1 = (None, ?w1)"
    by (simp add: reconcilePolarsClusterServiceAccounts_def reconcileServiceAccount_def)
  have absent: "store_get_pod ns n (w_api tagged_start) = (Inl not_found, w_api tagged_start)" for ns n
    by (simp add: store_get_pod_def tagged_start_def sample_store_def)
  obtain w2 where step: "reconcileScheduler refusing tagged_cluster ?w1
      = (Inl (SpecError ''SchedulerPodRejected'' (StatusError Invalid ''no'')), w2)"
    and w2: "w_calls w2 = [GetCluster ''ml'' ''demo'', GetPod ''ml'' (schedulerPodName tagged_cluster), CreatePod (p\<lparr>pod_Meta := m\<rparr>)]"
    using p(2) by (simp add: reconcileScheduler_eq [OF p(1)] read_scheduler_def scheduler_read_def call_def absent IsNotFound_def
        not_found_def classified_def IsInvalid_def)
  let ?c = "scheduler_labelled sample_pods tagged_cluster"
  let ?se = "(''SchedulerPodRejected'', StatusError Invalid ''no'')"
  obtain res w' where run: "recordSpecError refusing ?c conditionSchedulerReady ?se w2 = (res, w')" by (metis surj_pair)
  have "Reconcile sample_versions sample_limits refusing ''ml'' ''demo'' tagged_start = (res, w')"
    by (simp add: Reconcile_def read version accounts step step_error_def run)
  moreover from recordSpecError_write [OF run]
  have "UpdateStatus (spec_error_cluster refusing ?c conditionSchedulerReady ?se) \<in> set (new_calls tagged_start w')"
    by (simp add: new_calls_def added_def w2 tagged_start_def)
  moreover have "cl_Spec (spec_error_cluster refusing ?c conditionSchedulerReady ?se) = cl_Spec ?c"
    using spec_error_cluster_same [of ?c refusing conditionSchedulerReady ?se] by (simp add: same_cluster_def)
  ultimately show ?thesis using that by blast
qed

theorem written_spec_is_the_users_witness:
  "\<exists>res w' c'. Reconcile sample_versions sample_limits refusing ''ml'' ''demo'' tagged_start = (res, w') \<and>
     UpdateStatus c' \<in> set (new_calls tagged_start w') \<and>
     scheduler_template_label c' clusterLabel = Some ''demo'' \<and> scheduler_template_label c' ''team'' = Some ''ml''"
proof -
  obtain res w' c' where run: "Reconcile sample_versions sample_limits refusing ''ml'' ''demo'' tagged_start = (res, w')"
    "UpdateStatus c' \<in> set (new_calls tagged_start w')" and c': "cl_Spec c' = cl_Spec (scheduler_labelled sample_pods tagged_cluster)"
    by (rule tagged_run)
  have read: "c = tagged_cluster" if "read_cluster refusing ''ml'' ''demo'' tagged_start = (Inr c, w1)" for c w1
    using that by (simp add: read_cluster_def call_def refusing_def sample_client_def tagged_start_def)
  have team: "''team'' \<notin> operator_keys tagged_cluster componentScheduler"
    by (auto simp: operator_keys_def clusterLabel_def componentLabel_def templateHashLabel_def standardLabels_def
        Let_def split: if_splits)
  have "scheduler_template_label c' ''team'' = scheduler_template_label tagged_cluster ''team''"
    using written_spec_is_the_users [OF run] read team by blast
  moreover have "scheduler_template_label c' = scheduler_template_label (scheduler_labelled sample_pods tagged_cluster)"
    by (simp add: scheduler_template_label_def schedulerPodTemplateBase_def c')
  moreover have "scheduler_template_label (scheduler_labelled sample_pods tagged_cluster) clusterLabel = Some ''demo''"
    by (rule tagged_pod)
  ultimately show ?thesis
    using run by (auto simp: scheduler_template_label_def sample_template_def)
qed

text \<open>
  The documented behaviour of the API client: its errors are the API server's, and the operator's own
  \<open>specError\<close> is not among them.
\<close>

definition api_errors_plain :: "'s api_client \<Rightarrow> bool" where
  "api_errors_plain cl \<longleftrightarrow>
     (\<forall>ns n s e. fst (ac_GetCluster cl ns n s) = Inl e \<longrightarrow> \<not> is_spec e) \<and>
     (\<forall>c s e. fst (ac_UpdateStatus cl c s) = Inl e \<longrightarrow> \<not> is_spec e) \<and>
     (\<forall>k ns n s e. fst (ac_GetRoute cl k ns n s) = Inl e \<longrightarrow> \<not> is_spec e) \<and>
     (\<forall>rt s e. fst (ac_DeleteRoute cl rt s) = Some e \<longrightarrow> \<not> is_spec e)"

lemma deleteOwnedRoute_plain:
  assumes "api_errors_plain (r_Client r)" "deleteOwnedRoute r c rt w = (Some e, w')"
  shows "\<not> is_spec e"
  using assms
  by (auto simp: deleteOwnedRoute_def api_errors_plain_def Let_def client_simps dest!: IgnoreNotFound_SomeD
        split: prod.splits sum.splits if_splits)

lemma targets_failures_plain:
  assumes "api_errors_plain (r_Client r)"
  shows "targets_failures r c ts w = (Inl e, w') \<Longrightarrow> \<not> is_spec e"
proof (induction ts arbitrary: w)
  case (Cons t ts)
  have "\<not> is_spec e" if "target_failures r c t w = (Inl e, w')"
    using that deleteOwnedRoute_plain [OF assms]
    by (auto simp: target_failures_def is_spec_def split: option.splits prod.splits)
  with Cons show ?case by (auto split: prod.splits sum.splits)
qed simp

lemma reconcileRoutes_plain:
  assumes "api_errors_plain (r_Client r)" "reconcileRoutes r c w = (Inl e, w')"
  shows "\<not> is_spec e"
proof (cases "r_GatewayAPIEnabled r")
  case True
  with assms targets_failures_plain [OF assms(1)] show ?thesis
    by (auto simp: reconcileRoutes_def reconcile_targets_eq split: prod.splits sum.splits)
next
  case False
  with assms show ?thesis by (simp add: reconcileRoutes_disabled)
qed

text \<open>
  C9: A mistake in the spec is recorded, never retried blindly. The error a reconcile returns, which
  makes the work queue call it again with growing delays, is never a \<open>specError\<close>: those end in the
  status instead.
\<close>

theorem spec_errors_are_not_returned:
  assumes "api_errors_plain (r_Client r)" "Reconcile vl vv r ns name w = (Inl err, w')"
  shows "\<not> is_spec err"
proof -
  have status: "\<not> is_spec e" if "fst (ac_UpdateStatus (r_Client r) c s) = Inl e" for c s e
    using assms(1) that by (auto simp: api_errors_plain_def)
  have recorded: "\<not> is_spec err" if "recordSpecError r c t se v = (Inl err, w')" for c t se v
    using recordSpecError_result(2) [OF that] status by auto
  show ?thesis
  proof (cases rule: Reconcile_cases [of r ns name w vl vv])
    case (missing e w1)
    with assms show ?thesis
      by (auto simp: read_cluster_def client_simps api_errors_plain_def IgnoreNotFound_def
            split: if_splits)
  next
    case (version c w1 e)
    with assms(2) recorded show ?thesis by simp
  next
    case (failed c w1 c' t e w2)
    with assms(2) recorded show ?thesis
      by (auto simp: step_error_def is_spec_def split: option.splits)
  next
    case (routes_failed c w1 e w2 c' wd)
    with assms(2) reconcileRoutes_plain [OF assms(1) routes_failed(5)] show ?thesis by simp
  next
    case (finished c w1 st msg wst wmsg wa wb wc wd we routes)
    with assms(2) have "finish_reconcile r (noted_cluster r st msg wst wmsg c) (is_ready r c) st msg (pool_ready c wst) wmsg routes we = (Inl err, w')"
      by simp
    from finish_reconcile_error [OF this] status show ?thesis by blast
  qed
qed

text \<open>A server that is down answers with an error of its own.\<close>

definition down_client :: "store api_client" where
  "down_client = sample_client\<lparr>ac_GetCluster := \<lambda>ns n s. (Inl (StatusError OtherReason ''unavailable''), s)\<rparr>"

lemma down_plain: "api_errors_plain down_client"
  by (auto simp: api_errors_plain_def down_client_def sample_client_def get_from_def not_found_def
        is_spec_def split: option.splits)

theorem spec_errors_are_not_returned_witness:
  "\<exists>err w'. Reconcile sample_versions sample_limits (sample_reconciler\<lparr>r_Client := down_client\<rparr>) ''ml'' ''demo''
     run_start = (Inl err, w') \<and> \<not> is_spec err"
proof -
  let ?r = "sample_reconciler\<lparr>r_Client := down_client\<rparr>"
  have "fst (Reconcile sample_versions sample_limits ?r ''ml'' ''demo'' run_start) = Inl (StatusError OtherReason ''unavailable'')"
    by (simp add: Reconcile_def call_def down_client_def IgnoreNotFound_def IsNotFound_def)
  then obtain w' where run: "Reconcile sample_versions sample_limits ?r ''ml'' ''demo'' run_start
      = (Inl (StatusError OtherReason ''unavailable''), w')" by (metis prod.collapse)
  from spec_errors_are_not_returned [OF _ run] down_plain run show ?thesis by auto
qed

section \<open>The early ends\<close>

text \<open>
  C32: An unusable version stops the reconcile before it touches anything. Nothing is called but the
  read and one status write, nothing is recorded but one warning with the gate's text, and the status
  written is not Ready.
\<close>

theorem invalid_version_fails_fast:
  assumes "read_cluster r ns name w = (Inr c, w1)" "clusterVersion vl vv c = Inl err"
    and "Reconcile vl vv r ns name w = (res, w')" "condition_laws (r_Conditions r)"
  shows "\<exists>c'. new_calls w w' = [GetCluster ns name, UpdateStatus c'] \<and> same_cluster c c' \<and>
    \<not> cond_true r c' conditionReady \<and>
    new_events w w' = [warning_event ''InvalidVersion'' (error_text err)]"
proof -
  let ?se = "(''InvalidVersion'', PlainError (error_text err))"
  let ?c' = "spec_error_cluster r c conditionReady ?se"
  have run: "recordSpecError r c conditionReady ?se w1 = (res, w')"
    using assms(1-3) by (simp add: Reconcile_def read_cluster_def Let_def)
  then have "w_calls w' = w_calls w1 @ [UpdateStatus ?c']"
    by (auto simp: recordSpecError_eq Let_def client_simps split: prod.splits)
  with recordSpecError_result(1) [OF run] read_cluster_calls [OF assms(1)]
    spec_error_cluster_not_ready [OF assms(4)] spec_error_cluster_same
  show ?thesis
    by (intro exI [of _ ?c']) (simp add: new_calls_def new_events_def)
qed

definition old_limits :: "string version_vars" where
  "old_limits = \<lparr>minSupportedVersion = ''0.9.0'', minCloudLicenseVersion = ''0.9.0''\<rparr>"

definition strict_versions :: "string version_lib" where
  "strict_versions = sample_versions\<lparr>vl_LessThan := \<lambda>a b. a = ''0.8.0'' \<and> b = ''0.9.0''\<rparr>"

theorem invalid_version_fails_fast_witness:
  "\<exists>c' w'. new_calls run_start w' = [GetCluster ''ml'' ''demo'', UpdateStatus c'] \<and>
     \<not> cond_true sample_reconciler c' conditionReady"
proof -
  have "isl (clusterVersion strict_versions old_limits (sample_cluster 0))"
    by (simp add: clusterVersion_def strict_versions_def sample_versions_def old_limits_def sample_defs
          LatestVersion_def)
  then obtain err where bad: "clusterVersion strict_versions old_limits (sample_cluster 0) = Inl err"
    by (auto simp: isl_def)
  obtain res w' where run: "Reconcile strict_versions old_limits sample_reconciler ''ml'' ''demo'' run_start = (res, w')"
    by (metis surj_pair)
  have "condition_laws (r_Conditions sample_reconciler)" by (simp add: sample_condition_laws)
  from invalid_version_fails_fast [OF run_step_read bad run this] show ?thesis by blast
qed

text \<open>A cluster that is gone ends its reconcile: one read, no error, no retry, no event.\<close>

lemma deleted_cluster_is_done:
  assumes "read_cluster r ns name w = (Inl err, w1)" "IsNotFound err"
  shows "Reconcile vl vv r ns name w = (Inr \<lparr>RequeueAfter = 0\<rparr>, w1) \<and>
    new_calls w w1 = [GetCluster ns name] \<and> new_events w w1 = []"
  using assms read_cluster_calls [OF assms(1)]
  by (simp add: Reconcile_def read_cluster_def IgnoreNotFound_def new_calls_def new_events_def)

text \<open>
  A scheduler that the spec makes impossible stops the reconcile there. Its error is written to the
  status under its reason, the Ready and SchedulerReady conditions become false, one warning carries
  its text, and neither Services nor workers nor routes are touched after it.
\<close>

theorem scheduler_spec_error_is_recorded:
  assumes "read_cluster r ns name w = (Inr c, w1)" "clusterVersion vl vv c = Inr v"
    and "reconcilePolarsClusterServiceAccounts r c w1 = (None, wa)"
    and "reconcileScheduler r c wa = (Inl err, wb)" "as_spec err = Some (reason, e)"
    and "Reconcile vl vv r ns name w = (res, w')" "condition_laws (r_Conditions r)"
  shows "\<exists>c'. new_calls wb w' = [UpdateStatus c'] \<and> same_cluster (scheduler_labelled (r_Pods r) c) c' \<and>
    \<not> cond_true r c' conditionReady \<and> \<not> cond_true r c' conditionSchedulerReady \<and>
    new_events wb w' = [warning_event reason (error_text e)]"
proof -
  let ?c = "scheduler_labelled (r_Pods r) c"
  let ?c' = "spec_error_cluster r ?c conditionSchedulerReady (reason, e)"
  have run: "recordSpecError r ?c conditionSchedulerReady (reason, e) wb = (res, w')"
    using assms(1-6) by (simp add: Reconcile_def read_cluster_def Let_def step_error_def)
  then have "w_calls w' = w_calls wb @ [UpdateStatus ?c']"
    by (auto simp: recordSpecError_eq Let_def client_simps split: prod.splits)
  with recordSpecError_result(1) [OF run] spec_error_cluster_not_ready [OF assms(7)]
    spec_error_cluster_same
  show ?thesis
    by (intro exI [of _ ?c']) (simp add: new_calls_def new_events_def)
qed

text \<open>Reconcilers that read the cluster and create accounts as the sample does.\<close>

definition like_sample :: "store reconciler \<Rightarrow> bool" where
  "like_sample r \<longleftrightarrow> ac_GetCluster (r_Client r) = ac_GetCluster sample_client \<and>
     ac_CreateServiceAccount (r_Client r) = ac_CreateServiceAccount sample_client \<and>
     r_SetControllerReference r = sample_owner"

lemma like_sample_read:
  "like_sample r \<Longrightarrow> read_cluster r ''ml'' ''demo'' run_start = (Inr (sample_cluster 0), run_read)"
  using run_step_read by (simp add: read_cluster_def like_sample_def)

lemma like_sample_accounts:
  assumes "like_sample r"
  shows "reconcilePolarsClusterServiceAccounts r (sample_cluster 0) run_read = (None, run_accounts)"
proof -
  have same: "reconcileServiceAccount r c k n spec w = reconcileServiceAccount sample_reconciler c k n spec w"
    for c k n spec w
  proof -
    have eqs: "ac_CreateServiceAccount (r_Client r) = ac_CreateServiceAccount (r_Client sample_reconciler)"
      "r_SetControllerReference r = r_SetControllerReference sample_reconciler"
      using assms by (simp_all add: like_sample_def)
    show ?thesis unfolding reconcileServiceAccount_def eqs ..
  qed
  show ?thesis
    using run_step_accounts unfolding reconcilePolarsClusterServiceAccounts_def same .
qed

text \<open>A merge that rejects the user's template.\<close>

definition rejecting :: "store reconciler" where
  "rejecting = sample_reconciler\<lparr>r_Pods := sample_pods\<lparr>pl_StrategicMerge := \<lambda>a b. Inl (PlainError ''bad'')\<rparr>\<rparr>"

lemma rejecting_like: "like_sample rejecting"
  by (simp add: like_sample_def rejecting_def)

lemma rejecting_scheduler:
  "\<exists>e. reconcileScheduler rejecting (sample_cluster 0) w = (Inl (SpecError ''InvalidPodTemplate'' e), w)"
proof -
  have "\<exists>e. mergePodSpec (r_Pods rejecting) b p = Inl e" for b p
    by (auto simp: rejecting_def mergePodSpec_def sample_pods_def split: sum.splits)
  then obtain e where "BuildSchedulerPodTemplate (r_Pods rejecting) (sample_cluster 0) = Inl e"
    using sample_buildable BuildScheduler_isl_iff by (metis isl_def)
  with scheduler_builder.build_error [OF this] show ?thesis by (auto simp: reconcileScheduler_def)
qed

theorem scheduler_spec_error_is_recorded_witness:
  "\<exists>wb w' c' res. Reconcile sample_versions sample_limits rejecting ''ml'' ''demo'' run_start = (res, w') \<and>
     new_calls wb w' = [UpdateStatus c'] \<and> \<not> cond_true rejecting c' conditionSchedulerReady"
proof -
  note a = like_sample_accounts [OF rejecting_like]
  obtain e where b: "reconcileScheduler rejecting (sample_cluster 0) run_accounts
      = (Inl (SpecError ''InvalidPodTemplate'' e), run_accounts)"
    using rejecting_scheduler by blast
  obtain res w' where run: "Reconcile sample_versions sample_limits rejecting ''ml'' ''demo'' run_start = (res, w')"
    by (metis surj_pair)
  have "condition_laws (r_Conditions rejecting)" by (simp add: rejecting_def sample_condition_laws)
  from scheduler_spec_error_is_recorded [OF like_sample_read [OF rejecting_like] sample_version a b _ run this] run
  show ?thesis by auto
qed

section \<open>The end of a complete reconcile\<close>

text \<open>
  C12: A cluster whose parts are all ready is reported Ready. When the five steps succeed with a ready
  scheduler, a pool of the wanted size whose pods are all ready, and ready routes, the status that is
  written has all its conditions true and, if the write succeeds, the reconcile ends without an error.
  The steps are stated for the cluster before its pods were labelled: no step reads the labels.
\<close>

theorem healthy_cluster_is_reported_ready:
  assumes "read_cluster r ns name w = (Inr c, w1)" "clusterVersion vl vv c = Inr v"
    and "reconcilePolarsClusterServiceAccounts r c w1 = (None, wa)"
    and "reconcileScheduler r c wa = (Inr (\<lparr>sst_Ready = True\<rparr>, msg), wb)"
    and "reconcileServices r (note_scheduler r \<lparr>sst_Ready = True\<rparr> msg c) wb = (None, wc)"
    and "reconcileWorkerPool r (note_scheduler r \<lparr>sst_Ready = True\<rparr> msg c) wc = (Inr (wst, wmsg), wd)"
    and "pool_ready c wst"
    and "reconcileRoutes r (note_workers r wst wmsg (note_scheduler r \<lparr>sst_Ready = True\<rparr> msg c)) wd = (Inr routes, we)"
    and "rts_ready routes" "condition_laws (r_Conditions r)"
  shows "\<exists>c'. UpdateStatus c' \<in> set (new_calls we (snd (Reconcile vl vv r ns name w))) \<and>
    cond_true r c' conditionReady \<and> cond_true r c' conditionSchedulerReady \<and>
    cond_true r c' conditionWorkerPoolReady \<and> cond_true r c' conditionRoutesReady = route_requested c \<and>
    isl (fst (Reconcile vl vv r ns name w)) = isl (fst (ac_UpdateStatus (r_Client r) c' (w_api we)))"
proof -
  let ?d = "noted_cluster r \<lparr>sst_Ready = True\<rparr> msg wst wmsg c"
  let ?c' = "finished_cluster r ?d \<lparr>sst_Ready = True\<rparr> msg True wmsg routes"
  have run: "Reconcile vl vv r ns name w =
      finish_reconcile r ?d (is_ready r c) \<lparr>sst_Ready = True\<rparr> msg True wmsg routes we"
    using Reconcile_complete [OF assms(1-6,8)] assms(7) by simp
  have requested: "rts_requested routes = route_requested c"
    using reconcileRoutes_requested [OF assms(8)]
      route_requested_same [of "note_workers r wst wmsg (note_scheduler r \<lparr>sst_Ready = True\<rparr> msg c)" c] by simp
  have "w_calls (snd (Reconcile vl vv r ns name w)) = w_calls we @ [UpdateStatus ?c']"
    unfolding run by (simp add: finish_reconcile_eq Let_def client_simps case_prod_beta split: sum.splits)
  then have "UpdateStatus ?c' \<in> set (new_calls we (snd (Reconcile vl vv r ns name w)))"
    by (simp add: new_calls_def)
  moreover have "isl (fst (Reconcile vl vv r ns name w)) = isl (fst (ac_UpdateStatus (r_Client r) ?c' (w_api we)))"
    unfolding run by (simp add: finish_reconcile_eq Let_def client_simps case_prod_beta split: sum.splits)
  ultimately show ?thesis
    using written_ready [OF assms(10), of ?c' "\<lparr>sst_Ready = True\<rparr>" msg wst wmsg c routes] assms(7,9) requested
    by (intro exI [of _ ?c']) simp
qed

theorem healthy_cluster_is_reported_ready_witness:
  "\<exists>c'. UpdateStatus c' \<in> set (new_calls run_routes run_end) \<and> cond_true sample_reconciler c' conditionReady"
proof -
  have ready: "pool_ready (sample_cluster 0) run_pool" by (simp add: pool_ready_def run_pool_def)
  have "condition_laws (r_Conditions sample_reconciler)" "rts_ready run_status"
    by (simp_all add: sample_condition_laws run_status_def)
  from healthy_cluster_is_reported_ready [OF run_step_read sample_version run_step_accounts run_step_scheduler
      run_step_services [unfolded run_noted_def] run_step_workers [unfolded run_noted_def] ready
      run_step_routes [unfolded run_cluster_def run_noted_def] this(2,1)]
  show ?thesis unfolding sample_run by auto
qed

text \<open>
  C33: A change of readiness is announced once and only then. At the end of a complete reconcile exactly
  one event is recorded when the cluster has become Ready (a normal one) or has ceased to be (a
  warning with the message of the first part that is not ready), and none when nothing changed; what
  counts is the status as the API server stored it.
\<close>

theorem transitions_are_announced:
  assumes "finish_reconcile r c wasReady st msg pr wmsg routes w = (Inr x, w')"
  shows "\<exists>stored. fst (ac_UpdateStatus (r_Client r) (finished_cluster r c st msg pr wmsg routes) (w_api w)) = Inr stored \<and>
    new_events w w' =
      (if wasReady = is_ready r stored then []
       else if is_ready r stored then [ready_event]
       else [warning_event ''NotReady'' (readyMessage st msg pr wmsg routes)])"
  using finish_reconcile_result(1) [OF assms]
  by (auto simp: new_events_def transition_events_def)

theorem transitions_are_announced_witness:
  "new_events run_routes run_end = [ready_event]"
proof -
  have "is_ready sample_reconciler run_written"
    using finished_cluster_conditions(1) [of sample_reconciler] sample_condition_laws
    by (simp add: is_ready_def cond_true_def run_written_def run_status_def)
  with transitions_are_announced [OF run_finish] show ?thesis
    by (auto simp: sample_client_def run_written_def)
qed

text \<open>
  The only thing a reconcile asks to be called back for is a conflict over a route. It comes back
  after exactly one minute when another owner holds one of its routes, which no watch would tell it
  about, and otherwise not at all.
\<close>

theorem callback_only_for_conflicts:
  assumes "Reconcile vl vv r ns name w = (Inr x, w')"
  shows "RequeueAfter x = 0 \<or>
    (RequeueAfter x = routeConflictRetryInterval \<and>
     (\<exists>c c' w1 wd we routes. read_cluster r ns name w = (Inr c, w1) \<and> same_cluster c c' \<and>
        reconcileRoutes r c' wd = (Inr routes, we) \<and> rts_conflict routes))"
proof (cases rule: Reconcile_cases [of r ns name w vl vv])
  case (missing e w1)
  with assms show ?thesis by (auto split: option.splits)
next
  case (version c w1 e)
  with assms recordSpecError_result(2) [of r c conditionReady "(''InvalidVersion'', PlainError (error_text e))" w1]
  show ?thesis by fastforce
next
  case (failed c w1 c' t e w2)
  with assms recordSpecError_result(2) [of r c' t _ w2] show ?thesis
    by (fastforce simp: step_error_def split: option.splits)
next
  case (routes_failed c w1 e w2 c' wd)
  with assms show ?thesis by simp
next
  case (finished c w1 st msg wst wmsg wa wb wc wd we routes)
  have "finish_reconcile r (noted_cluster r st msg wst wmsg c) (is_ready r c) st msg (pool_ready c wst) wmsg routes we
      = (Inr x, w')"
    using finished(9) assms by simp
  from finish_reconcile_result(2) [OF this] have "RequeueAfter x = (if rts_conflict routes then routeConflictRetryInterval else 0)" .
  moreover have "same_cluster c (note_workers r wst wmsg (note_scheduler r st msg c))" by simp
  ultimately show ?thesis using finished(1,7) by (cases "rts_conflict routes") (auto simp del: same_cluster_note)
qed

theorem callback_only_for_conflicts_witness:
  "Reconcile sample_versions sample_limits sample_reconciler ''ml'' ''demo'' run_start = (Inr \<lparr>RequeueAfter = 0\<rparr>, run_end) \<and>
   \<not> routeConflictRetryInterval = RequeueAfter \<lparr>RequeueAfter = 0\<rparr>"
  using callback_only_for_conflicts [OF sample_run] sample_run by (simp add: routeConflictRetryInterval_def)

section \<open>What a reconcile may delete\<close>

lemma same_cluster_simps:
  "same_cluster c c' \<Longrightarrow> cl_Namespace c' = cl_Namespace c \<and> cl_Name c' = cl_Name c"
  by (simp add: same_cluster_def)

text \<open>
  C6: A reconcile deletes only its own cluster's pods. Every pod it deletes is not already terminating and
  was handed to it by the API server, either under the name of the cluster's scheduler or in a list
  selected by the cluster's worker labels.
\<close>

theorem deletions_are_justified:
  assumes "Reconcile vl vv r ns name w = (res, w')" "DeletePod q \<in> set (new_calls w w')"
  shows "\<exists>c w1. read_cluster r ns name w = (Inr c, w1) \<and> \<not> terminating q \<and>
    (\<exists>s. fst (ac_GetPod (r_Client r) (cl_Namespace c) (schedulerPodName c) s) = Inr q \<or>
       (\<exists>ps. fst (ac_ListPods (r_Client r) (cl_Namespace c) (component_selector c componentWorker) s) = Inr ps \<and>
          q \<in> set ps))"
proof -
  from Reconcile_calls [OF assms(1)] obtain ks us where
    eq: "new_calls w w' = GetCluster ns name # ks @ us"
    and calls: "ks @ us \<noteq> [] \<longrightarrow> (\<exists>c w1. read_cluster r ns name w = (Inr c, w1) \<and>
        list_all (reconcile_call r c) ks \<and> list_all (status_write r c) us \<and> length us \<le> 1)" by blast
  from eq assms(2) have q: "DeletePod q \<in> set (ks @ us)" by simp
  then have "ks @ us \<noteq> []" by auto
  with calls obtain c w1 where c: "read_cluster r ns name w = (Inr c, w1)"
    and ks: "list_all (reconcile_call r c) ks" and us: "list_all (status_write r c) us" by blast
  have "DeletePod q \<notin> set us" using us by (auto simp: list_all_iff status_write_def)
  with q ks have "reconcile_call r c (DeletePod q)" by (auto simp: list_all_iff)
  then obtain c' where same: "same_cluster c c'"
    and call: "scheduler_call r c' (DeletePod q) \<or> worker_call r c' (DeletePod q)"
    by (rule reconcile_delete_cases)
  have names: "cl_Namespace c' = cl_Namespace c" "schedulerPodName c' = schedulerPodName c"
    "component_selector c' k = component_selector c k" for k
    using same_cluster_simps [OF same] by (simp_all add: schedulerPodName_def component_selector_def)
  from call c show ?thesis by (auto simp: names stale_def)
qed

text \<open>A template of another hash, and a server that refuses to delete.\<close>

definition replacing :: "store reconciler" where
  "replacing = sample_reconciler\<lparr>r_Pods := sample_pods\<lparr>pl_Marshal := \<lambda>s. Inr ''x''\<rparr>,
     r_Client := sample_client\<lparr>ac_DeletePod := \<lambda>p s. (Some (PlainError ''refused''), s)\<rparr>\<rparr>"

lemma replacing_like: "like_sample replacing"
  by (simp add: like_sample_def replacing_def)

lemma replacing_desired:
  "\<exists>p. desired_scheduler replacing (sample_cluster 0) = Inr p \<and> label_of p templateHashLabel \<noteq> sample_hash"
proof -
  have "mergePodSpec (r_Pods replacing) b p = Inr sample_merged" for b p
    by (simp add: replacing_def mergePodSpec_def sample_pods_def)
  moreover have "\<exists>h. h \<noteq> sample_hash \<and> (\<forall>s. podTemplateHash (r_Pods replacing) s = Inr h)"
    by (simp add: replacing_def podTemplateHash_def fnv32a_def fnv32a_step_def fnv32_offset_def fnv32_prime_def
          sample_hash_def hex8_def digit_def digit_chars_def)
  ultimately show ?thesis
    by (auto simp: desired_scheduler_def BuildScheduler_buildable sample_buildable split: sum.splits)
qed

lemma replacing_run:
  "\<exists>w'. Reconcile sample_versions sample_limits replacing ''ml'' ''demo'' run_start = (Inl (PlainError ''refused''), w') \<and>
     DeletePod (ready_pod ''demo-scheduler'' ''scheduler'' sample_hash) \<in> set (new_calls run_start w')"
proof -
  let ?e = "ready_pod ''demo-scheduler'' ''scheduler'' sample_hash"
  obtain p where p: "desired_scheduler replacing (sample_cluster 0) = Inr p"
    and h: "label_of p templateHashLabel \<noteq> sample_hash" using replacing_desired by blast
  have read: "read_scheduler replacing (sample_cluster 0) run_accounts = (Inr ?e, run_scheduler)"
    unfolding run_scheduler_def
    by (simp add: read_scheduler_def call_def replacing_def sample_client_def store_get_pod_def
          run_accounts_pods schedulerPodName_def)
  let ?w = "run_scheduler\<lparr>w_calls := w_calls run_scheduler @ [DeletePod ?e]\<rparr>"
  have step: "reconcileScheduler replacing (sample_cluster 0) run_accounts = (Inl (PlainError ''refused''), ?w)"
  proof -
    have refuse: "ac_DeletePod (r_Client replacing) q s = (Some (PlainError ''refused''), s)" for q s
      by (simp add: replacing_def)
    show ?thesis
      using h by (simp add: reconcileScheduler_eq [OF p] read call_def refuse IgnoreNotFound_def IsNotFound_def)
  qed
  have start: "w_calls run_start = []" by (simp add: run_start_def)
  have "Reconcile sample_versions sample_limits replacing ''ml'' ''demo'' run_start = (Inl (PlainError ''refused''), ?w)"
    using like_sample_read [OF replacing_like] like_sample_accounts [OF replacing_like] step sample_version
    by (simp add: Reconcile_def read_cluster_def step_error_def)
  then show ?thesis by (simp add: new_calls_def added_def start)
qed

theorem deletions_are_justified_witness:
  "\<exists>s. fst (ac_GetPod (r_Client replacing) ''ml'' ''demo-scheduler'' s)
         = Inr (ready_pod ''demo-scheduler'' ''scheduler'' sample_hash) \<or>
       (\<exists>ps. fst (ac_ListPods (r_Client replacing) ''ml'' (component_selector (sample_cluster 0) componentWorker) s) = Inr ps \<and>
          ready_pod ''demo-scheduler'' ''scheduler'' sample_hash \<in> set ps)"
proof -
  obtain w' where "Reconcile sample_versions sample_limits replacing ''ml'' ''demo'' run_start
      = (Inl (PlainError ''refused''), w')"
    "DeletePod (ready_pod ''demo-scheduler'' ''scheduler'' sample_hash) \<in> set (new_calls run_start w')"
    using replacing_run by blast
  from deletions_are_justified [OF this] like_sample_read [OF replacing_like] show ?thesis
    by (simp add: schedulerPodName_def)
qed

end
